(* ===== verification/Kube_Types.thy ===== *)
theory Kube_Types
  imports Go_Prelude
begin

text \<open>
  The Kubernetes API objects the operator reads and writes, as records.  The field types are
  those of the Kubernetes Go packages the sources import; a record holds the fields that the
  sources under \<^verbatim>\<open>internal/\<close> set or read.  A field a user may fill with something the operator
  only passes through (the source of an environment variable, a volume, a resource quantity)
  keeps an opaque alternative.  A point in time is a number of nanoseconds since the zero
  \<^verbatim>\<open>time.Time\<close>, a duration a number of nanoseconds.
\<close>

type_synonym go_time = int
type_synonym duration = int

definition second :: duration where
  "second = 1000000000"

datatype quantity = Quantity string

record namespaced_name =
  nn_Namespace :: string
  nn_Name :: string

record objectmeta =
  om_Name :: string
  om_Namespace :: string
  om_Labels :: "string gomap"
  om_Annotations :: "string gomap"
  om_ResourceVersion :: string
  om_OwnerReferences :: "string list"
  om_Generation :: int
  om_CreationTimestamp :: go_time
  om_DeletionTimestamp :: "go_time option"

definition objectMeta :: "string \<Rightarrow> string \<Rightarrow> string gomap \<Rightarrow> objectmeta" where
  "objectMeta name ns labels =
     \<lparr>om_Name = name, om_Namespace = ns, om_Labels = labels, om_Annotations = [],
      om_ResourceVersion = [], om_OwnerReferences = [], om_Generation = 0,
      om_CreationTimestamp = 0, om_DeletionTimestamp = None\<rparr>"

definition meta_key :: "objectmeta \<Rightarrow> namespaced_name" where
  "meta_key m = \<lparr>nn_Namespace = om_Namespace m, nn_Name = om_Name m\<rparr>"

section \<open>Conditions\<close>

record condition =
  co_Type :: string
  co_Status :: string
  co_ObservedGeneration :: int
  co_LastTransitionTime :: go_time
  co_Reason :: string
  co_Message :: string

section \<open>Configuration objects\<close>

record configmap =
  cm_meta :: objectmeta
  cm_Data :: "string gomap"

record secret =
  sec_meta :: objectmeta
  sec_Data :: "string gomap"

section \<open>RBAC\<close>

record service_account =
  sa_meta :: objectmeta

record policy_rule =
  pr_APIGroups :: "string list"
  pr_Resources :: "string list"
  pr_Verbs :: "string list"

record role =
  role_meta :: objectmeta
  role_Rules :: "policy_rule list"

record rbac_subject =
  sub_Kind :: string
  sub_Name :: string
  sub_Namespace :: string

record role_ref =
  rr_APIGroup :: string
  rr_Kind :: string
  rr_Name :: string

record role_binding =
  rb_meta :: objectmeta
  rb_Subjects :: "rbac_subject list"
  rb_RoleRef :: role_ref

section \<open>Networking\<close>

record k8s_service_port =
  sp_Name :: string
  sp_Port :: int32
  sp_TargetPort :: int32
  sp_Protocol :: string

record k8s_service =
  svc_meta :: objectmeta
  svc_Type :: string
  svc_Selector :: "string gomap"
  svc_Ports :: "k8s_service_port list"
  svc_ClusterIP :: string

record http_ingress_path =
  hip_Path :: string
  hip_PathType :: string
  hip_ServiceName :: string
  hip_ServicePort :: int32

record ingress_rule =
  ir_Host :: string
  ir_Paths :: "http_ingress_path list"

record k8s_ingress_tls =
  kit_Hosts :: "string list"
  kit_SecretName :: string

record ingress_spec =
  is_IngressClassName :: "string option"
  is_Rules :: "ingress_rule list"
  is_TLS :: "k8s_ingress_tls list"

record k8s_ingress =
  ing_meta :: objectmeta
  ing_Spec :: ingress_spec

datatype np_peer = IPBlock string | NamespaceSelector "string gomap" | OtherPeer string

record np_port =
  npp_Protocol :: string
  npp_Port :: int32

record np_ingress_rule =
  npi_From :: "np_peer list"
  npi_Ports :: "np_port list"

record np_egress_rule =
  npe_To :: "np_peer list"
  npe_Ports :: "np_port list"

record network_policy_spec =
  nps_PodSelector :: "string gomap"
  nps_PolicyTypes :: "string list"
  nps_Ingress :: "np_ingress_rule list"
  nps_Egress :: "np_egress_rule list"

record k8s_network_policy =
  np_meta :: objectmeta
  np_Spec :: network_policy_spec

section \<open>Pods\<close>

datatype env_var_source = SecretKeyRef string string | OtherEnvSource string

record env_var =
  ev_Name :: string
  ev_Value :: string
  ev_ValueFrom :: "env_var_source option"

definition envValue :: "string \<Rightarrow> string \<Rightarrow> env_var" where
  "envValue n v = \<lparr>ev_Name = n, ev_Value = v, ev_ValueFrom = None\<rparr>"

datatype env_from_source = EnvFromSecret string | OtherEnvFrom string

record key_to_path =
  ktp_Key :: string
  ktp_Path :: string

datatype volume_source =
    EmptyDir string "quantity option"
  | PersistentVolumeClaimSource string
  | ConfigMapSource string "key_to_path list"
  | SecretSource string "key_to_path list" "int32 option"
  | ProjectedSecrets "(string \<times> key_to_path list) list"
  | OtherVolumeSource string

record volume =
  vol_Name :: string
  vol_Source :: volume_source

record volume_mount =
  vm_Name :: string
  vm_MountPath :: string
  vm_ReadOnly :: bool

record container_port =
  cp_Name :: string
  cp_ContainerPort :: int32
  cp_Protocol :: string

record resource_requirements =
  res_Limits :: "quantity gomap"
  res_Requests :: "quantity gomap"

record security_context =
  sc_RunAsNonRoot :: "bool option"
  sc_RunAsUser :: "int option"
  sc_RunAsGroup :: "int option"
  sc_AllowPrivilegeEscalation :: "bool option"
  sc_ReadOnlyRootFilesystem :: "bool option"
  sc_CapAdd :: "string list"
  sc_CapDrop :: "string list"
  sc_SeccompProfile :: "string option"

definition no_security_context :: security_context where
  "no_security_context =
     \<lparr>sc_RunAsNonRoot = None, sc_RunAsUser = None, sc_RunAsGroup = None,
      sc_AllowPrivilegeEscalation = None, sc_ReadOnlyRootFilesystem = None,
      sc_CapAdd = [], sc_CapDrop = [], sc_SeccompProfile = None\<rparr>"

record k8s_probe =
  kp_Command :: "string list"
  kp_InitialDelaySeconds :: int32
  kp_PeriodSeconds :: int32
  kp_TimeoutSeconds :: int32
  kp_FailureThreshold :: int32

record container =
  con_Name :: string
  con_Image :: string
  con_ImagePullPolicy :: string
  con_Command :: "string list"
  con_Args :: "string list"
  con_WorkingDir :: string
  con_Ports :: "container_port list"
  con_Env :: "env_var list"
  con_EnvFrom :: "env_from_source list"
  con_Resources :: resource_requirements
  con_VolumeMounts :: "volume_mount list"
  con_SecurityContext :: "security_context option"
  con_LivenessProbe :: "k8s_probe option"
  con_ReadinessProbe :: "k8s_probe option"
  con_StartupProbe :: "k8s_probe option"
  con_TerminationMessagePolicy :: string

definition no_resources :: resource_requirements where
  "no_resources = \<lparr>res_Limits = [], res_Requests = []\<rparr>"

text \<open>A container literal that sets its name, its image and the pull policy \<^verbatim>\<open>PullIfNotPresent\<close>.\<close>

definition container0 :: "string \<Rightarrow> string \<Rightarrow> container" where
  "container0 name img =
     \<lparr>con_Name = name, con_Image = img, con_ImagePullPolicy = ''IfNotPresent'', con_Command = [],
      con_Args = [], con_WorkingDir = [], con_Ports = [], con_Env = [], con_EnvFrom = [],
      con_Resources = no_resources, con_VolumeMounts = [], con_SecurityContext = None,
      con_LivenessProbe = None, con_ReadinessProbe = None, con_StartupProbe = None,
      con_TerminationMessagePolicy = []\<rparr>"

record persistent_volume_claim =
  pvc_meta :: objectmeta
  pvc_AccessModes :: "string list"
  pvc_Storage :: quantity
  pvc_StorageClassName :: "string option"
  pvc_DataSource :: "(string \<times> string \<times> string) option"
  pvc_Phase :: string

record pod_spec =
  ps_HostUsers :: "bool option"
  ps_PriorityClassName :: string
  ps_RuntimeClassName :: "string option"
  ps_SeccompProfile :: string
  ps_ServiceAccountName :: string
  ps_InitContainers :: "container list"
  ps_Containers :: "container list"
  ps_Volumes :: "volume list"

record pod_template =
  pt_Labels :: "string gomap"
  pt_Annotations :: "string gomap"
  pt_Spec :: pod_spec

record statefulset =
  sts_meta :: objectmeta
  sts_Replicas :: int32
  sts_Selector :: "string gomap"
  sts_MaxUnavailable :: int32
  sts_Template :: pod_template
  sts_VolumeClaimTemplates :: "persistent_volume_claim list"

section \<open>Pod status\<close>

record container_terminated =
  ct_ExitCode :: int32
  ct_Reason :: string
  ct_Message :: string

record container_waiting =
  cw_Reason :: string
  cw_Message :: string

record container_status =
  cs_Name :: string
  cs_Waiting :: "container_waiting option"
  cs_Terminated :: "container_terminated option"
  cs_LastTerminated :: "container_terminated option"

record pod_condition =
  pc_Type :: string
  pc_Status :: string
  pc_Reason :: string
  pc_Message :: string

record pod =
  pod_meta :: objectmeta
  pod_Phase :: string
  pod_Reason :: string
  pod_Conditions :: "pod_condition list"
  pod_InitContainerStatuses :: "container_status list"
  pod_ContainerStatuses :: "container_status list"

section \<open>JSON\<close>

text \<open>
  A decoded JSON document.  An object keeps its members in document order; a number keeps its
  literal.
\<close>

datatype json =
    JNull
  | JBool bool
  | JNum string
  | JStr string
  | JArr "json list"
  | JObj "(string \<times> json) list"

end
