(* ===== verification/Api_Hermes.thy ===== *)
theory Api_Hermes
  imports Kube_Types
begin

text \<open>
  The \<^verbatim>\<open>hermes\<close> section of the custom resource (\<^verbatim>\<open>api/v1alpha1/hermesagent_hermes.go\<close>): its
  structs as records, a pointer field as an option, and every accessor method as a function on
  the possibly nil receiver.  A free-form \<^verbatim>\<open>apiextensionsv1.JSON\<close> value is the document its bytes
  decode to (\<open>RawJSON\<close>), no bytes at all, or bytes that are not JSON.
\<close>

section \<open>Free-form JSON fields and image references\<close>

datatype raw_json = RawEmpty | RawJSON json | RawMalformed string

text \<open>\<^verbatim>\<open>json.Unmarshal\<close> into a \<^verbatim>\<open>string\<close> and into a \<^verbatim>\<open>map[string]any\<close>; \<open>None\<close> is an error.\<close>

fun unmarshal_string :: "raw_json \<Rightarrow> string option" where
  "unmarshal_string (RawJSON (JStr s)) = Some s"
| "unmarshal_string (RawJSON JNull) = Some []"
| "unmarshal_string _ = None"

fun unmarshal_map :: "raw_json \<Rightarrow> (string \<times> json) list option" where
  "unmarshal_map (RawJSON (JObj ms)) = Some ms"
| "unmarshal_map (RawJSON JNull) = Some []"
| "unmarshal_map _ = None"

record legacy_image_shape =
  lis_Repository :: string
  lis_Tag :: string

text \<open>
  Decoding the members into the struct: a key matches a field without regard to case, a null
  leaves the field alone, a value of another type is an error, a later member wins.
\<close>

fun unmarshal_legacy_members ::
  "(string \<times> json) list \<Rightarrow> legacy_image_shape \<Rightarrow> legacy_image_shape option" where
  "unmarshal_legacy_members [] l = Some l"
| "unmarshal_legacy_members ((k, v) # ms) l =
     (if ToLower k = ''repository''
      then (case v of JStr s \<Rightarrow> unmarshal_legacy_members ms (l\<lparr>lis_Repository := s\<rparr>)
                    | JNull \<Rightarrow> unmarshal_legacy_members ms l
                    | _ \<Rightarrow> None)
      else if ToLower k = ''tag''
      then (case v of JStr s \<Rightarrow> unmarshal_legacy_members ms (l\<lparr>lis_Tag := s\<rparr>)
                    | JNull \<Rightarrow> unmarshal_legacy_members ms l
                    | _ \<Rightarrow> None)
      else unmarshal_legacy_members ms l)"

definition unmarshal_legacy :: "raw_json \<Rightarrow> legacy_image_shape option" where
  "unmarshal_legacy raw =
     (case unmarshal_map raw of
        None \<Rightarrow> None
      | Some ms \<Rightarrow> unmarshal_legacy_members ms \<lparr>lis_Repository = [], lis_Tag = []\<rparr>)"

definition defaultImageTag :: string where "defaultImageTag = ''latest''"
definition defaultHermesImageRepo :: string where "defaultHermesImageRepo = ''nousresearch/hermes-agent''"
definition defaultSearXNGImageRepo :: string where "defaultSearXNGImageRepo = ''searxng/searxng''"
definition defaultCamofoxImageRepo :: string where "defaultCamofoxImageRepo = ''ghcr.io/jo-inc/camofox-browser''"

definition usesLegacyImageForm :: "raw_json option \<Rightarrow> bool" where
  "usesLegacyImageForm raw =
     (case raw of None \<Rightarrow> False | Some RawEmpty \<Rightarrow> False | Some r \<Rightarrow> unmarshal_map r \<noteq> None)"

definition resolveImage :: "raw_json option \<Rightarrow> string \<Rightarrow> string" where
  "resolveImage raw defaultRepo =
     (let def = defaultRepo @ '':'' @ defaultImageTag in
      case raw of
        None \<Rightarrow> def
      | Some RawEmpty \<Rightarrow> def
      | Some r \<Rightarrow>
          (case unmarshal_string r of
             Some ref \<Rightarrow> if TrimSpace ref = [] then def else TrimSpace ref
           | None \<Rightarrow>
               (case unmarshal_legacy r of
                  None \<Rightarrow> def
                | Some legacy \<Rightarrow>
                    (let repo = (if lis_Repository legacy \<noteq> [] then lis_Repository legacy else defaultRepo);
                         tag = (if lis_Tag legacy \<noteq> [] then lis_Tag legacy else defaultImageTag)
                     in repo @ '':'' @ tag))))"

section \<open>Persistence and snapshots\<close>

definition DefaultSnapshotRetention :: int where "DefaultSnapshotRetention = 3"

record hermes_persistence =
  hp_Enabled :: bool
  hp_Size :: "quantity option"
  hp_StorageClassName :: "string option"
  hp_ExistingClaim :: "string option"
  hp_ExistingSnapshot :: "string option"

definition HermesPersistence_GetExistingClaim :: "hermes_persistence option \<Rightarrow> string" where
  "HermesPersistence_GetExistingClaim p =
     (case p of None \<Rightarrow> [] | Some p \<Rightarrow> (case hp_ExistingClaim p of None \<Rightarrow> [] | Some c \<Rightarrow> c))"

definition HermesPersistence_GetExistingSnapshot :: "hermes_persistence option \<Rightarrow> string" where
  "HermesPersistence_GetExistingSnapshot p =
     (case p of None \<Rightarrow> [] | Some p \<Rightarrow> (case hp_ExistingSnapshot p of None \<Rightarrow> [] | Some c \<Rightarrow> c))"

definition RestoredPVCName :: "string \<Rightarrow> string" where
  "RestoredPVCName snapshotName = snapshotName @ ''-restore''"

definition HermesPersistence_GetSize :: "hermes_persistence option \<Rightarrow> quantity" where
  "HermesPersistence_GetSize p =
     (case p of None \<Rightarrow> Quantity ''10Gi''
      | Some p \<Rightarrow> (case hp_Size p of None \<Rightarrow> Quantity ''10Gi'' | Some q \<Rightarrow> q))"

record hermes_snapshot =
  hsn_Enabled :: bool
  hsn_Schedule :: string
  hsn_Retention :: "int option"
  hsn_VolumeSnapshotClassName :: "string option"

definition HermesSnapshot_IsEnabled :: "hermes_snapshot option \<Rightarrow> bool" where
  "HermesSnapshot_IsEnabled s = (case s of None \<Rightarrow> False | Some s \<Rightarrow> hsn_Enabled s)"

definition HermesSnapshot_GetSchedule :: "hermes_snapshot option \<Rightarrow> string" where
  "HermesSnapshot_GetSchedule s = (case s of None \<Rightarrow> [] | Some s \<Rightarrow> hsn_Schedule s)"

definition HermesSnapshot_GetRetention :: "hermes_snapshot option \<Rightarrow> int" where
  "HermesSnapshot_GetRetention s =
     (case s of None \<Rightarrow> DefaultSnapshotRetention
      | Some s \<Rightarrow> (case hsn_Retention s of None \<Rightarrow> DefaultSnapshotRetention | Some r \<Rightarrow> r))"

definition HermesSnapshot_GetVolumeSnapshotClassName :: "hermes_snapshot option \<Rightarrow> string option" where
  "HermesSnapshot_GetVolumeSnapshotClassName s =
     (case s of None \<Rightarrow> None | Some s \<Rightarrow> hsn_VolumeSnapshotClassName s)"

record hermes_storage =
  hst_Persistence :: "hermes_persistence option"
  hst_Snapshot :: "hermes_snapshot option"

section \<open>Workspace, plugins, skills, crons, bundles, packages\<close>

record hermes_dotenv =
  hde_SecretRef :: "string option"
  hde_ConfigMapRef :: "string option"
  hde_SecretRefs :: "string list"
  hde_ConfigMapRefs :: "string list"

record hermes_workspace =
  hw_Files :: "string gomap"
  hw_DotEnv :: "hermes_dotenv option"

definition HermesWorkspace_GetDotEnv :: "hermes_workspace option \<Rightarrow> hermes_dotenv option" where
  "HermesWorkspace_GetDotEnv w = (case w of None \<Rightarrow> None | Some w \<Rightarrow> hw_DotEnv w)"

record hermes_plugin =
  hpl_Identifier :: string
  hpl_Enable :: "bool option"
  hpl_Ref :: string

record hermes_skill =
  hsk_Identifier :: string
  hsk_Category :: string
  hsk_Name :: string
  hsk_Force :: bool

record hermes_cron =
  hcr_Name :: string
  hcr_Schedule :: string
  hcr_Prompt :: string
  hcr_Deliver :: string
  hcr_Repeat :: "int option"
  hcr_Skills :: "string list"
  hcr_Script :: string
  hcr_NoAgent :: bool
  hcr_Workdir :: string
  hcr_MonitorScript :: string
  hcr_MonitorURL :: string
  hcr_Model :: string
  hcr_Provider :: string
  hcr_ReasoningEffort :: string
  hcr_Continuity :: bool
  hcr_Profile :: string

record hermes_bundle =
  hbu_Name :: string
  hbu_Skills :: "string list"
  hbu_Description :: string
  hbu_Instruction :: string
  hbu_Force :: bool

record hermes_pip_packages =
  pip_Install :: "string list"
  pip_ExtraArgs :: "string list"

record hermes_npm_packages =
  npm_Install :: "string list"

record hermes_packages =
  hpk_Pip :: "hermes_pip_packages option"
  hpk_Npm :: "hermes_npm_packages option"

definition HermesPackages_GetPip :: "hermes_packages option \<Rightarrow> hermes_pip_packages option" where
  "HermesPackages_GetPip p = (case p of None \<Rightarrow> None | Some p \<Rightarrow> hpk_Pip p)"

definition HermesPackages_GetNpm :: "hermes_packages option \<Rightarrow> hermes_npm_packages option" where
  "HermesPackages_GetNpm p = (case p of None \<Rightarrow> None | Some p \<Rightarrow> hpk_Npm p)"

section \<open>API server, webhook, configuration\<close>

definition DefaultAPIServerPort :: int32 where "DefaultAPIServerPort = 8642"
definition DefaultWebhookPort :: int32 where "DefaultWebhookPort = 8644"

record hermes_api_server =
  has_Enabled :: bool
  has_Port :: "int32 option"
  has_CORSOrigins :: "string list"

definition HermesAPIServer_IsEnabled :: "hermes_api_server option \<Rightarrow> bool" where
  "HermesAPIServer_IsEnabled a = (case a of None \<Rightarrow> False | Some a \<Rightarrow> has_Enabled a)"

definition HermesAPIServer_GetPort :: "hermes_api_server option \<Rightarrow> int32" where
  "HermesAPIServer_GetPort a =
     (case a of None \<Rightarrow> DefaultAPIServerPort
      | Some a \<Rightarrow> (case has_Port a of None \<Rightarrow> DefaultAPIServerPort | Some p \<Rightarrow> p))"

definition HermesAPIServer_GetPortName :: "hermes_api_server option \<Rightarrow> string" where
  "HermesAPIServer_GetPortName a = ''api-server''"

definition HermesAPIServer_GetCORSOrigins :: "hermes_api_server option \<Rightarrow> string list" where
  "HermesAPIServer_GetCORSOrigins a = (case a of None \<Rightarrow> [] | Some a \<Rightarrow> has_CORSOrigins a)"

record hermes_webhook =
  hwh_Enabled :: bool
  hwh_Port :: "int32 option"

definition HermesWebhook_IsEnabled :: "hermes_webhook option \<Rightarrow> bool" where
  "HermesWebhook_IsEnabled w = (case w of None \<Rightarrow> False | Some w \<Rightarrow> hwh_Enabled w)"

definition HermesWebhook_GetPort :: "hermes_webhook option \<Rightarrow> int32" where
  "HermesWebhook_GetPort w =
     (case w of None \<Rightarrow> DefaultWebhookPort
      | Some w \<Rightarrow> (case hwh_Port w of None \<Rightarrow> DefaultWebhookPort | Some p \<Rightarrow> p))"

definition HermesWebhook_GetPortName :: "hermes_webhook option \<Rightarrow> string" where
  "HermesWebhook_GetPortName w = ''webhook''"

record config_map_key_ref =
  ckr_Name :: string
  ckr_Key :: string

definition HermesConfigMapKeyRef_GetKey :: "config_map_key_ref option \<Rightarrow> string" where
  "HermesConfigMapKeyRef_GetKey r =
     (case r of None \<Rightarrow> ''config.yaml'' | Some r \<Rightarrow> if ckr_Key r = [] then ''config.yaml'' else ckr_Key r)"

record hermes_config =
  hc_Raw :: "raw_json option"
  hc_ConfigMapRef :: "config_map_key_ref option"
  hc_APIServer :: "hermes_api_server option"
  hc_Webhook :: "hermes_webhook option"

definition HermesConfig_GetRaw :: "hermes_config option \<Rightarrow> raw_json option" where
  "HermesConfig_GetRaw c = (case c of None \<Rightarrow> None | Some c \<Rightarrow> hc_Raw c)"

definition HermesConfig_GetConfigMapRef :: "hermes_config option \<Rightarrow> config_map_key_ref option" where
  "HermesConfig_GetConfigMapRef c = (case c of None \<Rightarrow> None | Some c \<Rightarrow> hc_ConfigMapRef c)"

definition HermesConfig_HasDocument :: "hermes_config option \<Rightarrow> bool" where
  "HermesConfig_HasDocument c \<longleftrightarrow> HermesConfig_GetRaw c \<noteq> None \<or> HermesConfig_GetConfigMapRef c \<noteq> None"

definition HermesConfig_GetAPIServer :: "hermes_config option \<Rightarrow> hermes_api_server option" where
  "HermesConfig_GetAPIServer c = (case c of None \<Rightarrow> None | Some c \<Rightarrow> hc_APIServer c)"

definition HermesConfig_GetWebhook :: "hermes_config option \<Rightarrow> hermes_webhook option" where
  "HermesConfig_GetWebhook c = (case c of None \<Rightarrow> None | Some c \<Rightarrow> hc_Webhook c)"

record hermes_init_script =
  his_Name :: string
  his_Script :: string

section \<open>Profiles\<close>

record hermes_profile_config =
  hpc_Raw :: "raw_json option"
  hpc_ConfigMapRef :: "config_map_key_ref option"

definition HermesProfileConfig_GetRaw :: "hermes_profile_config option \<Rightarrow> raw_json option" where
  "HermesProfileConfig_GetRaw c = (case c of None \<Rightarrow> None | Some c \<Rightarrow> hpc_Raw c)"

definition HermesProfileConfig_GetConfigMapRef ::
  "hermes_profile_config option \<Rightarrow> config_map_key_ref option" where
  "HermesProfileConfig_GetConfigMapRef c = (case c of None \<Rightarrow> None | Some c \<Rightarrow> hpc_ConfigMapRef c)"

definition HermesProfileConfig_HasDocument :: "hermes_profile_config option \<Rightarrow> bool" where
  "HermesProfileConfig_HasDocument c \<longleftrightarrow>
     HermesProfileConfig_GetRaw c \<noteq> None \<or> HermesProfileConfig_GetConfigMapRef c \<noteq> None"

record hermes_git_credentials =
  hgc_SecretRef :: string
  hgc_Key :: string

definition HermesGitCredentials_GetKey :: "hermes_git_credentials option \<Rightarrow> string" where
  "HermesGitCredentials_GetKey c =
     (case c of None \<Rightarrow> ''.git-credentials'' | Some c \<Rightarrow> if hgc_Key c = [] then ''.git-credentials'' else hgc_Key c)"

record hermes_profile_distribution =
  hpd_Source :: string
  hpd_Ref :: string
  hpd_UpdateOnStart :: "bool option"
  hpd_ForceConfig :: bool
  hpd_ResumeCrons :: "string list"
  hpd_GitCredentials :: "hermes_git_credentials option"

definition HermesProfileDistribution_GetResumeCrons ::
  "hermes_profile_distribution option \<Rightarrow> string list" where
  "HermesProfileDistribution_GetResumeCrons d = (case d of None \<Rightarrow> [] | Some d \<Rightarrow> hpd_ResumeCrons d)"

definition HermesProfileDistribution_GetGitCredentials ::
  "hermes_profile_distribution option \<Rightarrow> hermes_git_credentials option" where
  "HermesProfileDistribution_GetGitCredentials d = (case d of None \<Rightarrow> None | Some d \<Rightarrow> hpd_GitCredentials d)"

definition HermesProfileDistribution_GetSource :: "hermes_profile_distribution option \<Rightarrow> string" where
  "HermesProfileDistribution_GetSource d = (case d of None \<Rightarrow> [] | Some d \<Rightarrow> hpd_Source d)"

definition HermesProfileDistribution_GetRef :: "hermes_profile_distribution option \<Rightarrow> string" where
  "HermesProfileDistribution_GetRef d = (case d of None \<Rightarrow> [] | Some d \<Rightarrow> hpd_Ref d)"

definition HermesProfileDistribution_IsPinned :: "hermes_profile_distribution option \<Rightarrow> bool" where
  "HermesProfileDistribution_IsPinned d \<longleftrightarrow> HermesProfileDistribution_GetRef d \<noteq> []"

definition HermesProfileDistribution_ShouldUpdateOnStart ::
  "hermes_profile_distribution option \<Rightarrow> bool" where
  "HermesProfileDistribution_ShouldUpdateOnStart d =
     (case d of None \<Rightarrow> False
      | Some d' \<Rightarrow> if HermesProfileDistribution_IsPinned d then False
                  else (case hpd_UpdateOnStart d' of None \<Rightarrow> True | Some b \<Rightarrow> b))"

definition HermesProfileDistribution_ShouldForceConfig ::
  "hermes_profile_distribution option \<Rightarrow> bool" where
  "HermesProfileDistribution_ShouldForceConfig d = (case d of None \<Rightarrow> False | Some d \<Rightarrow> hpd_ForceConfig d)"

record hermes_profile =
  hpr_Clone :: bool
  hpr_Distribution :: "hermes_profile_distribution option"
  hpr_Config :: "hermes_profile_config option"
  hpr_Workspace :: "hermes_workspace option"
  hpr_Plugins :: "hermes_plugin list"
  hpr_Skills :: "hermes_skill list"
  hpr_Crons :: "hermes_cron list"
  hpr_Bundles :: "hermes_bundle list"

section \<open>Probes\<close>

record probe =
  pb_Enabled :: "bool option"
  pb_InitialDelaySeconds :: "int32 option"
  pb_PeriodSeconds :: "int32 option"
  pb_TimeoutSeconds :: "int32 option"
  pb_FailureThreshold :: "int32 option"

record probes =
  pbs_Liveness :: "probe option"
  pbs_Readiness :: "probe option"
  pbs_Startup :: "probe option"

definition Probes_GetLiveness :: "probes option \<Rightarrow> probe option" where
  "Probes_GetLiveness p = (case p of None \<Rightarrow> None | Some p \<Rightarrow> pbs_Liveness p)"

definition Probes_GetReadiness :: "probes option \<Rightarrow> probe option" where
  "Probes_GetReadiness p = (case p of None \<Rightarrow> None | Some p \<Rightarrow> pbs_Readiness p)"

definition Probes_GetStartup :: "probes option \<Rightarrow> probe option" where
  "Probes_GetStartup p = (case p of None \<Rightarrow> None | Some p \<Rightarrow> pbs_Startup p)"

definition Probe_IsEnabled :: "probe option \<Rightarrow> bool" where
  "Probe_IsEnabled p = (case p of None \<Rightarrow> False | Some p \<Rightarrow> pb_Enabled p = Some True)"

definition override :: "'a option \<Rightarrow> 'a \<Rightarrow> 'a" where
  "override o' d = (case o' of None \<Rightarrow> d | Some v \<Rightarrow> v)"

definition Probe_GetProbe :: "probe option \<Rightarrow> string list \<Rightarrow> k8s_probe \<Rightarrow> k8s_probe option" where
  "Probe_GetProbe p command defaults =
     (case p of
        None \<Rightarrow> None
      | Some pr \<Rightarrow>
          if \<not> Probe_IsEnabled p then None
          else Some \<lparr>kp_Command = command,
                     kp_InitialDelaySeconds = override (pb_InitialDelaySeconds pr) (kp_InitialDelaySeconds defaults),
                     kp_PeriodSeconds = override (pb_PeriodSeconds pr) (kp_PeriodSeconds defaults),
                     kp_TimeoutSeconds = override (pb_TimeoutSeconds pr) (kp_TimeoutSeconds defaults),
                     kp_FailureThreshold = override (pb_FailureThreshold pr) (kp_FailureThreshold defaults)\<rparr>)"

section \<open>The hermes section\<close>

record hermes =
  h_Image :: "raw_json option"
  h_Config :: "hermes_config option"
  h_Storage :: "hermes_storage option"
  h_Workspace :: "hermes_workspace option"
  h_Packages :: "hermes_packages option"
  h_Plugins :: "hermes_plugin list"
  h_Skills :: "hermes_skill list"
  h_Crons :: "hermes_cron list"
  h_Bundles :: "hermes_bundle list"
  h_Env :: "env_var list"
  h_EnvFrom :: "env_from_source list"
  h_Resources :: "resource_requirements option"
  h_Probes :: "probes option"
  h_Ports :: "container_port list"
  h_InitChownData :: bool
  h_InitScripts :: "hermes_init_script list"
  h_Profiles :: "hermes_profile gomap"

definition Hermes_GetConfig :: "hermes option \<Rightarrow> raw_json option" where
  "Hermes_GetConfig h = (case h of None \<Rightarrow> None | Some h \<Rightarrow> HermesConfig_GetRaw (h_Config h))"

definition Hermes_GetConfigMapRef :: "hermes option \<Rightarrow> config_map_key_ref option" where
  "Hermes_GetConfigMapRef h = (case h of None \<Rightarrow> None | Some h \<Rightarrow> HermesConfig_GetConfigMapRef (h_Config h))"

definition Hermes_HasConfigDocument :: "hermes option \<Rightarrow> bool" where
  "Hermes_HasConfigDocument h = (case h of None \<Rightarrow> False | Some h \<Rightarrow> HermesConfig_HasDocument (h_Config h))"

definition Hermes_GetAPIServer :: "hermes option \<Rightarrow> hermes_api_server option" where
  "Hermes_GetAPIServer h = (case h of None \<Rightarrow> None | Some h \<Rightarrow> HermesConfig_GetAPIServer (h_Config h))"

definition Hermes_GetWebhook :: "hermes option \<Rightarrow> hermes_webhook option" where
  "Hermes_GetWebhook h = (case h of None \<Rightarrow> None | Some h \<Rightarrow> HermesConfig_GetWebhook (h_Config h))"

definition Hermes_GetPersistence :: "hermes option \<Rightarrow> hermes_persistence option" where
  "Hermes_GetPersistence h =
     (case h of None \<Rightarrow> None | Some h \<Rightarrow> (case h_Storage h of None \<Rightarrow> None | Some s \<Rightarrow> hst_Persistence s))"

definition Hermes_GetSnapshot :: "hermes option \<Rightarrow> hermes_snapshot option" where
  "Hermes_GetSnapshot h =
     (case h of None \<Rightarrow> None | Some h \<Rightarrow> (case h_Storage h of None \<Rightarrow> None | Some s \<Rightarrow> hst_Snapshot s))"

definition Hermes_GetWorkspace :: "hermes option \<Rightarrow> hermes_workspace option" where
  "Hermes_GetWorkspace h = (case h of None \<Rightarrow> None | Some h \<Rightarrow> h_Workspace h)"

definition Hermes_GetPackages :: "hermes option \<Rightarrow> hermes_packages option" where
  "Hermes_GetPackages h = (case h of None \<Rightarrow> None | Some h \<Rightarrow> h_Packages h)"

definition Hermes_GetPlugins :: "hermes option \<Rightarrow> hermes_plugin list" where
  "Hermes_GetPlugins h = (case h of None \<Rightarrow> [] | Some h \<Rightarrow> h_Plugins h)"

definition Hermes_GetSkills :: "hermes option \<Rightarrow> hermes_skill list" where
  "Hermes_GetSkills h = (case h of None \<Rightarrow> [] | Some h \<Rightarrow> h_Skills h)"

definition Hermes_GetCrons :: "hermes option \<Rightarrow> hermes_cron list" where
  "Hermes_GetCrons h = (case h of None \<Rightarrow> [] | Some h \<Rightarrow> h_Crons h)"

definition Hermes_GetBundles :: "hermes option \<Rightarrow> hermes_bundle list" where
  "Hermes_GetBundles h = (case h of None \<Rightarrow> [] | Some h \<Rightarrow> h_Bundles h)"

definition Hermes_GetProfiles :: "hermes option \<Rightarrow> hermes_profile gomap" where
  "Hermes_GetProfiles h = (case h of None \<Rightarrow> [] | Some h \<Rightarrow> h_Profiles h)"

definition Hermes_GetSortedProfileNames :: "hermes option \<Rightarrow> string list" where
  "Hermes_GetSortedProfileNames h = (case h of None \<Rightarrow> [] | Some h \<Rightarrow> sorted_keys (h_Profiles h))"

definition Hermes_GetEnv :: "hermes option \<Rightarrow> env_var list" where
  "Hermes_GetEnv h = (case h of None \<Rightarrow> [] | Some h \<Rightarrow> h_Env h)"

definition Hermes_GetEnvFrom :: "hermes option \<Rightarrow> env_from_source list" where
  "Hermes_GetEnvFrom h = (case h of None \<Rightarrow> [] | Some h \<Rightarrow> h_EnvFrom h)"

definition default_hermes_resources :: resource_requirements where
  "default_hermes_resources =
     \<lparr>res_Limits = [(''cpu'', Quantity ''2''), (''memory'', Quantity ''4Gi'')],
      res_Requests = [(''cpu'', Quantity ''500m''), (''memory'', Quantity ''1Gi'')]\<rparr>"

definition Hermes_GetResources :: "hermes option \<Rightarrow> resource_requirements" where
  "Hermes_GetResources h =
     (case h of None \<Rightarrow> default_hermes_resources
      | Some h \<Rightarrow> (case h_Resources h of None \<Rightarrow> default_hermes_resources | Some r \<Rightarrow> r))"

definition Hermes_GetPorts :: "hermes option \<Rightarrow> container_port list" where
  "Hermes_GetPorts h = (case h of None \<Rightarrow> [] | Some h \<Rightarrow> h_Ports h)"

definition Hermes_GetProbes :: "hermes option \<Rightarrow> probes option" where
  "Hermes_GetProbes h = (case h of None \<Rightarrow> None | Some h \<Rightarrow> h_Probes h)"

definition Hermes_ShouldInitChownData :: "hermes option \<Rightarrow> bool" where
  "Hermes_ShouldInitChownData h = (case h of None \<Rightarrow> False | Some h \<Rightarrow> h_InitChownData h)"

definition Hermes_GetInitScripts :: "hermes option \<Rightarrow> hermes_init_script list" where
  "Hermes_GetInitScripts h = (case h of None \<Rightarrow> [] | Some h \<Rightarrow> h_InitScripts h)"

definition Hermes_GetImage :: "hermes option \<Rightarrow> string" where
  "Hermes_GetImage h =
     (case h of None \<Rightarrow> defaultHermesImageRepo @ '':'' @ defaultImageTag
      | Some h \<Rightarrow> resolveImage (h_Image h) defaultHermesImageRepo)"

end
