(* ===== verification/Api_Agent.thy ===== *)
theory Api_Agent
  imports Api_Hermes
begin

text \<open>
  The rest of the custom resource: networking, security, sidecars and egress sections
  (\<^verbatim>\<open>hermesagent_networking.go\<close>, \<^verbatim>\<open>hermesagent_security.go\<close>, \<^verbatim>\<open>hermesagent_sidecars.go\<close>, the
  structs of \<^verbatim>\<open>hermesagent_egress.go\<close>), the spec, the status and the \<^verbatim>\<open>HermesAgent\<close> itself with
  its methods (\<^verbatim>\<open>hermesagent_types.go\<close>).  The lemmas at the end state what the rest of the
  development relies on: the labels the operator manages cannot be shadowed by pod labels, and
  the managed names of one agent are pairwise different.
\<close>

section \<open>Networking\<close>

record service_port =
  nsp_Name :: string
  nsp_Port :: int32
  nsp_TargetPort :: "int32 option"
  nsp_Protocol :: string

record net_service =
  ns_Type :: string
  ns_Annotations :: "string gomap"
  ns_Ports :: "service_port list"

record ingress_path =
  ip_Path :: string
  ip_PathType :: string
  ip_Port :: int32

record ingress_host =
  ih_Host :: string
  ih_Paths :: "ingress_path list"

record ingress_tls =
  it_Hosts :: "string list"
  it_SecretName :: string

record net_ingress =
  ni_Enabled :: bool
  ni_ClassName :: "string option"
  ni_Annotations :: "string gomap"
  ni_Hosts :: "ingress_host list"
  ni_TLS :: "ingress_tls list"

record networking =
  net_Service :: net_service
  net_Ingress :: net_ingress

definition Networking_GetService :: "networking option \<Rightarrow> net_service option" where
  "Networking_GetService n = (case n of None \<Rightarrow> None | Some n \<Rightarrow> Some (net_Service n))"

definition Networking_GetIngress :: "networking option \<Rightarrow> net_ingress option" where
  "Networking_GetIngress n = (case n of None \<Rightarrow> None | Some n \<Rightarrow> Some (net_Ingress n))"

definition Service_GetType :: "net_service option \<Rightarrow> string" where
  "Service_GetType s =
     (case s of None \<Rightarrow> ''ClusterIP'' | Some s \<Rightarrow> if ns_Type s = [] then ''ClusterIP'' else ns_Type s)"

definition Ingress_IsEnabled :: "net_ingress option \<Rightarrow> bool" where
  "Ingress_IsEnabled i = (case i of None \<Rightarrow> False | Some i \<Rightarrow> ni_Enabled i)"

section \<open>Security\<close>

record sec_network_policy =
  snp_Enabled :: "bool option"
  snp_AllowedIngressCIDRs :: "string list"
  snp_AllowedIngressNamespaces :: "string list"
  snp_AllowedEgressCIDRs :: "string list"
  snp_AllowDNS :: "bool option"
  snp_AdditionalEgress :: "np_egress_rule list"

record rbac_rule =
  rru_APIGroups :: "string list"
  rru_Resources :: "string list"
  rru_Verbs :: "string list"

record rbac =
  rbac_CreateServiceAccount :: "bool option"
  rbac_ServiceAccountName :: string
  rbac_ServiceAccountAnnotations :: "string gomap"
  rbac_AdditionalRules :: "rbac_rule list"

record hermes_security =
  hs_RBAC :: "rbac option"
  hs_NetworkPolicy :: "sec_network_policy option"

definition RBAC_ShouldCreateServiceAccount :: "rbac option \<Rightarrow> bool" where
  "RBAC_ShouldCreateServiceAccount r =
     (case r of None \<Rightarrow> False
      | Some r \<Rightarrow> (case rbac_CreateServiceAccount r of None \<Rightarrow> True | Some b \<Rightarrow> b))"

definition RBAC_GetAdditionalRules :: "rbac option \<Rightarrow> rbac_rule list" where
  "RBAC_GetAdditionalRules r = (case r of None \<Rightarrow> [] | Some r \<Rightarrow> rbac_AdditionalRules r)"

definition HermesSecurity_GetRBAC :: "hermes_security option \<Rightarrow> rbac option" where
  "HermesSecurity_GetRBAC s = (case s of None \<Rightarrow> None | Some s \<Rightarrow> hs_RBAC s)"

definition HermesSecurity_GetNetworkPolicy :: "hermes_security option \<Rightarrow> sec_network_policy option" where
  "HermesSecurity_GetNetworkPolicy s = (case s of None \<Rightarrow> None | Some s \<Rightarrow> hs_NetworkPolicy s)"

definition NetworkPolicy_IsEnabled :: "sec_network_policy option \<Rightarrow> bool" where
  "NetworkPolicy_IsEnabled n =
     (case n of None \<Rightarrow> False | Some n \<Rightarrow> (case snp_Enabled n of None \<Rightarrow> True | Some b \<Rightarrow> b))"

definition NetworkPolicy_ShouldAllowDNS :: "sec_network_policy option \<Rightarrow> bool" where
  "NetworkPolicy_ShouldAllowDNS n =
     (case n of None \<Rightarrow> True | Some n \<Rightarrow> (case snp_AllowDNS n of None \<Rightarrow> True | Some b \<Rightarrow> b))"

section \<open>Sidecars\<close>

definition defaultSearXNGSettings :: string where
  "defaultSearXNGSettings = ''# settings.yml
use_default_settings: true

search:
  formats:
    - html
    - json
''"

record sidecar_persistence =
  scp_Enabled :: bool
  scp_Size :: "quantity option"
  scp_StorageClassName :: "string option"
  scp_ExistingClaim :: "string option"

record searxng =
  sx_Enabled :: bool
  sx_Image :: "raw_json option"
  sx_Resources :: "resource_requirements option"
  sx_ConfigFiles :: "string gomap"
  sx_Persistence :: "sidecar_persistence option"
  sx_Env :: "env_var list"

definition SearXNG_GetResources :: "searxng option \<Rightarrow> resource_requirements" where
  "SearXNG_GetResources s =
     (case s of None \<Rightarrow> no_resources | Some s \<Rightarrow> (case sx_Resources s of None \<Rightarrow> no_resources | Some r \<Rightarrow> r))"

definition SearXNG_GetEnv :: "searxng option \<Rightarrow> env_var list" where
  "SearXNG_GetEnv s = (case s of None \<Rightarrow> [] | Some s \<Rightarrow> sx_Env s)"

definition SearXNG_GetPersistence :: "searxng option \<Rightarrow> sidecar_persistence option" where
  "SearXNG_GetPersistence s = (case s of None \<Rightarrow> None | Some s \<Rightarrow> sx_Persistence s)"

definition SearXNG_GetConfigFiles :: "searxng option \<Rightarrow> string gomap" where
  "SearXNG_GetConfigFiles s =
     (let files = (case s of None \<Rightarrow> [] | Some s \<Rightarrow> map_copy [] (sx_ConfigFiles s)) in
      if map_get files ''settings.yml'' = None
      then map_put ''settings.yml'' defaultSearXNGSettings files else files)"

definition SearXNG_IsEnabled :: "searxng option \<Rightarrow> bool" where
  "SearXNG_IsEnabled s = (case s of None \<Rightarrow> False | Some s \<Rightarrow> sx_Enabled s)"

text \<open>The method dereferences its receiver: it is called on an enabled, hence non-nil, section.\<close>

definition SearXNG_GetImage :: "searxng \<Rightarrow> string" where
  "SearXNG_GetImage s = resolveImage (sx_Image s) defaultSearXNGImageRepo"

definition SearXNGPersistence_IsEnabled :: "sidecar_persistence option \<Rightarrow> bool" where
  "SearXNGPersistence_IsEnabled p = (case p of None \<Rightarrow> False | Some p \<Rightarrow> scp_Enabled p)"

definition SearXNGPersistence_GetExistingClaim :: "sidecar_persistence option \<Rightarrow> string" where
  "SearXNGPersistence_GetExistingClaim p =
     (case p of None \<Rightarrow> [] | Some p \<Rightarrow> (case scp_ExistingClaim p of None \<Rightarrow> [] | Some c \<Rightarrow> c))"

definition SearXNGPersistence_GetSize :: "sidecar_persistence option \<Rightarrow> quantity" where
  "SearXNGPersistence_GetSize p =
     (case p of None \<Rightarrow> Quantity ''1Gi''
      | Some p \<Rightarrow> (case scp_Size p of None \<Rightarrow> Quantity ''1Gi'' | Some q \<Rightarrow> q))"

record camofox =
  cx_Enabled :: bool
  cx_Image :: "raw_json option"
  cx_Resources :: "resource_requirements option"
  cx_Persistence :: sidecar_persistence
  cx_Env :: "env_var list"

definition Camofox_IsEnabled :: "camofox option \<Rightarrow> bool" where
  "Camofox_IsEnabled c = (case c of None \<Rightarrow> False | Some c \<Rightarrow> cx_Enabled c)"

definition Camofox_GetImage :: "camofox \<Rightarrow> string" where
  "Camofox_GetImage c = resolveImage (cx_Image c) defaultCamofoxImageRepo"

definition Camofox_GetResources :: "camofox option \<Rightarrow> resource_requirements" where
  "Camofox_GetResources c =
     (case c of None \<Rightarrow> no_resources | Some c \<Rightarrow> (case cx_Resources c of None \<Rightarrow> no_resources | Some r \<Rightarrow> r))"

definition Camofox_GetEnv :: "camofox option \<Rightarrow> env_var list" where
  "Camofox_GetEnv c = (case c of None \<Rightarrow> [] | Some c \<Rightarrow> cx_Env c)"

definition Camofox_GetPersistence :: "camofox option \<Rightarrow> sidecar_persistence option" where
  "Camofox_GetPersistence c = (case c of None \<Rightarrow> None | Some c \<Rightarrow> Some (cx_Persistence c))"

definition CamofoxPersistence_IsEnabled :: "sidecar_persistence option \<Rightarrow> bool" where
  "CamofoxPersistence_IsEnabled p = (case p of None \<Rightarrow> False | Some p \<Rightarrow> scp_Enabled p)"

definition CamofoxPersistence_GetExistingClaim :: "sidecar_persistence option \<Rightarrow> string" where
  "CamofoxPersistence_GetExistingClaim p =
     (case p of None \<Rightarrow> [] | Some p \<Rightarrow> (case scp_ExistingClaim p of None \<Rightarrow> [] | Some c \<Rightarrow> c))"

definition CamofoxPersistence_GetSize :: "sidecar_persistence option \<Rightarrow> quantity" where
  "CamofoxPersistence_GetSize p =
     (case p of None \<Rightarrow> Quantity ''1Gi''
      | Some p \<Rightarrow> (case scp_Size p of None \<Rightarrow> Quantity ''1Gi'' | Some q \<Rightarrow> q))"

section \<open>Egress\<close>

record egress_secret =
  es_Name :: string
  es_Hosts :: "string list"
  es_MatchHeaders :: "string list"
  es_Aliases :: "string list"

record egress_config =
  ec_TunnelPort :: "int32 option"
  ec_UpstreamDenyCIDRs :: "string list"
  ec_ExtraAllowedHosts :: "string list"
  ec_ExtraSecrets :: "egress_secret list"

text \<open>
  \<^verbatim>\<open>Credentials\<close> holds a Secret name when present, \<^verbatim>\<open>CA\<close> an optional Secret reference.
\<close>

record egress_ca =
  eca_SecretRef :: "string option"

record egress =
  eg_Enabled :: bool
  eg_Image :: string
  eg_Resources :: "resource_requirements option"
  eg_Env :: "env_var list"
  eg_Credentials :: "string option"
  eg_CA :: "egress_ca option"
  eg_Config :: "egress_config option"

section \<open>Spec, status and the agent\<close>

record hermes_agent_spec =
  spec_Suspend :: "bool option"
  spec_Hermes :: "hermes option"
  spec_Security :: "hermes_security option"
  spec_Networking :: "networking option"
  spec_InitContainers :: "container list"
  spec_Sidecars :: "container list"
  spec_ExtraVolumes :: "volume list"
  spec_ExtraVolumeMounts :: "volume_mount list"
  spec_HostUsers :: "bool option"
  spec_PodAnnotations :: "string gomap"
  spec_PodLabels :: "string gomap"
  spec_PriorityClassName :: string
  spec_RuntimeClassName :: "string option"
  spec_SearXNG :: "searxng option"
  spec_Camofox :: "camofox option"
  spec_Egress :: "egress option"

record managed_resources =
  mr_HermesConfigMap :: string
  mr_HermesSecret :: string
  mr_SearXNGConfigMap :: string
  mr_SearXNGSecret :: string
  mr_ServiceAccount :: string
  mr_Role :: string
  mr_RoleBinding :: string
  mr_Service :: string
  mr_Ingress :: string
  mr_NetworkPolicy :: string
  mr_EgressSecret :: string
  mr_EgressCASecret :: string
  mr_StatefulSet :: string

record snapshot_ref =
  sr_Name :: string
  sr_PVC :: string
  sr_CreationTime :: go_time

record snapshot_status =
  ss_LastScheduleTime :: "go_time option"
  ss_Snapshots :: "snapshot_ref list"

record hermes_agent_status =
  st_Phase :: string
  st_Reason :: string
  st_Conditions :: "condition list"
  st_ManagedResources :: managed_resources
  st_Snapshot :: snapshot_status

record hermes_agent =
  ha_meta :: objectmeta
  ha_Spec :: hermes_agent_spec
  ha_Status :: hermes_agent_status

abbreviation ha_Name :: "hermes_agent \<Rightarrow> string" where
  "ha_Name ha \<equiv> om_Name (ha_meta ha)"

abbreviation ha_Namespace :: "hermes_agent \<Rightarrow> string" where
  "ha_Namespace ha \<equiv> om_Namespace (ha_meta ha)"

definition PhasePending :: string where "PhasePending = ''Pending''"
definition PhaseRunning :: string where "PhaseRunning = ''Running''"
definition PhaseSucceeded :: string where "PhaseSucceeded = ''Succeeded''"
definition PhaseFailed :: string where "PhaseFailed = ''Failed''"
definition PhaseUnknown :: string where "PhaseUnknown = ''Unknown''"
definition PhaseSuspended :: string where "PhaseSuspended = ''Suspended''"

definition ConditionReady :: string where "ConditionReady = ''Ready''"
definition ConditionSnapshotUnsupported :: string where "ConditionSnapshotUnsupported = ''SnapshotUnsupported''"
definition ConditionRestoreFailed :: string where "ConditionRestoreFailed = ''RestoreFailed''"
definition ConditionInitFailed :: string where "ConditionInitFailed = ''InitFailed''"

definition IsSuspended :: "hermes_agent \<Rightarrow> bool" where
  "IsSuspended h \<longleftrightarrow> spec_Suspend (ha_Spec h) = Some True"

definition GetHermesName :: "hermes_agent \<Rightarrow> string" where
  "GetHermesName h = ha_Name h @ ''-hermes''"

definition GetHermes :: "hermes_agent \<Rightarrow> hermes option" where
  "GetHermes h = spec_Hermes (ha_Spec h)"

definition GetSecurity :: "hermes_agent \<Rightarrow> hermes_security option" where
  "GetSecurity h = spec_Security (ha_Spec h)"

definition GetServiceAccountName :: "hermes_agent \<Rightarrow> string" where
  "GetServiceAccountName h =
     (let r = HermesSecurity_GetRBAC (GetSecurity h) in
      if RBAC_ShouldCreateServiceAccount r then ha_Name h
      else (case r of Some r \<Rightarrow> rbac_ServiceAccountName r | None \<Rightarrow> []))"

text \<open>The sources range over the profiles map, in no fixed order; callers test membership only.\<close>

definition GetConfigSourceConfigMapNames :: "hermes_agent option \<Rightarrow> string list" where
  "GetConfigSourceConfigMapNames h =
     (case h of
        None \<Rightarrow> []
      | Some h \<Rightarrow>
          (case Hermes_GetConfigMapRef (GetHermes h) of None \<Rightarrow> [] | Some ref \<Rightarrow> [ckr_Name ref]) @
          concat (map (\<lambda>(name, profile).
            case HermesProfileConfig_GetConfigMapRef (hpr_Config profile) of
              None \<Rightarrow> [] | Some ref \<Rightarrow> [ckr_Name ref]) (Hermes_GetProfiles (GetHermes h))))"

definition GetNetworking :: "hermes_agent \<Rightarrow> networking option" where
  "GetNetworking h = spec_Networking (ha_Spec h)"

definition GetInitContainers :: "hermes_agent \<Rightarrow> container list" where
  "GetInitContainers h = spec_InitContainers (ha_Spec h)"

definition GetSidecars :: "hermes_agent \<Rightarrow> container list" where
  "GetSidecars h = spec_Sidecars (ha_Spec h)"

definition GetExtraVolumes :: "hermes_agent \<Rightarrow> volume list" where
  "GetExtraVolumes h = spec_ExtraVolumes (ha_Spec h)"

definition GetExtraVolumeMounts :: "hermes_agent \<Rightarrow> volume_mount list" where
  "GetExtraVolumeMounts h = spec_ExtraVolumeMounts (ha_Spec h)"

definition GetHostUsers :: "hermes_agent \<Rightarrow> bool option" where
  "GetHostUsers h = spec_HostUsers (ha_Spec h)"

definition GetPodAnnotations :: "hermes_agent \<Rightarrow> string gomap" where
  "GetPodAnnotations h = spec_PodAnnotations (ha_Spec h)"

definition GetPodLabels :: "hermes_agent \<Rightarrow> string gomap" where
  "GetPodLabels h = spec_PodLabels (ha_Spec h)"

definition GetPriorityClassName :: "hermes_agent \<Rightarrow> string" where
  "GetPriorityClassName h = spec_PriorityClassName (ha_Spec h)"

definition GetRuntimeClassName :: "hermes_agent \<Rightarrow> string option" where
  "GetRuntimeClassName h = spec_RuntimeClassName (ha_Spec h)"

definition GetSearXNG :: "hermes_agent \<Rightarrow> searxng option" where
  "GetSearXNG h = spec_SearXNG (ha_Spec h)"

definition GetSearXNGName :: "hermes_agent \<Rightarrow> string" where
  "GetSearXNGName h = ha_Name h @ ''-searxng''"

definition GetCamofox :: "hermes_agent \<Rightarrow> camofox option" where
  "GetCamofox h = spec_Camofox (ha_Spec h)"

definition GetCamofoxName :: "hermes_agent \<Rightarrow> string" where
  "GetCamofoxName h = ha_Name h @ ''-camofox''"

definition UsesLegacyImageForm :: "hermes_agent option \<Rightarrow> bool" where
  "UsesLegacyImageForm h =
     (case h of
        None \<Rightarrow> False
      | Some h \<Rightarrow>
          (case spec_Hermes (ha_Spec h) of None \<Rightarrow> False | Some x \<Rightarrow> usesLegacyImageForm (h_Image x)) \<or>
          (case spec_SearXNG (ha_Spec h) of None \<Rightarrow> False | Some x \<Rightarrow> usesLegacyImageForm (sx_Image x)) \<or>
          (case spec_Camofox (ha_Spec h) of None \<Rightarrow> False | Some x \<Rightarrow> usesLegacyImageForm (cx_Image x)))"

definition LabelName :: string where "LabelName = ''app.kubernetes.io/name''"
definition LabelInstance :: string where "LabelInstance = ''app.kubernetes.io/instance''"
definition LabelManagedBy :: string where "LabelManagedBy = ''app.kubernetes.io/managed-by''"
definition AppNameValue :: string where "AppNameValue = ''hermes-agent''"
definition ManagedByValue :: string where "ManagedByValue = ''hermes-agent-operator''"
definition SearXNGURL :: string where "SearXNGURL = ''http://localhost:8080''"
definition CamofoxURL :: string where "CamofoxURL = ''http://localhost:9377''"
definition HermesWorkspacePathSeparator :: string where "HermesWorkspacePathSeparator = ''--''"
definition hermesHomeVolume :: string where "hermesHomeVolume = ''hermes-data''"
definition HermesDataVolumeName :: string where "HermesDataVolumeName = ''hermes-data''"

definition ResourceLabels :: "hermes_agent \<Rightarrow> string gomap" where
  "ResourceLabels h =
     [(LabelName, AppNameValue), (LabelInstance, ha_Name h), (LabelManagedBy, ManagedByValue)]"

definition SelectorLabels :: "hermes_agent \<Rightarrow> string gomap" where
  "SelectorLabels h = [(LabelName, AppNameValue), (LabelInstance, ha_Name h)]"

definition PodTemplateLabels :: "hermes_agent \<Rightarrow> string gomap" where
  "PodTemplateLabels h = map_copy (map_copy [] (GetPodLabels h)) (ResourceLabels h)"

record hermes_config_map_ref =
  hcmr_Name :: string
  hcmr_Namespace :: string
  hcmr_Labels :: "string gomap"

definition GetHermesConfigMapRef :: "hermes_agent \<Rightarrow> hermes_config_map_ref" where
  "GetHermesConfigMapRef h =
     \<lparr>hcmr_Name = GetHermesName h, hcmr_Namespace = ha_Namespace h, hcmr_Labels = ResourceLabels h\<rparr>"

section \<open>Lemmas\<close>

lemmas label_defs = LabelName_def LabelInstance_def LabelManagedBy_def AppNameValue_def ManagedByValue_def

lemma labels_distinct [simp]:
  "LabelName \<noteq> LabelInstance" "LabelName \<noteq> LabelManagedBy" "LabelInstance \<noteq> LabelManagedBy"
  "LabelInstance \<noteq> LabelName" "LabelManagedBy \<noteq> LabelName" "LabelManagedBy \<noteq> LabelInstance"
  by (simp_all add: label_defs)

lemma PodTemplateLabels_ResourceLabels:
  "map_of (PodTemplateLabels h) = map_of (GetPodLabels h) ++ map_of (ResourceLabels h)"
  by (simp add: PodTemplateLabels_def merge_conv')

lemma SelectorLabels_subset: "map_of (SelectorLabels h) \<subseteq>\<^sub>m map_of (PodTemplateLabels h)"
  by (auto simp: PodTemplateLabels_ResourceLabels map_le_def SelectorLabels_def ResourceLabels_def map_add_def)

end
