(* ===== verification/Api_Egress.thy ===== *)
theory Api_Egress
  imports Api_Agent "HOL-Library.Multiset"
begin

text \<open>
  The egress section of the custom resource (\<^verbatim>\<open>api/v1alpha1/hermesagent_egress.go\<close>): the bundled
  providers, the accessors, how the credentials that iron-proxy swaps are resolved from the keys
  of the credentials Secret, and the three validations (claims of env names and hosts, names of
  user-supplied Secrets, listener ports).  Error values are the texts of the Go errors.
\<close>

section \<open>Constants\<close>

definition defaultEgressImage :: string where
  "defaultEgressImage = ''docker.io/ironsh/iron-proxy:0.49.0''"
definition DefaultEgressTunnelPort :: int32 where "DefaultEgressTunnelPort = 9090"
definition EgressCAManagedCertKey :: string where "EgressCAManagedCertKey = ''ca.crt''"
definition EgressCAManagedKeyKey :: string where "EgressCAManagedKeyKey = ''ca.key''"
definition EgressCATLSCertKey :: string where "EgressCATLSCertKey = ''tls.crt''"
definition EgressCATLSKeyKey :: string where "EgressCATLSKeyKey = ''tls.key''"
definition EgressProxyConfigKey :: string where "EgressProxyConfigKey = ''proxy.yaml''"
definition EgressConfigDir :: string where "EgressConfigDir = ''/etc/iron-proxy''"
definition EgressAgentCAPath :: string where "EgressAgentCAPath = ''/etc/hermes-egress/ca.crt''"

definition defaultEgressAllowedHosts :: "string list" where
  "defaultEgressAllowedHosts =
     [''openrouter.ai'', ''*.openrouter.ai'', ''api.openai.com'', ''api.anthropic.com'',
      ''generativelanguage.googleapis.com'', ''api.x.ai'', ''api.mistral.ai'', ''api.groq.com'',
      ''api.together.xyz'', ''api.deepseek.com'', ''inference.nousresearch.com'']"

definition provider :: "string \<Rightarrow> string list \<Rightarrow> egress_secret" where
  "provider name hosts = \<lparr>es_Name = name, es_Hosts = hosts, es_MatchHeaders = [], es_Aliases = []\<rparr>"

definition egressProviders :: "egress_secret list" where
  "egressProviders =
     [provider ''OPENROUTER_API_KEY'' [''openrouter.ai'', ''*.openrouter.ai''],
      provider ''OPENAI_API_KEY'' [''api.openai.com''],
      provider ''GROQ_API_KEY'' [''api.groq.com''],
      provider ''TOGETHER_API_KEY'' [''api.together.xyz''],
      provider ''DEEPSEEK_API_KEY'' [''api.deepseek.com''],
      provider ''MISTRAL_API_KEY'' [''api.mistral.ai''],
      provider ''XAI_API_KEY'' [''api.x.ai''],
      provider ''NOUS_API_KEY'' [''inference.nousresearch.com''],
      (provider ''ANTHROPIC_API_KEY'' [''api.anthropic.com''])
        \<lparr>es_MatchHeaders := [''x-api-key'', ''Authorization'']\<rparr>,
      (provider ''AZURE_OPENAI_API_KEY''
         [''*.openai.azure.com'', ''*.cognitiveservices.azure.com'', ''*.services.ai.azure.com''])
        \<lparr>es_MatchHeaders := [''api-key'', ''Authorization'']\<rparr>,
      (provider ''GEMINI_API_KEY'' [''generativelanguage.googleapis.com''])
        \<lparr>es_MatchHeaders := [''x-goog-api-key''], es_Aliases := [''GOOGLE_API_KEY'']\<rparr>]"

section \<open>Accessors\<close>

definition Egress_IsEnabled :: "egress option \<Rightarrow> bool" where
  "Egress_IsEnabled e = (case e of None \<Rightarrow> False | Some e \<Rightarrow> eg_Enabled e)"

definition Egress_GetImage :: "egress option \<Rightarrow> string" where
  "Egress_GetImage e =
     (case e of None \<Rightarrow> defaultEgressImage
      | Some e \<Rightarrow> if TrimSpace (eg_Image e) = [] then defaultEgressImage else TrimSpace (eg_Image e))"

definition Egress_GetResources :: "egress option \<Rightarrow> resource_requirements" where
  "Egress_GetResources e =
     (case e of None \<Rightarrow> no_resources | Some e \<Rightarrow> (case eg_Resources e of None \<Rightarrow> no_resources | Some r \<Rightarrow> r))"

definition Egress_GetEnv :: "egress option \<Rightarrow> env_var list" where
  "Egress_GetEnv e = (case e of None \<Rightarrow> [] | Some e \<Rightarrow> eg_Env e)"

definition Egress_GetCredentialsSecretName :: "egress option \<Rightarrow> string" where
  "Egress_GetCredentialsSecretName e =
     (case e of None \<Rightarrow> [] | Some e \<Rightarrow> (case eg_Credentials e of None \<Rightarrow> [] | Some n \<Rightarrow> n))"

definition Egress_GetCASecretRefName :: "egress option \<Rightarrow> string" where
  "Egress_GetCASecretRefName e =
     (case e of None \<Rightarrow> []
      | Some e \<Rightarrow> (case eg_CA e of None \<Rightarrow> []
                  | Some ca \<Rightarrow> (case eca_SecretRef ca of None \<Rightarrow> [] | Some n \<Rightarrow> n)))"

definition Egress_GetTunnelPort :: "egress option \<Rightarrow> int32" where
  "Egress_GetTunnelPort e =
     (case e of None \<Rightarrow> DefaultEgressTunnelPort
      | Some e \<Rightarrow> (case eg_Config e of None \<Rightarrow> DefaultEgressTunnelPort
                  | Some c \<Rightarrow> (case ec_TunnelPort c of None \<Rightarrow> DefaultEgressTunnelPort | Some p \<Rightarrow> p)))"

definition Egress_GetHTTPSProxyURL :: "egress option \<Rightarrow> string" where
  "Egress_GetHTTPSProxyURL e = ''http://127.0.0.1:'' @ fmt_int32 (Egress_GetTunnelPort e)"

definition Egress_GetHTTPProxyURL :: "egress option \<Rightarrow> string" where
  "Egress_GetHTTPProxyURL e = ''http://127.0.0.1:'' @ fmt_int32 (Egress_GetTunnelPort e + 1)"

definition egressNoProxy :: string where
  "egressNoProxy = ''localhost,127.0.0.1,.svc,.cluster.local,${KUBERNETES_SERVICE_HOST}''"

definition Egress_GetAgentProxyEnv :: "egress option \<Rightarrow> string gomap" where
  "Egress_GetAgentProxyEnv e =
     [(''HTTPS_PROXY'', Egress_GetHTTPSProxyURL e),
      (''https_proxy'', Egress_GetHTTPSProxyURL e),
      (''HTTP_PROXY'', Egress_GetHTTPProxyURL e),
      (''http_proxy'', Egress_GetHTTPProxyURL e),
      (''NO_PROXY'', egressNoProxy),
      (''no_proxy'', egressNoProxy),
      (''SSL_CERT_FILE'', EgressAgentCAPath),
      (''REQUESTS_CA_BUNDLE'', EgressAgentCAPath),
      (''NODE_EXTRA_CA_CERTS'', EgressAgentCAPath),
      (''GIT_SSL_CAINFO'', EgressAgentCAPath)]"

definition Egress_GetUpstreamDenyCIDRs :: "egress option \<Rightarrow> string list" where
  "Egress_GetUpstreamDenyCIDRs e =
     (case e of None \<Rightarrow> [] | Some e \<Rightarrow> (case eg_Config e of None \<Rightarrow> [] | Some c \<Rightarrow> ec_UpstreamDenyCIDRs c))"

definition add_allowed_host :: "string list \<Rightarrow> string \<Rightarrow> string list" where
  "add_allowed_host hosts h = (if h \<noteq> [] \<and> h \<notin> set hosts then hosts @ [h] else hosts)"

definition Egress_GetAllowedHosts :: "egress option \<Rightarrow> string list" where
  "Egress_GetAllowedHosts e =
     (case e of None \<Rightarrow> defaultEgressAllowedHosts
      | Some e \<Rightarrow> (case eg_Config e of None \<Rightarrow> defaultEgressAllowedHosts
                  | Some c \<Rightarrow> foldl add_allowed_host defaultEgressAllowedHosts (ec_ExtraAllowedHosts c)))"

definition EgressSecret_EnvNames :: "egress_secret \<Rightarrow> string list" where
  "EgressSecret_EnvNames s = es_Name s # es_Aliases s"

definition EgressSecret_GetMatchHeaders :: "egress_secret \<Rightarrow> string list" where
  "EgressSecret_GetMatchHeaders s = (if es_MatchHeaders s = [] then [''Authorization''] else es_MatchHeaders s)"

section \<open>Hosts\<close>

definition host_covers :: "string \<Rightarrow> string \<Rightarrow> bool" where
  "host_covers pattern host \<longleftrightarrow> HasPrefix pattern ''*.'' \<and> HasSuffix host (drop 1 pattern)"

definition hostsOverlap :: "string \<Rightarrow> string \<Rightarrow> bool" where
  "hostsOverlap a0 b0 \<longleftrightarrow>
     (let a = ToLower a0; b = ToLower b0 in a = b \<or> host_covers a b \<or> host_covers b a)"

section \<open>Credentials\<close>

record egress_credential =
  cr_Secret :: egress_secret
  cr_SourceKey :: string

abbreviation cr_Name :: "egress_credential \<Rightarrow> string" where
  "cr_Name c \<equiv> es_Name (cr_Secret c)"

abbreviation cr_EnvNames :: "egress_credential \<Rightarrow> string list" where
  "cr_EnvNames c \<equiv> EgressSecret_EnvNames (cr_Secret c)"

abbreviation cr_Hosts :: "egress_credential \<Rightarrow> string list" where
  "cr_Hosts c \<equiv> es_Hosts (cr_Secret c)"

text \<open>\<^verbatim>\<open>checkCredentialClaims\<close>: the inner loops over the env names of one credential and over the
  hosts it shares with an earlier one, then the outer loop with the map of taken names.\<close>

fun claim_env_names :: "string \<Rightarrow> string list \<Rightarrow> string gomap \<Rightarrow> string + string gomap" where
  "claim_env_names owner [] taken = Inr taken"
| "claim_env_names owner (n # ns) taken =
     (case map_get taken n of
        Some o' \<Rightarrow> Inl (''credentials '' @ quote o' @ '' and '' @ quote owner @ '' both use env var '' @ quote n)
      | None \<Rightarrow> claim_env_names owner ns (map_put n owner taken))"

definition first_host_clash :: "egress_credential list \<Rightarrow> egress_credential \<Rightarrow> string option" where
  "first_host_clash earlier c =
     (case [(other, h). other \<leftarrow> earlier, h \<leftarrow> cr_Hosts c, oh \<leftarrow> cr_Hosts other, hostsOverlap h oh] of
        [] \<Rightarrow> None
      | (other, h) # _ \<Rightarrow>
          Some (''credentials '' @ quote (cr_Name other) @ '' and '' @ quote (cr_Name c) @
                '' both swap on host '' @ quote h))"

fun check_claims :: "egress_credential list \<Rightarrow> egress_credential list \<Rightarrow> string gomap \<Rightarrow> string option" where
  "check_claims earlier [] taken = None"
| "check_claims earlier (c # cs) taken =
     (case claim_env_names (cr_Name c) (cr_EnvNames c) taken of
        Inl err \<Rightarrow> Some err
      | Inr taken' \<Rightarrow>
          (case first_host_clash earlier c of
             Some err \<Rightarrow> Some err
           | None \<Rightarrow> check_claims (earlier @ [c]) cs taken'))"

definition checkCredentialClaims :: "egress_credential list \<Rightarrow> string option" where
  "checkCredentialClaims creds = check_claims [] creds []"

text \<open>\<^verbatim>\<open>ResolveCredentials\<close>: replacing a bundled provider in place or appending, then the lookup.\<close>

definition sourceKey :: "string list \<Rightarrow> egress_secret \<Rightarrow> string" where
  "sourceKey keys s = (case filter (\<lambda>k. k \<in> set keys) (EgressSecret_EnvNames s) of [] \<Rightarrow> [] | k # _ \<Rightarrow> k)"

fun replace_or_append :: "egress_secret list \<Rightarrow> egress_secret \<Rightarrow> egress_secret list" where
  "replace_or_append [] s = [s]"
| "replace_or_append (p # ps) s = (if es_Name p = es_Name s then s # ps else p # replace_or_append ps s)"

fun collect_credentials ::
  "string list \<Rightarrow> egress_secret list \<Rightarrow> egress_secret list \<Rightarrow> string + egress_credential list" where
  "collect_credentials keys extra [] = Inr []"
| "collect_credentials keys extra (s # ss) =
     (let k = sourceKey keys s in
      if k = [] then
        (if es_Name s \<in> set (map es_Name extra)
         then Inl (''extraSecrets '' @ quote (es_Name s) @
                   '': neither it nor an alias is a key of the credentials Secret'')
         else collect_credentials keys extra ss)
      else (case collect_credentials keys extra ss of
              Inl err \<Rightarrow> Inl err
            | Inr cs \<Rightarrow> Inr (\<lparr>cr_Secret = s, cr_SourceKey = k\<rparr> # cs)))"

definition egress_extra_secrets :: "egress option \<Rightarrow> egress_secret list" where
  "egress_extra_secrets e =
     (case e of None \<Rightarrow> [] | Some e \<Rightarrow> (case eg_Config e of None \<Rightarrow> [] | Some c \<Rightarrow> ec_ExtraSecrets c))"

definition ResolveCredentials :: "egress option \<Rightarrow> string list \<Rightarrow> string + egress_credential list" where
  "ResolveCredentials e keys =
     (let extra = egress_extra_secrets e;
          specs = foldl replace_or_append egressProviders extra
      in case collect_credentials keys extra specs of
           Inl err \<Rightarrow> Inl err
         | Inr creds \<Rightarrow> (case checkCredentialClaims creds of Some err \<Rightarrow> Inl err | None \<Rightarrow> Inr creds))"

section \<open>Methods of the agent\<close>

definition GetEgress :: "hermes_agent \<Rightarrow> egress option" where
  "GetEgress h = spec_Egress (ha_Spec h)"

definition GetEgressSecretName :: "hermes_agent \<Rightarrow> string" where
  "GetEgressSecretName h = ha_Name h @ ''-egress''"

definition GetEgressCASecretName :: "hermes_agent \<Rightarrow> string" where
  "GetEgressCASecretName h = ha_Name h @ ''-egress-ca''"

definition GetEgressCASource :: "hermes_agent \<Rightarrow> string \<times> string \<times> string" where
  "GetEgressCASource h =
     (let ref = Egress_GetCASecretRefName (GetEgress h) in
      if ref \<noteq> [] then (ref, EgressCATLSCertKey, EgressCATLSKeyKey)
      else (GetEgressCASecretName h, EgressCAManagedCertKey, EgressCAManagedKeyKey))"

definition GetEgressSourceSecretNames :: "hermes_agent \<Rightarrow> string list" where
  "GetEgressSourceSecretNames h =
     (let e = GetEgress h in
      if \<not> Egress_IsEnabled e then []
      else filter (\<lambda>n. n \<noteq> []) [Egress_GetCredentialsSecretName e, Egress_GetCASecretRefName e])"

definition ValidateEgressSecretRefs :: "hermes_agent \<Rightarrow> string option" where
  "ValidateEgressSecretRefs h =
     (let e = GetEgress h;
          creds = Egress_GetCredentialsSecretName e;
          ca = Egress_GetCASecretRefName e;
          managed = [GetEgressSecretName h, GetEgressCASecretName h];
          credsCollide = (creds \<noteq> [] \<and> creds \<in> set managed);
          caCollides = (ca \<noteq> [] \<and> ca = GetEgressSecretName h)
      in if credsCollide
         then Some (''egress credentials Secret '' @ quote creds @ '' collides with a Secret the operator manages'')
         else if caCollides
         then Some (''egress CA Secret '' @ quote ca @ '' collides with a Secret the operator manages'')
         else None)"

text \<open>
  \<^verbatim>\<open>urlPort\<close> on the URLs it is applied to, \<^verbatim>\<open>scheme://host:port\<close> without a path: the decimal number
  after the last colon, 0 when it is missing, malformed or out of the range of an \<^verbatim>\<open>int32\<close>.
\<close>

definition parse_decimal :: "string \<Rightarrow> nat option" where
  "parse_decimal s =
     (if s = [] \<or> (\<exists>c \<in> set s. c < CHR ''0'' \<or> CHR ''9'' < c) then None
      else Some (foldl (\<lambda>n c. 10 * n + (of_char c - 48)) 0 s))"

definition urlPort :: "string \<Rightarrow> int32" where
  "urlPort raw =
     (case Split (TrimRight (CHR ''/'') raw) (CHR '':'') of
        [scheme, host, port] \<Rightarrow>
          (case parse_decimal port of
             Some n \<Rightarrow> if n < 2 ^ 31 then of_nat n else 0
           | None \<Rightarrow> 0)
      | _ \<Rightarrow> 0)"

definition used_ports :: "hermes_agent \<Rightarrow> (int32 \<times> string) list" where
  "used_ports h =
     (let api = Hermes_GetAPIServer (GetHermes h); webhook = Hermes_GetWebhook (GetHermes h);
          u0 = [];
          u1 = (if SearXNG_IsEnabled (GetSearXNG h) then AList.update (urlPort SearXNGURL) ''the SearXNG sidecar'' u0 else u0);
          u2 = (if Camofox_IsEnabled (GetCamofox h) then AList.update (urlPort CamofoxURL) ''the Camofox sidecar'' u1 else u1);
          u3 = (if HermesAPIServer_IsEnabled api
                then AList.update (HermesAPIServer_GetPort api) ''the API server'' u2 else u2)
      in (if HermesWebhook_IsEnabled webhook
          then AList.update (HermesWebhook_GetPort webhook) ''the webhook'' u3 else u3))"

definition ValidateEgressPorts :: "hermes_agent \<Rightarrow> string option" where
  "ValidateEgressPorts h =
     (let e = GetEgress h; p = Egress_GetTunnelPort e; used = used_ports h;
          clash = (\<lambda>port owner. ''egress tunnelPort '' @ fmt_int32 p @ '' needs ports '' @ fmt_int32 p @
                     '' and '' @ fmt_int32 (p + 1) @ '', and '' @ owner @ '' listens on '' @ fmt_int32 port)
      in if \<not> Egress_IsEnabled e then None
         else (case map_of used p of
                 Some owner \<Rightarrow> Some (clash p owner)
               | None \<Rightarrow> (case map_of used (p + 1) of
                           Some owner \<Rightarrow> Some (clash (p + 1) owner)
                         | None \<Rightarrow> None)))"

section \<open>Hosts: overlap is having a request host in common\<close>

text \<open>What iron-proxy matches: a host exactly, or by suffix for a pattern \<^verbatim>\<open>*.example.com\<close>.\<close>

definition host_matches :: "string \<Rightarrow> string \<Rightarrow> bool" where
  "host_matches pattern host \<longleftrightarrow>
     ToLower host = ToLower pattern \<or> host_covers (ToLower pattern) (ToLower host)"

lemma host_covers_iff:
  "host_covers p h \<longleftrightarrow> (\<exists>s t. p = ''*.'' @ s \<and> h = t @ ''.'' @ s)"
  by (auto simp: host_covers_def HasPrefix_iff HasSuffix_iff)

lemma host_covers_trans: "host_covers a b \<Longrightarrow> host_covers b h \<Longrightarrow> host_covers a h"
proof -
  assume ab: "host_covers a b" and bh: "host_covers b h"
  from ab obtain s t where a: "a = ''*.'' @ s" and b: "b = t @ ''.'' @ s"
    by (auto simp: host_covers_iff)
  from bh obtain s' t' where b': "b = ''*.'' @ s'" and h: "h = t' @ ''.'' @ s'"
    by (auto simp: host_covers_iff)
  from b b' have "suffix (''.'' @ s) (''.'' @ s')"
    by (cases t) (auto simp: suffix_def)
  then show ?thesis
    unfolding host_covers_iff a h by (auto simp: suffix_def)
qed

lemma host_covers_common:
  assumes "host_covers a h" and "host_covers b h"
  shows "a = b \<or> host_covers a b \<or> host_covers b a"
proof -
  from assms(1) obtain s t where a: "a = ''*.'' @ s" and h: "h = t @ ''.'' @ s"
    by (auto simp: host_covers_iff)
  from assms(2) obtain s' t' where b: "b = ''*.'' @ s'" and h': "h = t' @ ''.'' @ s'"
    by (auto simp: host_covers_iff)
  have "suffix (''.'' @ s) h" using h unfolding suffix_def by blast
  moreover have "suffix (''.'' @ s') h" using h' unfolding suffix_def by blast
  ultimately have "suffix (''.'' @ s) (''.'' @ s') \<or> suffix (''.'' @ s') (''.'' @ s)"
    by (rule suffix_same_cases)
  then show ?thesis
    unfolding host_covers_iff a b by (auto simp: suffix_def)
qed

lemma hostsOverlap_sym: "hostsOverlap a b = hostsOverlap b a"
  by (auto simp: hostsOverlap_def Let_def)

lemma hostsOverlap_common: "hostsOverlap a b \<longleftrightarrow> (\<exists>h. host_matches a h \<and> host_matches b h)"
proof
  assume "hostsOverlap a b"
  then consider "ToLower a = ToLower b" | "host_covers (ToLower a) (ToLower b)"
    | "host_covers (ToLower b) (ToLower a)"
    by (auto simp: hostsOverlap_def Let_def)
  then show "\<exists>h. host_matches a h \<and> host_matches b h"
    by cases (auto simp: host_matches_def)
next
  assume "\<exists>h. host_matches a h \<and> host_matches b h"
  then show "hostsOverlap a b"
    by (auto simp: hostsOverlap_def host_matches_def Let_def dest: host_covers_common)
qed


text \<open>The requests on which a credential is swapped in.\<close>

definition credential_matches :: "egress_credential \<Rightarrow> string \<Rightarrow> bool" where
  "credential_matches c host \<longleftrightarrow> (\<exists>p \<in> set (cr_Hosts c). host_matches p host)"

section \<open>Claims\<close>

lemma claim_env_names_Inr:
  "claim_env_names owner ns taken = Inr taken' \<Longrightarrow>
     distinct ns \<and> set ns \<inter> dom (map_of taken) = {} \<and> dom (map_of taken') = dom (map_of taken) \<union> set ns"
proof (induction ns arbitrary: taken)
  case (Cons n ns)
  then have n: "map_of taken n = None" and rec: "claim_env_names owner ns (map_put n owner taken) = Inr taken'"
    by (auto split: option.splits)
  from Cons.IH [OF rec] n show ?case by (auto simp: update_conv' split: if_splits)
qed simp

lemma claim_env_names_ok:
  "distinct ns \<Longrightarrow> set ns \<inter> dom (map_of taken) = {} \<Longrightarrow> \<exists>taken'. claim_env_names owner ns taken = Inr taken'"
proof (induction ns arbitrary: taken)
  case (Cons n ns)
  then have "map_of taken n = None" by (auto simp: domIff)
  moreover have "set ns \<inter> dom (map_of (map_put n owner taken)) = {}"
    using Cons.prems by (auto simp: update_conv')
  ultimately show ?case using Cons by simp
qed simp

definition hosts_clash :: "egress_credential \<Rightarrow> egress_credential \<Rightarrow> bool" where
  "hosts_clash c d \<longleftrightarrow> (\<exists>h \<in> set (cr_Hosts c). \<exists>h' \<in> set (cr_Hosts d). hostsOverlap h h')"

lemma hosts_clash_sym: "hosts_clash c d = hosts_clash d c"
  unfolding hosts_clash_def using hostsOverlap_sym by blast

lemma case_pairs_None: "(case ps of [] \<Rightarrow> None | (a, b) # _ \<Rightarrow> Some (f a b)) = None \<longleftrightarrow> ps = []"
  by (auto split: list.splits)

lemma first_host_clash_None:
  "first_host_clash earlier c = None \<longleftrightarrow> (\<forall>d \<in> set earlier. \<not> hosts_clash d c)"
proof -
  let ?pairs = "[(other, h). other \<leftarrow> earlier, h \<leftarrow> cr_Hosts c, oh \<leftarrow> cr_Hosts other, hostsOverlap h oh]"
  have "first_host_clash earlier c = None \<longleftrightarrow> ?pairs = []"
    unfolding first_host_clash_def by (rule case_pairs_None)
  also have "\<dots> \<longleftrightarrow> (\<forall>d \<in> set earlier. \<forall>h \<in> set (cr_Hosts c). \<forall>h' \<in> set (cr_Hosts d). \<not> hostsOverlap h h')"
    by (auto simp: concat_eq_Nil_conv split: if_splits)
  also have "\<dots> \<longleftrightarrow> (\<forall>d \<in> set earlier. \<not> hosts_clash d c)"
    unfolding hosts_clash_def using hostsOverlap_sym by blast
  finally show ?thesis .
qed

lemma check_claims_None:
  "check_claims earlier cs taken = None \<longleftrightarrow>
     distinct (concat (map cr_EnvNames cs)) \<and>
     set (concat (map cr_EnvNames cs)) \<inter> dom (map_of taken) = {} \<and>
     (\<forall>d \<in> set earlier. \<forall>c \<in> set cs. \<not> hosts_clash d c) \<and>
     sorted_wrt (\<lambda>d c. \<not> hosts_clash d c) cs"
proof (induction cs arbitrary: earlier taken)
  case (Cons c cs)
  show ?case
  proof (cases "distinct (cr_EnvNames c) \<and> set (cr_EnvNames c) \<inter> dom (map_of taken) = {}")
    case True
    then obtain taken' where t: "claim_env_names (cr_Name c) (cr_EnvNames c) taken = Inr taken'"
      using claim_env_names_ok by blast
    then have d: "dom (map_of taken') = dom (map_of taken) \<union> set (cr_EnvNames c)"
      by (simp add: claim_env_names_Inr)
    show ?thesis
    proof (cases "first_host_clash earlier c")
      case None
      then have "\<forall>d \<in> set earlier. \<not> hosts_clash d c" by (simp add: first_host_clash_None)
      then show ?thesis using True t None d Cons.IH [of "earlier @ [c]" taken'] by auto
    next
      case (Some err)
      then have "\<not> (\<forall>d \<in> set earlier. \<not> hosts_clash d c)"
        using first_host_clash_None [of earlier c] by simp
      then show ?thesis using Some t by auto
    qed
  next
    case False
    then have "\<nexists>taken'. claim_env_names (cr_Name c) (cr_EnvNames c) taken = Inr taken'"
      using claim_env_names_Inr by blast
    then obtain err where "claim_env_names (cr_Name c) (cr_EnvNames c) taken = Inl err"
      by (cases "claim_env_names (cr_Name c) (cr_EnvNames c) taken") auto
    then show ?thesis using False by auto
  qed
qed simp

lemma hosts_clash_iff:
  "hosts_clash c d \<longleftrightarrow> (\<exists>h. credential_matches c h \<and> credential_matches d h)"
  unfolding hosts_clash_def credential_matches_def hostsOverlap_common by blast

text \<open>
  C13: The claim check accepts a list of credentials exactly when no env var name, aliases included,
  is used twice and no request host is matched by two of them.
\<close>

theorem checkCredentialClaims_exclusive:
  "checkCredentialClaims creds = None \<longleftrightarrow>
     distinct (concat (map cr_EnvNames creds)) \<and>
     sorted_wrt (\<lambda>c d. \<not> (\<exists>h. credential_matches c h \<and> credential_matches d h)) creds"
  by (simp add: checkCredentialClaims_def check_claims_None hosts_clash_iff)

section \<open>Resolving credentials\<close>

lemma names_replace_or_append:
  "set (map es_Name (replace_or_append ps s)) = insert (es_Name s) (set (map es_Name ps))"
  by (induction ps) auto

lemma replace_or_append_keeps:
  "p \<in> set ps \<Longrightarrow> es_Name p \<noteq> es_Name s \<Longrightarrow> p \<in> set (replace_or_append ps s)"
  by (induction ps) auto

lemma replace_or_append_has: "s \<in> set (replace_or_append ps s)"
  by (induction ps) auto

lemma foldl_replace_keeps:
  "p \<in> set ps \<Longrightarrow> es_Name p \<notin> set (map es_Name extra) \<Longrightarrow> p \<in> set (foldl replace_or_append ps extra)"
  by (induction extra arbitrary: ps) (auto intro: replace_or_append_keeps)

lemma foldl_replace_names:
  "set (map es_Name (foldl replace_or_append ps extra)) = set (map es_Name ps) \<union> set (map es_Name extra)"
proof (induction extra arbitrary: ps)
  case (Cons s extra)
  show ?case using Cons.IH [of "replace_or_append ps s"] names_replace_or_append [of ps s] by auto
qed simp

lemma sourceKey_in: "sourceKey keys s \<noteq> [] \<Longrightarrow>
    sourceKey keys s \<in> set keys \<and> sourceKey keys s \<in> set (EgressSecret_EnvNames s)"
  unfolding sourceKey_def
  by (cases "filter (\<lambda>k. k \<in> set keys) (EgressSecret_EnvNames s)") (auto simp: filter_eq_Cons_iff)

lemma sourceKey_found:
  "k \<in> set keys \<Longrightarrow> k \<in> set (EgressSecret_EnvNames s) \<Longrightarrow> [] \<notin> set keys \<Longrightarrow> sourceKey keys s \<noteq> []"
proof -
  assume k: "k \<in> set keys" "k \<in> set (EgressSecret_EnvNames s)" and ne: "[] \<notin> set keys"
  let ?f = "filter (\<lambda>k. k \<in> set keys) (EgressSecret_EnvNames s)"
  have "k \<in> set ?f" using k by simp
  moreover have "[] \<notin> set ?f" using ne by auto
  ultimately show ?thesis unfolding sourceKey_def by (cases ?f) auto
qed

lemma collect_credentials_Inr:
  "collect_credentials keys extra ss = Inr cs \<longleftrightarrow>
     cs = map (\<lambda>s. \<lparr>cr_Secret = s, cr_SourceKey = sourceKey keys s\<rparr>) (filter (\<lambda>s. sourceKey keys s \<noteq> []) ss) \<and>
     (\<forall>s \<in> set ss. es_Name s \<in> set (map es_Name extra) \<longrightarrow> sourceKey keys s \<noteq> [])"
  by (induction ss arbitrary: cs) (auto simp: Let_def split: sum.splits)

lemma ResolveCredentials_Inr:
  assumes "ResolveCredentials e keys = Inr creds"
  shows "creds = map (\<lambda>s. \<lparr>cr_Secret = s, cr_SourceKey = sourceKey keys s\<rparr>)
           (filter (\<lambda>s. sourceKey keys s \<noteq> []) (foldl replace_or_append egressProviders (egress_extra_secrets e)))"
    and "\<forall>s \<in> set (foldl replace_or_append egressProviders (egress_extra_secrets e)).
           es_Name s \<in> set (map es_Name (egress_extra_secrets e)) \<longrightarrow> sourceKey keys s \<noteq> []"
    and "checkCredentialClaims creds = None"
  using assms
  by (auto simp: ResolveCredentials_def Let_def collect_credentials_Inr split: sum.splits option.splits)


definition resolve_example :: "egress option" where
  "resolve_example =
     Some \<lparr>eg_Enabled = True, eg_Image = [], eg_Resources = None, eg_Env = [],
           eg_Credentials = Some ''keys'', eg_CA = None,
           eg_Config = Some \<lparr>ec_TunnelPort = None, ec_UpstreamDenyCIDRs = [], ec_ExtraAllowedHosts = [],
             ec_ExtraSecrets = [provider ''ACME_KEY'' [''api.acme.io'']]\<rparr>\<rparr>"


section \<open>Ports and Secret names\<close>

text \<open>The ports of the pod's other listeners, read off the spec.\<close>

definition listener_ports :: "hermes_agent \<Rightarrow> int32 set" where
  "listener_ports h =
     {p. SearXNG_IsEnabled (GetSearXNG h) \<and> p = 8080 \<or> Camofox_IsEnabled (GetCamofox h) \<and> p = 9377 \<or>
         HermesAPIServer_IsEnabled (Hermes_GetAPIServer (GetHermes h)) \<and> p = HermesAPIServer_GetPort (Hermes_GetAPIServer (GetHermes h)) \<or>
         HermesWebhook_IsEnabled (Hermes_GetWebhook (GetHermes h)) \<and> p = HermesWebhook_GetPort (Hermes_GetWebhook (GetHermes h))}"

lemma urlPort_SearXNG: "urlPort SearXNGURL = 8080"
  by (simp add: urlPort_def SearXNGURL_def TrimRight_def parse_decimal_def)

lemma urlPort_Camofox: "urlPort CamofoxURL = 9377"
  by (simp add: urlPort_def CamofoxURL_def TrimRight_def parse_decimal_def)

lemma dom_used_ports: "dom (map_of (used_ports h)) = listener_ports h"
  by (auto simp: used_ports_def listener_ports_def Let_def update_conv' urlPort_SearXNG urlPort_Camofox
      split: if_splits)

text \<open>
  The port check accepts an agent exactly when egress is off or neither the tunnel port nor the
  port after it (with the wrap-around of 32-bit arithmetic) is a port on which an enabled sidecar,
  the API server or the webhook listens.
\<close>

theorem ValidateEgressPorts_iff:
  "ValidateEgressPorts h = None \<longleftrightarrow>
     (if Egress_IsEnabled (GetEgress h)
      then {Egress_GetTunnelPort (GetEgress h), Egress_GetTunnelPort (GetEgress h) + 1} \<inter> listener_ports h = {}
      else True)"
  unfolding dom_used_ports [symmetric]
  by (auto simp: ValidateEgressPorts_def Let_def domIff split: option.splits)

lemma ValidateEgressSecretRefs_iff:
  "ValidateEgressSecretRefs h = None \<longleftrightarrow>
     (let creds = Egress_GetCredentialsSecretName (GetEgress h); ca = Egress_GetCASecretRefName (GetEgress h) in
      (creds = [] \<or> creds \<noteq> GetEgressSecretName h \<and> creds \<noteq> GetEgressCASecretName h) \<and>
      (ca = [] \<or> ca \<noteq> GetEgressSecretName h))"
  by (auto simp: ValidateEgressSecretRefs_def Let_def)

end
