(* ===== verification/Runtime.thy ===== *)
theory Runtime
  imports Api_Egress
begin

text \<open>
  What the reconcile loops run on: errors, the requests of the API client, the parameters that
  stand for third-party code, the state of a reconciliation and the rules to reason about it.

  A loop is a program of the state monad over \<open>'w rst\<close>: the world behind the client (the cluster,
  the clock, the source of randomness), the agent object \<^verbatim>\<open>ha\<close> that the loops mutate, the list of
  API requests issued so far and the list of telemetry events.  The world is a type parameter and
  everything that reads or changes it is a parameter of the model, so a theorem about a loop holds
  for every behaviour of the cluster, failing calls and concurrent writers included.
\<close>

section \<open>Errors\<close>

text \<open>
  An error of the API machinery with its reason, the no-match error of the REST mapper, an error
  made from a text, an error wrapped by \<^verbatim>\<open>fmt.Errorf\<close> (text before, cause, text after), and the
  sentinel of the egress inputs.
\<close>

datatype go_error =
    ApiStatusError string string
  | NoMatchError string
  | PlainError string
  | WrappedError string go_error string
  | ErrEgressInputsPending

fun err_text :: "go_error \<Rightarrow> string" where
  "err_text (ApiStatusError reason msg) = msg"
| "err_text (NoMatchError msg) = msg"
| "err_text (PlainError msg) = msg"
| "err_text (WrappedError pre e post) = pre @ err_text e @ post"
| "err_text ErrEgressInputsPending = ''egress Secrets not visible yet''"

fun IsNotFound :: "go_error \<Rightarrow> bool" where
  "IsNotFound (ApiStatusError reason msg) \<longleftrightarrow> reason = ''NotFound''"
| "IsNotFound (WrappedError pre e post) \<longleftrightarrow> IsNotFound e"
| "IsNotFound _ \<longleftrightarrow> False"

fun IsAlreadyExists :: "go_error \<Rightarrow> bool" where
  "IsAlreadyExists (ApiStatusError reason msg) \<longleftrightarrow> reason = ''AlreadyExists''"
| "IsAlreadyExists (WrappedError pre e post) \<longleftrightarrow> IsAlreadyExists e"
| "IsAlreadyExists _ \<longleftrightarrow> False"

fun IsNoMatchError :: "go_error \<Rightarrow> bool" where
  "IsNoMatchError (NoMatchError msg) \<longleftrightarrow> True"
| "IsNoMatchError (WrappedError pre e post) \<longleftrightarrow> IsNoMatchError e"
| "IsNoMatchError _ \<longleftrightarrow> False"

fun Is_errEgressInputsPending :: "go_error \<Rightarrow> bool" where
  "Is_errEgressInputsPending ErrEgressInputsPending \<longleftrightarrow> True"
| "Is_errEgressInputsPending (WrappedError pre e post) \<longleftrightarrow> Is_errEgressInputsPending e"
| "Is_errEgressInputsPending _ \<longleftrightarrow> False"

section \<open>Volume snapshots\<close>

record volume_snapshot_status =
  vst_ReadyToUse :: "bool option"
  vst_RestoreSize :: "quantity option"

record volume_snapshot =
  vs_meta :: objectmeta
  vs_PersistentVolumeClaimName :: string
  vs_VolumeSnapshotClassName :: "string option"
  vs_Status :: "volume_snapshot_status option"

text \<open>The content of an unstructured object: a map from field names to JSON values.\<close>

type_synonym unstructured = "json gomap"

section \<open>Objects and requests\<close>

record gvk =
  gvk_Group :: string
  gvk_Version :: string
  gvk_Kind :: string

datatype api_kind =
    KHermesAgent | KPod | KConfigMap | KSecret | KStatefulSet | KServiceAccount | KRole
  | KRoleBinding | KService | KIngress | KNetworkPolicy | KPersistentVolumeClaim
  | KUnstructured gvk

datatype api_object =
    OConfigMap configmap | OSecret secret | OStatefulSet statefulset
  | OServiceAccount service_account | ORole role | ORoleBinding role_binding
  | OService k8s_service | OIngress k8s_ingress | ONetworkPolicy k8s_network_policy
  | OPersistentVolumeClaim persistent_volume_claim | OPod pod
  | OUnstructured unstructured

datatype api_request =
    GetReq api_kind namespaced_name
  | ListReq api_kind string "string gomap"
  | CreateReq api_object
  | UpdateReq api_object
  | DeleteReq api_kind namespaced_name
  | StatusReq hermes_agent

section \<open>Telemetry\<close>

datatype result_label = ResultSuccess | ResultError | ResultNotFound

text \<open>Log lines keep their message; the key/value pairs attached to some of them are left out.\<close>

datatype tel_event =
    LogDebug string | LogInfo string | LogWarn string | LogError go_error string
  | IncReconcile namespaced_name result_label
  | IncNotFound namespaced_name
  | ObserveReconcileDuration namespaced_name

section \<open>The parameters\<close>

text \<open>One kind of object as the controller-runtime client serves it.\<close>

record ('w, 'o) rclient =
  rc_Get :: "namespaced_name \<Rightarrow> 'w \<Rightarrow> (go_error + 'o) \<times> 'w"
  rc_Create :: "'o \<Rightarrow> 'w \<Rightarrow> go_error option \<times> 'w"
  rc_Update :: "'o \<Rightarrow> 'w \<Rightarrow> go_error option \<times> 'w"
  rc_Delete :: "namespaced_name \<Rightarrow> 'w \<Rightarrow> go_error option \<times> 'w"

text \<open>
  The client and the API machinery.  A successful status update answers with the object as the
  server stored it, which the client decodes into \<^verbatim>\<open>ha\<close>.  \<^verbatim>\<open>equality.Semantic.DeepEqual\<close> appears
  once per type it is applied to.
\<close>

record 'w kube_api =
  ka_GetHermesAgent :: "namespaced_name \<Rightarrow> 'w \<Rightarrow> (go_error + hermes_agent) \<times> 'w"
  ka_ListHermesAgents :: "string \<Rightarrow> 'w \<Rightarrow> (go_error + hermes_agent list) \<times> 'w"
  ka_StatusUpdate :: "hermes_agent \<Rightarrow> 'w \<Rightarrow> (go_error + hermes_agent) \<times> 'w"
  ka_Pod :: "('w, pod) rclient"
  ka_ConfigMap :: "('w, configmap) rclient"
  ka_Secret :: "('w, secret) rclient"
  ka_StatefulSet :: "('w, statefulset) rclient"
  ka_ServiceAccount :: "('w, service_account) rclient"
  ka_Role :: "('w, role) rclient"
  ka_RoleBinding :: "('w, role_binding) rclient"
  ka_Service :: "('w, k8s_service) rclient"
  ka_Ingress :: "('w, k8s_ingress) rclient"
  ka_NetworkPolicy :: "('w, k8s_network_policy) rclient"
  ka_PersistentVolumeClaim :: "('w, persistent_volume_claim) rclient"
  ka_GetUnstructured :: "gvk \<Rightarrow> namespaced_name \<Rightarrow> 'w \<Rightarrow> (go_error + unstructured) \<times> 'w"
  ka_ListUnstructured :: "gvk \<Rightarrow> string \<Rightarrow> string gomap \<Rightarrow> 'w \<Rightarrow> (go_error + unstructured list) \<times> 'w"
  ka_CreateUnstructured :: "unstructured \<Rightarrow> 'w \<Rightarrow> go_error option \<times> 'w"
  ka_DeleteUnstructured :: "gvk \<Rightarrow> namespaced_name \<Rightarrow> 'w \<Rightarrow> go_error option \<times> 'w"

record 'w machinery =
  am_ToUnstructured :: "volume_snapshot \<Rightarrow> go_error + unstructured"
  am_FromUnstructured :: "unstructured \<Rightarrow> go_error + volume_snapshot"
  am_SetControllerReference :: "hermes_agent \<Rightarrow> objectmeta \<Rightarrow> go_error + objectmeta"
  am_SetStatusCondition :: "condition list \<Rightarrow> condition \<Rightarrow> 'w \<Rightarrow> (bool \<times> condition list) \<times> 'w"
  am_RemoveStatusCondition :: "condition list \<Rightarrow> string \<Rightarrow> bool \<times> condition list"
  am_DeepEqual_rules :: "policy_rule list \<Rightarrow> policy_rule list \<Rightarrow> bool"
  am_DeepEqual_subjects :: "rbac_subject list \<Rightarrow> rbac_subject list \<Rightarrow> bool"
  am_DeepEqual_ports :: "k8s_service_port list \<Rightarrow> k8s_service_port list \<Rightarrow> bool"
  am_DeepEqual_ingress :: "ingress_spec \<Rightarrow> ingress_spec \<Rightarrow> bool"
  am_DeepEqual_netpol :: "network_policy_spec \<Rightarrow> network_policy_spec \<Rightarrow> bool"
  am_JSONToYAML :: "raw_json \<Rightarrow> go_error + string"
  am_YAMLToJSON :: "string \<Rightarrow> go_error + json"
  am_MarshalYAML :: "json \<Rightarrow> go_error + string"
  am_MarshalStatefulSet :: "int32 \<Rightarrow> pod_template \<Rightarrow> persistent_volume_claim list \<Rightarrow> string"
  am_CronParseStandard :: "string \<Rightarrow> go_error + (go_time \<Rightarrow> go_time)"

text \<open>An X.509 certificate: the fields that the sources set in a template or read.\<close>

record certificate =
  cert_SerialNumber :: int
  cert_CommonName :: string
  cert_NotBefore :: go_time
  cert_NotAfter :: go_time
  cert_IsCA :: bool
  cert_BasicConstraintsValid :: bool
  cert_KeyUsage :: int32

text \<open>
  The clock, the source of randomness, the cryptographic packages (a private key is opaque) and two
  details of \<^verbatim>\<open>encoding/json\<close>: the text a number literal takes after a round trip through
  \<^verbatim>\<open>float64\<close> (none when it does not fit), and the error of a failed decoding.
\<close>

record 'w platform =
  pf_Now :: "'w \<Rightarrow> go_time \<times> 'w"
  pf_RandRead :: "nat \<Rightarrow> 'w \<Rightarrow> (go_error + string) \<times> 'w"
  pf_RandInt :: "int \<Rightarrow> 'w \<Rightarrow> (go_error + int) \<times> 'w"
  pf_GenerateKey :: "'w \<Rightarrow> (go_error + string) \<times> 'w"
  pf_CreateCertificate :: "certificate \<Rightarrow> string \<Rightarrow> 'w \<Rightarrow> (go_error + string) \<times> 'w"
  pf_ParseCertificate :: "string \<Rightarrow> go_error + certificate"
  pf_MarshalPKCS8PrivateKey :: "string \<Rightarrow> go_error + string"
  pf_PemDecode :: "string \<Rightarrow> string option"
  pf_PemEncode :: "string \<Rightarrow> string \<Rightarrow> string"
  pf_SHA256 :: "string \<Rightarrow> string"
  pf_ReencodeNumber :: "string \<Rightarrow> string option"
  pf_UnmarshalError :: "raw_json \<Rightarrow> go_error"

record 'w env =
  kube :: "'w kube_api"
  mach :: "'w machinery"
  plat :: "'w platform"

section \<open>State and primitives\<close>

record 'w rst =
  rs_world :: 'w
  rs_agent :: hermes_agent
  rs_trace :: "api_request list"
  rs_tel :: "tel_event list"

type_synonym ('w, 'a) prog = "('w rst, 'a) state"

text \<open>A step of the world that is an API request, and one that is not.\<close>

definition api_call :: "api_request \<Rightarrow> ('w \<Rightarrow> 'a \<times> 'w) \<Rightarrow> ('w, 'a) prog" where
  "api_call req f =
     State (\<lambda>s. case f (rs_world s) of
                  (a, w) \<Rightarrow> (a, s\<lparr>rs_world := w, rs_trace := rs_trace s @ [req]\<rparr>))"

definition local_call :: "('w \<Rightarrow> 'a \<times> 'w) \<Rightarrow> ('w, 'a) prog" where
  "local_call f = State (\<lambda>s. case f (rs_world s) of (a, w) \<Rightarrow> (a, s\<lparr>rs_world := w\<rparr>))"

definition get_agent :: "('w, hermes_agent) prog" where
  "get_agent = State (\<lambda>s. (rs_agent s, s))"

definition put_agent :: "hermes_agent \<Rightarrow> ('w, unit) prog" where
  "put_agent ha = State (\<lambda>s. ((), s\<lparr>rs_agent := ha\<rparr>))"

definition tel :: "tel_event \<Rightarrow> ('w, unit) prog" where
  "tel ev = State (\<lambda>s. ((), s\<lparr>rs_tel := rs_tel s @ [ev]\<rparr>))"

definition mod_status :: "(hermes_agent_status \<Rightarrow> hermes_agent_status) \<Rightarrow> ('w, unit) prog" where
  "mod_status f = State (\<lambda>s. ((), s\<lparr>rs_agent := ha_Status_update f (rs_agent s)\<rparr>))"

definition mod_managed :: "(managed_resources \<Rightarrow> managed_resources) \<Rightarrow> ('w, unit) prog" where
  "mod_managed f = mod_status (st_ManagedResources_update f)"

section \<open>Results\<close>

record ctrl_result =
  cres_RequeueAfter :: duration

definition IsZero :: "ctrl_result \<Rightarrow> bool" where
  "IsZero r \<longleftrightarrow> cres_RequeueAfter r = 0"

definition done_result :: ctrl_result where
  "done_result = \<lparr>cres_RequeueAfter = 0\<rparr>"

definition requeue :: "int \<Rightarrow> ctrl_result" where
  "requeue secs = \<lparr>cres_RequeueAfter = secs * second\<rparr>"

type_synonym 'w loop = "('w, ctrl_result \<times> go_error option) prog"

definition fail30 :: "go_error \<Rightarrow> 'w loop" where
  "fail30 err = State_Monad.return (requeue 30, Some err)"

definition finish :: "'w loop" where
  "finish = State_Monad.return (done_result, None)"

text \<open>
  The two shapes of an early return: \<^verbatim>\<open>if err := m; err != nil { return requeue after 30s, err }\<close>, and
  the same on a call that returns a value.
\<close>

definition try30 :: "('w, go_error option) prog \<Rightarrow> 'w loop \<Rightarrow> 'w loop" where
  "try30 m k = do { e \<leftarrow> m; case e of Some err \<Rightarrow> fail30 err | None \<Rightarrow> k }"

definition get30 :: "('w, go_error + 'a) prog \<Rightarrow> ('a \<Rightarrow> 'w loop) \<Rightarrow> 'w loop" where
  "get30 m k = do { r \<leftarrow> m; case r of Inl err \<Rightarrow> fail30 err | Inr v \<Rightarrow> k v }"

text \<open>A guarded step, \<^verbatim>\<open>if b { if err := m; err != nil { return ..., err }; log }\<close>, before the rest.\<close>

definition when30 :: "bool \<Rightarrow> ('w, go_error option) prog \<Rightarrow> tel_event \<Rightarrow> 'w loop \<Rightarrow> 'w loop" where
  "when30 b m ev k = (if b then try30 m (do { tel ev; k }) else k)"

lemma IsZero_done [simp]: "IsZero done_result"
  by (simp add: IsZero_def done_result_def)

lemma IsZero_requeue [simp]: "IsZero (requeue n) \<longleftrightarrow> n = 0"
  by (simp add: IsZero_def requeue_def second_def)

section \<open>Rules\<close>

text \<open>Running the primitives.\<close>

lemma run_api_call [simp]:
  "run_state (api_call req f) s =
     (fst (f (rs_world s)), s\<lparr>rs_world := snd (f (rs_world s)), rs_trace := rs_trace s @ [req]\<rparr>)"
  by (simp add: api_call_def split: prod.split)

lemma run_local_call [simp]:
  "run_state (local_call f) s = (fst (f (rs_world s)), s\<lparr>rs_world := snd (f (rs_world s))\<rparr>)"
  by (simp add: local_call_def split: prod.split)

lemma run_get_agent [simp]: "run_state get_agent s = (rs_agent s, s)"
  by (simp add: get_agent_def)

lemma run_put_agent [simp]: "run_state (put_agent ha) s = ((), s\<lparr>rs_agent := ha\<rparr>)"
  by (simp add: put_agent_def)

lemma run_tel [simp]: "run_state (tel ev) s = ((), s\<lparr>rs_tel := rs_tel s @ [ev]\<rparr>)"
  by (simp add: tel_def)

lemma run_mod_status [simp]:
  "run_state (mod_status f) s = ((), s\<lparr>rs_agent := ha_Status_update f (rs_agent s)\<rparr>)"
  by (simp add: mod_status_def)

lemma run_mod_managed [simp]:
  "run_state (mod_managed f) s =
     ((), s\<lparr>rs_agent := ha_Status_update (st_ManagedResources_update f) (rs_agent s)\<rparr>)"
  by (simp add: mod_managed_def)

lemma run_bind [simp]:
  "run_state (State_Monad.bind m f) s = (case run_state m s of (a, s') \<Rightarrow> run_state (f a) s')"
  by (simp add: State_Monad.bind_def)

lemma run_return [simp]: "run_state (State_Monad.return a) s = (a, s)"
  by (simp add: State_Monad.return_def)

text \<open>
  Hoare triples: \<open>hoare P m Q\<close> says that from a state with \<open>P\<close> the program ends, and its result and
  final state satisfy \<open>Q\<close>.  Every program of the model is a total function, so this is total
  correctness.
\<close>

definition hoare :: "('w rst \<Rightarrow> bool) \<Rightarrow> ('w, 'a) prog \<Rightarrow> ('a \<Rightarrow> 'w rst \<Rightarrow> bool) \<Rightarrow> bool" where
  "hoare P m Q \<longleftrightarrow> (\<forall>s. P s \<longrightarrow> (case run_state m s of (a, s') \<Rightarrow> Q a s'))"

lemma hoareD: "hoare P m Q \<Longrightarrow> P s \<Longrightarrow> run_state m s = (a, s') \<Longrightarrow> Q a s'"
  by (auto simp: hoare_def)

lemma hoare_pre: "hoare P m Q \<Longrightarrow> (\<And>s. P' s \<Longrightarrow> P s) \<Longrightarrow> hoare P' m Q"
  by (auto simp: hoare_def)

lemma hoare_post: "hoare P m Q \<Longrightarrow> (\<And>a s. Q a s \<Longrightarrow> Q' a s) \<Longrightarrow> hoare P m Q'"
  by (fastforce simp: hoare_def split: prod.splits)

lemma hoare_bind: "hoare P m R \<Longrightarrow> (\<And>a. hoare (R a) (f a) Q) \<Longrightarrow> hoare P (State_Monad.bind m f) Q"
  by (fastforce simp: hoare_def split: prod.splits)

text \<open>
  Programs that keep an assertion about the agent and the requests, whatever they return.  The
  first premise of \<open>keeps_get\<close> carries what is known of the agent that was read.
\<close>

definition keeps :: "('w rst \<Rightarrow> bool) \<Rightarrow> ('w, 'a) prog \<Rightarrow> bool" where
  "keeps I m \<longleftrightarrow> hoare I m (\<lambda>_. I)"

lemma keepsD: "keeps I m \<Longrightarrow> I s \<Longrightarrow> I (snd (run_state m s))"
  by (simp add: keeps_def hoare_def case_prod_unfold)

lemma keepsI: "(\<And>s. I s \<Longrightarrow> I (snd (run_state m s))) \<Longrightarrow> keeps I m"
  by (simp add: keeps_def hoare_def case_prod_unfold)

lemma keeps_bind [wp_intros]:
  "keeps I m \<Longrightarrow> (\<And>a. keeps I (f a)) \<Longrightarrow> keeps I (State_Monad.bind m f)"
  unfolding keeps_def by (rule hoare_bind)

lemma keeps_return [wp_intros]: "keeps I (State_Monad.return a)"
  by (simp add: keeps_def hoare_def)

lemma keeps_if [wp_intros]: "(b \<Longrightarrow> keeps I m) \<Longrightarrow> (\<not> b \<Longrightarrow> keeps I n) \<Longrightarrow> keeps I (if b then m else n)"
  by simp

lemma keeps_case_option [wp_intros]:
  "(x = None \<Longrightarrow> keeps I m) \<Longrightarrow> (\<And>v. x = Some v \<Longrightarrow> keeps I (f v)) \<Longrightarrow>
     keeps I (case x of None \<Rightarrow> m | Some v \<Rightarrow> f v)"
  by (cases x) auto

lemma keeps_case_sum [wp_intros]:
  "(\<And>e. x = Inl e \<Longrightarrow> keeps I (f e)) \<Longrightarrow> (\<And>v. x = Inr v \<Longrightarrow> keeps I (g v)) \<Longrightarrow>
     keeps I (case x of Inl e \<Rightarrow> f e | Inr v \<Rightarrow> g v)"
  by (cases x) auto

lemma keeps_case_prod [wp_intros]:
  "(\<And>a b. x = (a, b) \<Longrightarrow> keeps I (f a b)) \<Longrightarrow> keeps I (case x of (a, b) \<Rightarrow> f a b)"
  by (cases x) auto

lemma keeps_let [wp_intros]: "keeps I (f x) \<Longrightarrow> keeps I (let v = x in f v)"
  by simp

lemma keeps_get [wp_intros]: "keeps I get_agent"
  by (simp add: keeps_def hoare_def)

lemma keeps_fail30 [wp_intros]: "keeps I (fail30 err)"
  by (simp add: fail30_def keeps_return)

lemma keeps_finish [wp_intros]: "keeps I finish"
  by (simp add: finish_def keeps_return)

lemma keeps_try30 [wp_intros]: "keeps I m \<Longrightarrow> keeps I k \<Longrightarrow> keeps I (try30 m k)"
  unfolding try30_def by (intro wp_intros)

lemma keeps_get30 [wp_intros]: "keeps I m \<Longrightarrow> (\<And>v. keeps I (k v)) \<Longrightarrow> keeps I (get30 m k)"
  unfolding get30_def by (intro wp_intros)

text \<open>Reading the agent when the assertion says what it is.\<close>

lemma keeps_get_bind:
  assumes "\<And>s. I s \<Longrightarrow> K (rs_agent s)" and "\<And>ha. K ha \<Longrightarrow> keeps I (f ha)"
  shows "keeps I (State_Monad.bind get_agent f)"
proof (rule keepsI)
  fix s assume "I s"
  then show "I (snd (run_state (State_Monad.bind get_agent f) s))"
    using keepsD [OF assms(2) [OF assms(1)]] by simp
qed

end
