(* ===== verification/Infra.thy ===== *)
theory Infra
  imports Runtime
begin

text \<open>
  The Kubernetes adapter (\<^verbatim>\<open>internal/infras/kubernetes.go\<close>) and the conditions of the agent
  (\<^verbatim>\<open>internal/usecase/hermesagent_conditions.go\<close>).  The adapter's methods for one kind of object are
  the same code at another type: \<open>get_object\<close>, \<open>create_owned\<close>, \<open>update_owned\<close> and \<open>delete_object\<close>
  are that code, and each method instantiates it.
\<close>

section \<open>The shape of the typed methods\<close>

text \<open>A kind: its tag, how an object of it is recorded in a request, and where its metadata is.\<close>

record 'o kind_info =
  ki_kind :: api_kind
  ki_wrap :: "'o \<Rightarrow> api_object"
  ki_meta :: "'o \<Rightarrow> objectmeta"
  ki_set_meta :: "objectmeta \<Rightarrow> 'o \<Rightarrow> 'o"

text \<open>\<^verbatim>\<open>Get\<close>: a not-found error is the absence of the object, any other error is passed on.\<close>

definition not_found_nil :: "go_error + 'o \<Rightarrow> go_error + 'o option" where
  "not_found_nil r =
     (case r of Inl err \<Rightarrow> if IsNotFound err then Inr None else Inl err | Inr obj \<Rightarrow> Inr (Some obj))"

definition get_object ::
  "'o kind_info \<Rightarrow> ('w, 'o) rclient \<Rightarrow> namespaced_name \<Rightarrow> ('w, go_error + 'o option) prog" where
  "get_object k c nn =
     do { r \<leftarrow> api_call (GetReq (ki_kind k) nn) (rc_Get c nn); State_Monad.return (not_found_nil r) }"

definition create_owned ::
  "'w env \<Rightarrow> 'o kind_info \<Rightarrow> ('w, 'o) rclient \<Rightarrow> 'o \<Rightarrow> ('w, go_error option) prog" where
  "create_owned E k c obj =
     do { ha \<leftarrow> get_agent;
          case am_SetControllerReference (mach E) ha (ki_meta k obj) of
            Inl err \<Rightarrow> State_Monad.return (Some err)
          | Inr m \<Rightarrow> (let obj' = ki_set_meta k m obj in
                     api_call (CreateReq (ki_wrap k obj')) (rc_Create c obj')) }"

definition update_owned ::
  "'w env \<Rightarrow> 'o kind_info \<Rightarrow> ('w, 'o) rclient \<Rightarrow> 'o \<Rightarrow> ('w, go_error option) prog" where
  "update_owned E k c obj =
     do { ha \<leftarrow> get_agent;
          case am_SetControllerReference (mach E) ha (ki_meta k obj) of
            Inl err \<Rightarrow> State_Monad.return (Some err)
          | Inr m \<Rightarrow> (let obj' = ki_set_meta k m obj in
                     api_call (UpdateReq (ki_wrap k obj')) (rc_Update c obj')) }"

definition IgnoreNotFound :: "go_error option \<Rightarrow> go_error option" where
  "IgnoreNotFound e = (case e of None \<Rightarrow> None | Some err \<Rightarrow> if IsNotFound err then None else Some err)"

definition delete_object ::
  "'o kind_info \<Rightarrow> ('w, 'o) rclient \<Rightarrow> namespaced_name \<Rightarrow> ('w, go_error option) prog" where
  "delete_object k c nn =
     do { r \<leftarrow> api_call (DeleteReq (ki_kind k) nn) (rc_Delete c nn); State_Monad.return (IgnoreNotFound r) }"

definition kConfigMap :: "configmap kind_info" where
  "kConfigMap = \<lparr>ki_kind = KConfigMap, ki_wrap = OConfigMap, ki_meta = cm_meta, ki_set_meta = (\<lambda>m. cm_meta_update (\<lambda>_. m))\<rparr>"
definition kSecret :: "secret kind_info" where
  "kSecret = \<lparr>ki_kind = KSecret, ki_wrap = OSecret, ki_meta = sec_meta, ki_set_meta = (\<lambda>m. sec_meta_update (\<lambda>_. m))\<rparr>"
definition kStatefulSet :: "statefulset kind_info" where
  "kStatefulSet = \<lparr>ki_kind = KStatefulSet, ki_wrap = OStatefulSet, ki_meta = sts_meta, ki_set_meta = (\<lambda>m. sts_meta_update (\<lambda>_. m))\<rparr>"
definition kServiceAccount :: "service_account kind_info" where
  "kServiceAccount = \<lparr>ki_kind = KServiceAccount, ki_wrap = OServiceAccount, ki_meta = sa_meta, ki_set_meta = (\<lambda>m. sa_meta_update (\<lambda>_. m))\<rparr>"
definition kRole :: "role kind_info" where
  "kRole = \<lparr>ki_kind = KRole, ki_wrap = ORole, ki_meta = role_meta, ki_set_meta = (\<lambda>m. role_meta_update (\<lambda>_. m))\<rparr>"
definition kRoleBinding :: "role_binding kind_info" where
  "kRoleBinding = \<lparr>ki_kind = KRoleBinding, ki_wrap = ORoleBinding, ki_meta = rb_meta, ki_set_meta = (\<lambda>m. rb_meta_update (\<lambda>_. m))\<rparr>"
definition kService :: "k8s_service kind_info" where
  "kService = \<lparr>ki_kind = KService, ki_wrap = OService, ki_meta = svc_meta, ki_set_meta = (\<lambda>m. svc_meta_update (\<lambda>_. m))\<rparr>"
definition kIngress :: "k8s_ingress kind_info" where
  "kIngress = \<lparr>ki_kind = KIngress, ki_wrap = OIngress, ki_meta = ing_meta, ki_set_meta = (\<lambda>m. ing_meta_update (\<lambda>_. m))\<rparr>"
definition kNetworkPolicy :: "k8s_network_policy kind_info" where
  "kNetworkPolicy = \<lparr>ki_kind = KNetworkPolicy, ki_wrap = ONetworkPolicy, ki_meta = np_meta, ki_set_meta = (\<lambda>m. np_meta_update (\<lambda>_. m))\<rparr>"
definition kPersistentVolumeClaim :: "persistent_volume_claim kind_info" where
  "kPersistentVolumeClaim = \<lparr>ki_kind = KPersistentVolumeClaim, ki_wrap = OPersistentVolumeClaim, ki_meta = pvc_meta, ki_set_meta = (\<lambda>m. pvc_meta_update (\<lambda>_. m))\<rparr>"
definition kPod :: "pod kind_info" where
  "kPod = \<lparr>ki_kind = KPod, ki_wrap = OPod, ki_meta = pod_meta, ki_set_meta = (\<lambda>m. pod_meta_update (\<lambda>_. m))\<rparr>"

lemmas kind_defs = kConfigMap_def kSecret_def kStatefulSet_def kServiceAccount_def kRole_def
  kRoleBinding_def kService_def kIngress_def kNetworkPolicy_def kPersistentVolumeClaim_def kPod_def

section \<open>The methods\<close>

definition GetHermesAgent :: "'w env \<Rightarrow> namespaced_name \<Rightarrow> ('w, go_error + hermes_agent option) prog" where
  "GetHermesAgent E nn =
     do { r \<leftarrow> api_call (GetReq KHermesAgent nn) (ka_GetHermesAgent (kube E) nn);
          State_Monad.return (not_found_nil r) }"

text \<open>A successful status update decodes the server's answer into the agent object.\<close>

definition UpdateHermesAgentStatus :: "'w env \<Rightarrow> ('w, go_error option) prog" where
  "UpdateHermesAgentStatus E =
     do { ha \<leftarrow> get_agent;
          r \<leftarrow> api_call (StatusReq ha) (ka_StatusUpdate (kube E) ha);
          case r of
            Inl err \<Rightarrow> State_Monad.return (Some err)
          | Inr ha' \<Rightarrow> do { put_agent ha'; State_Monad.return None } }"

definition GetPod where "GetPod E = get_object kPod (ka_Pod (kube E))"
definition DeletePod where "DeletePod E = delete_object kPod (ka_Pod (kube E))"

definition GetConfigMap where "GetConfigMap E = get_object kConfigMap (ka_ConfigMap (kube E))"
definition CreateConfigMapOwnedByHermesAgent where
  "CreateConfigMapOwnedByHermesAgent E = create_owned E kConfigMap (ka_ConfigMap (kube E))"
definition UpdateConfigMapOwnedByHermesAgent where
  "UpdateConfigMapOwnedByHermesAgent E = update_owned E kConfigMap (ka_ConfigMap (kube E))"
definition DeleteConfigMap where "DeleteConfigMap E = delete_object kConfigMap (ka_ConfigMap (kube E))"

definition GetSecret where "GetSecret E = get_object kSecret (ka_Secret (kube E))"
definition CreateSecretOwnedByHermesAgent where
  "CreateSecretOwnedByHermesAgent E = create_owned E kSecret (ka_Secret (kube E))"
definition UpdateSecretOwnedByHermesAgent where
  "UpdateSecretOwnedByHermesAgent E = update_owned E kSecret (ka_Secret (kube E))"
definition DeleteSecret where "DeleteSecret E = delete_object kSecret (ka_Secret (kube E))"

definition GetStatefulSet where "GetStatefulSet E = get_object kStatefulSet (ka_StatefulSet (kube E))"
definition CreateStatefulSetOwnedByHermesAgent where
  "CreateStatefulSetOwnedByHermesAgent E = create_owned E kStatefulSet (ka_StatefulSet (kube E))"
definition UpdateStatefulSetOwnedByHermesAgent where
  "UpdateStatefulSetOwnedByHermesAgent E = update_owned E kStatefulSet (ka_StatefulSet (kube E))"
definition DeleteStatefulSet where "DeleteStatefulSet E = delete_object kStatefulSet (ka_StatefulSet (kube E))"

definition GetServiceAccount where "GetServiceAccount E = get_object kServiceAccount (ka_ServiceAccount (kube E))"
definition CreateServiceAccountOwnedByHermesAgent where
  "CreateServiceAccountOwnedByHermesAgent E = create_owned E kServiceAccount (ka_ServiceAccount (kube E))"
definition UpdateServiceAccountOwnedByHermesAgent where
  "UpdateServiceAccountOwnedByHermesAgent E = update_owned E kServiceAccount (ka_ServiceAccount (kube E))"
definition DeleteServiceAccount where
  "DeleteServiceAccount E = delete_object kServiceAccount (ka_ServiceAccount (kube E))"

definition GetRole where "GetRole E = get_object kRole (ka_Role (kube E))"
definition CreateRoleOwnedByHermesAgent where
  "CreateRoleOwnedByHermesAgent E = create_owned E kRole (ka_Role (kube E))"
definition UpdateRoleOwnedByHermesAgent where
  "UpdateRoleOwnedByHermesAgent E = update_owned E kRole (ka_Role (kube E))"
definition DeleteRole where "DeleteRole E = delete_object kRole (ka_Role (kube E))"

definition GetRoleBinding where "GetRoleBinding E = get_object kRoleBinding (ka_RoleBinding (kube E))"
definition CreateRoleBindingOwnedByHermesAgent where
  "CreateRoleBindingOwnedByHermesAgent E = create_owned E kRoleBinding (ka_RoleBinding (kube E))"
definition UpdateRoleBindingOwnedByHermesAgent where
  "UpdateRoleBindingOwnedByHermesAgent E = update_owned E kRoleBinding (ka_RoleBinding (kube E))"
definition DeleteRoleBinding where "DeleteRoleBinding E = delete_object kRoleBinding (ka_RoleBinding (kube E))"

definition GetService where "GetService E = get_object kService (ka_Service (kube E))"
definition CreateServiceOwnedByHermesAgent where
  "CreateServiceOwnedByHermesAgent E = create_owned E kService (ka_Service (kube E))"
definition UpdateServiceOwnedByHermesAgent where
  "UpdateServiceOwnedByHermesAgent E = update_owned E kService (ka_Service (kube E))"
definition DeleteService where "DeleteService E = delete_object kService (ka_Service (kube E))"

definition GetIngress where "GetIngress E = get_object kIngress (ka_Ingress (kube E))"
definition CreateIngressOwnedByHermesAgent where
  "CreateIngressOwnedByHermesAgent E = create_owned E kIngress (ka_Ingress (kube E))"
definition UpdateIngressOwnedByHermesAgent where
  "UpdateIngressOwnedByHermesAgent E = update_owned E kIngress (ka_Ingress (kube E))"
definition DeleteIngress where "DeleteIngress E = delete_object kIngress (ka_Ingress (kube E))"

definition GetNetworkPolicy where "GetNetworkPolicy E = get_object kNetworkPolicy (ka_NetworkPolicy (kube E))"
definition CreateNetworkPolicyOwnedByHermesAgent where
  "CreateNetworkPolicyOwnedByHermesAgent E = create_owned E kNetworkPolicy (ka_NetworkPolicy (kube E))"
definition UpdateNetworkPolicyOwnedByHermesAgent where
  "UpdateNetworkPolicyOwnedByHermesAgent E = update_owned E kNetworkPolicy (ka_NetworkPolicy (kube E))"
definition DeleteNetworkPolicy where
  "DeleteNetworkPolicy E = delete_object kNetworkPolicy (ka_NetworkPolicy (kube E))"

definition GetPersistentVolumeClaim where
  "GetPersistentVolumeClaim E = get_object kPersistentVolumeClaim (ka_PersistentVolumeClaim (kube E))"
definition CreatePersistentVolumeClaimOwnedByHermesAgent where
  "CreatePersistentVolumeClaimOwnedByHermesAgent E =
     create_owned E kPersistentVolumeClaim (ka_PersistentVolumeClaim (kube E))"

section \<open>Volume snapshots\<close>

definition volumeSnapshotGroup :: string where "volumeSnapshotGroup = ''snapshot.storage.k8s.io''"
definition volumeSnapshotVersion :: string where "volumeSnapshotVersion = ''v1''"
definition volumeSnapshotKind :: string where "volumeSnapshotKind = ''VolumeSnapshot''"
definition snapshotAgentLabel :: string where "snapshotAgentLabel = ''agents.hermeum.app/agent''"

definition volumeSnapshotGVK :: gvk where
  "volumeSnapshotGVK =
     \<lparr>gvk_Group = volumeSnapshotGroup, gvk_Version = volumeSnapshotVersion, gvk_Kind = ''VolumeSnapshotList''\<rparr>"

definition volumeSnapshotObjectGVK :: gvk where
  "volumeSnapshotObjectGVK =
     \<lparr>gvk_Group = volumeSnapshotGroup, gvk_Version = volumeSnapshotVersion, gvk_Kind = volumeSnapshotKind\<rparr>"

definition SetGroupVersionKind :: "gvk \<Rightarrow> unstructured \<Rightarrow> unstructured" where
  "SetGroupVersionKind g obj =
     map_put ''kind'' (JStr (gvk_Kind g))
       (map_put ''apiVersion'' (JStr (gvk_Group g @ ''/'' @ gvk_Version g)) obj)"

definition toUnstructuredVolumeSnapshot :: "'w env \<Rightarrow> volume_snapshot \<Rightarrow> go_error + unstructured" where
  "toUnstructuredVolumeSnapshot E snapshot =
     (case am_ToUnstructured (mach E) snapshot of
        Inl err \<Rightarrow> Inl err
      | Inr raw \<Rightarrow> Inr (map_put ''kind'' (JStr volumeSnapshotKind)
                        (SetGroupVersionKind volumeSnapshotObjectGVK raw)))"

definition fromUnstructuredVolumeSnapshot :: "'w env \<Rightarrow> unstructured \<Rightarrow> go_error + volume_snapshot" where
  "fromUnstructuredVolumeSnapshot E obj = am_FromUnstructured (mach E) obj"

definition GetVolumeSnapshot :: "'w env \<Rightarrow> namespaced_name \<Rightarrow> ('w, go_error + volume_snapshot option) prog" where
  "GetVolumeSnapshot E nn =
     do { r \<leftarrow> api_call (GetReq (KUnstructured volumeSnapshotObjectGVK) nn)
                 (ka_GetUnstructured (kube E) volumeSnapshotObjectGVK nn);
          State_Monad.return (case r of
            Inl err \<Rightarrow> if IsNotFound err then Inr None else Inl err
          | Inr obj \<Rightarrow> (case fromUnstructuredVolumeSnapshot E obj of
                         Inl err \<Rightarrow> Inl err | Inr s \<Rightarrow> Inr (Some s))) }"

fun convert_items :: "'w env \<Rightarrow> unstructured list \<Rightarrow> go_error + volume_snapshot list" where
  "convert_items E [] = Inr []"
| "convert_items E (obj # objs) =
     (case fromUnstructuredVolumeSnapshot E obj of
        Inl err \<Rightarrow> Inl err
      | Inr s \<Rightarrow> (case convert_items E objs of Inl err \<Rightarrow> Inl err | Inr ss \<Rightarrow> Inr (s # ss)))"

definition ListVolumeSnapshotsOwnedByAgent ::
  "'w env \<Rightarrow> string \<Rightarrow> string \<Rightarrow> ('w, go_error + volume_snapshot list) prog" where
  "ListVolumeSnapshotsOwnedByAgent E ns agentName =
     do { r \<leftarrow> api_call (ListReq (KUnstructured volumeSnapshotGVK) ns [(snapshotAgentLabel, agentName)])
                 (ka_ListUnstructured (kube E) volumeSnapshotGVK ns [(snapshotAgentLabel, agentName)]);
          State_Monad.return (case r of Inl err \<Rightarrow> Inl err | Inr objs \<Rightarrow> convert_items E objs) }"

definition label_snapshot :: "hermes_agent \<Rightarrow> volume_snapshot \<Rightarrow> volume_snapshot" where
  "label_snapshot ha = vs_meta_update (om_Labels_update (map_put snapshotAgentLabel (ha_Name ha)))"

definition CreateVolumeSnapshotOwnedByHermesAgent ::
  "'w env \<Rightarrow> volume_snapshot \<Rightarrow> ('w, go_error option) prog" where
  "CreateVolumeSnapshotOwnedByHermesAgent E snapshot =
     do { ha \<leftarrow> get_agent;
          case toUnstructuredVolumeSnapshot E (label_snapshot ha snapshot) of
            Inl err \<Rightarrow> State_Monad.return (Some err)
          | Inr obj \<Rightarrow> api_call (CreateReq (OUnstructured obj)) (ka_CreateUnstructured (kube E) obj) }"

definition DeleteVolumeSnapshot :: "'w env \<Rightarrow> namespaced_name \<Rightarrow> ('w, go_error option) prog" where
  "DeleteVolumeSnapshot E nn =
     do { r \<leftarrow> api_call (DeleteReq (KUnstructured volumeSnapshotGVK) nn)
                 (ka_DeleteUnstructured (kube E) volumeSnapshotGVK nn);
          State_Monad.return (IgnoreNotFound r) }"

section \<open>Conditions\<close>

definition condReasonReconcileSucceeded :: string where "condReasonReconcileSucceeded = ''ReconcileSucceeded''"
definition condReasonHermesConfigMapFailed :: string where "condReasonHermesConfigMapFailed = ''HermesConfigMapReconcileFailed''"
definition condReasonHermesSecretFailed :: string where "condReasonHermesSecretFailed = ''HermesSecretReconcileFailed''"
definition condReasonSearXNGConfigMapFail :: string where "condReasonSearXNGConfigMapFail = ''SearXNGConfigMapReconcileFailed''"
definition condReasonSearXNGSecretFailed :: string where "condReasonSearXNGSecretFailed = ''SearXNGSecretReconcileFailed''"
definition condReasonServiceAccountFailed :: string where "condReasonServiceAccountFailed = ''ServiceAccountReconcileFailed''"
definition condReasonRoleFailed :: string where "condReasonRoleFailed = ''RoleReconcileFailed''"
definition condReasonServiceFailed :: string where "condReasonServiceFailed = ''ServiceReconcileFailed''"
definition condReasonIngressFailed :: string where "condReasonIngressFailed = ''IngressReconcileFailed''"
definition condReasonNetworkPolicyFailed :: string where "condReasonNetworkPolicyFailed = ''NetworkPolicyReconcileFailed''"
definition condReasonEgressCAFailed :: string where "condReasonEgressCAFailed = ''EgressCAReconcileFailed''"
definition condReasonEgressSecretFailed :: string where "condReasonEgressSecretFailed = ''EgressSecretReconcileFailed''"
definition condReasonStatefulSetFailed :: string where "condReasonStatefulSetFailed = ''StatefulSetReconcileFailed''"

definition ConditionTrue :: string where "ConditionTrue = ''True''"
definition ConditionFalse :: string where "ConditionFalse = ''False''"

text \<open>\<^verbatim>\<open>meta.SetStatusCondition\<close> and \<^verbatim>\<open>meta.RemoveStatusCondition\<close> on the agent's conditions.\<close>

definition set_condition :: "'w env \<Rightarrow> string \<Rightarrow> string \<Rightarrow> string \<Rightarrow> string \<Rightarrow> ('w, bool) prog" where
  "set_condition E typ status reason message =
     do { ha \<leftarrow> get_agent;
          r \<leftarrow> local_call (am_SetStatusCondition (mach E) (st_Conditions (ha_Status ha))
                 \<lparr>co_Type = typ, co_Status = status, co_ObservedGeneration = om_Generation (ha_meta ha),
                  co_LastTransitionTime = 0, co_Reason = reason, co_Message = message\<rparr>);
          mod_status (st_Conditions_update (\<lambda>_. snd r));
          State_Monad.return (fst r) }"

definition remove_condition :: "'w env \<Rightarrow> string \<Rightarrow> ('w, bool) prog" where
  "remove_condition E typ =
     do { ha \<leftarrow> get_agent;
          let r = am_RemoveStatusCondition (mach E) (st_Conditions (ha_Status ha)) typ;
          mod_status (st_Conditions_update (\<lambda>_. snd r));
          State_Monad.return (fst r) }"

definition setReadyCondition :: "'w env \<Rightarrow> string \<Rightarrow> string \<Rightarrow> string \<Rightarrow> ('w, bool) prog" where
  "setReadyCondition E status reason message = set_condition E ConditionReady status reason message"

definition markReady :: "'w env \<Rightarrow> ('w, bool) prog" where
  "markReady E =
     do { changed \<leftarrow> setReadyCondition E ConditionTrue condReasonReconcileSucceeded ''Reconciled all managed resources'';
          (if changed then tel (LogInfo ''HermesAgent reconciled successfully'') else State_Monad.return ());
          State_Monad.return changed }"

definition markReconcileFailed :: "'w env \<Rightarrow> string \<Rightarrow> go_error \<Rightarrow> ('w, go_error) prog" where
  "markReconcileFailed E reason reconcileErr =
     do { changed \<leftarrow> setReadyCondition E ConditionFalse reason (err_text reconcileErr);
          if \<not> changed then State_Monad.return reconcileErr
          else do { tel (LogError reconcileErr ''Reconciliation failed'');
                    r \<leftarrow> UpdateHermesAgentStatus E;
                    (case r of
                       None \<Rightarrow> State_Monad.return ()
                     | Some err \<Rightarrow> tel (LogError err ''Could not update Ready condition after reconcile failure''));
                    State_Monad.return reconcileErr } }"

text \<open>The deferred function at the head of a loop: a failing loop marks the agent and keeps its result.\<close>

definition defer_mark :: "'w env \<Rightarrow> string \<Rightarrow> 'w loop \<Rightarrow> 'w loop" where
  "defer_mark E reason body =
     do { r \<leftarrow> body;
          (case snd r of
             None \<Rightarrow> State_Monad.return r
           | Some err \<Rightarrow> do { err' \<leftarrow> markReconcileFailed E reason err;
                             State_Monad.return (fst r, Some err') }) }"

text \<open>The status update at the end of a branch: \<^verbatim>\<open>if err := UpdateHermesAgentStatus(...); err != nil\<close>.\<close>

definition status_then_finish :: "'w env \<Rightarrow> 'w loop" where
  "status_then_finish E =
     try30 (UpdateHermesAgentStatus E) finish"

lemmas client_defs = GetPod_def DeletePod_def GetConfigMap_def CreateConfigMapOwnedByHermesAgent_def
  UpdateConfigMapOwnedByHermesAgent_def DeleteConfigMap_def GetSecret_def
  CreateSecretOwnedByHermesAgent_def UpdateSecretOwnedByHermesAgent_def DeleteSecret_def
  GetStatefulSet_def CreateStatefulSetOwnedByHermesAgent_def UpdateStatefulSetOwnedByHermesAgent_def
  DeleteStatefulSet_def GetServiceAccount_def CreateServiceAccountOwnedByHermesAgent_def
  UpdateServiceAccountOwnedByHermesAgent_def DeleteServiceAccount_def GetRole_def
  CreateRoleOwnedByHermesAgent_def UpdateRoleOwnedByHermesAgent_def DeleteRole_def GetRoleBinding_def
  CreateRoleBindingOwnedByHermesAgent_def UpdateRoleBindingOwnedByHermesAgent_def DeleteRoleBinding_def
  GetService_def CreateServiceOwnedByHermesAgent_def UpdateServiceOwnedByHermesAgent_def
  DeleteService_def GetIngress_def CreateIngressOwnedByHermesAgent_def
  UpdateIngressOwnedByHermesAgent_def DeleteIngress_def GetNetworkPolicy_def
  CreateNetworkPolicyOwnedByHermesAgent_def UpdateNetworkPolicyOwnedByHermesAgent_def
  DeleteNetworkPolicy_def GetPersistentVolumeClaim_def
  CreatePersistentVolumeClaimOwnedByHermesAgent_def

section \<open>A failing loop is reported and its error kept\<close>

text \<open>The Ready condition of a failure, as it is passed to \<^verbatim>\<open>meta.SetStatusCondition\<close>.\<close>

definition failed_condition :: "hermes_agent \<Rightarrow> string \<Rightarrow> go_error \<Rightarrow> condition" where
  "failed_condition ha reason err =
     \<lparr>co_Type = ConditionReady, co_Status = ConditionFalse, co_ObservedGeneration = om_Generation (ha_meta ha),
      co_LastTransitionTime = 0, co_Reason = reason, co_Message = err_text err\<rparr>"

lemma run_UpdateHermesAgentStatus_trace:
  "rs_trace (snd (run_state (UpdateHermesAgentStatus E) s)) = rs_trace s @ [StatusReq (rs_agent s)]"
  by (simp add: UpdateHermesAgentStatus_def case_prod_unfold split: sum.split)

text \<open>
  C19: The deferred function of a loop changes neither its result nor its error, whatever the cluster
  answers; without an error it issues no request; and on an error it sets the Ready condition of the
  agent to False, with the reason of the loop and the text of the error, and sends the status with it
  exactly when that changed the conditions.
\<close>

theorem defer_mark_keeps_error:
  "fst (run_state (defer_mark E reason body) s) = fst (run_state body s) \<and>
   (case run_state body s of
      ((res, None), s1) \<Rightarrow> snd (run_state (defer_mark E reason body) s) = s1
    | ((res, Some err), s1) \<Rightarrow>
        (case fst (am_SetStatusCondition (mach E) (st_Conditions (ha_Status (rs_agent s1)))
                     (failed_condition (rs_agent s1) reason err) (rs_world s1)) of
           (changed, conds) \<Rightarrow>
             rs_trace (snd (run_state (defer_mark E reason body) s)) =
               rs_trace s1 @ (if changed
                              then [StatusReq (ha_Status_update (st_Conditions_update (\<lambda>_. conds)) (rs_agent s1))]
                              else [])))"
proof -
  obtain res e s1 where body: "run_state body s = ((res, e), s1)" by (metis prod.collapse)
  show ?thesis
  proof (cases e)
    case None
    with body show ?thesis by (simp add: defer_mark_def)
  next
    case (Some err)
    obtain changed conds w where
      c: "am_SetStatusCondition (mach E) (st_Conditions (ha_Status (rs_agent s1)))
            (failed_condition (rs_agent s1) reason err) (rs_world s1) = ((changed, conds), w)"
      by (metis prod.collapse)
    from body Some c show ?thesis
      by (auto simp: defer_mark_def markReconcileFailed_def setReadyCondition_def set_condition_def
          failed_condition_def UpdateHermesAgentStatus_def case_prod_unfold split: sum.split)
  qed
qed

end
