(* ===== verification/Owned_Config.thy ===== *)
theory Owned_Config
  imports Infra
begin

text \<open>
  The loops for the Hermes Secret, the SearXNG ConfigMap and the SearXNG Secret
  (\<^verbatim>\<open>hermesagent_hermes_secret.go\<close>, \<^verbatim>\<open>hermesagent_searxng_configmap.go\<close>,
  \<^verbatim>\<open>hermesagent_searxng_secret.go\<close>) with the helper \<^verbatim>\<open>configMapDataEqual\<close>.
\<close>

definition configMapDataEqual :: "configmap \<Rightarrow> configmap \<Rightarrow> bool" where
  "configMapDataEqual a b \<longleftrightarrow> maps_Equal (cm_Data a) (cm_Data b)"

section \<open>The Hermes Secret\<close>

text \<open>
  One stable key: kept from the existing Secret when there is one, generated from 32 random bytes
  when the kept value is missing or empty.
\<close>

definition random_hex :: "'w env \<Rightarrow> nat \<Rightarrow> ('w, go_error + string) prog" where
  "random_hex E n =
     do { r \<leftarrow> local_call (pf_RandRead (plat E) n);
          State_Monad.return (case r of Inl err \<Rightarrow> Inl err | Inr raw \<Rightarrow> Inr (hex_bytes raw)) }"

definition stable_key ::
  "'w env \<Rightarrow> secret option \<Rightarrow> string \<Rightarrow> string gomap \<Rightarrow> ('w, go_error + string gomap) prog" where
  "stable_key E existing key data =
     (let data1 = (case existing of Some ex \<Rightarrow> map_put key (map_str (sec_Data ex) key) data | None \<Rightarrow> data) in
      if map_str data1 key = []
      then do { r \<leftarrow> random_hex E 32;
                State_Monad.return (case r of Inl err \<Rightarrow> Inl err | Inr v \<Rightarrow> Inr (map_put key v data1)) }
      else State_Monad.return (Inr data1))"

definition buildHermesSecret ::
  "'w env \<Rightarrow> hermes_agent \<Rightarrow> secret option \<Rightarrow> ('w, go_error + secret) prog" where
  "buildHermesSecret E ha existing =
     do { r1 \<leftarrow> (if HermesAPIServer_IsEnabled (Hermes_GetAPIServer (GetHermes ha))
                then stable_key E existing ''API_SERVER_KEY'' [] else State_Monad.return (Inr []));
          case r1 of
            Inl err \<Rightarrow> State_Monad.return (Inl err)
          | Inr data1 \<Rightarrow>
              do { r2 \<leftarrow> (if HermesWebhook_IsEnabled (Hermes_GetWebhook (GetHermes ha))
                         then stable_key E existing ''WEBHOOK_SECRET'' data1 else State_Monad.return (Inr data1));
                   State_Monad.return (case r2 of
                     Inl err \<Rightarrow> Inl err
                   | Inr data2 \<Rightarrow>
                       Inr \<lparr>sec_meta = objectMeta (GetHermesName ha) (ha_Namespace ha) (ResourceLabels ha),
                            sec_Data = data2\<rparr>) } }"

definition reconcileHermesSecret :: "'w env \<Rightarrow> 'w loop" where
  "reconcileHermesSecret E = defer_mark E condReasonHermesSecretFailed
     (do { ha \<leftarrow> get_agent;
           let secretNsName = \<lparr>nn_Namespace = ha_Namespace ha, nn_Name = GetHermesName ha\<rparr>;
           get30 (GetSecret E secretNsName) (\<lambda>existing.
           get30 (buildHermesSecret E ha existing) (\<lambda>desired.
             case existing of
               None \<Rightarrow>
                 try30 (CreateSecretOwnedByHermesAgent E desired)
                   (do { tel (LogDebug ''Hermes Secret created'');
                         mod_managed (mr_HermesSecret_update (\<lambda>_. GetHermesName ha));
                         status_then_finish E })
             | Some ex \<Rightarrow>
                 if \<not> maps_Equal (sec_Data ex) (sec_Data desired)
                 then try30 (UpdateSecretOwnedByHermesAgent E (ex\<lparr>sec_Data := sec_Data desired\<rparr>))
                        (do { tel (LogDebug ''Hermes Secret updated''); finish })
                 else finish)) })"

section \<open>The SearXNG ConfigMap\<close>

definition buildSearXNGConfigMap :: "hermes_agent \<Rightarrow> configmap" where
  "buildSearXNGConfigMap ha =
     \<lparr>cm_meta = objectMeta (GetSearXNGName ha) (ha_Namespace ha) (ResourceLabels ha),
      cm_Data = SearXNG_GetConfigFiles (GetSearXNG ha)\<rparr>"

definition reconcileSearXNGConfigMap :: "'w env \<Rightarrow> 'w loop" where
  "reconcileSearXNGConfigMap E = defer_mark E condReasonSearXNGConfigMapFail
     (do { ha \<leftarrow> get_agent;
           let cmNsName = \<lparr>nn_Namespace = ha_Namespace ha, nn_Name = GetSearXNGName ha\<rparr>;
           get30 (GetConfigMap E cmNsName) (\<lambda>existing.
             if \<not> SearXNG_IsEnabled (GetSearXNG ha) then
               when30 (existing \<noteq> None) (DeleteConfigMap E cmNsName) (LogDebug ''SearXNG ConfigMap deleted'')
                 (do { mod_managed (mr_SearXNGConfigMap_update (\<lambda>_. [])); status_then_finish E })
             else
               (let desired = buildSearXNGConfigMap ha in
                case existing of
                  Some ex \<Rightarrow>
                    if configMapDataEqual desired ex then finish
                    else try30 (UpdateConfigMapOwnedByHermesAgent E
                                  (cm_meta_update (om_ResourceVersion_update (\<lambda>_. om_ResourceVersion (cm_meta ex))) desired))
                           (do { tel (LogDebug ''SearXNG ConfigMap updated''); finish })
                | None \<Rightarrow>
                    try30 (CreateConfigMapOwnedByHermesAgent E desired)
                      (do { tel (LogDebug ''SearXNG ConfigMap created'');
                            mod_managed (mr_SearXNGConfigMap_update (\<lambda>_. GetSearXNGName ha));
                            status_then_finish E }))) })"

section \<open>The SearXNG Secret\<close>

definition buildSearXNGSecret :: "'w env \<Rightarrow> hermes_agent \<Rightarrow> ('w, go_error + secret) prog" where
  "buildSearXNGSecret E ha =
     do { r \<leftarrow> random_hex E 32;
          State_Monad.return (case r of
            Inl err \<Rightarrow> Inl err
          | Inr v \<Rightarrow> Inr \<lparr>sec_meta = objectMeta (GetSearXNGName ha) (ha_Namespace ha) (ResourceLabels ha),
                          sec_Data = [(''SEARXNG_SECRET'', v)]\<rparr>) }"

definition reconcileSearXNGSecret :: "'w env \<Rightarrow> 'w loop" where
  "reconcileSearXNGSecret E = defer_mark E condReasonSearXNGSecretFailed
     (do { ha \<leftarrow> get_agent;
           let secretNsName = \<lparr>nn_Namespace = ha_Namespace ha, nn_Name = GetSearXNGName ha\<rparr>;
           get30 (GetSecret E secretNsName) (\<lambda>existing.
             if \<not> SearXNG_IsEnabled (GetSearXNG ha) then
               when30 (existing \<noteq> None) (DeleteSecret E secretNsName) (LogDebug ''SearXNG Secret deleted'')
                 (do { mod_managed (mr_SearXNGSecret_update (\<lambda>_. [])); status_then_finish E })
             else if existing \<noteq> None then finish
             else
               get30 (buildSearXNGSecret E ha) (\<lambda>secret.
               try30 (CreateSecretOwnedByHermesAgent E secret)
                 (do { tel (LogDebug ''SearXNG Secret created'');
                       mod_managed (mr_SearXNGSecret_update (\<lambda>_. GetSearXNGName ha));
                       status_then_finish E }))) })"

end
