(* ===== verification/Owned_Rbac.thy ===== *)
theory Owned_Rbac
  imports Infra
begin

text \<open>
  The loops for the ServiceAccount and for the Role with its RoleBinding
  (\<^verbatim>\<open>hermesagent_serviceaccount.go\<close>, \<^verbatim>\<open>hermesagent_role.go\<close>).
\<close>

section \<open>ServiceAccount\<close>

definition serviceAccountEqual :: "service_account \<Rightarrow> service_account \<Rightarrow> bool" where
  "serviceAccountEqual a b \<longleftrightarrow>
     maps_Equal (om_Labels (sa_meta a)) (om_Labels (sa_meta b)) \<and>
     maps_Equal (om_Annotations (sa_meta a)) (om_Annotations (sa_meta b))"

definition buildServiceAccount :: "hermes_agent \<Rightarrow> service_account" where
  "buildServiceAccount ha =
     (let annotations = (case HermesSecurity_GetRBAC (GetSecurity ha) of
                           None \<Rightarrow> [] | Some r \<Rightarrow> map_copy [] (rbac_ServiceAccountAnnotations r))
      in \<lparr>sa_meta = (objectMeta (ha_Name ha) (ha_Namespace ha) (ResourceLabels ha))\<lparr>om_Annotations := annotations\<rparr>\<rparr>)"

definition reconcileServiceAccount :: "'w env \<Rightarrow> 'w loop" where
  "reconcileServiceAccount E = defer_mark E condReasonServiceAccountFailed
     (do { ha \<leftarrow> get_agent;
           let nsName = \<lparr>nn_Namespace = ha_Namespace ha, nn_Name = ha_Name ha\<rparr>;
           get30 (GetServiceAccount E nsName) (\<lambda>existing.
             if \<not> RBAC_ShouldCreateServiceAccount (HermesSecurity_GetRBAC (GetSecurity ha)) then
               when30 (existing \<noteq> None) (DeleteServiceAccount E nsName) (LogDebug ''ServiceAccount deleted'')
                 (do { mod_managed (mr_ServiceAccount_update (\<lambda>_. [])); status_then_finish E })
             else
               (let desired = buildServiceAccount ha in
                case existing of
                  Some ex \<Rightarrow>
                    if serviceAccountEqual desired ex then finish
                    else try30 (UpdateServiceAccountOwnedByHermesAgent E
                                  (sa_meta_update (om_ResourceVersion_update (\<lambda>_. om_ResourceVersion (sa_meta ex))) desired))
                           (do { tel (LogDebug ''ServiceAccount updated''); finish })
                | None \<Rightarrow>
                    try30 (CreateServiceAccountOwnedByHermesAgent E desired)
                      (do { tel (LogDebug ''ServiceAccount created'');
                            mod_managed (mr_ServiceAccount_update (\<lambda>_. ha_Name ha));
                            status_then_finish E }))) })"

section \<open>Role and RoleBinding\<close>

definition roleEqual :: "'w env \<Rightarrow> role \<Rightarrow> role \<Rightarrow> bool" where
  "roleEqual E a b \<longleftrightarrow> am_DeepEqual_rules (mach E) (role_Rules a) (role_Rules b)"

definition roleBindingEqual :: "'w env \<Rightarrow> role_binding \<Rightarrow> role_binding \<Rightarrow> bool" where
  "roleBindingEqual E a b \<longleftrightarrow>
     am_DeepEqual_subjects (mach E) (rb_Subjects a) (rb_Subjects b) \<and> rb_RoleRef a = rb_RoleRef b"

definition buildRole :: "hermes_agent \<Rightarrow> rbac_rule list \<Rightarrow> role" where
  "buildRole ha rules =
     \<lparr>role_meta = objectMeta (ha_Name ha) (ha_Namespace ha) (ResourceLabels ha),
      role_Rules = map (\<lambda>r. \<lparr>pr_APIGroups = rru_APIGroups r, pr_Resources = rru_Resources r,
                             pr_Verbs = rru_Verbs r\<rparr>) rules\<rparr>"

definition buildRoleBinding :: "hermes_agent \<Rightarrow> string \<Rightarrow> role_binding" where
  "buildRoleBinding ha saName =
     \<lparr>rb_meta = objectMeta (ha_Name ha) (ha_Namespace ha) (ResourceLabels ha),
      rb_Subjects = [\<lparr>sub_Kind = ''ServiceAccount'', sub_Name = saName, sub_Namespace = ha_Namespace ha\<rparr>],
      rb_RoleRef = \<lparr>rr_APIGroup = ''rbac.authorization.k8s.io'', rr_Kind = ''Role'', rr_Name = ha_Name ha\<rparr>\<rparr>"

text \<open>The two create-or-update steps of the loop; \<open>k\<close> is what follows.\<close>

definition ensure_role :: "'w env \<Rightarrow> role option \<Rightarrow> role \<Rightarrow> 'w loop \<Rightarrow> 'w loop" where
  "ensure_role E existingRole desiredRole k =
     (case existingRole of
        Some ex \<Rightarrow>
          if \<not> roleEqual E desiredRole ex
          then try30 (UpdateRoleOwnedByHermesAgent E
                        (role_meta_update (om_ResourceVersion_update (\<lambda>_. om_ResourceVersion (role_meta ex))) desiredRole))
                 (do { tel (LogDebug ''Role updated''); k })
          else k
      | None \<Rightarrow> try30 (CreateRoleOwnedByHermesAgent E desiredRole) (do { tel (LogDebug ''Role created''); k }))"

definition ensure_role_binding :: "'w env \<Rightarrow> role_binding option \<Rightarrow> role_binding \<Rightarrow> 'w loop \<Rightarrow> 'w loop" where
  "ensure_role_binding E existingRB desiredRB k =
     (case existingRB of
        Some ex \<Rightarrow>
          if \<not> roleBindingEqual E desiredRB ex
          then try30 (UpdateRoleBindingOwnedByHermesAgent E
                        (rb_meta_update (om_ResourceVersion_update (\<lambda>_. om_ResourceVersion (rb_meta ex))) desiredRB))
                 (do { tel (LogDebug ''RoleBinding updated''); k })
          else k
      | None \<Rightarrow>
          try30 (CreateRoleBindingOwnedByHermesAgent E desiredRB) (do { tel (LogDebug ''RoleBinding created''); k }))"

definition reconcileRole :: "'w env \<Rightarrow> 'w loop" where
  "reconcileRole E = defer_mark E condReasonRoleFailed
     (do { ha \<leftarrow> get_agent;
           let nsName = \<lparr>nn_Namespace = ha_Namespace ha, nn_Name = ha_Name ha\<rparr>;
           get30 (GetRole E nsName) (\<lambda>existingRole.
           get30 (GetRoleBinding E nsName) (\<lambda>existingRB.
             let rules = RBAC_GetAdditionalRules (HermesSecurity_GetRBAC (GetSecurity ha));
                 saName = GetServiceAccountName ha
             in if rules = [] \<or> saName = [] then
                  when30 (existingRB \<noteq> None) (DeleteRoleBinding E nsName) (LogDebug ''RoleBinding deleted'')
                    (when30 (existingRole \<noteq> None) (DeleteRole E nsName) (LogDebug ''Role deleted'')
                       (do { mod_managed (mr_RoleBinding_update (\<lambda>_. []) \<circ> mr_Role_update (\<lambda>_. []));
                             status_then_finish E }))
                else
                  ensure_role E existingRole (buildRole ha rules)
                    (ensure_role_binding E existingRB (buildRoleBinding ha saName)
                       (if existingRole = None \<or> existingRB = None
                        then do { mod_managed (mr_RoleBinding_update (\<lambda>_. ha_Name ha) \<circ> mr_Role_update (\<lambda>_. ha_Name ha));
                                  status_then_finish E }
                        else finish)))) })"

end
