(* ===== verification/Owned_Network.thy ===== *)
theory Owned_Network
  imports Infra
begin

text \<open>
  The loops for the Service, the Ingress and the NetworkPolicy (\<^verbatim>\<open>hermesagent_service.go\<close>,
  \<^verbatim>\<open>hermesagent_ingress.go\<close>, \<^verbatim>\<open>hermesagent_networkpolicy.go\<close>) with the objects they build.
\<close>

definition ProtocolTCP :: string where "ProtocolTCP = ''TCP''"
definition ProtocolUDP :: string where "ProtocolUDP = ''UDP''"

section \<open>Service\<close>

definition serviceEqual :: "'w env \<Rightarrow> k8s_service \<Rightarrow> k8s_service \<Rightarrow> bool" where
  "serviceEqual E a b \<longleftrightarrow>
     am_DeepEqual_ports (mach E) (svc_Ports a) (svc_Ports b) \<and> svc_Type a = svc_Type b \<and>
     maps_Equal (om_Annotations (svc_meta a)) (om_Annotations (svc_meta b))"

definition user_service_port :: "service_port \<Rightarrow> k8s_service_port" where
  "user_service_port p =
     \<lparr>sp_Name = nsp_Name p, sp_Port = nsp_Port p,
      sp_TargetPort = (case nsp_TargetPort p of None \<Rightarrow> nsp_Port p | Some t \<Rightarrow> t),
      sp_Protocol = (if nsp_Protocol p = [] then ProtocolTCP else nsp_Protocol p)\<rparr>"

definition buildServicePorts :: "hermes_agent \<Rightarrow> net_service option \<Rightarrow> k8s_service_port list" where
  "buildServicePorts ha svc =
     (let apiServer = Hermes_GetAPIServer (GetHermes ha); webhook = Hermes_GetWebhook (GetHermes ha) in
      (if HermesAPIServer_IsEnabled apiServer
       then [\<lparr>sp_Name = HermesAPIServer_GetPortName apiServer, sp_Port = HermesAPIServer_GetPort apiServer,
              sp_TargetPort = HermesAPIServer_GetPort apiServer, sp_Protocol = ProtocolTCP\<rparr>] else []) @
      (if HermesWebhook_IsEnabled webhook
       then [\<lparr>sp_Name = HermesWebhook_GetPortName webhook, sp_Port = HermesWebhook_GetPort webhook,
              sp_TargetPort = HermesWebhook_GetPort webhook, sp_Protocol = ProtocolTCP\<rparr>] else []) @
      (case svc of None \<Rightarrow> [] | Some s \<Rightarrow> map user_service_port (ns_Ports s)))"

definition buildService :: "hermes_agent \<Rightarrow> k8s_service" where
  "buildService ha =
     (let svc = Networking_GetService (GetNetworking ha);
          annotations = (case svc of None \<Rightarrow> [] | Some s \<Rightarrow> ns_Annotations s)
      in \<lparr>svc_meta = (objectMeta (ha_Name ha) (ha_Namespace ha) (ResourceLabels ha))\<lparr>om_Annotations := annotations\<rparr>,
          svc_Type = Service_GetType svc,
          svc_Selector = SelectorLabels ha,
          svc_Ports = buildServicePorts ha svc,
          svc_ClusterIP = []\<rparr>)"

definition reconcileService :: "'w env \<Rightarrow> 'w loop" where
  "reconcileService E = defer_mark E condReasonServiceFailed
     (do { ha \<leftarrow> get_agent;
           let nsName = \<lparr>nn_Namespace = ha_Namespace ha, nn_Name = ha_Name ha\<rparr>;
           get30 (GetService E nsName) (\<lambda>existing.
             let desired = buildService ha in
             if svc_Ports desired = [] then
               when30 (existing \<noteq> None) (DeleteService E nsName) (LogDebug ''Service deleted (no ports configured)'')
                 (do { mod_managed (mr_Service_update (\<lambda>_. [])); status_then_finish E })
             else
               (case existing of
                  Some ex \<Rightarrow>
                    (let desired1 = desired\<lparr>svc_ClusterIP := svc_ClusterIP ex\<rparr> in
                     if serviceEqual E desired1 ex then finish
                     else try30 (UpdateServiceOwnedByHermesAgent E
                                   (svc_meta_update (om_ResourceVersion_update (\<lambda>_. om_ResourceVersion (svc_meta ex))) desired1))
                            (do { tel (LogDebug ''Service updated''); finish }))
                | None \<Rightarrow>
                    try30 (CreateServiceOwnedByHermesAgent E desired)
                      (do { tel (LogDebug ''Service created'');
                            mod_managed (mr_Service_update (\<lambda>_. ha_Name ha));
                            status_then_finish E }))) })"

section \<open>Ingress\<close>

definition ingressEqual :: "'w env \<Rightarrow> k8s_ingress \<Rightarrow> k8s_ingress \<Rightarrow> bool" where
  "ingressEqual E a b \<longleftrightarrow>
     am_DeepEqual_ingress (mach E) (ing_Spec a) (ing_Spec b) \<and>
     maps_Equal (om_Annotations (ing_meta a)) (om_Annotations (ing_meta b))"

definition buildIngressPaths :: "hermes_agent \<Rightarrow> ingress_path list \<Rightarrow> http_ingress_path list" where
  "buildIngressPaths ha specPaths =
     map (\<lambda>p. \<lparr>hip_Path = (if ip_Path p = [] then ''/'' else ip_Path p),
               hip_PathType = (if ip_PathType p = [] then ''Prefix'' else ip_PathType p),
               hip_ServiceName = ha_Name ha, hip_ServicePort = ip_Port p\<rparr>) specPaths"

definition buildIngress :: "hermes_agent \<Rightarrow> net_ingress \<Rightarrow> k8s_ingress" where
  "buildIngress ha ing =
     \<lparr>ing_meta = (objectMeta (ha_Name ha) (ha_Namespace ha) (ResourceLabels ha))\<lparr>om_Annotations := ni_Annotations ing\<rparr>,
      ing_Spec =
        \<lparr>is_IngressClassName = ni_ClassName ing,
         is_Rules = map (\<lambda>h. \<lparr>ir_Host = ih_Host h, ir_Paths = buildIngressPaths ha (ih_Paths h)\<rparr>) (ni_Hosts ing),
         is_TLS = map (\<lambda>t. \<lparr>kit_Hosts = it_Hosts t, kit_SecretName = it_SecretName t\<rparr>) (ni_TLS ing)\<rparr>\<rparr>"

definition reconcileIngress :: "'w env \<Rightarrow> 'w loop" where
  "reconcileIngress E = defer_mark E condReasonIngressFailed
     (do { ha \<leftarrow> get_agent;
           let nsName = \<lparr>nn_Namespace = ha_Namespace ha, nn_Name = ha_Name ha\<rparr>;
           get30 (GetIngress E nsName) (\<lambda>existing.
             let ing = Networking_GetIngress (GetNetworking ha) in
             if \<not> Ingress_IsEnabled ing then
               when30 (existing \<noteq> None) (DeleteIngress E nsName) (LogDebug ''Ingress deleted'')
                 (do { mod_managed (mr_Ingress_update (\<lambda>_. [])); status_then_finish E })
             else
               (let desired = buildIngress ha (the ing) in
                case existing of
                  Some ex \<Rightarrow>
                    if ingressEqual E desired ex then finish
                    else try30 (UpdateIngressOwnedByHermesAgent E
                                  (ing_meta_update (om_ResourceVersion_update (\<lambda>_. om_ResourceVersion (ing_meta ex))) desired))
                           (do { tel (LogDebug ''Ingress updated''); finish })
                | None \<Rightarrow>
                    try30 (CreateIngressOwnedByHermesAgent E desired)
                      (do { tel (LogDebug ''Ingress created'');
                            mod_managed (mr_Ingress_update (\<lambda>_. ha_Name ha));
                            status_then_finish E }))) })"

section \<open>NetworkPolicy\<close>

definition namespaceNameLabel :: string where "namespaceNameLabel = ''kubernetes.io/metadata.name''"

definition networkPolicyEqual :: "'w env \<Rightarrow> k8s_network_policy \<Rightarrow> k8s_network_policy \<Rightarrow> bool" where
  "networkPolicyEqual E a b \<longleftrightarrow> am_DeepEqual_netpol (mach E) (np_Spec a) (np_Spec b)"

definition netpol_ports :: "hermes_agent \<Rightarrow> np_port list" where
  "netpol_ports ha =
     (let apiServer = Hermes_GetAPIServer (GetHermes ha); webhook = Hermes_GetWebhook (GetHermes ha) in
      (if HermesAPIServer_IsEnabled apiServer
       then [\<lparr>npp_Protocol = ProtocolTCP, npp_Port = HermesAPIServer_GetPort apiServer\<rparr>] else []) @
      (if HermesWebhook_IsEnabled webhook
       then [\<lparr>npp_Protocol = ProtocolTCP, npp_Port = HermesWebhook_GetPort webhook\<rparr>] else []) @
      map (\<lambda>cp. \<lparr>npp_Protocol = (if cp_Protocol cp = [] then ProtocolTCP else cp_Protocol cp),
                 npp_Port = cp_ContainerPort cp\<rparr>) (Hermes_GetPorts (GetHermes ha)))"

definition buildNetworkPolicyIngress :: "hermes_agent \<Rightarrow> sec_network_policy \<Rightarrow> np_ingress_rule list" where
  "buildNetworkPolicyIngress ha np =
     (let ports = netpol_ports ha in
      if ports = [] then []
      else [\<lparr>npi_From = map IPBlock (snp_AllowedIngressCIDRs np) @
                        map (\<lambda>ns. NamespaceSelector [(namespaceNameLabel, ns)]) (snp_AllowedIngressNamespaces np),
             npi_Ports = ports\<rparr>])"

definition buildNetworkPolicyEgress :: "sec_network_policy \<Rightarrow> np_egress_rule list" where
  "buildNetworkPolicyEgress np =
     (if NetworkPolicy_ShouldAllowDNS (Some np)
      then [\<lparr>npe_To = [], npe_Ports = [\<lparr>npp_Protocol = ProtocolUDP, npp_Port = 53\<rparr>,
                                       \<lparr>npp_Protocol = ProtocolTCP, npp_Port = 53\<rparr>]\<rparr>] else []) @
     [\<lparr>npe_To = map IPBlock (snp_AllowedEgressCIDRs np),
       npe_Ports = [\<lparr>npp_Protocol = ProtocolTCP, npp_Port = 443\<rparr>]\<rparr>] @
     snp_AdditionalEgress np"

definition buildNetworkPolicy :: "hermes_agent \<Rightarrow> sec_network_policy \<Rightarrow> k8s_network_policy" where
  "buildNetworkPolicy ha np =
     \<lparr>np_meta = objectMeta (ha_Name ha) (ha_Namespace ha) (ResourceLabels ha),
      np_Spec = \<lparr>nps_PodSelector = SelectorLabels ha, nps_PolicyTypes = [''Ingress'', ''Egress''],
                 nps_Ingress = buildNetworkPolicyIngress ha np, nps_Egress = buildNetworkPolicyEgress np\<rparr>\<rparr>"

definition reconcileNetworkPolicy :: "'w env \<Rightarrow> 'w loop" where
  "reconcileNetworkPolicy E = defer_mark E condReasonNetworkPolicyFailed
     (do { ha \<leftarrow> get_agent;
           let nsName = \<lparr>nn_Namespace = ha_Namespace ha, nn_Name = ha_Name ha\<rparr>;
           get30 (GetNetworkPolicy E nsName) (\<lambda>existing.
             let np = HermesSecurity_GetNetworkPolicy (GetSecurity ha) in
             if \<not> NetworkPolicy_IsEnabled np then
               when30 (existing \<noteq> None) (DeleteNetworkPolicy E nsName) (LogDebug ''NetworkPolicy deleted'')
                 (do { mod_managed (mr_NetworkPolicy_update (\<lambda>_. [])); status_then_finish E })
             else
               (let desired = buildNetworkPolicy ha (the np) in
                case existing of
                  Some ex \<Rightarrow>
                    if networkPolicyEqual E desired ex then finish
                    else try30 (UpdateNetworkPolicyOwnedByHermesAgent E
                                  (np_meta_update (om_ResourceVersion_update (\<lambda>_. om_ResourceVersion (np_meta ex))) desired))
                           (do { tel (LogDebug ''NetworkPolicy updated''); finish })
                | None \<Rightarrow>
                    try30 (CreateNetworkPolicyOwnedByHermesAgent E desired)
                      (do { tel (LogDebug ''NetworkPolicy created'');
                            mod_managed (mr_NetworkPolicy_update (\<lambda>_. ha_Name ha));
                            status_then_finish E }))) })"

end
