(* ===== verification/Ensure.thy ===== *)
theory Ensure
  imports Owned_Config Owned_Rbac Owned_Network
begin

text \<open>
  One shape behind five loops.  The loops for the SearXNG ConfigMap, the ServiceAccount, the Service,
  the Ingress and the NetworkPolicy are the same algorithm: read the object, delete it when it is not
  wanted, create it when it is absent, update it when it differs.  \<open>ensure_loop\<close> is that algorithm;
  each loop is an instance of it, and what is proved of it once, against a store that keeps what it
  is given, holds for the five.
\<close>

section \<open>The algorithm\<close>

text \<open>
  A plan for one object: whether it is wanted, the object to create, the object to update an existing
  one to, the comparison, and what is recorded in the status.
\<close>

record 'o ensure_plan =
  ep_key :: namespaced_name
  ep_wanted :: bool
  ep_desired :: 'o
  ep_merge :: "'o \<Rightarrow> 'o"
  ep_same :: "'o \<Rightarrow> 'o \<Rightarrow> bool"
  ep_record :: "string \<Rightarrow> managed_resources \<Rightarrow> managed_resources"
  ep_name :: string
  ep_events :: "tel_event \<times> tel_event \<times> tel_event"

definition set_version :: "'o kind_info \<Rightarrow> 'o \<Rightarrow> 'o \<Rightarrow> 'o" where
  "set_version k ex x = ki_set_meta k ((ki_meta k x)\<lparr>om_ResourceVersion := om_ResourceVersion (ki_meta k ex)\<rparr>) x"

definition ensure_loop :: "'w env \<Rightarrow> 'o kind_info \<Rightarrow> ('w, 'o) rclient \<Rightarrow> 'o ensure_plan \<Rightarrow> 'w loop" where
  "ensure_loop E k c p =
     (case ep_events p of (created, updated, deleted) \<Rightarrow>
      get30 (get_object k c (ep_key p)) (\<lambda>existing.
        if \<not> ep_wanted p then
          when30 (existing \<noteq> None) (delete_object k c (ep_key p)) deleted
            (do { mod_managed (ep_record p []); status_then_finish E })
        else
          (case existing of
             Some ex \<Rightarrow>
               if ep_same p (ep_merge p ex) ex then finish
               else try30 (update_owned E k c (set_version k ex (ep_merge p ex))) (do { tel updated; finish })
           | None \<Rightarrow>
               try30 (create_owned E k c (ep_desired p))
                 (do { tel created; mod_managed (ep_record p (ep_name p)); status_then_finish E }))))"

definition own_key :: "hermes_agent \<Rightarrow> string \<Rightarrow> namespaced_name" where
  "own_key ha name = \<lparr>nn_Namespace = ha_Namespace ha, nn_Name = name\<rparr>"

definition searxng_cm_plan :: "hermes_agent \<Rightarrow> configmap ensure_plan" where
  "searxng_cm_plan ha =
     \<lparr>ep_key = own_key ha (GetSearXNGName ha), ep_wanted = SearXNG_IsEnabled (GetSearXNG ha),
      ep_desired = buildSearXNGConfigMap ha, ep_merge = (\<lambda>_. buildSearXNGConfigMap ha), ep_same = configMapDataEqual,
      ep_record = (\<lambda>n. mr_SearXNGConfigMap_update (\<lambda>_. n)), ep_name = GetSearXNGName ha,
      ep_events = (LogDebug ''SearXNG ConfigMap created'', LogDebug ''SearXNG ConfigMap updated'', LogDebug ''SearXNG ConfigMap deleted'')\<rparr>"

definition service_account_plan :: "hermes_agent \<Rightarrow> service_account ensure_plan" where
  "service_account_plan ha =
     \<lparr>ep_key = own_key ha (ha_Name ha), ep_wanted = RBAC_ShouldCreateServiceAccount (HermesSecurity_GetRBAC (GetSecurity ha)),
      ep_desired = buildServiceAccount ha, ep_merge = (\<lambda>_. buildServiceAccount ha), ep_same = serviceAccountEqual,
      ep_record = (\<lambda>n. mr_ServiceAccount_update (\<lambda>_. n)), ep_name = ha_Name ha,
      ep_events = (LogDebug ''ServiceAccount created'', LogDebug ''ServiceAccount updated'', LogDebug ''ServiceAccount deleted'')\<rparr>"

definition service_plan :: "'w env \<Rightarrow> hermes_agent \<Rightarrow> k8s_service ensure_plan" where
  "service_plan E ha =
     \<lparr>ep_key = own_key ha (ha_Name ha), ep_wanted = (svc_Ports (buildService ha) \<noteq> []),
      ep_desired = buildService ha, ep_merge = (\<lambda>ex. (buildService ha)\<lparr>svc_ClusterIP := svc_ClusterIP ex\<rparr>),
      ep_same = serviceEqual E, ep_record = (\<lambda>n. mr_Service_update (\<lambda>_. n)), ep_name = ha_Name ha,
      ep_events = (LogDebug ''Service created'', LogDebug ''Service updated'', LogDebug ''Service deleted (no ports configured)'')\<rparr>"

definition ingress_plan :: "'w env \<Rightarrow> hermes_agent \<Rightarrow> k8s_ingress ensure_plan" where
  "ingress_plan E ha =
     (let ing = Networking_GetIngress (GetNetworking ha) in
     \<lparr>ep_key = own_key ha (ha_Name ha), ep_wanted = Ingress_IsEnabled ing,
      ep_desired = buildIngress ha (the ing), ep_merge = (\<lambda>_. buildIngress ha (the ing)),
      ep_same = ingressEqual E, ep_record = (\<lambda>n. mr_Ingress_update (\<lambda>_. n)), ep_name = ha_Name ha,
      ep_events = (LogDebug ''Ingress created'', LogDebug ''Ingress updated'', LogDebug ''Ingress deleted'')\<rparr>)"

definition network_policy_plan :: "'w env \<Rightarrow> hermes_agent \<Rightarrow> k8s_network_policy ensure_plan" where
  "network_policy_plan E ha =
     (let np = HermesSecurity_GetNetworkPolicy (GetSecurity ha) in
     \<lparr>ep_key = own_key ha (ha_Name ha), ep_wanted = NetworkPolicy_IsEnabled np,
      ep_desired = buildNetworkPolicy ha (the np), ep_merge = (\<lambda>_. buildNetworkPolicy ha (the np)),
      ep_same = networkPolicyEqual E, ep_record = (\<lambda>n. mr_NetworkPolicy_update (\<lambda>_. n)), ep_name = ha_Name ha,
      ep_events = (LogDebug ''NetworkPolicy created'', LogDebug ''NetworkPolicy updated'', LogDebug ''NetworkPolicy deleted'')\<rparr>)"

lemmas plan_defs = searxng_cm_plan_def service_account_plan_def service_plan_def ingress_plan_def
  network_policy_plan_def own_key_def

lemma set_version_simps:
  "set_version kConfigMap exc xc = cm_meta_update (om_ResourceVersion_update (\<lambda>_. om_ResourceVersion (cm_meta exc))) xc"
  "set_version kServiceAccount exa xa = sa_meta_update (om_ResourceVersion_update (\<lambda>_. om_ResourceVersion (sa_meta exa))) xa"
  "set_version kService exs xs = svc_meta_update (om_ResourceVersion_update (\<lambda>_. om_ResourceVersion (svc_meta exs))) xs"
  "set_version kIngress exi xi = ing_meta_update (om_ResourceVersion_update (\<lambda>_. om_ResourceVersion (ing_meta exi))) xi"
  "set_version kNetworkPolicy exn xn = np_meta_update (om_ResourceVersion_update (\<lambda>_. om_ResourceVersion (np_meta exn))) xn"
  by (simp_all add: set_version_def kind_defs)

lemma reconcile_as_ensure:
  "reconcileSearXNGConfigMap E = defer_mark E condReasonSearXNGConfigMapFail
     (do { ha \<leftarrow> get_agent; ensure_loop E kConfigMap (ka_ConfigMap (kube E)) (searxng_cm_plan ha) })"
  "reconcileServiceAccount E = defer_mark E condReasonServiceAccountFailed
     (do { ha \<leftarrow> get_agent; ensure_loop E kServiceAccount (ka_ServiceAccount (kube E)) (service_account_plan ha) })"
  "reconcileService E = defer_mark E condReasonServiceFailed
     (do { ha \<leftarrow> get_agent; ensure_loop E kService (ka_Service (kube E)) (service_plan E ha) })"
  "reconcileIngress E = defer_mark E condReasonIngressFailed
     (do { ha \<leftarrow> get_agent; ensure_loop E kIngress (ka_Ingress (kube E)) (ingress_plan E ha) })"
  "reconcileNetworkPolicy E = defer_mark E condReasonNetworkPolicyFailed
     (do { ha \<leftarrow> get_agent; ensure_loop E kNetworkPolicy (ka_NetworkPolicy (kube E)) (network_policy_plan E ha) })"
  by (simp_all add: reconcileSearXNGConfigMap_def reconcileServiceAccount_def reconcileService_def reconcileIngress_def
      reconcileNetworkPolicy_def ensure_loop_def plan_defs client_defs set_version_simps Let_def
      cong: if_cong option.case_cong)

text \<open>
  The five loops implement one abstract algorithm: each is, step by step, the create-update-delete
  loop at its own kind, plan and failure reason.
\<close>

theorem loops_are_ensure_loops:
  "reconcileSearXNGConfigMap E = defer_mark E condReasonSearXNGConfigMapFail
     (do { ha \<leftarrow> get_agent; ensure_loop E kConfigMap (ka_ConfigMap (kube E)) (searxng_cm_plan ha) }) \<and>
   reconcileServiceAccount E = defer_mark E condReasonServiceAccountFailed
     (do { ha \<leftarrow> get_agent; ensure_loop E kServiceAccount (ka_ServiceAccount (kube E)) (service_account_plan ha) }) \<and>
   reconcileService E = defer_mark E condReasonServiceFailed
     (do { ha \<leftarrow> get_agent; ensure_loop E kService (ka_Service (kube E)) (service_plan E ha) }) \<and>
   reconcileIngress E = defer_mark E condReasonIngressFailed
     (do { ha \<leftarrow> get_agent; ensure_loop E kIngress (ka_Ingress (kube E)) (ingress_plan E ha) }) \<and>
   reconcileNetworkPolicy E = defer_mark E condReasonNetworkPolicyFailed
     (do { ha \<leftarrow> get_agent; ensure_loop E kNetworkPolicy (ka_NetworkPolicy (kube E)) (network_policy_plan E ha) })"
  by (intro conjI reconcile_as_ensure)

section \<open>A store that keeps what it is given\<close>

text \<open>
  The contract of the client for one kind, when no call fails and nobody else writes: \<open>look\<close> is what
  the store holds, a read returns it, a write changes it at the key of the object, and the calls that
  are about other objects leave it alone.  The controller reference touches the owner references
  only, and is accepted for an object without owners.
\<close>

locale reliable_store =
  fixes E :: "'w env"
    and k :: "'o kind_info"
    and c :: "('w, 'o) rclient"
    and look :: "'w \<Rightarrow> namespaced_name \<Rightarrow> 'o option"
  assumes get_found: "look w nn = Some x \<Longrightarrow> \<exists>w'. rc_Get c nn w = (Inr x, w') \<and> look w' = look w"
    and get_absent: "look w nn = None \<Longrightarrow> \<exists>err w'. rc_Get c nn w = (Inl err, w') \<and> IsNotFound err \<and> look w' = look w"
    and create_absent: "look w (meta_key (ki_meta k x)) = None \<Longrightarrow>
          \<exists>w'. rc_Create c x w = (None, w') \<and> look w' = (look w)(meta_key (ki_meta k x) \<mapsto> x)"
    and update_found: "look w (meta_key (ki_meta k x)) = Some y \<Longrightarrow>
          \<exists>w'. rc_Update c x w = (None, w') \<and> look w' = (look w)(meta_key (ki_meta k x) \<mapsto> x)"
    and delete_found: "look w nn = Some y \<Longrightarrow> \<exists>w'. rc_Delete c nn w = (None, w') \<and> look w' = (look w)(nn := None)"
    and status_frame: "ka_StatusUpdate (kube E) ha w = (r, w') \<Longrightarrow> look w' = look w"
    and condition_frame: "am_SetStatusCondition (mach E) cs cond w = (rc, w') \<Longrightarrow> look w' = look w"
    and owner_set: "om_OwnerReferences m = [] \<Longrightarrow>
          \<exists>os. am_SetControllerReference (mach E) ha m = Inr (m\<lparr>om_OwnerReferences := os\<rparr>)"
    and meta_set: "ki_meta k (ki_set_meta k m x) = m"
begin

lemma run_get_object:
  "\<exists>w'. run_state (get_object k c nn) s =
          (Inr (look (rs_world s) nn), s\<lparr>rs_world := w', rs_trace := rs_trace s @ [GetReq (ki_kind k) nn]\<rparr>) \<and>
        look w' = look (rs_world s)"
proof (cases "look (rs_world s) nn")
  case None
  with get_absent [OF None] show ?thesis by (auto simp: get_object_def not_found_nil_def)
next
  case (Some x)
  with get_found [OF Some] show ?thesis by (auto simp: get_object_def not_found_nil_def)
qed

lemma run_create_owned:
  assumes "look (rs_world s) (meta_key (ki_meta k x)) = None" and "om_OwnerReferences (ki_meta k x) = []"
  shows "\<exists>w' x'. (\<exists>os. x' = ki_set_meta k ((ki_meta k x)\<lparr>om_OwnerReferences := os\<rparr>) x) \<and>
           run_state (create_owned E k c x) s =
             (None, s\<lparr>rs_world := w', rs_trace := rs_trace s @ [CreateReq (ki_wrap k x')]\<rparr>) \<and>
           look w' = (look (rs_world s))(meta_key (ki_meta k x) \<mapsto> x')"
proof -
  obtain os where os: "am_SetControllerReference (mach E) (rs_agent s) (ki_meta k x) =
      Inr ((ki_meta k x)\<lparr>om_OwnerReferences := os\<rparr>)"
    using owner_set [OF assms(2)] by blast
  let ?x = "ki_set_meta k ((ki_meta k x)\<lparr>om_OwnerReferences := os\<rparr>) x"
  have key: "meta_key (ki_meta k ?x) = meta_key (ki_meta k x)" by (simp add: meta_set meta_key_def)
  obtain w' where "rc_Create c ?x (rs_world s) = (None, w')" "look w' = (look (rs_world s))(meta_key (ki_meta k x) \<mapsto> ?x)"
    using create_absent [of "rs_world s" ?x] assms(1) key by auto
  with os show ?thesis by (intro exI [of _ w'] exI [of _ ?x]) (auto simp: create_owned_def Let_def)
qed

lemma run_update_owned:
  assumes "look (rs_world s) (meta_key (ki_meta k x)) = Some y" and "om_OwnerReferences (ki_meta k x) = []"
  shows "\<exists>w' x'. (\<exists>os. x' = ki_set_meta k ((ki_meta k x)\<lparr>om_OwnerReferences := os\<rparr>) x) \<and>
           run_state (update_owned E k c x) s =
             (None, s\<lparr>rs_world := w', rs_trace := rs_trace s @ [UpdateReq (ki_wrap k x')]\<rparr>) \<and>
           look w' = (look (rs_world s))(meta_key (ki_meta k x) \<mapsto> x')"
proof -
  obtain os where os: "am_SetControllerReference (mach E) (rs_agent s) (ki_meta k x) =
      Inr ((ki_meta k x)\<lparr>om_OwnerReferences := os\<rparr>)"
    using owner_set [OF assms(2)] by blast
  let ?x = "ki_set_meta k ((ki_meta k x)\<lparr>om_OwnerReferences := os\<rparr>) x"
  have key: "meta_key (ki_meta k ?x) = meta_key (ki_meta k x)" by (simp add: meta_set meta_key_def)
  obtain w' where "rc_Update c ?x (rs_world s) = (None, w')" "look w' = (look (rs_world s))(meta_key (ki_meta k x) \<mapsto> ?x)"
    using update_found [of "rs_world s" ?x y] assms(1) key by auto
  with os show ?thesis by (intro exI [of _ w'] exI [of _ ?x]) (auto simp: update_owned_def Let_def)
qed

lemma run_delete_object:
  assumes "look (rs_world s) nn = Some y"
  shows "\<exists>w'. run_state (delete_object k c nn) s =
           (None, s\<lparr>rs_world := w', rs_trace := rs_trace s @ [DeleteReq (ki_kind k) nn]\<rparr>) \<and>
         look w' = (look (rs_world s))(nn := None)"
  using delete_found [OF assms] by (auto simp: delete_object_def IgnoreNotFound_def)

lemma status_update_frame: "look (rs_world (snd (run_state (UpdateHermesAgentStatus E) s))) = look (rs_world s)"
  by (auto simp: UpdateHermesAgentStatus_def case_prod_unfold split: sum.split intro: status_frame [OF prod.collapse [symmetric]])

lemma status_then_finish_frame: "look (rs_world (snd (run_state (status_then_finish E) s))) = look (rs_world s)"
  using status_update_frame [of s]
  by (auto simp: status_then_finish_def try30_def fail30_def finish_def case_prod_unfold split: option.split)

lemma defer_mark_frame:
  "look (rs_world (snd (run_state (defer_mark E reason body) s))) = look (rs_world (snd (run_state body s)))"
proof -
  have cond: "look (snd (am_SetStatusCondition (mach E) cs cond w)) = look w" for cs cond w
    by (rule condition_frame [OF prod.collapse [symmetric]])
  show ?thesis
    using status_update_frame
    by (auto simp: defer_mark_def markReconcileFailed_def setReadyCondition_def set_condition_def cond case_prod_unfold
        split: option.split)
qed

end

section \<open>Convergence\<close>

text \<open>What the store holds at the key of a plan once the plan is carried out.\<close>

definition plan_settled :: "'o ensure_plan \<Rightarrow> 'o option \<Rightarrow> bool" where
  "plan_settled p stored \<longleftrightarrow>
     (if ep_wanted p then (case stored of None \<Rightarrow> False | Some x \<Rightarrow> ep_same p (ep_merge p x) x) else stored = None)"

text \<open>
  A plan that fits its kind: the objects it builds have its key and no owners, and an object that was
  written and read back compares as unchanged.
\<close>

locale ensured = reliable_store E k c look
  for E :: "'w env" and k :: "'o kind_info" and c look +
  fixes p :: "'o ensure_plan"
  assumes desired_key: "meta_key (ki_meta k (ep_desired p)) = ep_key p"
    and merge_key: "meta_key (ki_meta k (ep_merge p ex)) = ep_key p"
    and desired_free: "om_OwnerReferences (ki_meta k (ep_desired p)) = []"
    and merge_free: "om_OwnerReferences (ki_meta k (ep_merge p ex)) = []"
    and created_same: "x = ki_set_meta k ((ki_meta k (ep_desired p))\<lparr>om_OwnerReferences := os\<rparr>) (ep_desired p) \<Longrightarrow>
          ep_same p (ep_merge p x) x"
    and updated_same: "x = ki_set_meta k ((ki_meta k (ep_merge p ex))\<lparr>om_ResourceVersion := rv, om_OwnerReferences := os\<rparr>)
            (ki_set_meta k m (ep_merge p ex)) \<Longrightarrow>
          ep_same p (ep_merge p x) x"
begin

lemma ensure_loop_deletes:
  assumes "\<not> ep_wanted p"
  shows "plan_settled p (look (rs_world (snd (run_state (ensure_loop E k c p) s))) (ep_key p))"
proof -
  obtain created updated deleted where ev: "ep_events p = (created, updated, deleted)" by (metis prod_cases3)
  obtain w where get: "run_state (get_object k c (ep_key p)) s =
      (Inr (look (rs_world s) (ep_key p)), s\<lparr>rs_world := w, rs_trace := rs_trace s @ [GetReq (ki_kind k) (ep_key p)]\<rparr>)"
    and w: "look w = look (rs_world s)"
    using run_get_object by blast
  show ?thesis
  proof (cases "look w (ep_key p)")
    case None
    with assms get w show ?thesis
      by (simp add: ensure_loop_def ev get30_def when30_def plan_settled_def status_then_finish_frame)
  next
    case (Some y)
    obtain w' where del: "run_state (delete_object k c (ep_key p)) (s\<lparr>rs_world := w, rs_trace := rs_trace s @ [GetReq (ki_kind k) (ep_key p)]\<rparr>) =
        (None, s\<lparr>rs_world := w', rs_trace := rs_trace s @ [GetReq (ki_kind k) (ep_key p), DeleteReq (ki_kind k) (ep_key p)]\<rparr>)"
      and "look w' = (look w)(ep_key p := None)"
      using run_delete_object [of "s\<lparr>rs_world := w, rs_trace := rs_trace s @ [GetReq (ki_kind k) (ep_key p)]\<rparr>" "ep_key p" y] Some
      by auto
    with assms get w Some show ?thesis
      by (simp add: ensure_loop_def ev get30_def when30_def try30_def plan_settled_def status_then_finish_frame)
  qed
qed

lemma ensure_loop_creates:
  assumes "ep_wanted p" and "look (rs_world s) (ep_key p) = None"
  shows "plan_settled p (look (rs_world (snd (run_state (ensure_loop E k c p) s))) (ep_key p))"
proof -
  obtain created updated deleted where ev: "ep_events p = (created, updated, deleted)" by (metis prod_cases3)
  obtain w where get: "run_state (get_object k c (ep_key p)) s =
      (Inr None, s\<lparr>rs_world := w, rs_trace := rs_trace s @ [GetReq (ki_kind k) (ep_key p)]\<rparr>)"
    and w: "look w = look (rs_world s)"
    using run_get_object [of "ep_key p" s] assms(2) by auto
  let ?s = "s\<lparr>rs_world := w, rs_trace := rs_trace s @ [GetReq (ki_kind k) (ep_key p)]\<rparr>"
  obtain w' x' os where "x' = ki_set_meta k ((ki_meta k (ep_desired p))\<lparr>om_OwnerReferences := os\<rparr>) (ep_desired p)"
    and create: "run_state (create_owned E k c (ep_desired p)) ?s =
      (None, ?s\<lparr>rs_world := w', rs_trace := rs_trace ?s @ [CreateReq (ki_wrap k x')]\<rparr>)"
    and w': "look w' = (look w)(ep_key p \<mapsto> x')"
    using run_create_owned [of ?s "ep_desired p"] assms(2) w desired_key desired_free by auto
  then have "ep_same p (ep_merge p x') x'" by (intro created_same)
  with assms get create w' show ?thesis
    by (simp add: ensure_loop_def ev get30_def try30_def plan_settled_def status_then_finish_frame)
qed

lemma ensure_loop_updates:
  assumes "ep_wanted p" and "look (rs_world s) (ep_key p) = Some ex"
  shows "plan_settled p (look (rs_world (snd (run_state (ensure_loop E k c p) s))) (ep_key p))"
proof -
  obtain created updated deleted where ev: "ep_events p = (created, updated, deleted)" by (metis prod_cases3)
  obtain w where get: "run_state (get_object k c (ep_key p)) s =
      (Inr (Some ex), s\<lparr>rs_world := w, rs_trace := rs_trace s @ [GetReq (ki_kind k) (ep_key p)]\<rparr>)"
    and w: "look w = look (rs_world s)"
    using run_get_object [of "ep_key p" s] assms(2) by auto
  let ?s = "s\<lparr>rs_world := w, rs_trace := rs_trace s @ [GetReq (ki_kind k) (ep_key p)]\<rparr>"
  let ?y = "set_version k ex (ep_merge p ex)"
  have y: "ki_meta k ?y = (ki_meta k (ep_merge p ex))\<lparr>om_ResourceVersion := om_ResourceVersion (ki_meta k ex)\<rparr>"
    by (simp add: set_version_def meta_set)
  have key: "meta_key (ki_meta k ?y) = ep_key p" using merge_key [of ex] by (simp add: y meta_key_def)
  show ?thesis
  proof (cases "ep_same p (ep_merge p ex) ex")
    case True
    with assms get w show ?thesis by (simp add: ensure_loop_def ev get30_def finish_def plan_settled_def)
  next
    case False
    have free: "om_OwnerReferences (ki_meta k ?y) = []" using merge_free [of ex] by (simp add: y)
    have found: "look (rs_world ?s) (meta_key (ki_meta k ?y)) = Some ex" using assms(2) w by (simp add: key)
    obtain w' x' os where x': "x' = ki_set_meta k ((ki_meta k ?y)\<lparr>om_OwnerReferences := os\<rparr>) ?y"
      and update: "run_state (update_owned E k c ?y) ?s =
        (None, ?s\<lparr>rs_world := w', rs_trace := rs_trace ?s @ [UpdateReq (ki_wrap k x')]\<rparr>)"
      and w': "look w' = (look w)(ep_key p \<mapsto> x')"
      using run_update_owned [OF found free, unfolded key] by auto
    have "ep_same p (ep_merge p x') x'"
      by (rule updated_same [where ex = ex and os = os and rv = "om_ResourceVersion (ki_meta k ex)"
            and m = "(ki_meta k (ep_merge p ex))\<lparr>om_ResourceVersion := om_ResourceVersion (ki_meta k ex)\<rparr>"])
         (simp add: x' set_version_def meta_set)
    with False assms get update w' show ?thesis
      by (simp add: ensure_loop_def ev get30_def try30_def finish_def plan_settled_def)
  qed
qed

theorem ensure_loop_settles:
  "plan_settled p (look (rs_world (snd (run_state (ensure_loop E k c p) s))) (ep_key p))"
  using ensure_loop_deletes ensure_loop_creates ensure_loop_updates
  by (cases "ep_wanted p"; cases "look (rs_world s) (ep_key p)") auto

theorem ensure_loop_settled_quiet:
  assumes "ep_wanted p" and "plan_settled p (look (rs_world s) (ep_key p))"
  shows "fst (run_state (ensure_loop E k c p) s) = (done_result, None)"
    and "rs_trace (snd (run_state (ensure_loop E k c p) s)) = rs_trace s @ [GetReq (ki_kind k) (ep_key p)]"
proof -
  obtain created updated deleted where ev: "ep_events p = (created, updated, deleted)" by (metis prod_cases3)
  obtain x where x: "look (rs_world s) (ep_key p) = Some x" "ep_same p (ep_merge p x) x"
    using assms by (auto simp: plan_settled_def split: option.splits)
  with run_get_object [of "ep_key p" s] assms(1)
  show "fst (run_state (ensure_loop E k c p) s) = (done_result, None)"
    "rs_trace (snd (run_state (ensure_loop E k c p) s)) = rs_trace s @ [GetReq (ki_kind k) (ep_key p)]"
    by (auto simp: ensure_loop_def ev get30_def finish_def)
qed

text \<open>The same for a loop of the operator: an instance of the algorithm under the deferred mark.\<close>

lemma loop_settles:
  assumes "body = (\<lambda>ha. ensure_loop E k c (q ha))" and "q (rs_agent s) = p"
  shows "plan_settled p (look (rs_world (snd (run_state (defer_mark E reason (State_Monad.bind get_agent body)) s))) (ep_key p))"
  using ensure_loop_settles [of s] assms by (simp add: defer_mark_frame)

lemma loop_settled_quiet:
  assumes "body = (\<lambda>ha. ensure_loop E k c (q ha))" and "q (rs_agent s) = p"
    and "ep_wanted p" and "plan_settled p (look (rs_world s) (ep_key p))"
  shows "fst (run_state (defer_mark E reason (State_Monad.bind get_agent body)) s) = (done_result, None)"
    and "rs_trace (snd (run_state (defer_mark E reason (State_Monad.bind get_agent body)) s)) =
           rs_trace s @ [GetReq (ki_kind k) (ep_key p)]"
  using ensure_loop_settled_quiet [OF assms(3,4)] assms(1,2)
  by (auto simp: defer_mark_def case_prod_unfold)

end

end
