(* ===== verification/Request_Calculus.thy ===== *)
theory Request_Calculus
  imports Infra
begin

text \<open>
  A calculus for the requests a program issues.  The assertion \<open>req_inv K P\<close> says that the agent
  object satisfies \<open>K\<close> and that every request issued so far satisfies \<open>P\<close>.  The locale
  \<open>request_invariant\<close> states what \<open>K\<close> and \<open>P\<close> have to promise, and derives from it one rule per
  method of the adapter and per step of the conditions; the component theories derive the rules of
  the loops from these.
\<close>

section \<open>Assertions with a result\<close>

text \<open>\<open>yields I m Q\<close>: the program keeps \<open>I\<close> and its result satisfies \<open>Q\<close>.\<close>

definition yields :: "('w rst \<Rightarrow> bool) \<Rightarrow> ('w, 'a) prog \<Rightarrow> ('a \<Rightarrow> bool) \<Rightarrow> bool" where
  "yields I m Q \<longleftrightarrow> hoare I m (\<lambda>a s. I s \<and> Q a)"

lemma yieldsI: "(\<And>s. I s \<Longrightarrow> I (snd (run_state m s)) \<and> Q (fst (run_state m s))) \<Longrightarrow> yields I m Q"
  by (simp add: yields_def hoare_def case_prod_unfold)

lemma yieldsD: "yields I m Q \<Longrightarrow> I s \<Longrightarrow> I (snd (run_state m s)) \<and> Q (fst (run_state m s))"
  by (simp add: yields_def hoare_def case_prod_unfold)

lemma keeps_yields: "keeps I m \<longleftrightarrow> yields I m (\<lambda>_. True)"
  by (simp add: keeps_def yields_def)

lemma yields_mono: "yields I m Q \<Longrightarrow> (\<And>a. Q a \<Longrightarrow> Q' a) \<Longrightarrow> yields I m Q'"
  unfolding yields_def by (erule hoare_post) auto

lemma yields_keeps: "yields I m Q \<Longrightarrow> keeps I m"
  unfolding keeps_yields by (erule yields_mono) simp

lemma yields_return: "Q a \<Longrightarrow> yields I (State_Monad.return a) Q"
  by (rule yieldsI) simp

lemma yields_bind:
  assumes m: "yields I m R" and f: "\<And>a. R a \<Longrightarrow> yields I (f a) Q"
  shows "yields I (State_Monad.bind m f) Q"
proof (rule yieldsI)
  fix s assume "I s"
  then have *: "I (snd (run_state m s)) \<and> R (fst (run_state m s))" by (rule yieldsD [OF m])
  then show "I (snd (run_state (State_Monad.bind m f) s)) \<and> Q (fst (run_state (State_Monad.bind m f) s))"
    using yieldsD [OF f, of "fst (run_state m s)" "snd (run_state m s)"] by (simp add: case_prod_unfold)
qed

lemma keeps_yields_bind: "yields I m R \<Longrightarrow> (\<And>a. R a \<Longrightarrow> keeps I (f a)) \<Longrightarrow> keeps I (State_Monad.bind m f)"
  unfolding keeps_yields by (erule yields_bind) simp

text \<open>What an error-or-value result satisfies when it is a value.\<close>

definition on_ok :: "('a \<Rightarrow> bool) \<Rightarrow> go_error + 'a \<Rightarrow> bool" where
  "on_ok Q r \<longleftrightarrow> (\<forall>v. r = Inr v \<longrightarrow> Q v)"

lemma on_ok_simps [simp]: "on_ok Q (Inl e)" "on_ok Q (Inr v) \<longleftrightarrow> Q v"
  by (simp_all add: on_ok_def)

lemma keeps_get30_yields:
  "yields I m (on_ok Q) \<Longrightarrow> (\<And>v. Q v \<Longrightarrow> keeps I (k v)) \<Longrightarrow> keeps I (get30 m k)"
  unfolding get30_def
  by (erule keeps_yields_bind) (auto intro: wp_intros split: sum.split simp: on_ok_def)

lemma keeps_tel_trace: "(\<And>s ev. I s \<Longrightarrow> I (s\<lparr>rs_tel := ev\<rparr>)) \<Longrightarrow> keeps I (tel ev)"
  by (rule keepsI) simp

section \<open>Requests\<close>

definition req_inv :: "(hermes_agent \<Rightarrow> bool) \<Rightarrow> (api_request \<Rightarrow> bool) \<Rightarrow> 'w rst \<Rightarrow> bool" where
  "req_inv K P s \<longleftrightarrow> K (rs_agent s) \<and> list_all P (rs_trace s)"

locale request_invariant =
  fixes E :: "'w env"
    and K :: "hermes_agent \<Rightarrow> bool"
    and P :: "api_request \<Rightarrow> bool"
  assumes K_status: "K ha \<Longrightarrow> K (ha_Status_update f ha)"
    and K_stored: "K ha \<Longrightarrow> ka_StatusUpdate (kube E) ha w = (Inr ha', w') \<Longrightarrow> K ha'"
    and P_status: "K ha \<Longrightarrow> P (StatusReq ha)"
begin

lemma keeps_tel: "keeps (req_inv K P) (tel ev)"
  by (rule keeps_tel_trace) (simp add: req_inv_def)

lemma keeps_local_call: "keeps (req_inv K P) (local_call f)"
  by (rule keepsI) (simp add: req_inv_def)

lemma keeps_mod_status: "keeps (req_inv K P) (mod_status f)"
  by (rule keepsI) (simp add: req_inv_def K_status)

lemma keeps_mod_managed: "keeps (req_inv K P) (mod_managed f)"
  by (simp add: mod_managed_def keeps_mod_status)

lemma keeps_api_call: "P req \<Longrightarrow> keeps (req_inv K P) (api_call req f)"
  by (rule keepsI) (simp add: req_inv_def)

lemma yields_api_call:
  "P req \<Longrightarrow> (\<And>w a w'. f w = (a, w') \<Longrightarrow> Q a) \<Longrightarrow> yields (req_inv K P) (api_call req f) Q"
  by (rule yieldsI) (simp add: req_inv_def, metis prod.collapse)

lemma keeps_agent: "(\<And>ha. K ha \<Longrightarrow> keeps (req_inv K P) (f ha)) \<Longrightarrow> keeps (req_inv K P) (State_Monad.bind get_agent f)"
  by (rule keeps_get_bind [where K = K]) (auto simp: req_inv_def)

lemma yields_agent:
  assumes "\<And>ha. K ha \<Longrightarrow> yields (req_inv K P) (f ha) Q"
  shows "yields (req_inv K P) (State_Monad.bind get_agent f) Q"
  by (rule yieldsI) (use yieldsD [OF assms] in \<open>auto simp: req_inv_def\<close>)

lemma keeps_get_object: "P (GetReq (ki_kind k) nn) \<Longrightarrow> keeps (req_inv K P) (get_object k c nn)"
  unfolding get_object_def by (intro wp_intros keeps_api_call)

lemma yields_get_object:
  assumes "P (GetReq (ki_kind k) nn)" and "\<And>w obj w'. rc_Get c nn w = (Inr obj, w') \<Longrightarrow> Q obj"
  shows "yields (req_inv K P) (get_object k c nn) (on_ok (\<lambda>r. \<forall>obj. r = Some obj \<longrightarrow> Q obj))"
  unfolding get_object_def
  by (rule yields_bind [OF yields_api_call [where Q = "on_ok Q"]])
     (auto simp: assms(1) on_ok_def not_found_nil_def intro!: yields_return dest: assms(2) split: sum.splits if_splits)

lemma keeps_UpdateHermesAgentStatus: "keeps (req_inv K P) (UpdateHermesAgentStatus E)"
proof (rule keepsI)
  fix s :: "'w rst"
  assume I: "req_inv K P s"
  obtain r w where r: "ka_StatusUpdate (kube E) (rs_agent s) (rs_world s) = (r, w)" by fastforce
  show "req_inv K P (snd (run_state (UpdateHermesAgentStatus E) s))"
    using I r K_stored [of "rs_agent s" "rs_world s" _ w]
    by (cases r) (auto simp: UpdateHermesAgentStatus_def req_inv_def P_status)
qed

lemma keeps_create_owned:
  assumes "\<And>ha m. K ha \<Longrightarrow> am_SetControllerReference (mach E) ha (ki_meta k obj) = Inr m \<Longrightarrow>
                    P (CreateReq (ki_wrap k (ki_set_meta k m obj)))"
  shows "keeps (req_inv K P) (create_owned E k c obj)"
  unfolding create_owned_def by (rule keeps_agent) (auto intro!: wp_intros keeps_api_call assms)

lemma keeps_update_owned:
  assumes "\<And>ha m. K ha \<Longrightarrow> am_SetControllerReference (mach E) ha (ki_meta k obj) = Inr m \<Longrightarrow>
                    P (UpdateReq (ki_wrap k (ki_set_meta k m obj)))"
  shows "keeps (req_inv K P) (update_owned E k c obj)"
  unfolding update_owned_def by (rule keeps_agent) (auto intro!: wp_intros keeps_api_call assms)

lemma keeps_delete_object: "P (DeleteReq (ki_kind k) nn) \<Longrightarrow> keeps (req_inv K P) (delete_object k c nn)"
  unfolding delete_object_def by (intro wp_intros keeps_api_call)

lemma keeps_when30:
  "(b \<Longrightarrow> keeps (req_inv K P) m) \<Longrightarrow> keeps (req_inv K P) k \<Longrightarrow> keeps (req_inv K P) (when30 b m ev k)"
  unfolding when30_def by (intro wp_intros keeps_tel)

lemma keeps_set_condition: "keeps (req_inv K P) (set_condition E typ status reason message)"
  unfolding set_condition_def by (intro wp_intros keeps_local_call keeps_mod_status)

lemma keeps_remove_condition: "keeps (req_inv K P) (remove_condition E typ)"
  unfolding remove_condition_def by (intro wp_intros keeps_mod_status)

lemma keeps_markReady: "keeps (req_inv K P) (markReady E)"
  unfolding markReady_def setReadyCondition_def by (intro wp_intros keeps_set_condition keeps_tel)

lemma keeps_markReconcileFailed: "keeps (req_inv K P) (markReconcileFailed E reason err)"
  unfolding markReconcileFailed_def setReadyCondition_def
  by (intro wp_intros keeps_set_condition keeps_tel keeps_UpdateHermesAgentStatus)

lemma keeps_defer_mark: "keeps (req_inv K P) body \<Longrightarrow> keeps (req_inv K P) (defer_mark E reason body)"
  unfolding defer_mark_def by (intro wp_intros keeps_markReconcileFailed)

lemma keeps_status_then_finish: "keeps (req_inv K P) (status_then_finish E)"
  unfolding status_then_finish_def by (intro wp_intros keeps_UpdateHermesAgentStatus)

lemma keeps_ListVolumeSnapshots:
  "P (ListReq (KUnstructured volumeSnapshotGVK) ns [(snapshotAgentLabel, name)]) \<Longrightarrow>
     keeps (req_inv K P) (ListVolumeSnapshotsOwnedByAgent E ns name)"
  unfolding ListVolumeSnapshotsOwnedByAgent_def by (intro wp_intros keeps_api_call)

lemmas keeps_effects = keeps_tel keeps_local_call keeps_mod_status keeps_mod_managed keeps_when30
  keeps_UpdateHermesAgentStatus keeps_set_condition keeps_remove_condition keeps_markReady
  keeps_status_then_finish keeps_get_object keeps_ListVolumeSnapshots

end

end
