(* ===== verification/Egress_Secret.thy ===== *)
theory Egress_Secret
  imports Infra
begin

text \<open>
  The Secret of the egress proxy (\<^verbatim>\<open>internal/usecase/hermesagent_egress_secret.go\<close>): the tokens that
  stand for the real credentials inside the agent, the iron-proxy configuration that swaps them,
  and the loop.  The configuration structs are records; \<open>ironProxyConfig_json\<close> is their encoding by
  the \<^verbatim>\<open>json\<close> tags, which the YAML marshaller then renders.
\<close>

section \<open>The iron-proxy configuration\<close>

definition defaultEgressUpstreamDenyCIDRs :: "string list" where
  "defaultEgressUpstreamDenyCIDRs =
     [''127.0.0.0/8'', ''::1/128'', ''169.254.0.0/16'', ''fe80::/10'', ''10.0.0.0/8'', ''172.16.0.0/12'',
      ''192.168.0.0/16'', ''fc00::/7'', ''::ffff:0:0/96'', ''100.64.0.0/10'', ''198.18.0.0/15'']"

record ironProxyDNS =
  ipd_Enabled :: bool

record ironProxyProxy =
  ipp_TunnelListen :: string
  ipp_HTTPListen :: string
  ipp_HTTPSListen :: string
  ipp_MaxRequestBodyBytes :: int
  ipp_MaxResponseBodyBytes :: int
  ipp_UpstreamResponseHeaderTimeout :: string
  ipp_UpstreamDenyCIDRs :: "string list"

record ironProxyListen =
  ipl_Listen :: string

record ironProxyTLS =
  ipt_Mode :: string
  ipt_CACert :: string
  ipt_CAKey :: string
  ipt_CertCacheSize :: int
  ipt_LeafCertExpiryHours :: int

record ironProxyAllowlist =
  ipa_Domains :: "string list"

record ironProxySecretSource =
  ips_Type :: string
  ips_Var :: string

record ironProxySecretReplace =
  ipr_ProxyValue :: string
  ipr_MatchHeaders :: "string list"
  ipr_MatchQuery :: bool
  ipr_MatchBody :: bool
  ipr_Require :: bool

record ironProxyRule =
  ipru_Host :: string
  ipru_Methods :: "string list"

record ironProxySecret =
  ipse_Source :: ironProxySecretSource
  ipse_Replace :: ironProxySecretReplace
  ipse_Rules :: "ironProxyRule list"

record ironProxySecrets =
  ipss_Secrets :: "ironProxySecret list"

text \<open>The dynamic type of a transform's configuration.\<close>

datatype ironProxyTransformConfig = AllowlistConfig ironProxyAllowlist | SecretsConfig ironProxySecrets

record ironProxyTransform =
  iptr_Name :: string
  iptr_Config :: ironProxyTransformConfig

record ironProxyLog =
  iplo_Level :: string

record ironProxyConfig =
  ipc_DNS :: ironProxyDNS
  ipc_Proxy :: ironProxyProxy
  ipc_Metrics :: ironProxyListen
  ipc_TLS :: ironProxyTLS
  ipc_Transforms :: "ironProxyTransform list"
  ipc_Log :: ironProxyLog

definition egressRuleMethods :: "string list" where
  "egressRuleMethods = [''GET'', ''HEAD'', ''POST'', ''PUT'', ''PATCH'', ''DELETE'', ''OPTIONS'']"

subsection \<open>Encoding by the struct tags\<close>

definition JStrs :: "string list \<Rightarrow> json" where
  "JStrs xs = JArr (map JStr xs)"

definition JInt :: "int \<Rightarrow> json" where
  "JInt i = JNum (Itoa i)"

definition ironProxySecret_json :: "ironProxySecret \<Rightarrow> json" where
  "ironProxySecret_json s =
     JObj [(''source'', JObj [(''type'', JStr (ips_Type (ipse_Source s))), (''var'', JStr (ips_Var (ipse_Source s)))]),
           (''replace'', JObj [(''proxy_value'', JStr (ipr_ProxyValue (ipse_Replace s))),
                               (''match_headers'', JStrs (ipr_MatchHeaders (ipse_Replace s))),
                               (''match_query'', JBool (ipr_MatchQuery (ipse_Replace s))),
                               (''match_body'', JBool (ipr_MatchBody (ipse_Replace s))),
                               (''require'', JBool (ipr_Require (ipse_Replace s)))]),
           (''rules'', JArr (map (\<lambda>r. JObj [(''host'', JStr (ipru_Host r)), (''methods'', JStrs (ipru_Methods r))])
                             (ipse_Rules s)))]"

definition ironProxyTransform_json :: "ironProxyTransform \<Rightarrow> json" where
  "ironProxyTransform_json t =
     JObj [(''name'', JStr (iptr_Name t)),
           (''config'', case iptr_Config t of
                          AllowlistConfig a \<Rightarrow> JObj [(''domains'', JStrs (ipa_Domains a))]
                        | SecretsConfig ss \<Rightarrow> JObj [(''secrets'', JArr (map ironProxySecret_json (ipss_Secrets ss)))])]"

definition ironProxyConfig_json :: "ironProxyConfig \<Rightarrow> json" where
  "ironProxyConfig_json c =
     JObj [(''dns'', JObj [(''enabled'', JBool (ipd_Enabled (ipc_DNS c)))]),
           (''proxy'', JObj [(''tunnel_listen'', JStr (ipp_TunnelListen (ipc_Proxy c))),
                             (''http_listen'', JStr (ipp_HTTPListen (ipc_Proxy c))),
                             (''https_listen'', JStr (ipp_HTTPSListen (ipc_Proxy c))),
                             (''max_request_body_bytes'', JInt (ipp_MaxRequestBodyBytes (ipc_Proxy c))),
                             (''max_response_body_bytes'', JInt (ipp_MaxResponseBodyBytes (ipc_Proxy c))),
                             (''upstream_response_header_timeout'', JStr (ipp_UpstreamResponseHeaderTimeout (ipc_Proxy c))),
                             (''upstream_deny_cidrs'', JStrs (ipp_UpstreamDenyCIDRs (ipc_Proxy c)))]),
           (''metrics'', JObj [(''listen'', JStr (ipl_Listen (ipc_Metrics c)))]),
           (''tls'', JObj [(''mode'', JStr (ipt_Mode (ipc_TLS c))), (''ca_cert'', JStr (ipt_CACert (ipc_TLS c))),
                           (''ca_key'', JStr (ipt_CAKey (ipc_TLS c))),
                           (''cert_cache_size'', JInt (ipt_CertCacheSize (ipc_TLS c))),
                           (''leaf_cert_expiry_hours'', JInt (ipt_LeafCertExpiryHours (ipc_TLS c)))]),
           (''transforms'', JArr (map ironProxyTransform_json (ipc_Transforms c))),
           (''log'', JObj [(''level'', JStr (iplo_Level (ipc_Log c)))])]"

subsection \<open>Building it\<close>

definition egress_rule :: "string \<Rightarrow> ironProxyRule" where
  "egress_rule h = \<lparr>ipru_Host = h, ipru_Methods = egressRuleMethods\<rparr>"

definition egress_proxy_secret :: "string gomap \<Rightarrow> egress_credential \<Rightarrow> ironProxySecret" where
  "egress_proxy_secret tokens c =
     \<lparr>ipse_Source = \<lparr>ips_Type = ''env'', ips_Var = cr_SourceKey c\<rparr>,
      ipse_Replace = \<lparr>ipr_ProxyValue = map_str tokens (cr_Name c),
                      ipr_MatchHeaders = EgressSecret_GetMatchHeaders (cr_Secret c),
                      ipr_MatchQuery = True, ipr_MatchBody = False, ipr_Require = True\<rparr>,
      ipse_Rules = map egress_rule (cr_Hosts c)\<rparr>"

text \<open>The value \<^verbatim>\<open>cfg\<close> of \<^verbatim>\<open>buildEgressProxyYAML\<close>.\<close>

definition egress_proxy_config :: "hermes_agent \<Rightarrow> egress_credential list \<Rightarrow> string gomap \<Rightarrow> ironProxyConfig" where
  "egress_proxy_config ha creds tokens =
     (let eg = GetEgress ha;
          port = Egress_GetTunnelPort eg;
          domains = foldl append_new (Egress_GetAllowedHosts eg) (concat (map cr_Hosts creds));
          secrets = map (egress_proxy_secret tokens) creds;
          transforms = [\<lparr>iptr_Name = ''allowlist'', iptr_Config = AllowlistConfig \<lparr>ipa_Domains = domains\<rparr>\<rparr>] @
            (if secrets = [] then []
             else [\<lparr>iptr_Name = ''secrets'', iptr_Config = SecretsConfig \<lparr>ipss_Secrets = secrets\<rparr>\<rparr>]);
          denyCIDRs = (if Egress_GetUpstreamDenyCIDRs eg = [] then defaultEgressUpstreamDenyCIDRs
                       else Egress_GetUpstreamDenyCIDRs eg)
      in \<lparr>ipc_DNS = \<lparr>ipd_Enabled = False\<rparr>,
          ipc_Proxy = \<lparr>ipp_TunnelListen = ''127.0.0.1:'' @ fmt_int32 port,
                       ipp_HTTPListen = ''127.0.0.1:'' @ fmt_int32 (port + 1),
                       ipp_HTTPSListen = ''127.0.0.1:0'',
                       ipp_MaxRequestBodyBytes = 16 * 2 ^ 20, ipp_MaxResponseBodyBytes = 0,
                       ipp_UpstreamResponseHeaderTimeout = ''120s'',
                       ipp_UpstreamDenyCIDRs = denyCIDRs\<rparr>,
          ipc_Metrics = \<lparr>ipl_Listen = ''127.0.0.1:0''\<rparr>,
          ipc_TLS = \<lparr>ipt_Mode = ''mitm'',
                     ipt_CACert = EgressConfigDir @ ''/'' @ EgressCAManagedCertKey,
                     ipt_CAKey = EgressConfigDir @ ''/'' @ EgressCAManagedKeyKey,
                     ipt_CertCacheSize = 1000, ipt_LeafCertExpiryHours = 168\<rparr>,
          ipc_Transforms = transforms,
          ipc_Log = \<lparr>iplo_Level = ''info''\<rparr>\<rparr>)"

definition buildEgressProxyYAML ::
  "'w env \<Rightarrow> hermes_agent \<Rightarrow> egress_credential list \<Rightarrow> string gomap \<Rightarrow> go_error + string" where
  "buildEgressProxyYAML E ha creds tokens =
     (case am_MarshalYAML (mach E) (ironProxyConfig_json (egress_proxy_config ha creds tokens)) of
        Inl err \<Rightarrow> Inl (WrappedError ''marshaling iron-proxy config: '' err [])
      | Inr out \<Rightarrow> Inr out)"

section \<open>Tokens and the Secret\<close>

definition mintEgressProxyToken :: "'w env \<Rightarrow> string \<Rightarrow> ('w, go_error + string) prog" where
  "mintEgressProxyToken E envName =
     do { r \<leftarrow> local_call (pf_RandRead (plat E) 16);
          State_Monad.return (case r of
            Inl err \<Rightarrow> Inl (WrappedError ''minting egress proxy token: '' err [])
          | Inr raw \<Rightarrow> Inr (ReplaceAll (ToLower envName) ''_api_key'' [] @ ''-'' @ hex_bytes raw)) }"

definition existing_value :: "secret option \<Rightarrow> string \<Rightarrow> string" where
  "existing_value existing k = (case existing of None \<Rightarrow> [] | Some s \<Rightarrow> map_str (sec_Data s) k)"

text \<open>The first loop of \<^verbatim>\<open>buildEgressSecret\<close>: a token is kept when the Secret has one, else minted.\<close>

fun egress_tokens ::
  "'w env \<Rightarrow> secret option \<Rightarrow> egress_credential list \<Rightarrow> string gomap \<Rightarrow> ('w, go_error + string gomap) prog" where
  "egress_tokens E existing [] tokens = State_Monad.return (Inr tokens)"
| "egress_tokens E existing (c # cs) tokens =
     (if existing_value existing (cr_Name c) \<noteq> []
      then egress_tokens E existing cs (map_put (cr_Name c) (existing_value existing (cr_Name c)) tokens)
      else do { r \<leftarrow> mintEgressProxyToken E (cr_Name c);
                case r of
                  Inl err \<Rightarrow> State_Monad.return (Inl err)
                | Inr token \<Rightarrow> egress_tokens E existing cs (map_put (cr_Name c) token tokens) })"

text \<open>The second: every env name of a credential, aliases included, carries its token.\<close>

definition token_data :: "string gomap \<Rightarrow> egress_credential list \<Rightarrow> string gomap \<Rightarrow> string gomap" where
  "token_data tokens creds data =
     foldl (\<lambda>d (name, v). map_put name v d) data
       (concat (map (\<lambda>c. map (\<lambda>name. (name, map_str tokens (cr_Name c))) (cr_EnvNames c)) creds))"

definition buildEgressSecret ::
  "'w env \<Rightarrow> hermes_agent \<Rightarrow> egress_credential list \<Rightarrow> secret option \<Rightarrow> ('w, go_error + secret) prog" where
  "buildEgressSecret E ha creds existing =
     do { r \<leftarrow> egress_tokens E existing creds [];
          State_Monad.return (case r of
            Inl err \<Rightarrow> Inl err
          | Inr tokens \<Rightarrow>
              (case buildEgressProxyYAML E ha creds tokens of
                 Inl err \<Rightarrow> Inl err
               | Inr proxyYAML \<Rightarrow>
                   Inr \<lparr>sec_meta = objectMeta (GetEgressSecretName ha) (ha_Namespace ha) (ResourceLabels ha),
                        sec_Data = token_data tokens creds [(EgressProxyConfigKey, proxyYAML)]\<rparr>)) }"

section \<open>The loop\<close>

definition resolveEgressCredentials ::
  "'w env \<Rightarrow> hermes_agent \<Rightarrow> ('w, go_error + egress_credential list) prog" where
  "resolveEgressCredentials E ha =
     (case ValidateEgressSecretRefs ha of
        Some msg \<Rightarrow> State_Monad.return (Inl (PlainError msg))
      | None \<Rightarrow>
          (let eg = GetEgress ha;
               name = Egress_GetCredentialsSecretName eg;
               resolve = (\<lambda>keys. case ResolveCredentials eg keys of Inl msg \<Rightarrow> Inl (PlainError msg) | Inr cs \<Rightarrow> Inr cs)
           in if name \<noteq> [] then
                do { r \<leftarrow> GetSecret E \<lparr>nn_Namespace = ha_Namespace ha, nn_Name = name\<rparr>;
                     State_Monad.return (case r of
                       Inl err \<Rightarrow> Inl (WrappedError (''reading egress credentials Secret '' @ quote name @ '': '') err [])
                     | Inr None \<Rightarrow> Inl (PlainError (''egress credentials Secret '' @ quote name @ '' not found''))
                     | Inr (Some s) \<Rightarrow> resolve (map_keys (sec_Data s))) }
              else State_Monad.return (resolve [])))"

definition recordEgressSecret :: "'w env \<Rightarrow> string \<Rightarrow> 'w loop" where
  "recordEgressSecret E name =
     do { ha \<leftarrow> get_agent;
          if mr_EgressSecret (st_ManagedResources (ha_Status ha)) = name then finish
          else do { mod_managed (mr_EgressSecret_update (\<lambda>_. name)); status_then_finish E } }"

definition reconcileEgressSecret :: "'w env \<Rightarrow> 'w loop" where
  "reconcileEgressSecret E = defer_mark E condReasonEgressSecretFailed
     (do { ha \<leftarrow> get_agent;
           let secretNsName = \<lparr>nn_Namespace = ha_Namespace ha, nn_Name = GetEgressSecretName ha\<rparr>;
           get30 (GetSecret E secretNsName) (\<lambda>existing.
             if \<not> Egress_IsEnabled (GetEgress ha) then
               when30 (existing \<noteq> None) (DeleteSecret E secretNsName) (LogDebug ''Egress Secret deleted'')
                 (recordEgressSecret E [])
             else
               (case ValidateEgressPorts ha of
                  Some msg \<Rightarrow> fail30 (PlainError msg)
                | None \<Rightarrow>
                    get30 (resolveEgressCredentials E ha) (\<lambda>creds.
                    get30 (buildEgressSecret E ha creds existing) (\<lambda>desired.
                      case existing of
                        None \<Rightarrow>
                          try30 (CreateSecretOwnedByHermesAgent E desired)
                            (do { tel (LogDebug ''Egress Secret created'');
                                  recordEgressSecret E (GetEgressSecretName ha) })
                      | Some ex \<Rightarrow>
                          if \<not> maps_Equal (sec_Data ex) (sec_Data desired)
                          then try30 (UpdateSecretOwnedByHermesAgent E (ex\<lparr>sec_Data := sec_Data desired\<rparr>))
                                 (do { tel (LogDebug ''Egress Secret updated'');
                                       recordEgressSecret E (GetEgressSecretName ha) })
                          else recordEgressSecret E (GetEgressSecretName ha))))) })"

end
