(* ===== verification/Go_Time.thy ===== *)
theory Go_Time
  imports Kube_Types
begin

text \<open>
  The part of Go's \<^verbatim>\<open>time\<close> package the sources use: the civil date of a point in time by the
  proleptic Gregorian calendar in UTC, adding years, and the layout \<^verbatim>\<open>20060102150405\<close> of the
  snapshot names.  The lemmas show that the date of a day determines the day, so that two points
  in time with the same timestamp lie in the same second.
\<close>

text \<open>
  \<^verbatim>\<open>time.Time.AddDate\<close> and the date of a point in time, by the proleptic Gregorian calendar.  Day 0
  is 1 January of year 1, the zero \<^verbatim>\<open>time.Time\<close>.
\<close>

definition day_ns :: int where "day_ns = 86400 * second"

definition leap_year :: "int \<Rightarrow> bool" where
  "leap_year y \<longleftrightarrow> y mod 4 = 0 \<and> (y mod 100 \<noteq> 0 \<or> y mod 400 = 0)"

definition days_before_year :: "int \<Rightarrow> int" where
  "days_before_year y = (let p = y - 1 in 365 * p + p div 4 - p div 100 + p div 400)"

definition month_lengths :: "int \<Rightarrow> int list" where
  "month_lengths y = [31, if leap_year y then 29 else 28, 31, 30, 31, 30, 31, 31, 30, 31, 30, 31]"

fun split_month :: "int \<Rightarrow> int list \<Rightarrow> int \<Rightarrow> int \<times> int" where
  "split_month m [] d = (m, d)"
| "split_month m [l] d = (m, d)"
| "split_month m (l # ls) d = (if d < l then (m, d) else split_month (m + 1) ls (d - l))"

text \<open>The year of a day: 400-year, 100-year, 4-year and 1-year cycles, the last of each kept short.\<close>

definition year_of_day :: "int \<Rightarrow> int" where
  "year_of_day d =
     (let n400 = d div 146097; r1 = d mod 146097;
          n100 = min 3 (r1 div 36524); r2 = r1 - 36524 * n100;
          n4 = r2 div 1461; r3 = r2 mod 1461;
          n1 = min 3 (r3 div 365)
      in 400 * n400 + 100 * n100 + 4 * n4 + n1 + 1)"

definition civil_of_day :: "int \<Rightarrow> int \<times> int \<times> int" where
  "civil_of_day d =
     (let y = year_of_day d; (m, r) = split_month 1 (month_lengths y) (d - days_before_year y)
      in (y, m, r + 1))"

definition day_of_civil :: "int \<Rightarrow> int \<Rightarrow> int \<Rightarrow> int" where
  "day_of_civil y m d = days_before_year y + sum_list (take (nat (m - 1)) (month_lengths y)) + (d - 1)"

text \<open>\<^verbatim>\<open>AddDate(years, 0, 0)\<close>: the same day and time of day; 29 February rolls over to 1 March.\<close>

definition AddYears :: "go_time \<Rightarrow> int \<Rightarrow> go_time" where
  "AddYears t years =
     (case civil_of_day (t div day_ns) of
        (y, m, d) \<Rightarrow> day_of_civil (y + years) m d * day_ns + t mod day_ns)"

definition pad_digits :: "nat \<Rightarrow> int \<Rightarrow> string" where
  "pad_digits w n = (let s = Itoa n in replicate (w - length s) (CHR ''0'') @ s)"

text \<open>\<^verbatim>\<open>t.UTC().Format("20060102150405")\<close>.\<close>

definition format_timestamp :: "go_time \<Rightarrow> string" where
  "format_timestamp t =
     (let secs = t div second; sod = secs mod 86400 in
      case civil_of_day (secs div 86400) of
        (y, m, d) \<Rightarrow> pad_digits 4 y @ pad_digits 2 m @ pad_digits 2 d @ pad_digits 2 (sod div 3600) @
                     pad_digits 2 (sod div 60 mod 60) @ pad_digits 2 (sod mod 60))"

section \<open>Dates determine days\<close>

lemma days_before_year_cycles:
  assumes "0 \<le> b" "b \<le> 3" "0 \<le> c" "c \<le> 24" "0 \<le> e" "e \<le> 3"
  shows "days_before_year (400 * a + 100 * b + 4 * c + e + 1) = 146097 * a + 36524 * b + 1461 * c + 365 * e"
proof -
  have "(400 * a + 100 * b + 4 * c + e) div 4 = 100 * a + 25 * b + c"
    by (rule int_div_pos_eq [where r = e]) (use assms in auto)
  moreover have "(400 * a + 100 * b + 4 * c + e) div 100 = 4 * a + b"
    by (rule int_div_pos_eq [where r = "4 * c + e"]) (use assms in auto)
  moreover have "(400 * a + 100 * b + 4 * c + e) div 400 = a"
    by (rule int_div_pos_eq [where r = "100 * b + 4 * c + e"]) (use assms in auto)
  ultimately show ?thesis by (simp add: days_before_year_def Let_def algebra_simps)
qed

lemma pred_div:
  fixes y k :: int
  assumes "0 < k"
  shows "y div k = (y - 1) div k + (if y mod k = 0 then 1 else 0)"
proof (cases "y mod k = 0")
  case True
  then have "y = k * (y div k)" by (metis mod_0_imp_dvd dvd_mult_div_cancel)
  then have "(y - 1) div k = y div k - 1"
    by (intro int_div_pos_eq [where r = "k - 1"]) (use assms in \<open>auto simp: algebra_simps\<close>)
  then show ?thesis using True by simp
next
  case False
  have "0 \<le> y mod k - 1" "y mod k - 1 < k"
    using False assms pos_mod_sign [of k y] pos_mod_bound [of k y] by linarith+
  then have "(y - 1) div k = y div k"
    by (intro int_div_pos_eq [where r = "y mod k - 1"]) auto
  then show ?thesis using False by simp
qed

lemma leap_count:
  fixes y a b c a' b' c' :: int
  assumes "a = a' + (if p4 then 1 else 0)" "b = b' + (if p100 then 1 else 0)" "c = c' + (if p400 then 1 else 0)"
    and "p400 \<Longrightarrow> p100" "p100 \<Longrightarrow> p4"
  shows "365 * y + a - b + c =
     365 * (y - 1) + a' - b' + c' + (if p4 \<and> (\<not> p100 \<or> p400) then 366 else 365)"
  using assms(4,5) unfolding assms(1-3) by (cases p4; cases p100; cases p400; simp)

lemma mod_400_100: "(y::int) mod 400 = 0 \<Longrightarrow> y mod 100 = 0"
  unfolding mod_eq_0_iff_dvd by (rule dvd_trans [of _ 400]) simp_all

lemma mod_100_4: "(y::int) mod 100 = 0 \<Longrightarrow> y mod 4 = 0"
  unfolding mod_eq_0_iff_dvd by (rule dvd_trans [of _ 100]) simp_all

lemma days_before_next_year:
  "days_before_year (y + 1) = days_before_year y + (if leap_year y then 366 else 365)"
proof -
  have next': "days_before_year (y + 1) = 365 * y + y div 4 - y div 100 + y div 400"
    unfolding days_before_year_def Let_def by (simp only: add_diff_cancel_right')
  have this': "days_before_year y = 365 * (y - 1) + (y - 1) div 4 - (y - 1) div 100 + (y - 1) div 400"
    unfolding days_before_year_def Let_def by (rule refl)
  show ?thesis unfolding next' this' leap_year_def
    by (rule leap_count [OF pred_div pred_div pred_div mod_400_100 mod_100_4]) simp_all
qed

lemma year_of_day_bounds:
  "days_before_year (year_of_day d) \<le> d \<and> d < days_before_year (year_of_day d + 1)"
proof -
  define a where "a = d div 146097"
  define r1 where "r1 = d mod 146097"
  define b where "b = min 3 (r1 div 36524)"
  define r2 where "r2 = r1 - 36524 * b"
  define c where "c = r2 div 1461"
  define r3 where "r3 = r2 mod 1461"
  define e where "e = min 3 (r3 div 365)"
  have r1: "0 \<le> r1" "r1 < 146097" "d = 146097 * a + r1" by (auto simp: r1_def a_def)
  have b: "0 \<le> b" "b \<le> 3" using r1 by (auto simp: b_def)
  have r2: "0 \<le> r2" "r2 \<le> 36524" "b < 3 \<Longrightarrow> r2 < 36524" using r1 by (auto simp: r2_def b_def min_def)
  have c: "0 \<le> c" "c \<le> 24" "r2 = 1461 * c + r3" using r2 by (auto simp: c_def r3_def)
  have r3: "0 \<le> r3" "r3 < 1461" by (auto simp: r3_def)
  have e: "0 \<le> e" "e \<le> 3" "365 * e \<le> r3" "r3 \<le> 365 * e + 365" "e < 3 \<Longrightarrow> r3 < 365 * e + 365"
    using r3 by (auto simp: e_def min_def)
  let ?y = "400 * a + 100 * b + 4 * c + e + 1"
  have y: "year_of_day d = ?y"
    by (simp add: year_of_day_def Let_def a_def r1_def b_def r2_def c_def r3_def e_def)
  have start: "days_before_year ?y = 146097 * a + 36524 * b + 1461 * c + 365 * e"
    by (rule days_before_year_cycles) (use b c e in auto)
  have off: "d - days_before_year ?y = r3 - 365 * e"
    using start r1(3) c(3) by (simp add: r2_def)
  have leap: "leap_year ?y" if "e = 3" "r3 = 1460"
  proof -
    have y100: "?y = 100 * (4 * a + b) + 4 * (c + 1)" using that(1) by simp
    have "?y mod 4 = 0" unfolding y100 by (simp add: mod_eq_0_iff_dvd)
    moreover have "?y mod 100 \<noteq> 0" if "c \<noteq> 24"
    proof -
      have "?y mod 100 = 4 * (c + 1) mod 100" unfolding y100 by (simp only: mod_mult_self4)
      also have "\<dots> = 4 * (c + 1)" using c(1,2) that by (intro mod_pos_pos_trivial) auto
      finally show ?thesis using c(1) by simp
    qed
    moreover have "?y mod 400 = 0" if "c = 24"
    proof -
      have "b = 3" using r2(3) b(2) c(3) \<open>r3 = 1460\<close> that by force
      then have "?y = 400 * (a + 1)" using y100 that by simp
      then show ?thesis by (simp only: mod_mult_self1_is_0)
    qed
    ultimately show ?thesis unfolding leap_year_def by metis
  qed
  have "r3 - 365 * e < (if leap_year ?y then 366 else 365)"
  proof (cases "e < 3")
    case True
    then show ?thesis using e(5) by simp
  next
    case False
    then have "e = 3" using e(2) by simp
    then show ?thesis using leap r3(2) by (cases "r3 = 1460") simp_all
  qed
  then show ?thesis unfolding y days_before_next_year [of ?y] using off e(3) by linarith
qed

lemma split_month_inverse:
  assumes "split_month m ls d = (m', r)" and "ls \<noteq> []"
  shows "m \<le> m'" and "m' < m + int (length ls)" and "d = sum_list (take (nat (m' - m)) ls) + r"
  using assms
proof (induction m ls d arbitrary: m' r rule: split_month.induct)
  case (3 m l l' ls d)
  case 1 then show ?case using 3 by (auto split: if_splits)
  case 2 then show ?case using 3 by (auto split: if_splits) 
  case 3
  then show ?case
  proof (cases "d < l")
    case False
    with 3 have rec: "split_month (m + 1) (l' # ls) (d - l) = (m', r)" by simp
    with 3 have "m + 1 \<le> m'" "d - l = sum_list (take (nat (m' - (m + 1))) (l' # ls)) + r"
      using False "3.IH" by auto
    moreover from this(1) have "nat (m' - m) = Suc (nat (m' - (m + 1)))" by simp
    ultimately show ?thesis by simp
  qed auto
qed auto

lemma day_of_civil_of_day: "civil_of_day d = (y, m, r) \<Longrightarrow> day_of_civil y m r = d"
proof -
  assume "civil_of_day d = (y, m, r)"
  then obtain r0 where y: "y = year_of_day d" and r: "r = r0 + 1" and
    s: "split_month 1 (month_lengths y) (d - days_before_year y) = (m, r0)"
    by (auto simp: civil_of_day_def Let_def split: prod.splits)
  have "month_lengths y \<noteq> []" by (simp add: month_lengths_def)
  from split_month_inverse(3) [OF s this] show ?thesis
    using r by (simp add: day_of_civil_def)
qed

end
