(* ===== verification/Egress_CA.thy ===== *)
theory Egress_CA
  imports Infra Go_Time
begin

text \<open>
  The CA of the egress proxy (\<^verbatim>\<open>internal/usecase/hermesagent_egress_ca_secret.go\<close>): generation,
  validation of a CA the user supplies, and the loop that keeps at most one managed CA Secret.
\<close>

section \<open>Validation and generation\<close>

definition KeyUsageCertSign :: int32 where "KeyUsageCertSign = 32"
definition KeyUsageCRLSign :: int32 where "KeyUsageCRLSign = 64"

unbundle bit_operations_syntax

definition validateEgressCASecret :: "'w env \<Rightarrow> string \<Rightarrow> string gomap \<Rightarrow> go_error option" where
  "validateEgressCASecret E refName data =
     (let certPEM = map_str data EgressCATLSCertKey in
      if certPEM = [] then
        Some (PlainError (''egress CA Secret '' @ quote refName @ '' missing key '' @ quote EgressCATLSCertKey))
      else if map_str data EgressCATLSKeyKey = [] then
        Some (PlainError (''egress CA Secret '' @ quote refName @ '' missing key '' @ quote EgressCATLSKeyKey))
      else (case pf_PemDecode (plat E) certPEM of
         None \<Rightarrow> Some (PlainError (''egress CA Secret '' @ quote refName @ '' key '' @ quote EgressCATLSCertKey @
                                   '' is not PEM-encoded''))
       | Some bytes \<Rightarrow>
           (case pf_ParseCertificate (plat E) bytes of
              Inl err \<Rightarrow> Some (WrappedError (''egress CA Secret '' @ quote refName @ '': parsing certificate: '') err [])
            | Inr cert \<Rightarrow>
                if \<not> cert_IsCA cert then
                  Some (PlainError (''egress CA Secret '' @ quote refName @ '' certificate is not a CA (isCA=false); '' @
                     ''iron-proxy needs a CA to sign leaf certs '' @ [CHR 0xE2, CHR 0x80, CHR 0x94] @
                     '' issue it with cert-manager isCA: true''))
                else if cert_KeyUsage cert \<noteq> 0 \<and> cert_KeyUsage cert AND KeyUsageCertSign = 0 then
                  Some (PlainError (''egress CA Secret '' @ quote refName @ '' certificate lacks the certSign key usage''))
                else None)))"

definition ca_template :: "int \<Rightarrow> go_time \<Rightarrow> certificate" where
  "ca_template serial now =
     \<lparr>cert_SerialNumber = serial, cert_CommonName = ''hermes-agent iron-proxy CA'',
      cert_NotBefore = now - 3600 * second, cert_NotAfter = AddYears now 10,
      cert_IsCA = True, cert_BasicConstraintsValid = True,
      cert_KeyUsage = KeyUsageCertSign OR KeyUsageCRLSign\<rparr>"

definition wrap_err :: "string \<Rightarrow> go_error + 'a \<Rightarrow> go_error + 'a" where
  "wrap_err pre r = (case r of Inl err \<Rightarrow> Inl (WrappedError pre err []) | Inr v \<Rightarrow> Inr v)"

definition bind_err :: "('w, go_error + 'a) prog \<Rightarrow> ('a \<Rightarrow> ('w, go_error + 'b) prog) \<Rightarrow> ('w, go_error + 'b) prog" where
  "bind_err m k = do { r \<leftarrow> m; case r of Inl err \<Rightarrow> State_Monad.return (Inl err) | Inr v \<Rightarrow> k v }"

definition buildEgressCASecret :: "'w env \<Rightarrow> hermes_agent \<Rightarrow> ('w, go_error + secret) prog" where
  "buildEgressCASecret E ha =
     bind_err (do { r \<leftarrow> local_call (pf_GenerateKey (plat E)); State_Monad.return (wrap_err ''generating egress CA key: '' r) }) (\<lambda>key.
     bind_err (do { r \<leftarrow> local_call (pf_RandInt (plat E) (2 ^ 128)); State_Monad.return (wrap_err ''generating egress CA serial: '' r) }) (\<lambda>serial.
     do { now \<leftarrow> local_call (pf_Now (plat E));
          bind_err (do { r \<leftarrow> local_call (pf_CreateCertificate (plat E) (ca_template serial now) key);
                         State_Monad.return (wrap_err ''creating egress CA certificate: '' r) }) (\<lambda>der.
          State_Monad.return
            (case wrap_err ''marshaling egress CA key: '' (pf_MarshalPKCS8PrivateKey (plat E) key) of
               Inl err \<Rightarrow> Inl err
             | Inr keyDER \<Rightarrow>
                 Inr \<lparr>sec_meta = objectMeta (GetEgressCASecretName ha) (ha_Namespace ha) (ResourceLabels ha),
                      sec_Data = [(EgressCAManagedCertKey, pf_PemEncode (plat E) ''CERTIFICATE'' der),
                                  (EgressCAManagedKeyKey, pf_PemEncode (plat E) ''PRIVATE KEY'' keyDER)]\<rparr>)) }))"

section \<open>The loop\<close>

definition recordEgressCASecret :: "'w env \<Rightarrow> string \<Rightarrow> 'w loop" where
  "recordEgressCASecret E name =
     do { ha \<leftarrow> get_agent;
          if mr_EgressCASecret (st_ManagedResources (ha_Status ha)) = name then finish
          else do { mod_managed (mr_EgressCASecret_update (\<lambda>_. name)); status_then_finish E } }"

definition reconcileEgressCA :: "'w env \<Rightarrow> 'w loop" where
  "reconcileEgressCA E = defer_mark E condReasonEgressCAFailed
     (do { ha \<leftarrow> get_agent;
           let secretNsName = \<lparr>nn_Namespace = ha_Namespace ha, nn_Name = GetEgressCASecretName ha\<rparr>;
           get30 (GetSecret E secretNsName) (\<lambda>existing.
             let refName = Egress_GetCASecretRefName (GetEgress ha) in
             if \<not> Egress_IsEnabled (GetEgress ha) then
               (let userOwned = (refName = GetEgressCASecretName ha) in
                when30 (existing \<noteq> None \<and> \<not> userOwned) (DeleteSecret E secretNsName) (LogDebug ''Egress CA Secret deleted'')
                  (recordEgressCASecret E []))
             else if refName \<noteq> [] then
               get30 (GetSecret E \<lparr>nn_Namespace = ha_Namespace ha, nn_Name = refName\<rparr>) (\<lambda>userSecret.
                 case userSecret of
                   None \<Rightarrow> fail30 (PlainError (''egress CA Secret '' @ quote refName @ '' not found''))
                 | Some us \<Rightarrow>
                     (case validateEgressCASecret E refName (sec_Data us) of
                        Some err \<Rightarrow> fail30 err
                      | None \<Rightarrow>
                          when30 (existing \<noteq> None \<and> refName \<noteq> GetEgressCASecretName ha) (DeleteSecret E secretNsName)
                            (LogDebug ''Egress CA Secret deleted after switching to a user-supplied CA'')
                            (recordEgressCASecret E [])))
             else if existing \<noteq> None then recordEgressCASecret E (GetEgressCASecretName ha)
             else
               get30 (buildEgressCASecret E ha) (\<lambda>secret.
               try30 (CreateSecretOwnedByHermesAgent E secret)
                 (do { tel (LogDebug ''Egress CA Secret created'');
                       recordEgressCASecret E (GetEgressCASecretName ha) }))) })"

end
