(* ===== verification/Snapshot.thy ===== *)
theory Snapshot
  imports Infra Go_Time "HOL-Library.Multiset"
begin

text \<open>
  Periodic volume snapshots (\<^verbatim>\<open>internal/usecase/hermesagent_snapshot.go\<close>): naming, the retention
  split, the references kept in the status and the loop with its cron schedule.  A parsed schedule
  is its \<^verbatim>\<open>Next\<close> function; the zero time means that there is no next run.  A negative retention, for
  which the slice expression of \<^verbatim>\<open>splitSnapshots\<close> would panic, is excluded by the schema of the
  custom resource (minimum 1) and read as 0 here.
\<close>

section \<open>Names and objects\<close>

definition condReasonCRDAbsent :: string where "condReasonCRDAbsent = ''VolumeSnapshotsNotInstalled''"
definition condReasonInvalidSchedule :: string where "condReasonInvalidSchedule = ''InvalidSchedule''"

definition buildDataPVCName :: "hermes_agent \<Rightarrow> string" where
  "buildDataPVCName ha =
     (let p = Hermes_GetPersistence (GetHermes ha);
          ec = HermesPersistence_GetExistingClaim p; es = HermesPersistence_GetExistingSnapshot p
      in if ec \<noteq> [] then ec
         else if es \<noteq> [] then RestoredPVCName es
         else hermesHomeVolume @ ''-'' @ ha_Name ha @ ''-0'')"

definition buildSnapshotName :: "string \<Rightarrow> go_time \<Rightarrow> string" where
  "buildSnapshotName pvcName t = pvcName @ ''-'' @ format_timestamp t"

definition buildSnapshot :: "hermes_agent \<Rightarrow> string \<Rightarrow> volume_snapshot" where
  "buildSnapshot ha name =
     \<lparr>vs_meta = objectMeta name (ha_Namespace ha) [],
      vs_PersistentVolumeClaimName = buildDataPVCName ha,
      vs_VolumeSnapshotClassName =
        (case HermesSnapshot_GetVolumeSnapshotClassName (Hermes_GetSnapshot (GetHermes ha)) of
           None \<Rightarrow> None | Some c \<Rightarrow> if c \<noteq> [] then Some c else None),
      vs_Status = None\<rparr>"

section \<open>Retention\<close>

abbreviation vs_created :: "volume_snapshot \<Rightarrow> go_time" where
  "vs_created s \<equiv> om_CreationTimestamp (vs_meta s)"

definition splitSnapshots :: "volume_snapshot list \<Rightarrow> int \<Rightarrow> volume_snapshot list \<times> volume_snapshot list" where
  "splitSnapshots snapshots retention =
     (let sorted = sort_key (\<lambda>s. - vs_created s) snapshots in
      if int (length sorted) \<le> retention then (sorted, [])
      else (take (nat retention) sorted, drop (nat retention) sorted))"

definition snapshotRef :: "volume_snapshot \<Rightarrow> snapshot_ref" where
  "snapshotRef snap =
     \<lparr>sr_Name = om_Name (vs_meta snap), sr_PVC = vs_PersistentVolumeClaimName snap, sr_CreationTime = vs_created snap\<rparr>"

definition snapshotRefs :: "volume_snapshot list \<Rightarrow> snapshot_ref list" where
  "snapshotRefs snapshots =
     map snapshotRef (filter (\<lambda>s. \<not> (om_Name (vs_meta s) = [] \<or> vs_created s = 0 \<or>
                                      om_DeletionTimestamp (vs_meta s) \<noteq> None)) snapshots)"

text \<open>The snapshots to delete: those beyond the retention, never the restore source.\<close>

definition expired_snapshots :: "string \<Rightarrow> volume_snapshot list \<Rightarrow> volume_snapshot list" where
  "expired_snapshots source deprecated =
     (if source \<noteq> [] then filter (\<lambda>s. om_Name (vs_meta s) \<noteq> source) deprecated else deprecated)"

section \<open>The loop\<close>

definition setSnapshotUnsupported :: "'w env \<Rightarrow> string \<Rightarrow> string \<Rightarrow> ('w, unit) prog" where
  "setSnapshotUnsupported E reason message =
     do { _ \<leftarrow> set_condition E ConditionSnapshotUnsupported ConditionTrue reason message;
          tel (LogInfo ''Snapshotting unsupported for HermesAgent'') }"

definition clearSnapshotUnsupported :: "'w env \<Rightarrow> ('w, bool) prog" where
  "clearSnapshotUnsupported E =
     do { changed \<leftarrow> remove_condition E ConditionSnapshotUnsupported;
          (if changed then tel (LogInfo ''Cleared SnapshotUnsupported condition for HermesAgent'') else State_Monad.return ());
          State_Monad.return changed }"

fun delete_expired :: "'w env \<Rightarrow> volume_snapshot list \<Rightarrow> 'w loop \<Rightarrow> 'w loop" where
  "delete_expired E [] k = k"
| "delete_expired E (old # rest) k =
     try30 (DeleteVolumeSnapshot E (meta_key (vs_meta old)))
       (do { tel (LogInfo ''Deleted expired VolumeSnapshot''); delete_expired E rest k })"

text \<open>After the creation: list again, record the retained snapshots, wait for the next run.\<close>

definition record_snapshots :: "'w env \<Rightarrow> hermes_snapshot option \<Rightarrow> (go_time \<Rightarrow> go_time) \<Rightarrow> go_time \<Rightarrow> 'w loop" where
  "record_snapshots E snap schedule now =
     do { ha \<leftarrow> get_agent;
          get30 (ListVolumeSnapshotsOwnedByAgent E (ha_Namespace ha) (ha_Name ha)) (\<lambda>snapshots.
            do { let live = fst (splitSnapshots snapshots (HermesSnapshot_GetRetention snap));
                 mod_status (st_Snapshot_update (\<lambda>_. \<lparr>ss_LastScheduleTime = Some now, ss_Snapshots = snapshotRefs live\<rparr>));
                 try30 (UpdateHermesAgentStatus E)
                   (let nextRun = schedule now in
                    if nextRun = 0 then finish
                    else State_Monad.return (\<lparr>cres_RequeueAfter = nextRun - now\<rparr>, None)) }) }"

text \<open>From the creation of the due snapshot to the end of the loop.\<close>

definition take_snapshot :: "'w env \<Rightarrow> hermes_snapshot option \<Rightarrow> (go_time \<Rightarrow> go_time) \<Rightarrow> string \<Rightarrow> go_time \<Rightarrow> 'w loop" where
  "take_snapshot E snap schedule pvcName now =
     do { ha \<leftarrow> get_agent;
          let desired = buildSnapshot ha (buildSnapshotName pvcName now);
          e \<leftarrow> CreateVolumeSnapshotOwnedByHermesAgent E desired;
          (case e of
             Some err \<Rightarrow> if \<not> IsAlreadyExists err then fail30 err else record_snapshots E snap schedule now
           | None \<Rightarrow> do { tel (LogInfo ''Created VolumeSnapshot''); record_snapshots E snap schedule now }) }"

text \<open>From the deletion of the expired snapshots on: is the schedule due?\<close>

definition run_schedule :: "'w env \<Rightarrow> hermes_snapshot option \<Rightarrow> (go_time \<Rightarrow> go_time) \<Rightarrow> string \<Rightarrow> 'w loop" where
  "run_schedule E snap schedule pvcName =
     do { now \<leftarrow> local_call (pf_Now (plat E));
          ha \<leftarrow> get_agent;
          let last_run = (case ss_LastScheduleTime (st_Snapshot (ha_Status ha)) of
                            None \<Rightarrow> om_CreationTimestamp (ha_meta ha) | Some t \<Rightarrow> t);
          let next_run = schedule last_run;
          if next_run = 0 then
            do { tel (LogError (PlainError (''schedule '' @ quote (HermesSnapshot_GetSchedule snap) @ '' has no next run time''))
                        ''Could not compute next snapshot time'');
                 State_Monad.return (requeue 30, None) }
          else if next_run > now then State_Monad.return (\<lparr>cres_RequeueAfter = next_run - now\<rparr>, None)
          else take_snapshot E snap schedule pvcName now }"

definition prune_and_run ::
  "'w env \<Rightarrow> hermes_snapshot option \<Rightarrow> (go_time \<Rightarrow> go_time) \<Rightarrow> string \<Rightarrow> volume_snapshot list \<Rightarrow> 'w loop" where
  "prune_and_run E snap schedule pvcName snapshots =
     do { ha \<leftarrow> get_agent;
          let deprecated = snd (splitSnapshots snapshots (HermesSnapshot_GetRetention snap));
          let source = HermesPersistence_GetExistingSnapshot (Hermes_GetPersistence (GetHermes ha));
          delete_expired E (expired_snapshots source deprecated) (run_schedule E snap schedule pvcName) }"

definition reconcileSnapshot :: "'w env \<Rightarrow> 'w loop" where
  "reconcileSnapshot E =
     do { ha \<leftarrow> get_agent;
          let snap = Hermes_GetSnapshot (GetHermes ha);
          if \<not> HermesSnapshot_IsEnabled snap then
            do { changed \<leftarrow> clearSnapshotUnsupported E;
                 if changed then status_then_finish E else finish }
          else if IsSuspended ha then
            do { tel (LogDebug ''Skipping snapshot because HermesAgent is suspended''); finish }
          else
            do { let pvcName = buildDataPVCName ha;
                 get30 (GetPersistentVolumeClaim E \<lparr>nn_Namespace = ha_Namespace ha, nn_Name = pvcName\<rparr>) (\<lambda>pvc.
                   if (case pvc of None \<Rightarrow> True | Some p \<Rightarrow> pvc_Phase p \<noteq> ''Bound'') then
                     do { tel (LogDebug ''Data PVC is not bound yet, skipping snapshot''); State_Monad.return (requeue 30, None) }
                   else
                     (case am_CronParseStandard (mach E) (HermesSnapshot_GetSchedule snap) of
                        Inl err \<Rightarrow>
                          do { tel (LogError err ''Invalid snapshot schedule'');
                               setSnapshotUnsupported E condReasonInvalidSchedule
                                 (''Invalid schedule '' @ quote (HermesSnapshot_GetSchedule snap) @ '': '' @ err_text err);
                               try30 (UpdateHermesAgentStatus E) (State_Monad.return (requeue 30, None)) }
                      | Inr schedule \<Rightarrow>
                          do { r \<leftarrow> ListVolumeSnapshotsOwnedByAgent E (ha_Namespace ha) (ha_Name ha);
                               case r of
                                 Inl err \<Rightarrow>
                                   if IsNoMatchError err then
                                     do { tel (LogInfo ''VolumeSnapshot API is not available in the cluster'');
                                          setSnapshotUnsupported E condReasonCRDAbsent
                                            ''The VolumeSnapshot CRD (snapshot.storage.k8s.io/v1) is not installed; install the snapshot-controller to enable periodic backups'';
                                          status_then_finish E }
                                   else fail30 err
                               | Inr snapshots \<Rightarrow>
                                   do { changed \<leftarrow> clearSnapshotUnsupported E;
                                        if changed
                                        then try30 (UpdateHermesAgentStatus E) (prune_and_run E snap schedule pvcName snapshots)
                                        else prune_and_run E snap schedule pvcName snapshots } })) } }"

section \<open>Retention keeps the newest\<close>

text \<open>
  C26: The retention split loses and invents no snapshot, keeps at most the retained number (all of
  them when there are fewer), orders both parts newest first, keeps no snapshot older than one it
  deprecates, and keeps the listing order among snapshots of the same age.
\<close>

theorem splitSnapshots_spec:
  "mset (fst (splitSnapshots xs r)) + mset (snd (splitSnapshots xs r)) = mset xs \<and>
   length (fst (splitSnapshots xs r)) = min (length xs) (nat r) \<and>
   sorted_wrt (\<lambda>a b. vs_created b \<le> vs_created a) (fst (splitSnapshots xs r) @ snd (splitSnapshots xs r)) \<and>
   filter (\<lambda>s. vs_created s = t) (fst (splitSnapshots xs r) @ snd (splitSnapshots xs r)) =
     filter (\<lambda>s. vs_created s = t) xs"
proof (intro conjI)
  let ?s = "sort_key (\<lambda>s. - vs_created s) xs"
  have app: "fst (splitSnapshots xs r) @ snd (splitSnapshots xs r) = ?s"
    by (simp add: splitSnapshots_def Let_def)
  show "mset (fst (splitSnapshots xs r)) + mset (snd (splitSnapshots xs r)) = mset xs"
    unfolding mset_append [symmetric] app by simp
  show "length (fst (splitSnapshots xs r)) = min (length xs) (nat r)"
    by (auto simp: splitSnapshots_def Let_def)
  have "sorted (map (\<lambda>s. - vs_created s) ?s)" by (rule sorted_sort_key)
  then show "sorted_wrt (\<lambda>a b. vs_created b \<le> vs_created a) (fst (splitSnapshots xs r) @ snd (splitSnapshots xs r))"
    unfolding app by (simp add: sorted_wrt_map)
  have "filter (\<lambda>s. - vs_created s = - t) ?s = filter (\<lambda>s. - vs_created s = - t) xs"
    by (rule sort_key_stable)
  then show "filter (\<lambda>s. vs_created s = t) (fst (splitSnapshots xs r) @ snd (splitSnapshots xs r)) =
      filter (\<lambda>s. vs_created s = t) xs"
    unfolding app by simp
qed

end
