(* ===== verification/Restore.thy ===== *)
theory Restore
  imports Snapshot
begin

text \<open>
  Restoring the data volume from a snapshot (\<^verbatim>\<open>internal/usecase/hermesagent_restore.go\<close>).
\<close>

definition condReasonSnapshotNotReady :: string where "condReasonSnapshotNotReady = ''SnapshotNotReady''"
definition condReasonSnapshotCRDAbsent :: string where "condReasonSnapshotCRDAbsent = ''VolumeSnapshotsNotInstalled''"
definition volumeSnapshotAPIGroupPtr :: string where "volumeSnapshotAPIGroupPtr = ''snapshot.storage.k8s.io''"

definition setRestoreFailed :: "'w env \<Rightarrow> string \<Rightarrow> string \<Rightarrow> ('w, unit) prog" where
  "setRestoreFailed E reason message =
     do { _ \<leftarrow> set_condition E ConditionRestoreFailed ConditionTrue reason message;
          tel (LogInfo ''Restore failed for HermesAgent'') }"

definition clearRestoreFailed :: "'w env \<Rightarrow> ('w, bool) prog" where
  "clearRestoreFailed E =
     do { changed \<leftarrow> remove_condition E ConditionRestoreFailed;
          (if changed then tel (LogInfo ''Cleared RestoreFailed condition for HermesAgent'') else State_Monad.return ());
          State_Monad.return changed }"

definition snapshot_ready :: "volume_snapshot \<Rightarrow> bool" where
  "snapshot_ready s \<longleftrightarrow> (case vs_Status s of None \<Rightarrow> False | Some st \<Rightarrow> vst_ReadyToUse st = Some True)"

text \<open>Setting the condition and persisting it: no snapshot, and the error of the status update.\<close>

definition restore_failed_nil :: "'w env \<Rightarrow> string \<Rightarrow> string \<Rightarrow> ('w, go_error + volume_snapshot option) prog" where
  "restore_failed_nil E reason message =
     do { setRestoreFailed E reason message;
          e \<leftarrow> UpdateHermesAgentStatus E;
          State_Monad.return (case e of Some err \<Rightarrow> Inl err | None \<Rightarrow> Inr None) }"

definition getReadySnapshot :: "'w env \<Rightarrow> string \<Rightarrow> ('w, go_error + volume_snapshot option) prog" where
  "getReadySnapshot E name =
     do { ha \<leftarrow> get_agent;
          r \<leftarrow> GetVolumeSnapshot E \<lparr>nn_Namespace = ha_Namespace ha, nn_Name = name\<rparr>;
          case r of
            Inl err \<Rightarrow>
              if IsNoMatchError err
              then restore_failed_nil E condReasonSnapshotCRDAbsent
                     ''The VolumeSnapshot CRD (snapshot.storage.k8s.io/v1) is not installed; install the snapshot-controller to enable restores''
              else State_Monad.return (Inl err)
          | Inr snapshot \<Rightarrow>
              if (case snapshot of None \<Rightarrow> True | Some s \<Rightarrow> \<not> snapshot_ready s)
              then restore_failed_nil E condReasonSnapshotNotReady
                     (''VolumeSnapshot '' @ quote name @ '' not found or not ReadyToUse in namespace '' @ quote (ha_Namespace ha))
              else State_Monad.return (Inr snapshot) }"

definition statefulSetHasVolumeClaimTemplate :: "statefulset \<Rightarrow> string \<Rightarrow> bool" where
  "statefulSetHasVolumeClaimTemplate sts name \<longleftrightarrow>
     list_ex (\<lambda>vct. om_Name (pvc_meta vct) = name) (sts_VolumeClaimTemplates sts)"

text \<open>
  \<^verbatim>\<open>buildRestoredPVC\<close> dereferences the persistence section, which is present: the restore source is
  read from it.
\<close>

definition buildRestoredPVC :: "hermes_agent \<Rightarrow> volume_snapshot \<Rightarrow> persistent_volume_claim" where
  "buildRestoredPVC ha snapshot =
     (let size = (case vs_Status snapshot of
                    None \<Rightarrow> Quantity ''10Gi''
                  | Some st \<Rightarrow> (case vst_RestoreSize st of None \<Rightarrow> Quantity ''10Gi'' | Some q \<Rightarrow> q))
      in \<lparr>pvc_meta = objectMeta (RestoredPVCName (om_Name (vs_meta snapshot))) (ha_Namespace ha) [],
          pvc_AccessModes = [''ReadWriteOnce''],
          pvc_Storage = size,
          pvc_StorageClassName = (case Hermes_GetPersistence (GetHermes ha) of None \<Rightarrow> None | Some hp \<Rightarrow> hp_StorageClassName hp),
          pvc_DataSource = Some (volumeSnapshotAPIGroupPtr, ''VolumeSnapshot'', om_Name (vs_meta snapshot)),
          pvc_Phase = []\<rparr>)"

text \<open>The reshape gate and the end of the loop, once the restored claim exists.\<close>

definition reshape_gate :: "'w env \<Rightarrow> namespaced_name \<Rightarrow> 'w loop" where
  "reshape_gate E nsName =
     get30 (GetStatefulSet E nsName) (\<lambda>sts.
       if (case sts of None \<Rightarrow> False | Some s \<Rightarrow> statefulSetHasVolumeClaimTemplate s hermesHomeVolume) then
         try30 (DeleteStatefulSet E nsName)
           (do { tel (LogInfo ''Deleted StatefulSet to mount restore PVC''); State_Monad.return (requeue 30, None) })
       else
         do { changed \<leftarrow> clearRestoreFailed E;
              if changed then status_then_finish E else finish })"

text \<open>Provisioning the claim from the snapshot.\<close>

definition provision_restore :: "'w env \<Rightarrow> namespaced_name \<Rightarrow> string \<Rightarrow> 'w loop \<Rightarrow> 'w loop" where
  "provision_restore E pvcNsName source k =
     get30 (getReadySnapshot E source) (\<lambda>sourceSnapshot.
       case sourceSnapshot of
         None \<Rightarrow> State_Monad.return (requeue 30, None)
       | Some snapshot \<Rightarrow>
           do { ha \<leftarrow> get_agent;
                e \<leftarrow> CreatePersistentVolumeClaimOwnedByHermesAgent E (buildRestoredPVC ha snapshot);
                if (case e of None \<Rightarrow> False | Some err \<Rightarrow> \<not> IsAlreadyExists err) then fail30 (the e)
                else
                  do { tel (LogInfo ''Created restore PVC from VolumeSnapshot'');
                       get30 (GetPersistentVolumeClaim E pvcNsName) (\<lambda>restored.
                         if restored = None then State_Monad.return (requeue 30, None) else k) } })"

definition reconcileRestore :: "'w env \<Rightarrow> 'w loop" where
  "reconcileRestore E =
     do { ha \<leftarrow> get_agent;
          let source = HermesPersistence_GetExistingSnapshot (Hermes_GetPersistence (GetHermes ha));
          if source = [] then
            do { changed \<leftarrow> clearRestoreFailed E;
                 if changed then status_then_finish E else finish }
          else
            do { let nsName = \<lparr>nn_Namespace = ha_Namespace ha, nn_Name = ha_Name ha\<rparr>;
                 let pvcNsName = \<lparr>nn_Namespace = ha_Namespace ha, nn_Name = RestoredPVCName source\<rparr>;
                 get30 (GetPersistentVolumeClaim E pvcNsName) (\<lambda>restored.
                   if restored = None then provision_restore E pvcNsName source (reshape_gate E nsName)
                   else reshape_gate E nsName) } }"

end
