(* ===== verification/Hermes_Scripts.thy ===== *)
theory Hermes_Scripts
  imports Api_Egress
begin

text \<open>
  The shell scripts of the init containers
  (\<^verbatim>\<open>internal/usecase/hermesagent_statefulset_hermes_scripts.go\<close>): every builder is the text it
  renders, line by line, with the values it interpolates.  \<^const>\<open>quote\<close> is Go's \<^verbatim>\<open>%q\<close>.
\<close>

section \<open>Text\<close>

definition nl :: string where "nl = [CHR 0x0A]"
definition bs :: string where "bs = [CHR 0x5C]"
definition sq :: string where "sq = [CHR 0x27]"

definition unlines :: "string list \<Rightarrow> string" where
  "unlines ls = concat (map (\<lambda>l. l @ nl) ls)"

definition hermesDefaultProfile :: string where "hermesDefaultProfile = ''default''"

definition manifest_dir :: "string \<Rightarrow> string" where
  "manifest_dir profile = ''$HERMES_HOME/.hermes-agent-operator/profiles/'' @ profile"

text \<open>The pattern \<^verbatim>\<open>"a"|"b"\<close> of a case branch.\<close>

definition case_pattern :: "string list \<Rightarrow> string" where
  "case_pattern names = [CHR 0x22] @ Join names [CHR 0x22, CHR ''|'', CHR 0x22] @ [CHR 0x22]"

section \<open>Config and workspace\<close>

definition buildConfigScript :: \<open>string \<Rightarrow> string\<close> where
  \<open>buildConfigScript profile =
     (let bootstrapKey = ''profile.'' @ profile @ ''.config.yaml'' in
      unlines
       [''set -eu'',
        ''mkdir -p "$HERMES_HOME/home"'',
        ''if [ -f "/bootstrap/'' @ bootstrapKey @ ''" ]; then'',
        ''  config_path=$(hermes config path -p '' @ quote profile @ '')'',
        ''  mkdir -p "$(dirname "$config_path")"'',
        ''  cp "/bootstrap/'' @ bootstrapKey @ ''" "$config_path"'',
        ''  echo "Config written for profile '' @ profile @ ''"'',
        ''fi''])\<close>

definition buildWorkspaceScript :: \<open>string \<Rightarrow> string\<close> where
  \<open>buildWorkspaceScript profile =
     (let bootstrapPrefix = ''profile.'' @ profile @ ''.workspace.''; manifestDir = manifest_dir profile in
      unlines
       [''set -eu'',
        ''MANIFEST_FILE="'' @ manifestDir @ ''/workspace-files"'',
        ''UPDATED_MANIFEST=""'',
        ''mkdir -p "'' @ manifestDir @ ''"'',
        ''profile_home=$(dirname "$(hermes config path -p '' @ quote profile @ '')")'',
        [],
        ''# delete files that were previously managed but are no longer in workspace.files'',
        ''if [ -f "$MANIFEST_FILE" ]; then'',
        ''  while IFS= read -r managed; do'',
        ''    [ -z "$managed" ] && continue'',
        ''    key="'' @ bootstrapPrefix @ ''$(echo "$managed" | sed 's|/|'' @ HermesWorkspacePathSeparator @
         ''|g')"'',
        ''    if [ ! -f "/bootstrap/$key" ]; then'',
        ''      rm -f "$profile_home/$managed"'',
        ''      echo "Removed outdated workspace file: $managed"'',
        ''    fi'',
        ''  done < "$MANIFEST_FILE"'',
        ''fi'',
        [],
        ''for f in /bootstrap/'' @ bootstrapPrefix @ ''*; do'',
        ''  [ -f "$f" ] || continue'',
        ''  relpath=$(basename "$f" | sed 's/^'' @ bootstrapPrefix @ ''//' | sed 's/'' @
         HermesWorkspacePathSeparator @ ''/'' @ bs @ ''//g')'',
        ''  target="$profile_home/$relpath"'',
        ''  mkdir -p "$(dirname "$target")"'',
        ''  cp "$f" "$target"'',
        ''  echo "Copied workspace file: $relpath"'',
        ''  UPDATED_MANIFEST="$UPDATED_MANIFEST$relpath'',
        ''"'',
        ''done'',
        [],
        ''printf '%s' "$UPDATED_MANIFEST" > "$MANIFEST_FILE"''])\<close>

section \<open>Plugins, skills and bundles\<close>

text \<open>What follows the last slash.\<close>

definition after_last_slash :: "string \<Rightarrow> string" where
  "after_last_slash s = rev (takeWhile (\<lambda>c. c \<noteq> CHR ''/'') (rev s))"

definition pluginDirName :: "string \<Rightarrow> string" where
  "pluginDirName identifier =
     after_last_slash (TrimRight (CHR ''/'') (TrimSuffix (TrimRight (CHR ''/'') identifier) ''.git''))"

definition plugin_install_line :: "string \<Rightarrow> hermes_plugin \<Rightarrow> string" where
  "plugin_install_line profile p =
     ''hermes plugins install -p '' @ quote profile @ '' --force '' @
     (if hpl_Enable p = Some False then ''--no-enable'' else ''--enable'') @
     (if hpl_Ref p \<noteq> [] then '' --ref '' @ quote (hpl_Ref p) else []) @
     '' '' @ quote (hpl_Identifier p)"

definition buildPluginsScript :: \<open>string \<Rightarrow> hermes_plugin list \<Rightarrow> string\<close> where
  \<open>buildPluginsScript profile plugins =
     (let manifestDir = manifest_dir profile;
          desiredNames = map (\<lambda>p. pluginDirName (hpl_Identifier p)) plugins;
          installScript = Join (map (plugin_install_line profile) plugins) nl
      in unlines
       [''set -eu'',
        ''MANIFEST="'' @ manifestDir @ ''/plugins"'',
        ''mkdir -p "'' @ manifestDir @ ''"'',
        [],
        ''# Remove plugins present in manifest but no longer desired'',
        ''if [ -f "$MANIFEST" ]; then'',
        ''  while IFS= read -r name; do'',
        ''    [ -z "$name" ] && continue'',
        ''    case "$name" in'',
        ''      '' @ case_pattern desiredNames @ '') ;;'',
        ''      *) hermes plugins remove -p '' @ quote profile @ '' "$name" || true ;;'',
        ''    esac'',
        ''  done < "$MANIFEST"'',
        ''fi'',
        [],
        ''# Install desired plugins'',
        installScript,
        [],
        ''# Update manifest'',
        ''cat > "$MANIFEST" << 'PLUGINS_EOF'' @ sq,
        Join desiredNames nl,
        ''PLUGINS_EOF''])\<close>

definition skillName :: "hermes_skill \<Rightarrow> string" where
  "skillName s =
     (if hsk_Name s \<noteq> [] then hsk_Name s
      else TrimSuffix (last (Split (hsk_Identifier s) (CHR ''/''))) ''.md'')"

definition skill_install_line :: "string \<Rightarrow> hermes_skill \<Rightarrow> string" where
  "skill_install_line profile s =
     ''hermes skills install -p '' @ quote profile @ '' --yes'' @
     (if hsk_Category s \<noteq> [] then '' --category '' @ hsk_Category s else []) @
     (if hsk_Name s \<noteq> [] then '' --name '' @ hsk_Name s else []) @
     (if hsk_Force s then '' --force'' else []) @
     '' '' @ hsk_Identifier s"

definition skill_update_line :: "string \<Rightarrow> hermes_skill \<Rightarrow> string" where
  "skill_update_line profile s =
     ''hermes skills update -p '' @ quote profile @ '' '' @ skillName s @ '' || true''"

definition buildSkillsScript :: \<open>string \<Rightarrow> hermes_skill list \<Rightarrow> string\<close> where
  \<open>buildSkillsScript profile skills =
     (let manifestDir = manifest_dir profile;
          desiredNames = map skillName skills;
          installScript = Join (map (skill_install_line profile) skills) nl;
          updateScript = Join (map (skill_update_line profile) skills) nl
      in unlines
       [''set -eu'',
        ''MANIFEST="'' @ manifestDir @ ''/skills"'',
        ''mkdir -p "'' @ manifestDir @ ''"'',
        [],
        ''# Remove skills present in manifest but no longer desired'',
        ''if [ -f "$MANIFEST" ]; then'',
        ''  while IFS= read -r name; do'',
        ''    [ -z "$name" ] && continue'',
        ''    case "$name" in'',
        ''      '' @ case_pattern desiredNames @ '') ;;'',
        ''      *) hermes skills uninstall -p '' @ quote profile @ '' "$name" || true ;;'',
        ''    esac'',
        ''  done < "$MANIFEST"'',
        ''fi'',
        [],
        ''# Install desired skills'',
        installScript,
        [],
        ''# Update installed skills to the latest version available'',
        updateScript,
        [],
        ''# Update manifest'',
        ''cat > "$MANIFEST" << 'SKILLS_EOF'' @ sq,
        Join desiredNames nl,
        ''SKILLS_EOF''])\<close>

definition bundle_create_line :: "string \<Rightarrow> hermes_bundle \<Rightarrow> string" where
  "bundle_create_line profile b =
     ''hermes bundles create -p '' @ quote profile @
     concat (map (\<lambda>s. '' --skill '' @ quote s) (hbu_Skills b)) @
     (if hbu_Description b \<noteq> [] then '' --description '' @ quote (hbu_Description b) else []) @
     (if hbu_Instruction b \<noteq> [] then '' --instruction '' @ quote (hbu_Instruction b) else []) @
     (if hbu_Force b then '' --force'' else []) @
     '' '' @ quote (hbu_Name b) @ '' || true''"

definition buildBundlesScript :: \<open>string \<Rightarrow> hermes_bundle list \<Rightarrow> string\<close> where
  \<open>buildBundlesScript profile bundles =
     (let manifestDir = manifest_dir profile;
          desiredNames = map hbu_Name bundles;
          createScript = Join (map (bundle_create_line profile) bundles) nl
      in unlines
       [''set -eu'',
        ''MANIFEST="'' @ manifestDir @ ''/bundles"'',
        ''mkdir -p "'' @ manifestDir @ ''"'',
        [],
        ''# Remove bundles present in manifest but no longer desired'',
        ''if [ -f "$MANIFEST" ]; then'',
        ''  while IFS= read -r name; do'',
        ''    [ -z "$name" ] && continue'',
        ''    case "$name" in'',
        ''      '' @ case_pattern desiredNames @ '') ;;'',
        ''      *) hermes bundles delete -p '' @ quote profile @ '' "$name" || true ;;'',
        ''    esac'',
        ''  done < "$MANIFEST"'',
        ''fi'',
        [],
        ''# Create desired bundles'',
        createScript,
        [],
        ''# Update manifest'',
        ''cat > "$MANIFEST" << 'BUNDLES_EOF'' @ sq,
        Join desiredNames nl,
        ''BUNDLES_EOF''])\<close>

section \<open>Packages\<close>

definition buildPythonPackagesScript :: \<open>hermes_pip_packages option \<Rightarrow> string\<close> where
  \<open>buildPythonPackagesScript cfg =
     (case cfg of
        None \<Rightarrow> ''echo '' @ sq @ ''No Python packages configured'' @ sq
      | Some c \<Rightarrow>
          if pip_Install c = [] then ''echo '' @ sq @ ''No Python packages configured'' @ sq
          else (let extraArgs = (if pip_ExtraArgs c \<noteq> [] then '' '' @ Join (map quote (pip_ExtraArgs c)) '' '' else []);
                    installCmd = ''uv pip install --python /opt/hermes/.venv/bin/python --target "$TARGET"'' @
                      extraArgs @ '' '' @ Join (map quote (pip_Install c)) '' ''
                in unlines
          [''set -eu'',
           ''TARGET="$HERMES_HOME/.python-packages"'',
           ''MANIFEST="$HERMES_HOME/.hermes-agent-operator/python-packages"'',
           ''mkdir -p "$HERMES_HOME/.hermes-agent-operator"'',
           [],
           ''DESIRED=$(cat <<'PKGS_EOF'' @ sq,
           Join (pip_Install c) nl,
           ''PKGS_EOF'',
           '')'',
           [],
           ''if [ -f "$MANIFEST" ] && [ "$(cat "$MANIFEST")" = "$DESIRED" ]; then'',
           ''  echo "Python packages up-to-date, skipping"'',
           ''  exit 0'',
           ''fi'',
           [],
           ''rm -rf "$TARGET"'',
           ''mkdir -p "$TARGET"'',
           installCmd,
           [],
           ''printf '%s' "$DESIRED" > "$MANIFEST"'']))\<close>

definition buildNPMPackagesScript :: \<open>hermes_npm_packages option \<Rightarrow> string\<close> where
  \<open>buildNPMPackagesScript cfg =
     (case cfg of
        None \<Rightarrow> ''echo '' @ sq @ ''No npm packages configured'' @ sq
      | Some c \<Rightarrow>
          if npm_Install c = [] then ''echo '' @ sq @ ''No npm packages configured'' @ sq
          else (let installCmd = ''npm install -g --prefix "$TARGET" '' @ Join (map quote (npm_Install c)) '' ''
                in unlines
          [''set -eu'',
           ''TARGET="$HERMES_HOME/.npm-packages"'',
           ''MANIFEST="$HERMES_HOME/.hermes-agent-operator/npm-packages"'',
           ''mkdir -p "$HERMES_HOME/.hermes-agent-operator"'',
           [],
           ''DESIRED=$(cat <<'PKGS_EOF'' @ sq,
           Join (npm_Install c) nl,
           ''PKGS_EOF'',
           '')'',
           [],
           ''if [ -f "$MANIFEST" ] && [ "$(cat "$MANIFEST")" = "$DESIRED" ]; then'',
           ''  echo "npm packages up-to-date, skipping"'',
           ''  exit 0'',
           ''fi'',
           [],
           ''rm -rf "$TARGET"'',
           ''mkdir -p "$TARGET"'',
           installCmd,
           [],
           ''printf '%s' "$DESIRED" > "$MANIFEST"'']))\<close>

section \<open>The .env files\<close>

definition skip_token_key :: \<open>string \<Rightarrow> string\<close> where
  \<open>skip_token_key egressTokensDir =
     (if egressTokensDir \<noteq> [] then unlines
       [''    if [ -f "'' @ egressTokensDir @ ''/$key" ]; then continue; fi''] else [])\<close>

definition dotenv_mount_loop :: \<open>string \<Rightarrow> string \<Rightarrow> string\<close> where
  \<open>dotenv_mount_loop egressTokensDir mp =
     unlines
       [''  for f in "'' @ mp @ ''"/*; do'',
        ''    [ -f "$f" ] || continue'',
        ''    key="$(basename "$f")"''] @
     skip_token_key egressTokensDir @
     unlines
       [''    value="$(cat "$f")"'',
        ''    printf '%s=%s'' @ bs @ ''n' "$key" "$value"'',
        ''  done'']\<close>

definition dotenv_token_loop :: \<open>string \<Rightarrow> string\<close> where
  \<open>dotenv_token_loop egressTokensDir =
     (unlines
       [''  for f in "'' @ egressTokensDir @ ''"/*; do'',
        ''    [ -f "$f" ] || continue'',
        ''    key="$(basename "$f")"'',
        ''    case "$key" in *[!A-Za-z0-9_]*) continue ;; esac'',
        ''    printf '%s=%s'' @ bs @ ''n' "$key" "$(cat "$f")"'',
        ''  done''])\<close>

definition buildDotEnvScript :: \<open>string \<Rightarrow> string \<Rightarrow> string list \<Rightarrow> string\<close> where
  \<open>buildDotEnvScript profile egressTokensDir mountPaths =
     unlines
       [''set -eu'',
        ''{''] @
     concat (map (dotenv_mount_loop egressTokensDir) mountPaths) @
     (if egressTokensDir \<noteq> [] then dotenv_token_loop egressTokensDir else []) @
     unlines
       [''} > "$(hermes config env-path -p '' @ quote profile @ '')"'',
        ''echo "Generated .env for profile '' @ profile @ ''"'']\<close>

definition egressDotEnvBegin :: string where "egressDotEnvBegin = ''# BEGIN hermes-agent-operator egress''"
definition egressDotEnvEnd :: string where "egressDotEnvEnd = ''# END hermes-agent-operator egress''"
definition egressDotEnvFiles :: string where
  \<open>egressDotEnvFiles = ''"$HERMES_HOME/.env" "$HERMES_HOME"/profiles/*/.env''\<close>

definition buildEgressDotEnvStripScript :: string where
  \<open>buildEgressDotEnvStripScript =
     unlines
       [''set -eu'',
        ''for f in '' @ egressDotEnvFiles @ ''; do'',
        ''  [ -f "$f" ] || continue'',
        ''  sed -i '/^'' @ egressDotEnvBegin @ ''$/,/^'' @ egressDotEnvEnd @ ''$/d' "$f"'',
        ''done'']\<close>

definition proxy_env_block :: "string gomap \<Rightarrow> string" where
  "proxy_env_block env = unlines (map (\<lambda>k. k @ ''='' @ map_str env k) (sorted_keys env))"

definition buildEgressDotEnvAppendScript :: \<open>string gomap \<Rightarrow> string\<close> where
  \<open>buildEgressDotEnvAppendScript env =
     unlines
       [''set -eu'',
        ''for f in '' @ egressDotEnvFiles @ ''; do'',
        ''  [ -f "$f" ] || continue'',
        ''  sed -i '/^'' @ egressDotEnvBegin @ ''$/,/^'' @ egressDotEnvEnd @ ''$/d' "$f"'',
        ''  if [ -n "$(tail -c 1 "$f")" ]; then echo >> "$f"; fi'',
        ''  cat >> "$f" << 'EGRESS_EOF'' @ sq,
        egressDotEnvBegin] @
     proxy_env_block env @ egressDotEnvEnd @ nl @
     unlines
       [''EGRESS_EOF'',
        ''  echo "Added the egress proxy env to $f"'',
        ''done'']\<close>

section \<open>Profiles\<close>

definition buildProfilesCleanupScript :: \<open>hermes_profile gomap \<Rightarrow> string\<close> where
  \<open>buildProfilesCleanupScript profiles =
     (let names = sorted_keys profiles in
      unlines
       [''set -eu'',
        ''PROFILES_MANIFEST="$HERMES_HOME/.hermes-agent-operator/profiles-manifest"'',
        ''mkdir -p "$HERMES_HOME/.hermes-agent-operator"'',
        [],
        ''if [ -f "$PROFILES_MANIFEST" ]; then'',
        ''  while IFS= read -r pname; do'',
        ''    [ -z "$pname" ] && continue'',
        ''    case "$pname" in'',
        ''      '' @ case_pattern names @ '') ;;'',
        ''      *)'',
        ''        hermes profile delete "$pname" || true'',
        ''        rm -rf "$HERMES_HOME/.hermes-agent-operator/profiles/$pname"'',
        ''        ;;'',
        ''    esac'',
        ''  done < "$PROFILES_MANIFEST"'',
        ''fi'',
        [],
        ''cat > "$PROFILES_MANIFEST" << 'PROFILES_EOF'' @ sq,
        Join names nl,
        ''PROFILES_EOF''])\<close>

definition buildProfileCreationScript :: \<open>string \<Rightarrow> bool \<Rightarrow> string\<close> where
  \<open>buildProfileCreationScript name clone =
     (let manifestDir = manifest_dir name;
          cmd = ''hermes profile create '' @ quote name @ '' --no-alias'' @ (if clone then '' --clone'' else [])
      in unlines
       [''set -eu'',
        cmd @ '' || true'',
        ''rm -rf "'' @ manifestDir @ ''/distribution" "'' @ manifestDir @ ''/src"'',
        ''echo "Profile '' @ name @ '' ready"''])\<close>

text \<open>The regular expression \<^verbatim>\<open>^github\.com/[\w.-]+/[\w.-]+/?$\<close>.\<close>

definition word_char :: "char \<Rightarrow> bool" where
  "word_char c \<longleftrightarrow> CHR ''0'' \<le> c \<and> c \<le> CHR ''9'' \<or> CHR ''A'' \<le> c \<and> c \<le> CHR ''Z'' \<or>
     CHR ''a'' \<le> c \<and> c \<le> CHR ''z'' \<or> c = CHR ''_''"

definition gitHubShorthand :: "string \<Rightarrow> bool" where
  "gitHubShorthand s \<longleftrightarrow>
     (let seg = (\<lambda>w. w \<noteq> [] \<and> list_all (\<lambda>c. word_char c \<or> c = CHR ''.'' \<or> c = CHR ''-'') w) in
      case Split s (CHR ''/'') of
        [host, owner, repo] \<Rightarrow> host = ''github.com'' \<and> seg owner \<and> seg repo
      | [host, owner, repo, rest] \<Rightarrow> host = ''github.com'' \<and> seg owner \<and> seg repo \<and> rest = []
      | _ \<Rightarrow> False)"

definition gitCloneURL :: "string \<Rightarrow> string" where
  "gitCloneURL source =
     (if gitHubShorthand source then ''https://'' @ TrimRight (CHR ''/'') source else source)"

definition distribution_header :: \<open>string \<Rightarrow> hermes_profile_distribution option \<Rightarrow> string\<close> where
  \<open>distribution_header name dist =
     (let manifestDir = manifest_dir name in
      unlines
       [''set -eu'',
        ''SOURCE='' @ quote (HermesProfileDistribution_GetSource dist),
        ''CLONE_URL='' @ quote (gitCloneURL (HermesProfileDistribution_GetSource dist)),
        ''REF='' @ quote (HermesProfileDistribution_GetRef dist),
        ''MANIFEST="'' @ manifestDir @ ''/distribution"'',
        ''STAGED="'' @ manifestDir @ ''/src"'',
        ''PROFILE_DIR="$HERMES_HOME/profiles/'' @ name @ ''"'',
        ''# A tab keeps the pair unambiguous: neither a ref nor a usable git URL holds one.'',
        ''DESIRED="$SOURCE'' @ [CHR 0x09] @ ''$REF"'',
        ''mkdir -p "'' @ manifestDir @ ''"'',
        [],
        ''# Write the cause to the termination message, which the operator shows on'',
        ''# the InitFailed condition.'',
        ''fail() {'',
        ''  printf '%s'' @ bs @ ''n' "$*" > /dev/termination-log 2>/dev/null || true'',
        ''  echo "$*" >&2'',
        ''  exit 1'',
        ''}''])\<close>

definition distribution_credentials :: \<open>string \<Rightarrow> string \<Rightarrow> string\<close> where
  \<open>distribution_credentials name credentialsFile =
     (if credentialsFile \<noteq> [] then unlines
       [[],
        ''CREDENTIALS='' @ quote credentialsFile,
        ''[ -f "$CREDENTIALS" ] || fail "Profile '' @ name @ '': the git credentials Secret has no key '' @
         after_last_slash credentialsFile @ ''."'',
        ''export GIT_CONFIG_COUNT=1'',
        ''export GIT_CONFIG_KEY_0=credential.helper'',
        ''export GIT_CONFIG_VALUE_0="store --file=$CREDENTIALS"'']
      else [])\<close>

definition distribution_test :: string where
  \<open>distribution_test =
     unlines
       [[],
        ''# The profile's own distribution.yaml is checked too, because someone can'',
        ''# delete the profile by hand inside the Pod and leave the manifest behind.'',
        ''if [ -f "$MANIFEST" ] && [ "$(cat "$MANIFEST")" = "$DESIRED" ] && [ -f "$PROFILE_DIR/distribution.yaml" ]; then'']\<close>

definition distribution_update :: \<open>string \<Rightarrow> hermes_profile_distribution option \<Rightarrow> string\<close> where
  \<open>distribution_update name dist =
     (if HermesProfileDistribution_ShouldUpdateOnStart dist
      then (let forceConfig = (if HermesProfileDistribution_ShouldForceConfig dist then '' --force-config'' else []) in
            unlines
       [''  hermes profile update '' @ quote name @ forceConfig @ '' --yes '' @ bs,
        ''    || echo "Profile '' @ name @
         '': hermes profile update failed, so the profile stays at its installed revision. The output above says why." >&2''])
      else unlines [''  echo "Profile '' @ name @ '' left at its installed revision"''])\<close>

definition distribution_install :: \<open>string \<Rightarrow> hermes_profile_distribution option \<Rightarrow> string\<close> where
  \<open>distribution_install name dist =
     (if HermesProfileDistribution_IsPinned dist
      then unlines
       [''  export GIT_TERMINAL_PROMPT=0'',
        ''  rm -rf "$STAGED"'',
        ''  if ! git clone --depth 1 --branch "$REF" "$CLONE_URL" "$STAGED"; then'',
        ''    rm -rf "$STAGED"'',
        ''    mkdir -p "$STAGED"'',
        ''    git -C "$STAGED" init -q'',
        ''    git -C "$STAGED" remote add origin "$CLONE_URL"'',
        ''    git -C "$STAGED" fetch -q --depth 1 origin "$REF" '' @ bs,
        ''      || fail "Profile '' @ name @
         '': could not fetch ref $REF from $SOURCE. Check that the ref exists, that the repository is reachable from the cluster, and that the operator has credentials for a private repository."'',
        ''    git -C "$STAGED" checkout -q FETCH_HEAD'',
        ''  fi'',
        ''  echo "Profile '' @ name @ '': $REF is commit $(git -C "$STAGED" rev-parse HEAD)"'',
        ''  rm -rf "$STAGED/.git"'',
        ''  hermes profile install "$STAGED" --name '' @ quote name @ '' --force --yes '' @ bs,
        ''    || fail "Profile '' @ name @
         '': hermes profile install failed for $SOURCE at $REF. The output above says why; a Hermes version requirement or an unschedulable shipped cron job are the usual causes."'']
      else unlines
       [''  hermes profile install "$SOURCE" --name '' @ quote name @ '' --force --yes '' @ bs,
        ''    || fail "Profile '' @ name @
         '': hermes profile install failed for $SOURCE. The output above says why; a Hermes version requirement or an unschedulable shipped cron job are the usual causes."'',
        ''  rm -rf "$STAGED"''])\<close>

definition buildProfileDistributionScript :: \<open>string \<Rightarrow> hermes_profile_distribution option \<Rightarrow> string \<Rightarrow> string\<close> where
  \<open>buildProfileDistributionScript name dist credentialsFile =
     distribution_header name dist @ distribution_credentials name credentialsFile @ distribution_test @
     distribution_update name dist @ unlines [''else''] @ distribution_install name dist @
     unlines
       [''  printf '%s' "$DESIRED" > "$MANIFEST"'',
        ''fi'',
        ''echo "Profile '' @ name @ '' ready"'']\<close>

section \<open>Cron jobs\<close>

definition cronJobsPath :: "string \<Rightarrow> string" where
  "cronJobsPath profile =
     (if profile = hermesDefaultProfile then ''/cron/jobs.json'' else ''/profiles/'' @ profile @ ''/cron/jobs.json'')"

definition buildGetJobIDFunction :: \<open>string \<Rightarrow> string\<close> where
  \<open>buildGetJobIDFunction profile =
     (unlines
       [''get_job_id() {'',
        ''  python3 - "$1" <<'PY'' @ sq,
        ''import json, os, sys'',
        ''p = os.environ.get("HERMES_HOME", "/opt/data") + "'' @ cronJobsPath profile @ ''"'',
        ''if not os.path.exists(p):'',
        ''    sys.exit(0)'',
        ''with open(p) as f:'',
        ''    data = json.load(f)'',
        ''ids = [j.get("id", "") for j in data.get("jobs", []) if j.get("name") == sys.argv[1]]'',
        ''if len(ids) > 1:'',
        ''    print(f"Using the first of {len(ids)} cron jobs named {sys.argv[1]}", file=sys.stderr)'',
        ''if ids:'',
        ''    print(ids[0])'',
        ''PY'',
        ''}''])\<close>

definition shell_word :: "string \<Rightarrow> string" where
  "shell_word v = sq @ ReplaceAll v sq (sq @ bs @ sq @ sq) @ sq"

definition shellWords :: "string list \<Rightarrow> string" where
  "shellWords values = Join (map shell_word values) '' ''"

definition buildResumeCronsScript :: \<open>string \<Rightarrow> string list \<Rightarrow> hermes_cron list \<Rightarrow> string\<close> where
  \<open>buildResumeCronsScript profile names crons =
     (let manifestDir = manifest_dir profile; declared = map hcr_Name crons in
      unlines
       [''set -eu'',
        ''MANIFEST="'' @ manifestDir @ ''/resumed-crons"'',
        ''mkdir -p "'' @ manifestDir @ ''"'',
        [],
        buildGetJobIDFunction profile,
        ''DESIRED=$(printf '%s'' @ bs @ ''n' '' @ shellWords names @ '')'',
        ''DECLARED=$(printf '%s'' @ bs @ ''n' '' @ shellWords declared @ '')'',
        [],
        ''# in_list LIST NAME succeeds when NAME is a line of LIST.'',
        ''in_list() {'',
        ''  case "'',
        ''$1'',
        ''" in'',
        ''    *"'',
        ''$2'',
        ''"*) return 0 ;;'',
        ''  esac'',
        ''  return 1'',
        ''}'',
        [],
        ''# Pause jobs this profile resumed before but no longer allowlists.  A job'',
        ''# whose pause fails stays in the manifest, so the next start tries again.'',
        ''RETRY='',
        ''if [ -f "$MANIFEST" ]; then'',
        ''  while IFS= read -r name; do'',
        ''    [ -z "$name" ] && continue'',
        ''    in_list "$DESIRED" "$name" && continue'',
        ''    in_list "$DECLARED" "$name" && continue'',
        ''    id=$(get_job_id "$name")'',
        ''    [ -z "$id" ] && continue'',
        ''    if hermes cron pause -p '' @ quote profile @ '' "$id"; then'',
        ''      printf '%s'' @ bs @ ''n' "Paused cron job $name"'',
        ''    else'',
        ''      printf '%s'' @ bs @ ''n' "Could not pause cron job $name; will retry at the next start"'',
        ''      RETRY="$RETRY'',
        ''$name"'',
        ''    fi'',
        ''  done < "$MANIFEST"'',
        ''fi'',
        [],
        ''# Resume the allowlisted jobs; a distribution ships its jobs paused.'',
        ''printf '%s'' @ bs @ ''n' "$DESIRED" | while IFS= read -r name; do'',
        ''  [ -z "$name" ] && continue'',
        ''  if in_list "$DECLARED" "$name"; then'',
        ''    printf '%s'' @ bs @ ''n' "Cron job $name is declared in crons; skipping"'',
        ''    continue'',
        ''  fi'',
        ''  id=$(get_job_id "$name")'',
        ''  if [ -z "$id" ]; then'',
        ''    printf '%s'' @ bs @ ''n' "No cron job named $name in profile '' @ profile @ ''; skipping"'',
        ''    continue'',
        ''  fi'',
        ''  if hermes cron resume -p '' @ quote profile @ '' "$id"; then'',
        ''    printf '%s'' @ bs @ ''n' "Resumed cron job $name"'',
        ''  else'',
        ''    printf '%s'' @ bs @ ''n' "Could not resume cron job $name"'',
        ''  fi'',
        ''done'',
        [],
        ''printf '%s'' @ bs @ ''n' "$DESIRED" "$RETRY" > "$MANIFEST"''])\<close>

definition cron_create_line :: "string \<Rightarrow> hermes_cron \<Rightarrow> string" where
  "cron_create_line profile c =
     ''hermes cron create -p '' @ quote profile @ '' --name '' @ quote (hcr_Name c) @
     (if hcr_Deliver c \<noteq> [] then '' --deliver '' @ quote (hcr_Deliver c) else []) @
     (case hcr_Repeat c of None \<Rightarrow> [] | Some n \<Rightarrow> '' --repeat '' @ Itoa n) @
     concat (map (\<lambda>s. '' --skill '' @ quote s) (hcr_Skills c)) @
     (if hcr_Script c \<noteq> [] then '' --script '' @ quote (hcr_Script c) else []) @
     (if hcr_NoAgent c then '' --no-agent'' else []) @
     (if hcr_Workdir c \<noteq> [] then '' --workdir '' @ quote (hcr_Workdir c) else []) @
     (if hcr_MonitorScript c \<noteq> [] then '' --monitor-script '' @ quote (hcr_MonitorScript c) else []) @
     (if hcr_MonitorURL c \<noteq> [] then '' --monitor-url '' @ quote (hcr_MonitorURL c) else []) @
     (if hcr_Model c \<noteq> [] then '' --model '' @ quote (hcr_Model c) else []) @
     (if hcr_Provider c \<noteq> [] then '' --provider '' @ quote (hcr_Provider c) else []) @
     (if hcr_ReasoningEffort c \<noteq> [] then '' --reasoning-effort '' @ quote (hcr_ReasoningEffort c) else []) @
     (if hcr_Continuity c then '' --continuity'' else []) @
     (if hcr_Profile c \<noteq> [] then '' --profile '' @ quote (hcr_Profile c) else []) @
     '' '' @ quote (hcr_Schedule c) @
     (if hcr_Prompt c \<noteq> [] then '' '' @ quote (hcr_Prompt c) else [])"

definition buildCronsScript :: \<open>string \<Rightarrow> hermes_cron list \<Rightarrow> string\<close> where
  \<open>buildCronsScript profile crons =
     (let manifestDir = manifest_dir profile; createScript = Join (map (cron_create_line profile) crons) nl in
      unlines
       [''set -eu'',
        ''MANIFEST="'' @ manifestDir @ ''/crons"'',
        ''mkdir -p "'' @ manifestDir @ ''"'',
        [],
        buildGetJobIDFunction profile,
        ''# Remove crons present in manifest but no longer desired'',
        ''if [ -f "$MANIFEST" ]; then'',
        ''  while IFS= read -r name; do'',
        ''    [ -z "$name" ] && continue'',
        ''    id=$(get_job_id "$name")'',
        ''    [ -z "$id" ] && continue'',
        ''    hermes cron remove -p '' @ quote profile @ '' "$id" || true'',
        ''  done < "$MANIFEST"'',
        ''fi'',
        [],
        ''# Create desired crons'',
        createScript,
        [],
        ''# Update manifest'',
        ''cat > "$MANIFEST" << 'CRONS_EOF'' @ sq,
        Join (map hcr_Name crons) nl,
        ''CRONS_EOF''])\<close>

section \<open>One script from steps\<close>

definition init_step :: "nat \<Rightarrow> nat \<Rightarrow> string \<Rightarrow> string" where
  "init_step n i step =
     unlines [''echo '' @ sq @ ''==> Step '' @ nat_digits (i + 1) @ ''/'' @ nat_digits n @ sq, ''('', step, '')'']"

definition combineInitSteps :: "string list \<Rightarrow> string" where
  "combineInitSteps steps =
     concat (map (\<lambda>(i, step). init_step (length steps) i step) (zip [0..<length steps] steps))"

end
