(* ===== verification/Hermes_Container.thy ===== *)
theory Hermes_Container
  imports Hermes_Scripts
begin

text \<open>
  The part of the pod driven by the hermes section
  (\<^verbatim>\<open>internal/usecase/hermesagent_statefulset_hermes.go\<close>): the agent container, its init containers,
  its volumes and its volume claim template.
\<close>

definition hermesContainerName :: string where "hermesContainerName = ''hermes-agent''"
definition hermesHomeMount :: string where "hermesHomeMount = ''/opt/data''"
definition hermesDSHMVolume :: string where "hermesDSHMVolume = ''dshm''"
definition hermesDSHMMount :: string where "hermesDSHMMount = ''/dev/shm''"
definition hermesTmpVolume :: string where "hermesTmpVolume = ''tmp''"
definition hermesTmpMount :: string where "hermesTmpMount = ''/tmp''"
definition hermesBootstrapVolume :: string where "hermesBootstrapVolume = ''bootstrap''"
definition hermesBootstrapMount :: string where "hermesBootstrapMount = ''/bootstrap''"
definition egressTokensVolume :: string where "egressTokensVolume = ''hermes-egress-tokens''"
definition egressTokensMount :: string where "egressTokensMount = ''/hermes-egress-tokens''"
definition RuntimeDefault :: string where "RuntimeDefault = ''RuntimeDefault''"
definition FallbackToLogsOnError :: string where "FallbackToLogsOnError = ''FallbackToLogsOnError''"

definition hermesHealthCheckCommand :: "string list" where
  "hermesHealthCheckCommand = [''hermes'', ''gateway'', ''status'']"

definition vmount :: "string \<Rightarrow> string \<Rightarrow> bool \<Rightarrow> volume_mount" where
  "vmount name path ro = \<lparr>vm_Name = name, vm_MountPath = path, vm_ReadOnly = ro\<rparr>"

definition vol :: "string \<Rightarrow> volume_source \<Rightarrow> volume" where
  "vol name src = \<lparr>vol_Name = name, vol_Source = src\<rparr>"

section \<open>Items written to the .env files\<close>

definition same_item :: "string \<Rightarrow> key_to_path" where
  "same_item k = \<lparr>ktp_Key = k, ktp_Path = k\<rparr>"

definition buildProfileSidecarDotEnvItems :: "hermes_agent \<Rightarrow> key_to_path list" where
  "buildProfileSidecarDotEnvItems ha =
     (if SearXNG_IsEnabled (GetSearXNG ha) then [same_item ''SEARXNG_URL''] else []) @
     (if Camofox_IsEnabled (GetCamofox ha) then [same_item ''CAMOFOX_URL''] else [])"

definition buildOperatorDotEnvItems :: "hermes_agent \<Rightarrow> key_to_path list" where
  "buildOperatorDotEnvItems ha =
     (let apiServer = Hermes_GetAPIServer (GetHermes ha) in
      if HermesAPIServer_IsEnabled apiServer
      then map same_item [''API_SERVER_ENABLED'', ''API_SERVER_HOST'', ''API_SERVER_PORT''] @
           (if HermesAPIServer_GetCORSOrigins apiServer \<noteq> [] then [same_item ''API_SERVER_CORS_ORIGINS''] else [])
      else []) @
     (if HermesWebhook_IsEnabled (Hermes_GetWebhook (GetHermes ha))
      then map same_item [''WEBHOOK_ENABLED'', ''WEBHOOK_PORT''] else []) @
     (if SearXNG_IsEnabled (GetSearXNG ha) then [same_item ''SEARXNG_URL''] else []) @
     (if Camofox_IsEnabled (GetCamofox ha) then [same_item ''CAMOFOX_URL''] else [])"

definition buildOperatorDotEnvSecretItems :: "hermes_agent \<Rightarrow> key_to_path list" where
  "buildOperatorDotEnvSecretItems ha =
     (if HermesAPIServer_IsEnabled (Hermes_GetAPIServer (GetHermes ha)) then [same_item ''API_SERVER_KEY''] else []) @
     (if HermesWebhook_IsEnabled (Hermes_GetWebhook (GetHermes ha)) then [same_item ''WEBHOOK_SECRET''] else [])"

section \<open>Sources of a .env\<close>

text \<open>
  A source is a volume name with its volume source; it is mounted read-only at the slash followed
  by the name.  The user's ConfigMaps come before the user's Secrets, a single reference before the
  numbered ones.
\<close>

type_synonym dotenv_source = "string \<times> volume_source"

definition numbered :: "string \<Rightarrow> (string \<Rightarrow> volume_source) \<Rightarrow> string list \<Rightarrow> dotenv_source list" where
  "numbered base src names =
     map (\<lambda>(i, n). (base @ ''-'' @ nat_digits i, src n)) (zip [0..<length names] names)"

definition user_dotenv_sources :: "string \<Rightarrow> hermes_dotenv option \<Rightarrow> dotenv_source list" where
  "user_dotenv_sources sfx de =
     (case de of
        None \<Rightarrow> []
      | Some d \<Rightarrow>
          (case hde_ConfigMapRef d of None \<Rightarrow> [] | Some n \<Rightarrow> [(''hermes-dotenv-configmap'' @ sfx, ConfigMapSource n [])]) @
          numbered (''hermes-dotenv-configmap'' @ sfx) (\<lambda>n. ConfigMapSource n []) (hde_ConfigMapRefs d) @
          (case hde_SecretRef d of None \<Rightarrow> [] | Some n \<Rightarrow> [(''hermes-dotenv-secret'' @ sfx, SecretSource n [] None)]) @
          numbered (''hermes-dotenv-secret'' @ sfx) (\<lambda>n. SecretSource n [] None) (hde_SecretRefs d))"

definition default_dotenv_sources :: "hermes_agent \<Rightarrow> dotenv_source list" where
  "default_dotenv_sources ha =
     (let items = buildOperatorDotEnvItems ha; secretItems = buildOperatorDotEnvSecretItems ha in
      (if items \<noteq> [] then [(''hermes-operator-dotenv-configmap'', ConfigMapSource (GetHermesName ha) items)] else []) @
      (if secretItems \<noteq> [] then [(''hermes-operator-dotenv-secret'', SecretSource (GetHermesName ha) secretItems None)] else []) @
      user_dotenv_sources [] (HermesWorkspace_GetDotEnv (Hermes_GetWorkspace (GetHermes ha))))"

definition profile_dotenv_sources :: "hermes_agent \<Rightarrow> string \<Rightarrow> hermes_profile \<Rightarrow> dotenv_source list" where
  "profile_dotenv_sources ha name profile =
     (let items = buildProfileSidecarDotEnvItems ha in
      (if items \<noteq> [] then [(''hermes-operator-dotenv-profile-'' @ name, ConfigMapSource (GetHermesName ha) items)] else []) @
      user_dotenv_sources (''-profile-'' @ name) (HermesWorkspace_GetDotEnv (hpr_Workspace profile)))"

definition source_volumes :: "dotenv_source list \<Rightarrow> volume list" where
  "source_volumes ss = map (\<lambda>(n, src). vol n src) ss"

definition source_mounts :: "dotenv_source list \<Rightarrow> volume_mount list" where
  "source_mounts ss = map (\<lambda>(n, src). vmount n (''/'' @ n) True) ss"

definition source_paths :: "dotenv_source list \<Rightarrow> string list" where
  "source_paths ss = map (\<lambda>(n, src). ''/'' @ n) ss"

section \<open>Containers\<close>

definition buildInitContainerSecurityContext :: security_context where
  "buildInitContainerSecurityContext =
     no_security_context\<lparr>sc_RunAsNonRoot := Some True, sc_RunAsUser := Some 10000, sc_RunAsGroup := Some 10000,
       sc_AllowPrivilegeEscalation := Some False, sc_CapDrop := [''ALL''], sc_SeccompProfile := Some RuntimeDefault\<rparr>"

definition hermes_env :: "hermes_agent \<Rightarrow> env_var list \<Rightarrow> env_var list" where
  "hermes_env ha extra =
     [envValue ''HERMES_HOME'' hermesHomeMount, envValue ''HOME'' (hermesHomeMount @ ''/home'')] @ extra @
     Hermes_GetEnv (GetHermes ha)"

definition hermes_script_container :: "hermes_agent \<Rightarrow> string \<Rightarrow> string \<Rightarrow> container" where
  "hermes_script_container ha name script =
     (container0 name (Hermes_GetImage (GetHermes ha)))
       \<lparr>con_Command := [''/bin/sh'', ''-ec''], con_Args := [script],
        con_TerminationMessagePolicy := FallbackToLogsOnError,
        con_Env := hermes_env ha [], con_EnvFrom := Hermes_GetEnvFrom (GetHermes ha)\<rparr>"

definition initContainer :: "hermes_agent \<Rightarrow> string \<Rightarrow> string \<Rightarrow> container" where
  "initContainer ha name script =
     (hermes_script_container ha name script)
       \<lparr>con_SecurityContext := Some buildInitContainerSecurityContext,
        con_VolumeMounts := [vmount hermesHomeVolume hermesHomeMount False,
                             vmount hermesBootstrapVolume hermesBootstrapMount True,
                             vmount hermesTmpVolume hermesTmpMount False]\<rparr>"

definition init_chown_data :: "hermes_agent \<Rightarrow> container" where
  "init_chown_data ha =
     (hermes_script_container ha ''init-chown-data'' ''chown -R 10000:10000 /opt/data'')
       \<lparr>con_VolumeMounts := [vmount hermesHomeVolume hermesHomeMount False]\<rparr>"

definition init_script_container :: "hermes_agent \<Rightarrow> hermes_init_script \<Rightarrow> container" where
  "init_script_container ha is =
     (hermes_script_container ha (his_Name is) (his_Script is))
       \<lparr>con_SecurityContext := Some buildInitContainerSecurityContext,
        con_VolumeMounts := [vmount hermesHomeVolume hermesHomeMount False,
                             vmount hermesTmpVolume hermesTmpMount False]\<rparr>"

definition probe_defaults :: "int32 \<Rightarrow> int32 \<Rightarrow> int32 \<Rightarrow> k8s_probe" where
  "probe_defaults delay period threshold =
     \<lparr>kp_Command = [], kp_InitialDelaySeconds = delay, kp_PeriodSeconds = period, kp_TimeoutSeconds = 5,
      kp_FailureThreshold = threshold\<rparr>"

definition tcp_port :: "string \<Rightarrow> int32 \<Rightarrow> container_port" where
  "tcp_port name p = \<lparr>cp_Name = name, cp_ContainerPort = p, cp_Protocol = ''TCP''\<rparr>"

definition hermes_container :: "hermes_agent \<Rightarrow> container" where
  "hermes_container ha =
     (let h = GetHermes ha; apiServer = Hermes_GetAPIServer h; webhook = Hermes_GetWebhook h;
          probes = Hermes_GetProbes h in
      (container0 hermesContainerName (Hermes_GetImage h))
       \<lparr>con_Args := [''gateway'', ''run''],
        con_WorkingDir := ''/opt/hermes'',
        con_Ports := Hermes_GetPorts h @
          (if HermesAPIServer_IsEnabled apiServer
           then [tcp_port (HermesAPIServer_GetPortName apiServer) (HermesAPIServer_GetPort apiServer)] else []) @
          (if HermesWebhook_IsEnabled webhook
           then [tcp_port (HermesWebhook_GetPortName webhook) (HermesWebhook_GetPort webhook)] else []),
        con_Env := hermes_env ha
          [envValue ''PYTHONPATH'' (hermesHomeMount @ ''/.python-packages''),
           envValue ''NODE_PATH'' (hermesHomeMount @ ''/.npm-packages/lib/node_modules'')],
        con_EnvFrom := Hermes_GetEnvFrom h,
        con_Resources := Hermes_GetResources h,
        con_SecurityContext := Some (no_security_context\<lparr>sc_SeccompProfile := Some RuntimeDefault\<rparr>),
        con_LivenessProbe := Probe_GetProbe (Probes_GetLiveness probes) hermesHealthCheckCommand (probe_defaults 15 20 3),
        con_ReadinessProbe := Probe_GetProbe (Probes_GetReadiness probes) hermesHealthCheckCommand (probe_defaults 5 10 3),
        con_StartupProbe := Probe_GetProbe (Probes_GetStartup probes) hermesHealthCheckCommand (probe_defaults 0 10 10),
        con_VolumeMounts := [vmount hermesDSHMVolume hermesDSHMMount False,
                             vmount hermesHomeVolume hermesHomeMount False,
                             vmount hermesTmpVolume hermesTmpMount False] @ GetExtraVolumeMounts ha\<rparr>)"

section \<open>The data volume\<close>

text \<open>An existing claim, the claim restored from a snapshot, a claim template, or an emptyDir.\<close>

definition data_volume :: "hermes_agent \<Rightarrow> volume list \<times> persistent_volume_claim list" where
  "data_volume ha =
     (let hp = Hermes_GetPersistence (GetHermes ha);
          ec = HermesPersistence_GetExistingClaim hp; es = HermesPersistence_GetExistingSnapshot hp in
      if ec \<noteq> [] then ([vol hermesHomeVolume (PersistentVolumeClaimSource ec)], [])
      else if es \<noteq> [] then ([vol hermesHomeVolume (PersistentVolumeClaimSource (RestoredPVCName es))], [])
      else (case hp of
              Some p \<Rightarrow>
                if hp_Enabled p
                then ([], [\<lparr>pvc_meta = objectMeta hermesHomeVolume [] [], pvc_AccessModes = [''ReadWriteOnce''],
                            pvc_Storage = HermesPersistence_GetSize hp, pvc_StorageClassName = hp_StorageClassName p,
                            pvc_DataSource = None, pvc_Phase = []\<rparr>])
                else ([vol hermesHomeVolume (EmptyDir [] None)], [])
            | None \<Rightarrow> ([vol hermesHomeVolume (EmptyDir [] None)], [])))"

section \<open>Init steps\<close>

definition egress_tokens_dir :: "hermes_agent \<Rightarrow> string" where
  "egress_tokens_dir ha = (if Egress_IsEnabled (GetEgress ha) then egressTokensMount else [])"

definition egress_tokens_mounts :: "hermes_agent \<Rightarrow> volume_mount list" where
  "egress_tokens_mounts ha =
     (if Egress_IsEnabled (GetEgress ha) then [vmount egressTokensVolume egressTokensMount True] else [])"

definition default_has_dotenv :: "hermes_agent \<Rightarrow> bool" where
  "default_has_dotenv ha \<longleftrightarrow>
     HermesWorkspace_GetDotEnv (Hermes_GetWorkspace (GetHermes ha)) \<noteq> None \<or> buildOperatorDotEnvItems ha \<noteq> [] \<or>
     buildOperatorDotEnvSecretItems ha \<noteq> [] \<or> egress_tokens_dir ha \<noteq> []"

definition default_steps :: "hermes_agent \<Rightarrow> string list" where
  "default_steps ha =
     (let h = GetHermes ha; p = hermesDefaultProfile in
      (if Egress_IsEnabled (GetEgress ha) then [buildEgressDotEnvStripScript] else []) @
      (if Hermes_HasConfigDocument h then [buildConfigScript p] else []) @
      [buildWorkspaceScript p] @
      (if default_has_dotenv ha
       then [buildDotEnvScript p (egress_tokens_dir ha) (source_paths (default_dotenv_sources ha))] else []) @
      [buildPythonPackagesScript (HermesPackages_GetPip (Hermes_GetPackages h)),
       buildNPMPackagesScript (HermesPackages_GetNpm (Hermes_GetPackages h)),
       buildPluginsScript p (Hermes_GetPlugins h),
       buildSkillsScript p (Hermes_GetSkills h),
       buildBundlesScript p (Hermes_GetBundles h),
       buildCronsScript p (Hermes_GetCrons h)] @
      (if Hermes_GetProfiles h \<noteq> [] then [buildProfilesCleanupScript (Hermes_GetProfiles h)] else []))"

definition default_init_container :: "hermes_agent \<Rightarrow> container" where
  "default_init_container ha =
     con_VolumeMounts_update
       (\<lambda>ms. ms @ (if default_has_dotenv ha
                   then source_mounts (default_dotenv_sources ha) @ egress_tokens_mounts ha else []))
       (initContainer ha ''init-hermes'' (combineInitSteps (default_steps ha)))"

text \<open>The git credentials of a profile's distribution: their volume, if any, and the credentials file.\<close>

definition git_credentials_source :: "string \<Rightarrow> hermes_profile \<Rightarrow> dotenv_source list" where
  "git_credentials_source name profile =
     (case HermesProfileDistribution_GetGitCredentials (hpr_Distribution profile) of
        None \<Rightarrow> []
      | Some gc \<Rightarrow> [(''hermes-git-credentials-'' @ name, SecretSource (hgc_SecretRef gc) [] None)])"

definition git_credentials_file :: "string \<Rightarrow> hermes_profile \<Rightarrow> string" where
  "git_credentials_file name profile =
     (case HermesProfileDistribution_GetGitCredentials (hpr_Distribution profile) of
        None \<Rightarrow> []
      | Some gc \<Rightarrow> ''/hermes-git-credentials-'' @ name @ ''/'' @ HermesGitCredentials_GetKey (Some gc))"

definition profile_has_dotenv :: "hermes_agent \<Rightarrow> hermes_profile \<Rightarrow> bool" where
  "profile_has_dotenv ha profile \<longleftrightarrow>
     HermesWorkspace_GetDotEnv (hpr_Workspace profile) \<noteq> None \<or> buildProfileSidecarDotEnvItems ha \<noteq> [] \<or>
     egress_tokens_dir ha \<noteq> []"

definition profile_steps :: "hermes_agent \<Rightarrow> string \<Rightarrow> hermes_profile \<Rightarrow> string list" where
  "profile_steps ha name profile =
     [if hpr_Distribution profile \<noteq> None
      then buildProfileDistributionScript name (hpr_Distribution profile) (git_credentials_file name profile)
      else buildProfileCreationScript name (hpr_Clone profile)] @
     (if HermesProfileConfig_HasDocument (hpr_Config profile) then [buildConfigScript name] else []) @
     [buildWorkspaceScript name] @
     (if profile_has_dotenv ha profile
      then [buildDotEnvScript name (egress_tokens_dir ha) (source_paths (profile_dotenv_sources ha name profile))] else []) @
     [buildPluginsScript name (hpr_Plugins profile),
      buildSkillsScript name (hpr_Skills profile),
      buildBundlesScript name (hpr_Bundles profile),
      buildCronsScript name (hpr_Crons profile)] @
     (if hpr_Distribution profile \<noteq> None
      then [buildResumeCronsScript name (HermesProfileDistribution_GetResumeCrons (hpr_Distribution profile)) (hpr_Crons profile)]
      else [])"

definition profile_sources :: "hermes_agent \<Rightarrow> string \<Rightarrow> hermes_profile \<Rightarrow> dotenv_source list" where
  "profile_sources ha name profile =
     git_credentials_source name profile @
     (if profile_has_dotenv ha profile then profile_dotenv_sources ha name profile else [])"

definition profile_init_container :: "hermes_agent \<Rightarrow> string \<Rightarrow> hermes_profile \<Rightarrow> container" where
  "profile_init_container ha name profile =
     con_VolumeMounts_update
       (\<lambda>ms. ms @ source_mounts (profile_sources ha name profile) @
             (if profile_has_dotenv ha profile then egress_tokens_mounts ha else []))
       (initContainer ha (''init-profile-'' @ name) (combineInitSteps (profile_steps ha name profile)))"

section \<open>The whole\<close>

definition sorted_profiles :: "hermes_agent \<Rightarrow> (string \<times> hermes_profile) list" where
  "sorted_profiles ha =
     (let profiles = Hermes_GetProfiles (GetHermes ha) in
      map (\<lambda>name. (name, the (map_get profiles name))) (Hermes_GetSortedProfileNames (GetHermes ha)))"

definition hermes_init_containers :: "hermes_agent \<Rightarrow> container list" where
  "hermes_init_containers ha =
     (if Hermes_ShouldInitChownData (GetHermes ha) then [init_chown_data ha] else []) @
     [default_init_container ha] @
     map (\<lambda>(name, profile). profile_init_container ha name profile) (sorted_profiles ha) @
     map (init_script_container ha) (Hermes_GetInitScripts (GetHermes ha)) @
     (if Egress_IsEnabled (GetEgress ha)
      then [initContainer ha ''init-egress'' (buildEgressDotEnvAppendScript (Egress_GetAgentProxyEnv (GetEgress ha)))]
      else [])"

definition hermes_volumes :: "hermes_agent \<Rightarrow> volume list" where
  "hermes_volumes ha =
     [vol hermesDSHMVolume (EmptyDir ''Memory'' (Some (Quantity ''1Gi''))),
      vol hermesTmpVolume (EmptyDir [] None),
      vol hermesBootstrapVolume (ConfigMapSource (GetHermesName ha) [])] @
     fst (data_volume ha) @
     (if Egress_IsEnabled (GetEgress ha)
      then [vol egressTokensVolume (SecretSource (GetEgressSecretName ha) [] None)] else []) @
     (if default_has_dotenv ha then source_volumes (default_dotenv_sources ha) else []) @
     concat (map (\<lambda>(name, profile). source_volumes (profile_sources ha name profile)) (sorted_profiles ha))"

definition map_pod_spec :: "(pod_spec \<Rightarrow> pod_spec) \<Rightarrow> statefulset \<Rightarrow> statefulset" where
  "map_pod_spec f = sts_Template_update (pt_Spec_update f)"

definition buildHermesContainer :: "hermes_agent \<Rightarrow> statefulset \<Rightarrow> statefulset" where
  "buildHermesContainer ha sts =
     sts_VolumeClaimTemplates_update (\<lambda>vs. vs @ snd (data_volume ha))
       (map_pod_spec (\<lambda>p. p\<lparr>ps_InitContainers := ps_InitContainers p @ hermes_init_containers ha,
                            ps_Containers := ps_Containers p @ [hermes_container ha],
                            ps_Volumes := ps_Volumes p @ hermes_volumes ha\<rparr>) sts)"

end
