(* ===== verification/Hermes_ConfigMap.thy ===== *)
theory Hermes_ConfigMap
  imports Owned_Config Hermes_Container
begin

text \<open>
  The bootstrap ConfigMap of the agent (\<^verbatim>\<open>internal/usecase/hermesagent_hermes_configmap.go\<close>): the
  documents read from referenced ConfigMaps, the defaults merged into the configuration, the data
  keys and the loop.  A document is its decoded value.  Decoding into \<^verbatim>\<open>map[string]any\<close> and encoding
  again sorts the members, keeps the last of several members with the same name and sends numbers
  through \<^verbatim>\<open>float64\<close>.  Where the sources range over a map, in no fixed order, the model takes the
  keys in their listed or sorted order.
\<close>

section \<open>Documents as maps\<close>

fun those :: "'a option list \<Rightarrow> 'a list option" where
  "those [] = Some []"
| "those (x # xs) =
     (case x of None \<Rightarrow> None | Some a \<Rightarrow> (case those xs of None \<Rightarrow> None | Some as \<Rightarrow> Some (a # as)))"

text \<open>The members of a map in the order of \<^verbatim>\<open>json.Marshal\<close>.\<close>

definition sort_members :: "json gomap \<Rightarrow> json gomap" where
  "sort_members m = map (\<lambda>k. (k, the (map_get m k))) (sorted_keys m)"

text \<open>The map a member list decodes to: a later member with the same name wins.\<close>

definition member_map :: "(string \<times> json) list \<Rightarrow> json gomap" where
  "member_map ms = foldl (\<lambda>m (k, v). map_put k v m) [] ms"

primrec reencode :: "(string \<Rightarrow> string option) \<Rightarrow> json \<Rightarrow> json option" where
  "reencode num JNull = Some JNull"
| "reencode num (JBool b) = Some (JBool b)"
| "reencode num (JNum n) = map_option JNum (num n)"
| "reencode num (JStr s) = Some (JStr s)"
| "reencode num (JArr xs) = map_option JArr (those (map (reencode num) xs))"
| "reencode num (JObj ms) =
     map_option (\<lambda>ms'. JObj (sort_members (member_map ms')))
       (those (map (\<lambda>(k, r). map_option (Pair k) r) (map (map_prod id (reencode num)) ms)))"

definition decode_object :: "'w env \<Rightarrow> raw_json \<Rightarrow> go_error + json gomap" where
  "decode_object E raw =
     (case raw of
        RawJSON j \<Rightarrow>
          (case reencode (pf_ReencodeNumber (plat E)) j of
             Some (JObj ms) \<Rightarrow> Inr ms
           | Some JNull \<Rightarrow> Inr []
           | _ \<Rightarrow> Inl (WrappedError ''unmarshaling config: '' (pf_UnmarshalError (plat E) raw) []))
      | _ \<Rightarrow> Inl (WrappedError ''unmarshaling config: '' (pf_UnmarshalError (plat E) raw) []))"

definition encode_object :: "json gomap \<Rightarrow> raw_json" where
  "encode_object m = RawJSON (JObj (sort_members m))"

text \<open>\<^verbatim>\<open>m[k].(map[string]any)\<close>, an empty map when the assertion fails.\<close>

definition sub_object :: "json gomap \<Rightarrow> string \<Rightarrow> json gomap" where
  "sub_object m k = (case map_get m k of Some (JObj ms) \<Rightarrow> ms | _ \<Rightarrow> [])"

definition set_default :: "string \<Rightarrow> json \<Rightarrow> json gomap \<Rightarrow> json gomap" where
  "set_default k v m = (if map_get m k = None then map_put k v m else m)"

definition put_object :: "string \<Rightarrow> json gomap \<Rightarrow> json gomap \<Rightarrow> json gomap" where
  "put_object k sub m = map_put k (JObj (sort_members sub)) m"

section \<open>Defaults\<close>

definition searxng_defaults :: "json gomap \<Rightarrow> json gomap" where
  "searxng_defaults cfg =
     put_object ''web'' (set_default ''search_backend'' (JStr ''searxng'') (sub_object cfg ''web'')) cfg"

definition applySearXNGConfigDefaults :: "'w env \<Rightarrow> raw_json \<Rightarrow> go_error + raw_json" where
  "applySearXNGConfigDefaults E raw =
     (case decode_object E raw of Inl err \<Rightarrow> Inl err | Inr cfg \<Rightarrow> Inr (encode_object (searxng_defaults cfg)))"

definition multiplex_defaults :: "json gomap \<Rightarrow> json gomap" where
  "multiplex_defaults cfg =
     put_object ''gateway'' (set_default ''multiplex_profiles'' (JBool True) (sub_object cfg ''gateway'')) cfg"

definition applyMultiplexProfilesDefault :: "'w env \<Rightarrow> raw_json \<Rightarrow> go_error + raw_json" where
  "applyMultiplexProfilesDefault E raw =
     (case decode_object E raw of Inl err \<Rightarrow> Inl err | Inr cfg \<Rightarrow> Inr (encode_object (multiplex_defaults cfg)))"

definition camofox_defaults :: "json gomap \<Rightarrow> json gomap" where
  "camofox_defaults cfg =
     (let browser = sub_object cfg ''browser'';
          camofox = set_default ''managed_persistence'' (JBool True) (sub_object browser ''camofox'')
      in put_object ''browser'' (put_object ''camofox'' camofox browser) cfg)"

definition applyCamofoxConfigDefaults :: "'w env \<Rightarrow> raw_json \<Rightarrow> go_error + raw_json" where
  "applyCamofoxConfigDefaults E raw =
     (case decode_object E raw of Inl err \<Rightarrow> Inl err | Inr cfg \<Rightarrow> Inr (encode_object (camofox_defaults cfg)))"

section \<open>Referenced documents\<close>

record resolvedConfigDocuments =
  rcd_Default :: "raw_json option"
  rcd_Profiles :: "raw_json gomap"

definition profile_config :: "hermes_agent \<Rightarrow> string \<Rightarrow> hermes_profile_config option" where
  "profile_config ha name =
     (case map_get (Hermes_GetProfiles (GetHermes ha)) name of None \<Rightarrow> None | Some p \<Rightarrow> hpr_Config p)"

definition validateConfigSources :: "hermes_agent \<Rightarrow> string option" where
  "validateConfigSources ha =
     (let h = GetHermes ha;
          both = (if Hermes_GetConfigMapRef h \<noteq> None \<and> Hermes_GetConfig h \<noteq> None then [''hermes.config''] else []) @
            map (\<lambda>name. ''profile '' @ quote name @ '' config'')
              (filter (\<lambda>name. HermesProfileConfig_GetConfigMapRef (profile_config ha name) \<noteq> None \<and>
                              HermesProfileConfig_GetRaw (profile_config ha name) \<noteq> None)
                 (Hermes_GetSortedProfileNames h))
      in if both \<noteq> []
         then Some (''raw and configMapRef are mutually exclusive, and both are set in '' @ Join both '', '')
         else None)"

definition isJSONNull :: "json \<Rightarrow> bool" where
  "isJSONNull j \<longleftrightarrow> j = JNull"

definition readConfigDocument :: "'w env \<Rightarrow> string \<Rightarrow> config_map_key_ref \<Rightarrow> ('w, go_error + raw_json) prog" where
  "readConfigDocument E namespace ref =
     do { r \<leftarrow> GetConfigMap E \<lparr>nn_Namespace = namespace, nn_Name = ckr_Name ref\<rparr>;
          let key = HermesConfigMapKeyRef_GetKey (Some ref);
          State_Monad.return (case r of
            Inl err \<Rightarrow> Inl err
          | Inr None \<Rightarrow> Inl (PlainError (''ConfigMap '' @ quote (ckr_Name ref) @ '' not found''))
          | Inr (Some cm) \<Rightarrow>
              (case map_get (cm_Data cm) key of
                 None \<Rightarrow> Inl (PlainError (''ConfigMap '' @ quote (ckr_Name ref) @ '' has no key '' @ quote key))
               | Some doc \<Rightarrow>
                   (case am_YAMLToJSON (mach E) doc of
                      Inl err \<Rightarrow> Inl (WrappedError (''parsing key '' @ quote key @ '' of ConfigMap '' @ quote (ckr_Name ref) @ '': '') err [])
                    | Inr j \<Rightarrow> if isJSONNull j then Inr (RawJSON (JObj [])) else Inr (RawJSON j)))) }"

fun read_profile_documents ::
  "'w env \<Rightarrow> hermes_agent \<Rightarrow> string list \<Rightarrow> raw_json gomap \<Rightarrow> ('w, go_error + raw_json gomap) prog" where
  "read_profile_documents E ha [] docs = State_Monad.return (Inr docs)"
| "read_profile_documents E ha (name # names) docs =
     (case HermesProfileConfig_GetConfigMapRef (profile_config ha name) of
        None \<Rightarrow> read_profile_documents E ha names docs
      | Some ref \<Rightarrow>
          do { r \<leftarrow> readConfigDocument E (ha_Namespace ha) ref;
               case r of
                 Inl err \<Rightarrow> State_Monad.return (Inl (WrappedError (''resolving profile '' @ quote name @ '' config.configMapRef: '') err []))
               | Inr doc \<Rightarrow> read_profile_documents E ha names (map_put name doc docs) })"

definition resolveConfigDocuments :: "'w env \<Rightarrow> hermes_agent \<Rightarrow> ('w, go_error + resolvedConfigDocuments) prog" where
  "resolveConfigDocuments E ha =
     (case validateConfigSources ha of
        Some msg \<Rightarrow> State_Monad.return (Inl (PlainError msg))
      | None \<Rightarrow>
          do { r0 \<leftarrow> (case Hermes_GetConfigMapRef (GetHermes ha) of
                       None \<Rightarrow> State_Monad.return (Inr None)
                     | Some ref \<Rightarrow>
                         do { r \<leftarrow> readConfigDocument E (ha_Namespace ha) ref;
                              State_Monad.return (case r of
                                Inl err \<Rightarrow> Inl (WrappedError ''resolving hermes.config.configMapRef: '' err [])
                              | Inr doc \<Rightarrow> Inr (Some doc)) });
               case r0 of
                 Inl err \<Rightarrow> State_Monad.return (Inl err)
               | Inr default_doc \<Rightarrow>
                   do { r1 \<leftarrow> read_profile_documents E ha (Hermes_GetSortedProfileNames (GetHermes ha)) [];
                        State_Monad.return (case r1 of
                          Inl err \<Rightarrow> Inl err
                        | Inr docs \<Rightarrow> Inr \<lparr>rcd_Default = default_doc, rcd_Profiles = docs\<rparr>) } })"

section \<open>The data\<close>

text \<open>The raw bytes of an inline configuration; an empty value has none.\<close>

definition raw_bytes :: "raw_json option \<Rightarrow> raw_json option" where
  "raw_bytes raw = (case raw of None \<Rightarrow> None | Some RawEmpty \<Rightarrow> None | Some r \<Rightarrow> Some r)"

definition apply_default :: "bool \<Rightarrow> (raw_json \<Rightarrow> go_error + raw_json) \<Rightarrow> raw_json option \<Rightarrow> go_error + raw_json option" where
  "apply_default b f raw =
     (case raw of
        None \<Rightarrow> Inr None
      | Some r \<Rightarrow> if b then (case f r of Inl err \<Rightarrow> Inl err | Inr r' \<Rightarrow> Inr (Some r')) else Inr (Some r))"

definition default_document :: "'w env \<Rightarrow> hermes_agent \<Rightarrow> resolvedConfigDocuments \<Rightarrow> go_error + raw_json option" where
  "default_document E ha refs =
     (let raw0 = (if rcd_Default refs = None then raw_bytes (Hermes_GetConfig (GetHermes ha)) else rcd_Default refs);
          cx = GetCamofox ha;
          managed = (Camofox_IsEnabled cx \<and> CamofoxPersistence_IsEnabled (Camofox_GetPersistence cx) \<and>
                     CamofoxPersistence_GetExistingClaim (Camofox_GetPersistence cx) = [])
      in case apply_default (SearXNG_IsEnabled (GetSearXNG ha)) (applySearXNGConfigDefaults E) raw0 of
           Inl err \<Rightarrow> Inl err
         | Inr raw1 \<Rightarrow>
             (case apply_default managed (applyCamofoxConfigDefaults E) raw1 of
                Inl err \<Rightarrow> Inl err
              | Inr raw2 \<Rightarrow>
                  if Hermes_GetProfiles (GetHermes ha) \<noteq> []
                  then apply_default True (applyMultiplexProfilesDefault E)
                         (Some (case raw2 of None \<Rightarrow> RawJSON (JObj []) | Some r \<Rightarrow> r))
                  else Inr raw2))"

definition add_document :: "'w env \<Rightarrow> string \<Rightarrow> raw_json option \<Rightarrow> string gomap \<Rightarrow> go_error + string gomap" where
  "add_document E key doc data =
     (case doc of
        None \<Rightarrow> Inr data
      | Some raw \<Rightarrow> (case am_JSONToYAML (mach E) raw of Inl err \<Rightarrow> Inl err | Inr yaml \<Rightarrow> Inr (map_put key yaml data)))"

definition workspace_key :: "string \<Rightarrow> string \<Rightarrow> string" where
  "workspace_key profile path =
     ''profile.'' @ profile @ ''.workspace.'' @ ReplaceAll path ''/'' HermesWorkspacePathSeparator"

definition add_workspace :: "string \<Rightarrow> hermes_workspace option \<Rightarrow> string gomap \<Rightarrow> string gomap" where
  "add_workspace profile w data =
     (case w of
        None \<Rightarrow> data
      | Some ws \<Rightarrow> foldl (\<lambda>d path. map_put (workspace_key profile path) (map_str (hw_Files ws) path) d)
                    data (map_keys (hw_Files ws)))"

fun add_profiles ::
  "'w env \<Rightarrow> resolvedConfigDocuments \<Rightarrow> (string \<times> hermes_profile) list \<Rightarrow> string gomap \<Rightarrow> go_error + string gomap" where
  "add_profiles E refs [] data = Inr data"
| "add_profiles E refs ((name, profile) # ps) data =
     (let doc = (case map_get (rcd_Profiles refs) name of
                   Some d \<Rightarrow> Some d | None \<Rightarrow> raw_bytes (HermesProfileConfig_GetRaw (hpr_Config profile)))
      in case add_document E (''profile.'' @ name @ ''.config.yaml'') doc data of
           Inl err \<Rightarrow> Inl err
         | Inr data' \<Rightarrow> add_profiles E refs ps (add_workspace name (hpr_Workspace profile) data'))"

definition operator_env :: "hermes_agent \<Rightarrow> string gomap" where
  "operator_env ha =
     (let apiServer = Hermes_GetAPIServer (GetHermes ha); webhook = Hermes_GetWebhook (GetHermes ha) in
      (if HermesAPIServer_IsEnabled apiServer
       then [(''API_SERVER_ENABLED'', ''true''), (''API_SERVER_HOST'', ''0.0.0.0''),
             (''API_SERVER_PORT'', fmt_int32 (HermesAPIServer_GetPort apiServer))] @
            (if HermesAPIServer_GetCORSOrigins apiServer \<noteq> []
             then [(''API_SERVER_CORS_ORIGINS'', Join (HermesAPIServer_GetCORSOrigins apiServer) '','')] else [])
       else []) @
      (if HermesWebhook_IsEnabled webhook
       then [(''WEBHOOK_ENABLED'', ''true''), (''WEBHOOK_PORT'', fmt_int32 (HermesWebhook_GetPort webhook))] else []) @
      (if SearXNG_IsEnabled (GetSearXNG ha) then [(''SEARXNG_URL'', SearXNGURL)] else []) @
      (if Camofox_IsEnabled (GetCamofox ha) then [(''CAMOFOX_URL'', CamofoxURL)] else []))"

definition buildHermesConfigMapData ::
  "'w env \<Rightarrow> hermes_agent \<Rightarrow> resolvedConfigDocuments \<Rightarrow> go_error + string gomap" where
  "buildHermesConfigMapData E ha refs =
     (case default_document E ha refs of
        Inl err \<Rightarrow> Inl err
      | Inr doc \<Rightarrow>
          (case add_document E ''profile.default.config.yaml'' doc [] of
             Inl err \<Rightarrow> Inl err
           | Inr data1 \<Rightarrow>
               (case add_profiles E refs (sorted_profiles ha)
                       (add_workspace ''default'' (Hermes_GetWorkspace (GetHermes ha)) data1) of
                  Inl err \<Rightarrow> Inl err
                | Inr data2 \<Rightarrow> Inr (foldl (\<lambda>d (k, v). map_put k v d) data2 (operator_env ha)))))"

section \<open>The loop\<close>

definition reconcileHermesConfigMap :: "'w env \<Rightarrow> 'w loop" where
  "reconcileHermesConfigMap E = defer_mark E condReasonHermesConfigMapFailed
     (do { ha \<leftarrow> get_agent;
           let nsName = \<lparr>nn_Namespace = ha_Namespace ha, nn_Name = GetHermesName ha\<rparr>;
           get30 (GetConfigMap E nsName) (\<lambda>cm.
           get30 (resolveConfigDocuments E ha) (\<lambda>refs.
             case buildHermesConfigMapData E ha refs of
               Inl err \<Rightarrow> fail30 err
             | Inr data \<Rightarrow>
                 (let ref = GetHermesConfigMapRef ha;
                      desired = \<lparr>cm_meta = objectMeta (hcmr_Name ref) (hcmr_Namespace ref) (hcmr_Labels ref), cm_Data = data\<rparr>
                  in case cm of
                       Some ex \<Rightarrow>
                         if configMapDataEqual desired ex then finish
                         else try30 (UpdateConfigMapOwnedByHermesAgent E
                                       (cm_meta_update (om_ResourceVersion_update (\<lambda>_. om_ResourceVersion (cm_meta ex))) desired))
                                (do { tel (LogDebug ''Hermes ConfigMap updated''); finish })
                     | None \<Rightarrow>
                         try30 (CreateConfigMapOwnedByHermesAgent E desired)
                           (do { tel (LogDebug ''Hermes ConfigMap created'');
                                 mod_managed (mr_HermesConfigMap_update (\<lambda>_. GetHermesName ha));
                                 status_then_finish E })))) })"

end
