(* ===== verification/StatefulSet_Build.thy ===== *)
theory StatefulSet_Build
  imports Hermes_Container
begin

text \<open>
  The desired StatefulSet: the sidecars (\<^verbatim>\<open>hermesagent_statefulset_searxng.go\<close>,
  \<^verbatim>\<open>hermesagent_statefulset_camofox.go\<close>, \<^verbatim>\<open>hermesagent_statefulset_egress.go\<close>) and
  \<^verbatim>\<open>buildStatefulSet\<close> (\<^verbatim>\<open>hermesagent_statefulset.go\<close>).
\<close>

definition op_domain :: string where "op_domain = ''hermeum.app''"
definition annotationDesiredSpecHash :: string where "annotationDesiredSpecHash = op_domain @ ''/desired-spec-hash''"

text \<open>\<^verbatim>\<open>findContainer\<close> yields a pointer into the list; its callers update the container in place.\<close>

fun findContainer_update :: "string \<Rightarrow> (container \<Rightarrow> container) \<Rightarrow> container list \<Rightarrow> container list" where
  "findContainer_update name f [] = []"
| "findContainer_update name f (c # cs) =
     (if con_Name c = name then f c # cs else c # findContainer_update name f cs)"

definition findContainer :: "statefulset \<Rightarrow> string \<Rightarrow> container option" where
  "findContainer sts name = find (\<lambda>c. con_Name c = name) (ps_Containers (pt_Spec (sts_Template sts)))"

definition update_container :: "string \<Rightarrow> (container \<Rightarrow> container) \<Rightarrow> statefulset \<Rightarrow> statefulset" where
  "update_container name f = map_pod_spec (ps_Containers_update (findContainer_update name f))"

definition add_env :: "env_var list \<Rightarrow> container \<Rightarrow> container" where
  "add_env evs = con_Env_update (\<lambda>env. env @ evs)"

section \<open>SearXNG\<close>

definition searxngUID :: int where "searxngUID = 977"
definition searxngGID :: int where "searxngGID = 977"

definition buildSearXNGContainerSecurityContext :: security_context where
  "buildSearXNGContainerSecurityContext =
     no_security_context\<lparr>sc_AllowPrivilegeEscalation := Some False, sc_RunAsNonRoot := Some True,
       sc_RunAsUser := Some searxngUID, sc_RunAsGroup := Some searxngGID, sc_CapDrop := [''ALL''],
       sc_SeccompProfile := Some RuntimeDefault\<rparr>"

definition buildSearXNGChownSecurityContext :: security_context where
  "buildSearXNGChownSecurityContext =
     no_security_context\<lparr>sc_AllowPrivilegeEscalation := Some False, sc_RunAsUser := Some 0, sc_RunAsGroup := Some 0,
       sc_CapAdd := [''CHOWN''], sc_CapDrop := [''ALL''], sc_SeccompProfile := Some RuntimeDefault\<rparr>"

definition searxng_init_container :: "searxng \<Rightarrow> container" where
  "searxng_init_container sx =
     (container0 ''init-searxng-config'' (SearXNG_GetImage sx))
       \<lparr>con_Command := [''/bin/sh'', ''-ec''], con_TerminationMessagePolicy := FallbackToLogsOnError,
        con_Args := [''cp -r /bootstrap-searxng/. /etc/searxng/ && chown -R '' @ Itoa searxngUID @ '':'' @
                     Itoa searxngGID @ '' /etc/searxng /var/cache/searxng''],
        con_VolumeMounts := [vmount ''searxng-bootstrap'' ''/bootstrap-searxng'' True,
                             vmount ''searxng-config'' ''/etc/searxng'' False,
                             vmount ''searxng-cache'' ''/var/cache/searxng'' False],
        con_SecurityContext := Some buildSearXNGChownSecurityContext\<rparr>"

definition searxng_container :: "hermes_agent \<Rightarrow> searxng \<Rightarrow> container" where
  "searxng_container ha sx =
     (container0 ''searxng'' (SearXNG_GetImage sx))
       \<lparr>con_Ports := [tcp_port ''searxng'' 8080],
        con_Env := [envValue ''SEARXNG_BASE_URL'' (SearXNGURL @ ''/''),
                    \<lparr>ev_Name = ''SEARXNG_SECRET'', ev_Value = [],
                     ev_ValueFrom = Some (SecretKeyRef (GetSearXNGName ha) ''SEARXNG_SECRET'')\<rparr>] @ SearXNG_GetEnv (Some sx),
        con_Resources := SearXNG_GetResources (Some sx),
        con_VolumeMounts := [vmount ''searxng-config'' ''/etc/searxng'' False,
                             vmount ''searxng-cache'' ''/var/cache/searxng'' False],
        con_SecurityContext := Some buildSearXNGContainerSecurityContext\<rparr>"

definition searxng_cache_source :: "hermes_agent \<Rightarrow> searxng \<Rightarrow> volume_source" where
  "searxng_cache_source ha sx =
     (let sp = SearXNG_GetPersistence (Some sx) in
      if SearXNGPersistence_GetExistingClaim sp \<noteq> [] then PersistentVolumeClaimSource (SearXNGPersistence_GetExistingClaim sp)
      else if SearXNGPersistence_IsEnabled sp then PersistentVolumeClaimSource (GetSearXNGName ha)
      else EmptyDir [] None)"

definition buildSearXNGContainer :: "hermes_agent \<Rightarrow> statefulset \<Rightarrow> statefulset" where
  "buildSearXNGContainer ha sts =
     (case GetSearXNG ha of
        None \<Rightarrow> sts
      | Some sx \<Rightarrow>
          if \<not> SearXNG_IsEnabled (Some sx) then sts
          else map_pod_spec (\<lambda>p. p\<lparr>ps_InitContainers := ps_InitContainers p @ [searxng_init_container sx],
                                   ps_Containers := ps_Containers p @ [searxng_container ha sx],
                                   ps_Volumes := ps_Volumes p @
                                     [vol ''searxng-config'' (EmptyDir [] None),
                                      vol ''searxng-bootstrap'' (ConfigMapSource (GetSearXNGName ha) []),
                                      vol ''searxng-cache'' (searxng_cache_source ha sx)]\<rparr>)
                 (update_container hermesContainerName (add_env [envValue ''SEARXNG_URL'' SearXNGURL]) sts))"

section \<open>Camofox\<close>

definition buildCamofoxContainerSecurityContext :: security_context where
  "buildCamofoxContainerSecurityContext =
     no_security_context\<lparr>sc_AllowPrivilegeEscalation := Some False, sc_CapDrop := [''ALL''],
       sc_SeccompProfile := Some RuntimeDefault\<rparr>"

definition camofox_container :: "camofox \<Rightarrow> container" where
  "camofox_container cx =
     (container0 ''camofox'' (Camofox_GetImage cx))
       \<lparr>con_Env := Camofox_GetEnv (Some cx), con_Resources := Camofox_GetResources (Some cx),
        con_SecurityContext := Some buildCamofoxContainerSecurityContext,
        con_VolumeMounts := [vmount ''camofox-data'' ''/root/.camofox'' False]\<rparr>"

definition camofox_data_source :: "hermes_agent \<Rightarrow> camofox \<Rightarrow> volume_source" where
  "camofox_data_source ha cx =
     (let cp = Camofox_GetPersistence (Some cx) in
      if CamofoxPersistence_GetExistingClaim cp \<noteq> [] then PersistentVolumeClaimSource (CamofoxPersistence_GetExistingClaim cp)
      else if CamofoxPersistence_IsEnabled cp then PersistentVolumeClaimSource (GetCamofoxName ha)
      else EmptyDir [] None)"

definition buildCamofoxContainer :: "hermes_agent \<Rightarrow> statefulset \<Rightarrow> statefulset" where
  "buildCamofoxContainer ha sts =
     (case GetCamofox ha of
        None \<Rightarrow> sts
      | Some cx \<Rightarrow>
          if \<not> Camofox_IsEnabled (Some cx) then sts
          else map_pod_spec (\<lambda>p. p\<lparr>ps_Containers := ps_Containers p @ [camofox_container cx],
                                   ps_Volumes := ps_Volumes p @ [vol ''camofox-data'' (camofox_data_source ha cx)]\<rparr>)
                 (update_container hermesContainerName (add_env [envValue ''CAMOFOX_URL'' CamofoxURL]) sts))"

section \<open>Egress\<close>

definition egressUID :: int where "egressUID = 65532"
definition egressGID :: int where "egressGID = 65532"

text \<open>The regular expression of env var names, \<^verbatim>\<open>^[A-Za-z_][A-Za-z0-9_]*$\<close>.\<close>

definition egressTokenKey :: "string \<Rightarrow> bool" where
  "egressTokenKey k \<longleftrightarrow>
     (case k of [] \<Rightarrow> False | c # cs \<Rightarrow> word_char c \<and> \<not> (CHR ''0'' \<le> c \<and> c \<le> CHR ''9'') \<and> list_all word_char cs)"

definition buildEgressContainerSecurityContext :: security_context where
  "buildEgressContainerSecurityContext =
     no_security_context\<lparr>sc_AllowPrivilegeEscalation := Some False, sc_RunAsNonRoot := Some True,
       sc_RunAsUser := Some egressUID, sc_RunAsGroup := Some egressGID, sc_ReadOnlyRootFilesystem := Some True,
       sc_CapDrop := [''ALL''], sc_SeccompProfile := Some RuntimeDefault\<rparr>"

definition token_env :: "hermes_agent \<Rightarrow> string \<Rightarrow> env_var" where
  "token_env ha name =
     \<lparr>ev_Name = name, ev_Value = [], ev_ValueFrom = Some (SecretKeyRef (GetEgressSecretName ha) name)\<rparr>"

text \<open>\<^verbatim>\<open>path.Dir\<close> and \<^verbatim>\<open>path.Base\<close> of \<^verbatim>\<open>EgressAgentCAPath\<close>.\<close>

definition path_base :: "string \<Rightarrow> string" where
  "path_base p = after_last_slash p"

definition path_dir :: "string \<Rightarrow> string" where
  "path_dir p = take (length p - length (after_last_slash p) - 1) p"

definition egress_container :: "hermes_agent \<Rightarrow> container" where
  "egress_container ha =
     (let eg = GetEgress ha; name = Egress_GetCredentialsSecretName eg in
      (container0 ''iron-proxy'' (Egress_GetImage eg))
       \<lparr>con_Args := [''-config'', EgressConfigDir @ ''/'' @ EgressProxyConfigKey],
        con_EnvFrom := (if name \<noteq> [] then [EnvFromSecret name] else []),
        con_Env := Egress_GetEnv eg, con_Resources := Egress_GetResources eg,
        con_SecurityContext := Some buildEgressContainerSecurityContext,
        con_VolumeMounts := [vmount ''egress-config'' EgressConfigDir True]\<rparr>)"

definition egress_volumes :: "hermes_agent \<Rightarrow> volume list" where
  "egress_volumes ha =
     (case GetEgressCASource ha of
        (caName, caCertKey, caKeyKey) \<Rightarrow>
          [vol ''egress-config'' (ProjectedSecrets
             [(GetEgressSecretName ha, [same_item EgressProxyConfigKey]),
              (caName, [\<lparr>ktp_Key = caCertKey, ktp_Path = EgressCAManagedCertKey\<rparr>,
                        \<lparr>ktp_Key = caKeyKey, ktp_Path = EgressCAManagedKeyKey\<rparr>])]),
           vol ''egress-agent-ca'' (SecretSource caName
             [\<lparr>ktp_Key = caCertKey, ktp_Path = path_base EgressAgentCAPath\<rparr>] (Some 292))])"

definition buildEgressContainer :: "hermes_agent \<Rightarrow> statefulset \<Rightarrow> string list \<Rightarrow> string \<Rightarrow> statefulset" where
  "buildEgressContainer ha sts tokenNames inputsHash =
     (if \<not> Egress_IsEnabled (GetEgress ha) then sts
      else
        map_pod_spec (\<lambda>p. p\<lparr>ps_Containers := ps_Containers p @ [egress_container ha],
                            ps_Volumes := ps_Volumes p @ egress_volumes ha\<rparr>)
          (update_container hermesContainerName
             (\<lambda>c. con_VolumeMounts_update (\<lambda>ms. ms @ [vmount ''egress-agent-ca'' (path_dir EgressAgentCAPath) True])
                    (add_env (map (token_env ha) tokenNames) c))
             (sts_Template_update (pt_Annotations_update (map_put (op_domain @ ''/egress-hash'') inputsHash)) sts)))"

section \<open>The StatefulSet\<close>

record statefulSetInputs =
  ssi_configHash :: string
  ssi_egressTokenNames :: "string list"
  ssi_egressHash :: string

definition base_statefulset :: "hermes_agent \<Rightarrow> string \<Rightarrow> statefulset" where
  "base_statefulset ha configHash =
     \<lparr>sts_meta = objectMeta (ha_Name ha) (ha_Namespace ha) (ResourceLabels ha),
      sts_Replicas = (if IsSuspended ha then 0 else 1),
      sts_Selector = SelectorLabels ha,
      sts_MaxUnavailable = 1,
      sts_Template =
        \<lparr>pt_Labels = PodTemplateLabels ha,
         pt_Annotations = map_copy [(op_domain @ ''/config-hash'', configHash)] (GetPodAnnotations ha),
         pt_Spec =
           \<lparr>ps_HostUsers = GetHostUsers ha, ps_PriorityClassName = GetPriorityClassName ha,
            ps_RuntimeClassName = GetRuntimeClassName ha, ps_SeccompProfile = RuntimeDefault,
            ps_ServiceAccountName = GetServiceAccountName ha,
            ps_InitContainers = [], ps_Containers = [], ps_Volumes = []\<rparr>\<rparr>,
      sts_VolumeClaimTemplates = []\<rparr>"

definition add_user_parts :: "hermes_agent \<Rightarrow> statefulset \<Rightarrow> statefulset" where
  "add_user_parts ha =
     map_pod_spec (\<lambda>p. p\<lparr>ps_InitContainers := ps_InitContainers p @ GetInitContainers ha,
                         ps_Containers := ps_Containers p @ GetSidecars ha,
                         ps_Volumes := ps_Volumes p @ GetExtraVolumes ha\<rparr>)"

definition buildStatefulSet :: "hermes_agent \<Rightarrow> statefulSetInputs \<Rightarrow> statefulset" where
  "buildStatefulSet ha ssi =
     (let sts0 = base_statefulset ha (ssi_configHash ssi);
          sts1 = buildHermesContainer ha sts0;
          sts2 = buildSearXNGContainer ha sts1;
          sts3 = buildCamofoxContainer ha sts2;
          sts4 = buildEgressContainer ha sts3 (ssi_egressTokenNames ssi) (ssi_egressHash ssi)
      in add_user_parts ha sts4)"

section \<open>Volume claim templates\<close>

definition vct_names :: "statefulset \<Rightarrow> string list" where
  "vct_names sts = map (\<lambda>v. om_Name (pvc_meta v)) (sts_VolumeClaimTemplates sts)"

definition sameVolumeClaimTemplateNames :: "statefulset \<Rightarrow> statefulset \<Rightarrow> bool" where
  "sameVolumeClaimTemplateNames live desired \<longleftrightarrow>
     length (sts_VolumeClaimTemplates live) = length (sts_VolumeClaimTemplates desired) \<and>
     list_all (\<lambda>n. n \<in> set (vct_names live)) (vct_names desired)"

section \<open>The parts of the built StatefulSet\<close>

text \<open>The sidecars in use.\<close>

definition active_searxng :: "hermes_agent \<Rightarrow> searxng option" where
  "active_searxng ha = (if SearXNG_IsEnabled (GetSearXNG ha) then GetSearXNG ha else None)"

definition active_camofox :: "hermes_agent \<Rightarrow> camofox option" where
  "active_camofox ha = (if Camofox_IsEnabled (GetCamofox ha) then GetCamofox ha else None)"

definition on_some :: "'a option \<Rightarrow> ('a \<Rightarrow> 'b list) \<Rightarrow> 'b list" where
  "on_some x f = (case x of None \<Rightarrow> [] | Some a \<Rightarrow> f a)"

lemma in_on_some [simp]: "y \<in> set (on_some x f) \<longleftrightarrow> (\<exists>a. x = Some a \<and> y \<in> set (f a))"
  by (auto simp: on_some_def split: option.split)

text \<open>The agent container after the sidecar builders have added their parts.\<close>

definition final_hermes_container :: "hermes_agent \<Rightarrow> string list \<Rightarrow> container" where
  "final_hermes_container ha tokens =
     (hermes_container ha)
       \<lparr>con_Env := con_Env (hermes_container ha) @
          on_some (active_searxng ha) (\<lambda>_. [envValue ''SEARXNG_URL'' SearXNGURL]) @
          on_some (active_camofox ha) (\<lambda>_. [envValue ''CAMOFOX_URL'' CamofoxURL]) @
          (if Egress_IsEnabled (GetEgress ha) then map (token_env ha) tokens else []),
        con_VolumeMounts := con_VolumeMounts (hermes_container ha) @
          (if Egress_IsEnabled (GetEgress ha) then [vmount ''egress-agent-ca'' (path_dir EgressAgentCAPath) True] else [])\<rparr>"

abbreviation pod_containers :: "statefulset \<Rightarrow> container list" where
  "pod_containers sts \<equiv> ps_Containers (pt_Spec (sts_Template sts))"

abbreviation pod_init_containers :: "statefulset \<Rightarrow> container list" where
  "pod_init_containers sts \<equiv> ps_InitContainers (pt_Spec (sts_Template sts))"

abbreviation pod_volumes :: "statefulset \<Rightarrow> volume list" where
  "pod_volumes sts \<equiv> ps_Volumes (pt_Spec (sts_Template sts))"

lemmas build_defs = buildStatefulSet_def add_user_parts_def buildEgressContainer_def buildCamofoxContainer_def
  buildSearXNGContainer_def buildHermesContainer_def base_statefulset_def update_container_def map_pod_spec_def Let_def

lemma hermes_container_name [simp]: "con_Name (hermes_container ha) = hermesContainerName"
  by (simp add: hermes_container_def Let_def container0_def)

lemma enabled_is_some:
  "SearXNG_IsEnabled None = False" "Camofox_IsEnabled None = False"
  by (simp_all add: SearXNG_IsEnabled_def Camofox_IsEnabled_def)

lemma buildStatefulSet_containers:
  "pod_containers (buildStatefulSet ha ssi) =
     final_hermes_container ha (ssi_egressTokenNames ssi) #
     on_some (active_searxng ha) (\<lambda>sx. [searxng_container ha sx]) @
     on_some (active_camofox ha) (\<lambda>cx. [camofox_container cx]) @
     (if Egress_IsEnabled (GetEgress ha) then [egress_container ha] else []) @ GetSidecars ha"
  by (cases "GetSearXNG ha"; cases "GetCamofox ha")
     (simp_all add: build_defs final_hermes_container_def add_env_def on_some_def active_searxng_def active_camofox_def
        enabled_is_some)

lemma buildStatefulSet_init_containers:
  "pod_init_containers (buildStatefulSet ha ssi) =
     hermes_init_containers ha @ on_some (active_searxng ha) (\<lambda>sx. [searxng_init_container sx]) @ GetInitContainers ha"
  by (cases "GetSearXNG ha"; cases "GetCamofox ha")
     (simp_all add: build_defs on_some_def active_searxng_def enabled_is_some)

lemma buildStatefulSet_volumes:
  "pod_volumes (buildStatefulSet ha ssi) =
     hermes_volumes ha @
     on_some (active_searxng ha) (\<lambda>sx. [vol ''searxng-config'' (EmptyDir [] None),
       vol ''searxng-bootstrap'' (ConfigMapSource (GetSearXNGName ha) []), vol ''searxng-cache'' (searxng_cache_source ha sx)]) @
     on_some (active_camofox ha) (\<lambda>cx. [vol ''camofox-data'' (camofox_data_source ha cx)]) @
     (if Egress_IsEnabled (GetEgress ha) then egress_volumes ha else []) @ GetExtraVolumes ha"
  by (cases "GetSearXNG ha"; cases "GetCamofox ha")
     (simp_all add: build_defs on_some_def active_searxng_def active_camofox_def enabled_is_some)

lemma buildStatefulSet_fixed:
  "sts_VolumeClaimTemplates (buildStatefulSet ha ssi) = snd (data_volume ha)"
  "sts_Selector (buildStatefulSet ha ssi) = SelectorLabels ha"
  "pt_Labels (sts_Template (buildStatefulSet ha ssi)) = PodTemplateLabels ha"
  "sts_meta (buildStatefulSet ha ssi) = objectMeta (ha_Name ha) (ha_Namespace ha) (ResourceLabels ha)"
  by (simp_all add: build_defs split: option.split)

lemmas buildStatefulSet_parts = buildStatefulSet_containers buildStatefulSet_init_containers
  buildStatefulSet_volumes buildStatefulSet_fixed

end
