(* ===== verification/Pod_Status.thy ===== *)
theory Pod_Status
  imports Infra
begin

text \<open>
  The diagnosis of the agent's pod (\<^verbatim>\<open>internal/usecase/hermesagent_statefulset_podstatus.go\<close>): the
  phase, the first failure, the first failure of an init container, the reason reported in the
  status and the InitFailed condition.
\<close>

section \<open>Definitions\<close>

record pod_failure =
  pfl_Container :: string
  pfl_Init :: bool
  pfl_Reason :: string
  pfl_Message :: string

definition hermesAgentPhase :: "pod \<Rightarrow> string" where
  "hermesAgentPhase pod =
     (if pod_Phase pod = ''Pending'' then PhasePending
      else if pod_Phase pod = ''Running'' then PhaseRunning
      else if pod_Phase pod = ''Succeeded'' then PhaseSucceeded
      else if pod_Phase pod = ''Failed'' then PhaseFailed
      else PhaseUnknown)"

text \<open>A loop that returns at the first element with a diagnosis.\<close>

fun first_some :: "('a \<Rightarrow> 'b option) \<Rightarrow> 'a list \<Rightarrow> 'b option" where
  "first_some f [] = None"
| "first_some f (x # xs) = (case f x of Some y \<Rightarrow> Some y | None \<Rightarrow> first_some f xs)"

definition unscheduled :: "pod_condition \<Rightarrow> pod_failure option" where
  "unscheduled c =
     (if pc_Type c = ''PodScheduled'' \<and> pc_Status c = ''False'' \<and> pc_Reason c \<noteq> []
      then Some \<lparr>pfl_Container = [], pfl_Init = False, pfl_Reason = pc_Reason c, pfl_Message = pc_Message c\<rparr>
      else None)"

definition waiting_failure :: "bool \<Rightarrow> container_status \<Rightarrow> pod_failure option" where
  "waiting_failure ini cs =
     (case cs_Waiting cs of
        Some w \<Rightarrow> if cw_Reason w \<noteq> []
                  then Some \<lparr>pfl_Container = cs_Name cs, pfl_Init = ini, pfl_Reason = cw_Reason w, pfl_Message = cw_Message w\<rparr>
                  else None
      | None \<Rightarrow> None)"

definition terminated_failure :: "bool \<Rightarrow> string \<Rightarrow> container_terminated option \<Rightarrow> pod_failure option" where
  "terminated_failure ini name t =
     (case t of
        Some t \<Rightarrow> if ct_ExitCode t \<noteq> 0 \<and> ct_Reason t \<noteq> []
                  then Some \<lparr>pfl_Container = name, pfl_Init = ini, pfl_Reason = ct_Reason t, pfl_Message = ct_Message t\<rparr>
                  else None
      | None \<Rightarrow> None)"

definition orelse :: "'a option \<Rightarrow> 'a option \<Rightarrow> 'a option" where
  "orelse a b = (case a of Some x \<Rightarrow> Some x | None \<Rightarrow> b)"

definition firstPodFailure :: "pod option \<Rightarrow> pod_failure option" where
  "firstPodFailure p =
     (case p of
        None \<Rightarrow> None
      | Some pod \<Rightarrow>
          if pod_Phase pod = ''Pending'' then
            orelse (first_some unscheduled (pod_Conditions pod))
              (first_some (waiting_failure True) (pod_InitContainerStatuses pod))
          else
            orelse (first_some (\<lambda>cs. orelse (terminated_failure True (cs_Name cs) (cs_Terminated cs))
                                      (waiting_failure True cs)) (pod_InitContainerStatuses pod))
              (orelse (first_some (\<lambda>cs. orelse (waiting_failure False cs)
                                         (terminated_failure False (cs_Name cs) (cs_LastTerminated cs)))
                        (pod_ContainerStatuses pod))
                 (if pod_Reason pod \<noteq> []
                  then Some \<lparr>pfl_Container = [], pfl_Init = False, pfl_Reason = pod_Reason pod, pfl_Message = []\<rparr>
                  else None)))"

definition podFailure_GetReason :: "pod_failure option \<Rightarrow> string" where
  "podFailure_GetReason f = (case f of None \<Rightarrow> [] | Some f \<Rightarrow> pfl_Reason f)"

definition startingUpWaitingReasons :: "string list" where
  "startingUpWaitingReasons = [''PodInitializing'', ''ContainerCreating'']"

definition terminationReason :: "container_terminated \<Rightarrow> string" where
  "terminationReason t = (if ct_Reason t \<noteq> [] then ct_Reason t else ''Error'')"

text \<open>The body of the loop of \<^verbatim>\<open>initContainerFailure\<close>.\<close>

definition init_waiting_failure :: "container_status \<Rightarrow> pod_failure option" where
  "init_waiting_failure cs =
     (case cs_Waiting cs of
        None \<Rightarrow> None
      | Some w \<Rightarrow>
          if cw_Reason w = [] \<or> cw_Reason w \<in> set startingUpWaitingReasons then None
          else (let message = (case cs_LastTerminated cs of
                                 Some lt \<Rightarrow> if ct_Message lt \<noteq> [] then ct_Message lt else cw_Message w
                               | None \<Rightarrow> cw_Message w)
                in Some \<lparr>pfl_Container = cs_Name cs, pfl_Init = True, pfl_Reason = cw_Reason w, pfl_Message = message\<rparr>))"

definition init_status_failure :: "container_status \<Rightarrow> pod_failure option" where
  "init_status_failure cs =
     orelse (case cs_Terminated cs of
               Some t \<Rightarrow>
                 if ct_ExitCode t \<noteq> 0
                 then Some \<lparr>pfl_Container = cs_Name cs, pfl_Init = True, pfl_Reason = terminationReason t,
                            pfl_Message = ct_Message t\<rparr>
                 else None
             | None \<Rightarrow> None)
       (init_waiting_failure cs)"

definition initContainerFailure :: "pod option \<Rightarrow> pod_failure option" where
  "initContainerFailure p =
     (case p of None \<Rightarrow> None | Some pod \<Rightarrow> first_some init_status_failure (pod_InitContainerStatuses pod))"

definition podStatusReason :: "pod option \<Rightarrow> pod_failure option \<Rightarrow> string" where
  "podStatusReason pod initFailure =
     (if podFailure_GetReason initFailure \<noteq> [] then podFailure_GetReason initFailure
      else podFailure_GetReason (firstPodFailure pod))"

definition clear_init_failed :: "'w env \<Rightarrow> ('w, bool) prog" where
  "clear_init_failed E =
     do { changed \<leftarrow> remove_condition E ConditionInitFailed;
          (if changed then tel (LogInfo ''Cleared InitFailed condition for HermesAgent'') else State_Monad.return ());
          State_Monad.return changed }"

definition applyInitFailedCondition :: "'w env \<Rightarrow> pod_failure option \<Rightarrow> ('w, bool) prog" where
  "applyInitFailedCondition E failure =
     (case failure of
        Some f \<Rightarrow>
          if pfl_Init f then
            do { let message = ''Init container '' @ pfl_Container f @ '' failed'' @
                               (if pfl_Message f \<noteq> [] then '': '' @ pfl_Message f else []);
                 changed \<leftarrow> set_condition E ConditionInitFailed ConditionTrue (pfl_Reason f) message;
                 (if changed then tel (LogInfo ''Init container failed for HermesAgent'') else State_Monad.return ());
                 State_Monad.return changed }
          else clear_init_failed E
      | None \<Rightarrow> clear_init_failed E)"

section \<open>Lemmas\<close>

lemma first_some_None [simp]: "first_some f xs = None \<longleftrightarrow> (\<forall>x \<in> set xs. f x = None)"
  by (induction xs) (auto split: option.splits)

lemma first_some_SomeD:
  "first_some f xs = Some y \<Longrightarrow> \<exists>us x vs. xs = us @ x # vs \<and> (\<forall>u \<in> set us. f u = None) \<and> f x = Some y"
proof (induction xs)
  case (Cons z zs)
  show ?case
  proof (cases "f z")
    case None
    with Cons obtain us x vs where "zs = us @ x # vs" "\<forall>u \<in> set us. f u = None" "f x = Some y"
      by auto
    with None have "z # zs = (z # us) @ x # vs" "\<forall>u \<in> set (z # us). f u = None" by auto
    then show ?thesis using \<open>f x = Some y\<close> by blast
  next
    case (Some w)
    then have "z # zs = [] @ z # zs" "f z = Some y" using Cons.prems by auto
    then show ?thesis by fastforce
  qed
qed simp

text \<open>
  The specification of a failed init container: it exited with a non-zero code, or it waits for a
  reason other than its turn.
\<close>

definition exited_badly :: "container_status \<Rightarrow> bool" where
  "exited_badly cs \<longleftrightarrow> (\<exists>t. cs_Terminated cs = Some t \<and> ct_ExitCode t \<noteq> 0)"

definition waits_on_error :: "container_status \<Rightarrow> bool" where
  "waits_on_error cs \<longleftrightarrow>
     (\<exists>w. cs_Waiting cs = Some w \<and> cw_Reason w \<noteq> [] \<and> cw_Reason w \<noteq> ''PodInitializing'' \<and>
          cw_Reason w \<noteq> ''ContainerCreating'')"

lemma init_status_failure_None:
  "init_status_failure cs = None \<longleftrightarrow> \<not> exited_badly cs \<and> \<not> waits_on_error cs"
  by (auto simp: init_status_failure_def orelse_def init_waiting_failure_def exited_badly_def
      waits_on_error_def startingUpWaitingReasons_def Let_def split: option.splits if_splits)

lemma init_status_failure_Some:
  "init_status_failure cs = Some f \<Longrightarrow> pfl_Container f = cs_Name cs \<and> pfl_Init f \<and> pfl_Reason f \<noteq> []"
  by (auto simp: init_status_failure_def orelse_def init_waiting_failure_def terminationReason_def Let_def
      split: option.splits if_splits)

text \<open>
  C34: The init container diagnosis reports the first init container that exited with a non-zero code
  or waits for a reason other than its turn, whatever the phase of the pod; the reported failure
  names that container and carries a non-empty reason.
\<close>

theorem initContainerFailure_first:
  assumes "initContainerFailure (Some pod) = Some f"
  shows "pfl_Init f \<and> pfl_Reason f \<noteq> [] \<and>
         (\<exists>us cs vs. pod_InitContainerStatuses pod = us @ cs # vs \<and> pfl_Container f = cs_Name cs \<and>
            (exited_badly cs \<or> waits_on_error cs) \<and>
            list_all (\<lambda>u. \<not> exited_badly u \<and> \<not> waits_on_error u) us)"
proof -
  from assms obtain us cs vs where
    split: "pod_InitContainerStatuses pod = us @ cs # vs" and
    before: "\<forall>u \<in> set us. init_status_failure u = None" and
    here: "init_status_failure cs = Some f"
    by (auto simp: initContainerFailure_def dest!: first_some_SomeD)
  from here have "exited_badly cs \<or> waits_on_error cs"
    using init_status_failure_None [of cs] by auto
  moreover from before have "list_all (\<lambda>u. \<not> exited_badly u \<and> \<not> waits_on_error u) us"
    by (auto simp: list_all_iff init_status_failure_None)
  ultimately show ?thesis using split init_status_failure_Some [OF here] by blast
qed

lemma initContainerFailure_None:
  "initContainerFailure (Some pod) = None \<longleftrightarrow>
     (\<forall>cs \<in> set (pod_InitContainerStatuses pod). \<not> exited_badly cs \<and> \<not> waits_on_error cs)"
  by (auto simp: initContainerFailure_def init_status_failure_None)

definition crash_pod :: pod where
  "crash_pod =
     \<lparr>pod_meta = objectMeta ''a-0'' ''ns'' [], pod_Phase = ''Pending'', pod_Reason = [], pod_Conditions = [],
      pod_InitContainerStatuses =
        [\<lparr>cs_Name = ''init-hermes'', cs_Waiting = None,
          cs_Terminated = Some \<lparr>ct_ExitCode = 0, ct_Reason = ''Completed'', ct_Message = []\<rparr>, cs_LastTerminated = None\<rparr>,
         \<lparr>cs_Name = ''init-skills'', cs_Waiting = Some \<lparr>cw_Reason = ''CrashLoopBackOff'', cw_Message = ''back-off''\<rparr>,
          cs_Terminated = None,
          cs_LastTerminated = Some \<lparr>ct_ExitCode = 2, ct_Reason = [], ct_Message = ''no such skill''\<rparr>\<rparr>,
         \<lparr>cs_Name = ''init-user'', cs_Waiting = Some \<lparr>cw_Reason = ''PodInitializing'', cw_Message = []\<rparr>,
          cs_Terminated = None, cs_LastTerminated = None\<rparr>],
      pod_ContainerStatuses = []\<rparr>"

theorem initContainerFailure_first_witness:
  "\<exists>f. initContainerFailure (Some crash_pod) = Some f \<and> pfl_Reason f \<noteq> []"
proof -
  have r: "initContainerFailure (Some crash_pod) =
      Some \<lparr>pfl_Container = ''init-skills'', pfl_Init = True, pfl_Reason = ''CrashLoopBackOff'', pfl_Message = ''no such skill''\<rparr>"
    by (simp add: initContainerFailure_def crash_pod_def init_status_failure_def orelse_def
        init_waiting_failure_def startingUpWaitingReasons_def)
  show ?thesis using initContainerFailure_first [OF r] r by blast
qed

lemma firstPodFailure_reason: "firstPodFailure pod = Some f \<Longrightarrow> pfl_Reason f \<noteq> []"
  by (auto simp: firstPodFailure_def orelse_def unscheduled_def waiting_failure_def terminated_failure_def
      dest!: first_some_SomeD split: option.splits if_splits)

text \<open>
  The reason in the status is empty exactly when no init container failed and the pod reports no
  failure of its own; a failed init container decides the reason.
\<close>

theorem podStatusReason_spec:
  "podStatusReason pod (initContainerFailure pod) =
     (case initContainerFailure pod of
        Some f \<Rightarrow> pfl_Reason f
      | None \<Rightarrow> (case firstPodFailure pod of Some f \<Rightarrow> pfl_Reason f | None \<Rightarrow> [])) \<and>
   (podStatusReason pod (initContainerFailure pod) = [] \<longleftrightarrow>
      initContainerFailure pod = None \<and> firstPodFailure pod = None)"
proof -
  have "initContainerFailure pod = Some f \<Longrightarrow> pfl_Reason f \<noteq> []" for f
    by (auto simp: initContainerFailure_def dest!: first_some_SomeD dest: init_status_failure_Some split: option.splits)
  then show ?thesis
    by (auto simp: podStatusReason_def podFailure_GetReason_def dest: firstPodFailure_reason split: option.splits)
qed

end
