(* ===== verification/StatefulSet_Loop.thy ===== *)
theory StatefulSet_Loop
  imports StatefulSet_Build Pod_Status
begin

text \<open>
  The StatefulSet loop (\<^verbatim>\<open>internal/usecase/hermesagent_statefulset.go\<close>) with the egress inputs
  (\<^verbatim>\<open>egressPodInputs\<close> of \<^verbatim>\<open>hermesagent_statefulset_egress.go\<close>).
\<close>

section \<open>Hashes and inputs\<close>

text \<open>A hash object is the text written to it.\<close>

definition hash16 :: "'w env \<Rightarrow> string \<Rightarrow> string" where
  "hash16 E text = take 16 (hex_bytes (pf_SHA256 (plat E) text))"

definition config_hash_text :: "string gomap \<Rightarrow> string" where
  "config_hash_text data = concat (map (\<lambda>k. k @ [CHR 0x00] @ map_str data k @ [CHR 0x00]) (sorted_keys data))"

definition configMapDataHash :: "'w env \<Rightarrow> string gomap \<Rightarrow> string" where
  "configMapDataHash E data = hash16 E (config_hash_text data)"

definition desiredSpecHash :: "'w env \<Rightarrow> statefulset \<Rightarrow> string" where
  "desiredSpecHash E sts =
     hash16 E (am_MarshalStatefulSet (mach E) (sts_Replicas sts) (sts_Template sts) (sts_VolumeClaimTemplates sts))"

text \<open>
  The loop over the three egress Secrets; \<open>None\<close> as key list hashes every key.  The accumulator holds
  the token names and the hashed text.
\<close>

fun read_egress_sources ::
  "'w env \<Rightarrow> hermes_agent \<Rightarrow> (string \<times> string list option) list \<Rightarrow> string list \<times> string
    \<Rightarrow> ('w, go_error + string list \<times> string) prog" where
  "read_egress_sources E ha [] acc = State_Monad.return (Inr acc)"
| "read_egress_sources E ha ((name, ks) # srcs) acc =
     (if name = [] then read_egress_sources E ha srcs acc
      else
        do { r \<leftarrow> GetSecret E \<lparr>nn_Namespace = ha_Namespace ha, nn_Name = name\<rparr>;
             case r of
               Inl err \<Rightarrow> State_Monad.return (Inl (WrappedError (''reading egress input Secret '' @ quote name @ '': '') err []))
             | Inr None \<Rightarrow> State_Monad.return (Inl (WrappedError [] ErrEgressInputsPending ('': '' @ quote name)))
             | Inr (Some s) \<Rightarrow>
                 (let keys = (case ks of Some l \<Rightarrow> l | None \<Rightarrow> sorted_keys (sec_Data s));
                      text = concat (map (\<lambda>k. name @ [CHR 0x00] @ k @ [CHR 0x00] @ map_str (sec_Data s) k @ [CHR 0x00]) keys);
                      names = (if name = GetEgressSecretName ha then filter egressTokenKey keys else [])
                  in read_egress_sources E ha srcs (fst acc @ names, snd acc @ text)) })"

definition egressPodInputs :: "'w env \<Rightarrow> hermes_agent \<Rightarrow> ('w, go_error + string list \<times> string) prog" where
  "egressPodInputs E ha =
     (case GetEgressCASource ha of
        (caName, caCertKey, _) \<Rightarrow>
          do { r \<leftarrow> read_egress_sources E ha
                     [(caName, Some [caCertKey]), (GetEgressSecretName ha, None),
                      (Egress_GetCredentialsSecretName (GetEgress ha), None)] ([], []);
               State_Monad.return (case r of
                 Inl err \<Rightarrow> Inl err
               | Inr (names, text) \<Rightarrow> Inr (names, hash16 E text)) })"

section \<open>Status\<close>

definition pod_name :: "hermes_agent \<Rightarrow> namespaced_name" where
  "pod_name ha = \<lparr>nn_Namespace = ha_Namespace ha, nn_Name = ha_Name ha @ ''-0''\<rparr>"

definition deriveStatus :: "'w env \<Rightarrow> ('w, string \<times> pod option) prog" where
  "deriveStatus E =
     do { ha \<leftarrow> get_agent;
          if IsSuspended ha then State_Monad.return (PhaseSuspended, None)
          else do { r \<leftarrow> GetPod E (pod_name ha);
                    State_Monad.return (case r of
                      Inl err \<Rightarrow> (PhaseUnknown, None)
                    | Inr None \<Rightarrow> (PhasePending, None)
                    | Inr (Some pod) \<Rightarrow> (hermesAgentPhase pod, Some pod)) } }"

text \<open>From the recorded StatefulSet name to the end of the loop.\<close>

definition report_status :: "'w env \<Rightarrow> 'w loop" where
  "report_status E =
     do { ha \<leftarrow> get_agent;
          mod_managed (mr_StatefulSet_update (\<lambda>_. ha_Name ha));
          (phase, pod) \<leftarrow> deriveStatus E;
          let initFailure = initContainerFailure pod;
          mod_status (\<lambda>st. st\<lparr>st_Phase := phase, st_Reason := podStatusReason pod initFailure\<rparr>);
          _ \<leftarrow> applyInitFailedCondition E initFailure;
          _ \<leftarrow> markReady E;
          try30 (UpdateHermesAgentStatus E)
            (do { ha' \<leftarrow> get_agent;
                  if st_Phase (ha_Status ha') = PhasePending \<or> st_Phase (ha_Status ha') = PhaseUnknown
                  then do { tel (LogDebug ''StatefulSet not ready''); State_Monad.return (requeue 10, None) }
                  else finish }) }"

section \<open>The loop\<close>

definition update_statefulset :: "'w env \<Rightarrow> hermes_agent \<Rightarrow> statefulset \<Rightarrow> statefulset \<Rightarrow> 'w loop \<Rightarrow> 'w loop" where
  "update_statefulset E ha sts desired k =
     get30 (GetPod E (pod_name ha)) (\<lambda>pod.
       let podWasRunning = (case pod of None \<Rightarrow> False | Some p \<Rightarrow> pod_Phase p = ''Running'');
           desired1 = sts_meta_update (om_ResourceVersion_update (\<lambda>_. om_ResourceVersion (sts_meta sts))) desired
       in try30 (UpdateStatefulSetOwnedByHermesAgent E desired1)
            (if \<not> podWasRunning
             then try30 (DeletePod E (pod_name ha)) (do { tel (LogDebug ''StatefulSet updated''); k })
             else do { tel (LogDebug ''StatefulSet updated''); k }))"

definition apply_statefulset :: "'w env \<Rightarrow> hermes_agent \<Rightarrow> statefulset option \<Rightarrow> statefulSetInputs \<Rightarrow> 'w loop" where
  "apply_statefulset E ha live ssi =
     (let nsName = \<lparr>nn_Namespace = ha_Namespace ha, nn_Name = ha_Name ha\<rparr>;
          built = buildStatefulSet ha ssi;
          hash = desiredSpecHash E built;
          desired = sts_meta_update (om_Annotations_update (map_put annotationDesiredSpecHash hash)) built
      in case live of
           Some sts \<Rightarrow>
             if \<not> sameVolumeClaimTemplateNames sts desired then
               try30 (DeleteStatefulSet E nsName)
                 (do { tel (LogInfo ''Deleted StatefulSet to reshape storage''); State_Monad.return (requeue 30, None) })
             else if map_str (om_Annotations (sts_meta sts)) annotationDesiredSpecHash \<noteq> hash
             then update_statefulset E ha sts desired (report_status E)
             else report_status E
         | None \<Rightarrow>
             try30 (CreateStatefulSetOwnedByHermesAgent E desired)
               (do { tel (LogDebug ''StatefulSet created''); report_status E }))"

definition reconcileStatefulSet :: "'w env \<Rightarrow> 'w loop" where
  "reconcileStatefulSet E = defer_mark E condReasonStatefulSetFailed
     (do { ha \<leftarrow> get_agent;
           let nsName = \<lparr>nn_Namespace = ha_Namespace ha, nn_Name = ha_Name ha\<rparr>;
           (if UsesLegacyImageForm (Some ha)
            then tel (LogWarn ''Image override uses the deprecated object form; set a plain string image reference (required in the next API version)'')
            else State_Monad.return ());
           get30 (GetStatefulSet E nsName) (\<lambda>sts.
           get30 (GetConfigMap E \<lparr>nn_Namespace = hcmr_Namespace (GetHermesConfigMapRef ha), nn_Name = hcmr_Name (GetHermesConfigMapRef ha)\<rparr>) (\<lambda>cm.
             let configHash = configMapDataHash E (case cm of None \<Rightarrow> [] | Some c \<Rightarrow> cm_Data c)
             in if Egress_IsEnabled (GetEgress ha) then
                  do { r \<leftarrow> egressPodInputs E ha;
                       case r of
                         Inl err \<Rightarrow>
                           if Is_errEgressInputsPending err
                           then do { tel (LogDebug ''Waiting for egress Secrets''); State_Monad.return (requeue 2, None) }
                           else fail30 err
                       | Inr (names, egressHash) \<Rightarrow>
                           apply_statefulset E ha sts
                             \<lparr>ssi_configHash = configHash, ssi_egressTokenNames = names, ssi_egressHash = egressHash\<rparr> }
                else apply_statefulset E ha sts
                       \<lparr>ssi_configHash = configHash, ssi_egressTokenNames = [], ssi_egressHash = []\<rparr>)) })"

section \<open>A settled StatefulSet is left alone\<close>

text \<open>Programs that issue no request.\<close>

definition silent :: "('w, 'a) prog \<Rightarrow> bool" where
  "silent m \<longleftrightarrow> (\<forall>s. rs_trace (snd (run_state m s)) = rs_trace s)"

lemma silentD [simp]: "silent m \<Longrightarrow> rs_trace (snd (run_state m s)) = rs_trace s"
  by (simp add: silent_def)

lemma silent_conditions [simp]:
  "silent (set_condition E typ status reason message)" "silent (remove_condition E typ)" "silent (markReady E)"
  "silent (applyInitFailedCondition E failure)"
  by (auto simp: silent_def set_condition_def remove_condition_def markReady_def setReadyCondition_def Let_def
      applyInitFailedCondition_def clear_init_failed_def case_prod_unfold split: option.split)

text \<open>The requests that report the status: the pod, unless the agent is suspended, and the update.\<close>

lemma deriveStatus_trace:
  "rs_trace (snd (run_state (deriveStatus E) s)) =
     rs_trace s @ (if IsSuspended (rs_agent s) then [] else [GetReq KPod (pod_name (rs_agent s))])"
  by (simp add: deriveStatus_def client_defs get_object_def kind_defs)

lemma report_status_trace:
  "\<exists>ha'. rs_trace (snd (run_state (report_status E) s)) =
     rs_trace s @ (if IsSuspended (rs_agent s) then [] else [GetReq KPod (pod_name (rs_agent s))]) @ [StatusReq ha']"
proof -
  have spec: "IsSuspended (ha_Status_update f ha) = IsSuspended ha" "pod_name (ha_Status_update f ha) = pod_name ha" for f ha
    by (simp_all add: IsSuspended_def pod_name_def)
  show ?thesis
    by (auto simp: report_status_def try30_def fail30_def finish_def Let_def case_prod_unfold
        run_UpdateHermesAgentStatus_trace deriveStatus_trace spec split: option.split)
qed

definition sts_settled :: "'w env \<Rightarrow> hermes_agent \<Rightarrow> statefulSetInputs \<Rightarrow> statefulset \<Rightarrow> bool" where
  "sts_settled E ha ssi live \<longleftrightarrow>
     sameVolumeClaimTemplateNames live (buildStatefulSet ha ssi) \<and>
     map_str (om_Annotations (sts_meta live)) annotationDesiredSpecHash = desiredSpecHash E (buildStatefulSet ha ssi)"

lemma sameVolumeClaimTemplateNames_meta [simp]:
  "sameVolumeClaimTemplateNames live (sts_meta_update f desired) = sameVolumeClaimTemplateNames live desired"
  by (simp add: sameVolumeClaimTemplateNames_def vct_names_def)

lemma apply_statefulset_settled:
  "sts_settled E ha ssi live \<Longrightarrow> apply_statefulset E ha (Some live) ssi = report_status E"
  by (simp add: apply_statefulset_def sts_settled_def Let_def)

text \<open>
  A StatefulSet whose recorded hash is that of the desired spec and whose claim templates have the
  desired names is not written: applying it reads the pod (unless the agent is suspended) and reports
  the status, and nothing else.
\<close>

theorem settled_statefulset_untouched:
  assumes "sts_settled E ha ssi live"
  shows "\<exists>ha'. rs_trace (snd (run_state (apply_statefulset E ha (Some live) ssi) s)) =
     rs_trace s @ (if IsSuspended (rs_agent s) then [] else [GetReq KPod (pod_name (rs_agent s))]) @ [StatusReq ha']"
  using report_status_trace [of E s] by (simp only: apply_statefulset_settled [OF assms])

end
