(* ===== verification/Reconcile.thy ===== *)
theory Reconcile
  imports Owned_Config Owned_Rbac Owned_Network Egress_Secret Egress_CA Restore Hermes_ConfigMap StatefulSet_Loop
begin

text \<open>
  The use case (\<^verbatim>\<open>internal/usecase/hermesagent.go\<close>): the resource loops in their order, with the
  early return of a loop that fails or asks to be requeued, and the telemetry of the outcome; and
  the controller (\<^verbatim>\<open>internal/controller/hermesagent_controller.go\<close>) that calls it and maps changed
  ConfigMaps and Secrets to the agents that refer to them.
\<close>

section \<open>The sequence of loops\<close>

text \<open>
  One block of \<^verbatim>\<open>Reconcile\<close>: \<^verbatim>\<open>if result, err := loop(ctx, ha); err != nil || !result.IsZero() { ... }\<close>.
\<close>

definition run_loop :: "namespaced_name \<Rightarrow> 'w loop \<Rightarrow> string \<Rightarrow> 'w loop \<Rightarrow> 'w loop" where
  "run_loop nsName body msg k =
     do { r \<leftarrow> body;
          case snd r of
            Some err \<Rightarrow> do { tel (LogError err msg); tel (IncReconcile nsName ResultError); State_Monad.return r }
          | None \<Rightarrow> if \<not> IsZero (fst r) then State_Monad.return r else k }"

definition reconcile_loops :: "'w env \<Rightarrow> ('w loop \<times> string) list" where
  "reconcile_loops E =
     [(reconcileHermesConfigMap E, ''Failed to reconcile Hermes ConfigMap''),
      (reconcileHermesSecret E, ''Failed to reconcile Hermes Secret''),
      (reconcileSearXNGConfigMap E, ''Failed to reconcile SearXNG ConfigMap''),
      (reconcileSearXNGSecret E, ''Failed to reconcile SearXNG Secret''),
      (reconcileServiceAccount E, ''Failed to reconcile ServiceAccount''),
      (reconcileRole E, ''Failed to reconcile Role''),
      (reconcileService E, ''Failed to reconcile Service''),
      (reconcileIngress E, ''Failed to reconcile Ingress''),
      (reconcileNetworkPolicy E, ''Failed to reconcile NetworkPolicy''),
      (reconcileEgressCA E, ''Failed to reconcile egress CA''),
      (reconcileEgressSecret E, ''Failed to reconcile egress Secret''),
      (reconcileRestore E, ''Failed to reconcile restore''),
      (reconcileStatefulSet E, ''Failed to reconcile StatefulSet''),
      (reconcileSnapshot E, ''Failed to reconcile snapshots'')]"

definition run_loops :: "namespaced_name \<Rightarrow> ('w loop \<times> string) list \<Rightarrow> 'w loop \<Rightarrow> 'w loop" where
  "run_loops nsName loops k = foldr (\<lambda>(body, msg). run_loop nsName body msg) loops k"

definition report_success :: "namespaced_name \<Rightarrow> 'w loop" where
  "report_success nsName =
     do { tel (LogInfo ''Reconciliation completed successfully'');
          tel (IncReconcile nsName ResultSuccess);
          State_Monad.return (done_result, None) }"

definition Reconcile :: "'w env \<Rightarrow> namespaced_name \<Rightarrow> 'w loop" where
  "Reconcile E nn =
     do { tel (LogInfo ''Starting reconciliation'');
          r \<leftarrow> GetHermesAgent E nn;
          res \<leftarrow> (case r of
                   Inl err \<Rightarrow>
                     do { tel (LogError err ''Failed to get HermesAgent'');
                          tel (IncReconcile nn ResultError);
                          State_Monad.return (requeue 30, Some err) }
                 | Inr None \<Rightarrow>
                     do { tel (LogDebug ''HermesAgent not found'');
                          tel (IncNotFound nn);
                          tel (IncReconcile nn ResultNotFound);
                          State_Monad.return (done_result, None) }
                 | Inr (Some ha) \<Rightarrow>
                     do { put_agent ha;
                          let nsName = meta_key (ha_meta ha);
                          run_loops nsName (reconcile_loops E) (report_success nsName) });
          tel (ObserveReconcileDuration nn);
          State_Monad.return res }"

section \<open>The controller\<close>

definition HermesAgentReconciler_Reconcile :: "'w env \<Rightarrow> namespaced_name \<Rightarrow> 'w loop" where
  "HermesAgentReconciler_Reconcile E req =
     do { r \<leftarrow> Reconcile E req;
          State_Monad.return (case snd r of Some err \<Rightarrow> (done_result, Some err) | None \<Rightarrow> (fst r, None)) }"

definition agents_in_namespace :: "'w env \<Rightarrow> string \<Rightarrow> ('w, go_error + hermes_agent list) prog" where
  "agents_in_namespace E ns = api_call (ListReq KHermesAgent ns []) (ka_ListHermesAgents (kube E) ns)"

definition agentsReferencingConfigMap :: "'w env \<Rightarrow> objectmeta \<Rightarrow> ('w, namespaced_name list) prog" where
  "agentsReferencingConfigMap E obj =
     do { r \<leftarrow> agents_in_namespace E (om_Namespace obj);
          State_Monad.return (case r of
            Inl err \<Rightarrow> []
          | Inr agents \<Rightarrow>
              map (\<lambda>a. meta_key (ha_meta a))
                (filter (\<lambda>a. om_Name obj \<in> set (GetConfigSourceConfigMapNames (Some a))) agents)) }"

definition agentsReferencingSecret :: "'w env \<Rightarrow> objectmeta \<Rightarrow> ('w, namespaced_name list) prog" where
  "agentsReferencingSecret E obj =
     do { r \<leftarrow> agents_in_namespace E (om_Namespace obj);
          State_Monad.return (case r of
            Inl err \<Rightarrow> []
          | Inr agents \<Rightarrow>
              map (\<lambda>a. meta_key (ha_meta a))
                (filter (\<lambda>a. om_Name obj \<in> set (GetEgressSourceSecretNames a)) agents)) }"

section \<open>The loops run in order, up to the first that stops\<close>

text \<open>A loop lets the next one run when it returns no error and asks for no requeue.\<close>

definition quiet :: "ctrl_result \<times> go_error option \<Rightarrow> bool" where
  "quiet r \<longleftrightarrow> snd r = None \<and> IsZero (fst r)"

text \<open>The state after all the loops of a list, when all of them are quiet.\<close>

fun quiet_run :: "'w loop list \<Rightarrow> 'w rst \<Rightarrow> 'w rst option" where
  "quiet_run [] s = Some s"
| "quiet_run (l # ls) s = (case run_state l s of (r, s') \<Rightarrow> if quiet r then quiet_run ls s' else None)"

text \<open>What a loop that stops adds to the telemetry.\<close>

definition stop_events :: "namespaced_name \<Rightarrow> string \<Rightarrow> go_error option \<Rightarrow> tel_event list" where
  "stop_events nn msg e = (case e of None \<Rightarrow> [] | Some err \<Rightarrow> [LogError err msg, IncReconcile nn ResultError])"

lemma run_loop_quiet:
  "run_state body s = (r, s') \<Longrightarrow> quiet r \<Longrightarrow> run_state (run_loop nn body msg k) s = run_state k s'"
  by (auto simp: run_loop_def quiet_def)

lemma run_loop_stops:
  "run_state body s = (r, s') \<Longrightarrow> \<not> quiet r \<Longrightarrow>
     run_state (run_loop nn body msg k) s = (r, s'\<lparr>rs_tel := rs_tel s' @ stop_events nn msg (snd r)\<rparr>)"
  by (auto simp: run_loop_def quiet_def stop_events_def split: option.split)

text \<open>
  C7: The loops run in their order and the first that fails or asks for a requeue decides: its result
  is the result, its state is the state, no later loop runs, and an error is logged and counted once.
  When all loops are quiet, the continuation (the report of the success) runs after them.
\<close>

theorem run_loops_first_stop:
  "case quiet_run (map fst loops) s of
     Some s' \<Rightarrow> run_state (run_loops nn loops k) s = run_state k s'
   | None \<Rightarrow>
       (\<exists>pre body msg post s1.
          loops = pre @ (body, msg) # post \<and> quiet_run (map fst pre) s = Some s1 \<and>
          (case run_state body s1 of
             (r, s2) \<Rightarrow> \<not> quiet r \<and>
               run_state (run_loops nn loops k) s = (r, s2\<lparr>rs_tel := rs_tel s2 @ stop_events nn msg (snd r)\<rparr>)))"
proof (induction loops arbitrary: s)
  case Nil
  then show ?case by (simp add: run_loops_def)
next
  case (Cons l loops)
  obtain body msg r s' where l: "l = (body, msg)" and run: "run_state body s = (r, s')"
    by (metis prod.collapse)
  have step: "run_loops nn (l # loops) k = run_loop nn body msg (run_loops nn loops k)"
    by (simp add: run_loops_def l)
  show ?case
  proof (cases "quiet r")
    case True
    note quiet = run_loop_quiet [OF run True, of nn msg "run_loops nn loops k"]
    show ?thesis
    proof (cases "quiet_run (map fst loops) s'")
      case None
      with Cons.IH [of s'] obtain pre body' msg' post s1 where
        "loops = pre @ (body', msg') # post" "quiet_run (map fst pre) s' = Some s1"
        "case run_state body' s1 of (r, s2) \<Rightarrow> \<not> quiet r \<and>
           run_state (run_loops nn loops k) s' = (r, s2\<lparr>rs_tel := rs_tel s2 @ stop_events nn msg' (snd r)\<rparr>)"
        by auto
      with None True l run quiet step show ?thesis
        by (auto intro!: exI [of _ "l # pre"])
    qed (use Cons.IH [of s'] True l run quiet step in simp)
  next
    case False
    with run_loop_stops [OF run False, of nn msg "run_loops nn loops k"] l run step
    show ?thesis by (auto intro!: exI [of _ "[]"])
  qed
qed

end
