(* ===== verification/Owned_Requests.thy ===== *)
theory Owned_Requests
  imports Request_Calculus Reconcile
begin

text \<open>
  Which objects a reconciliation reads and writes.  The locale \<open>lawful_env\<close> states what the operator
  relies on: a successful status update keeps the identity and the spec of the agent, the controller
  reference changes the owner references only, and an object that was read has the key it was asked for.  On such a
  cluster every write of a reconciliation is one of the agent's own objects, in the agent's namespace,
  and every read is one of these or an object the spec refers to; in particular no claim is ever
  deleted or updated, and no snapshot is deleted that the agent is restored from.
\<close>

section \<open>The agent keeps its identity\<close>

definition same_agent :: "hermes_agent \<Rightarrow> hermes_agent \<Rightarrow> bool" where
  "same_agent a b \<longleftrightarrow> meta_key (ha_meta b) = meta_key (ha_meta a) \<and> ha_Spec b = ha_Spec a"

lemma same_agent_simps:
  assumes "same_agent ha0 ha"
  shows "ha_Name ha = ha_Name ha0" "ha_Namespace ha = ha_Namespace ha0" "ha_Spec ha = ha_Spec ha0"
    "GetHermesName ha = GetHermesName ha0" "GetSearXNGName ha = GetSearXNGName ha0"
    "GetEgressSecretName ha = GetEgressSecretName ha0" "GetEgressCASecretName ha = GetEgressCASecretName ha0"
    "GetHermes ha = GetHermes ha0" "GetEgress ha = GetEgress ha0" "GetEgressCASource ha = GetEgressCASource ha0"
    "pod_name ha = pod_name ha0" "buildDataPVCName ha = buildDataPVCName ha0"
  using assms
  by (auto simp: same_agent_def meta_key_def GetHermesName_def GetSearXNGName_def GetEgressSecretName_def
      GetEgressCASecretName_def GetHermes_def GetEgress_def GetEgressCASource_def pod_name_def buildDataPVCName_def Let_def)

lemma same_agent_refl: "same_agent ha ha"
  by (simp add: same_agent_def)

lemma same_agent_trans: "same_agent a b \<Longrightarrow> same_agent b c \<Longrightarrow> same_agent a c"
  by (simp add: same_agent_def)

section \<open>The laws\<close>

locale lawful_env =
  fixes E :: "'w env"
  assumes status_update_same: "ka_StatusUpdate (kube E) ha w = (Inr ha', w') \<Longrightarrow> same_agent ha ha'"
    and controller_reference_owner: "am_SetControllerReference (mach E) ha m = Inr m' \<Longrightarrow>
          \<exists>os. m' = m\<lparr>om_OwnerReferences := os\<rparr>"
    and get_secret_key: "rc_Get (ka_Secret (kube E)) nn w = (Inr s, w') \<Longrightarrow> meta_key (sec_meta s) = nn"
    and get_agent_key: "ka_GetHermesAgent (kube E) nn w = (Inr ha, w') \<Longrightarrow> meta_key (ha_meta ha) = nn"
    and get_snapshot_key: "ka_GetUnstructured (kube E) g nn w = (Inr u, w') \<Longrightarrow>
          am_FromUnstructured (mach E) u = Inr v \<Longrightarrow> meta_key (vs_meta v) = nn"
    and list_snapshot_namespace: "ka_ListUnstructured (kube E) g ns ls w = (Inr us, w') \<Longrightarrow> u \<in> set us \<Longrightarrow>
          am_FromUnstructured (mach E) u = Inr v \<Longrightarrow> om_Namespace (vs_meta v) = ns"

section \<open>The agent's own objects\<close>

definition restore_source :: "hermes_agent \<Rightarrow> string" where
  "restore_source ha = HermesPersistence_GetExistingSnapshot (Hermes_GetPersistence (GetHermes ha))"

text \<open>
  The names the agent's objects of a kind may have.  A CA Secret that the user supplies under the name
  of the managed one is the user's.
\<close>

fun owned_names :: "hermes_agent \<Rightarrow> api_kind \<Rightarrow> string list" where
  "owned_names ha KConfigMap = [GetHermesName ha, GetSearXNGName ha]"
| "owned_names ha KSecret =
     [GetHermesName ha, GetSearXNGName ha, GetEgressSecretName ha] @
     (if Egress_GetCASecretRefName (GetEgress ha) = GetEgressCASecretName ha then [] else [GetEgressCASecretName ha])"
| "owned_names ha KPod = [ha_Name ha @ ''-0'']"
| "owned_names ha KPersistentVolumeClaim = (if restore_source ha = [] then [] else [RestoredPVCName (restore_source ha)])"
| "owned_names ha KHermesAgent = []"
| "owned_names ha (KUnstructured g) = []"
| "owned_names ha _ = [ha_Name ha]"

text \<open>
  The other objects it reads: the agent, the ConfigMaps and Secrets the spec refers to, the data claim
  and the snapshot to restore from.
\<close>

fun read_names :: "hermes_agent \<Rightarrow> api_kind \<Rightarrow> string list" where
  "read_names ha KConfigMap = GetConfigSourceConfigMapNames (Some ha)"
| "read_names ha KSecret = GetEgressCASecretName ha # GetEgressSourceSecretNames ha"
| "read_names ha KPersistentVolumeClaim = [buildDataPVCName ha]"
| "read_names ha (KUnstructured g) = (if g = volumeSnapshotObjectGVK \<and> restore_source ha \<noteq> [] then [restore_source ha] else [])"
| "read_names ha KHermesAgent = [ha_Name ha]"
| "read_names ha _ = []"

definition owned_key :: "hermes_agent \<Rightarrow> api_kind \<Rightarrow> namespaced_name \<Rightarrow> bool" where
  "owned_key ha k nn \<longleftrightarrow> nn_Namespace nn = ha_Namespace ha \<and> nn_Name nn \<in> set (owned_names ha k)"

fun object_kind :: "api_object \<Rightarrow> api_kind \<times> objectmeta" where
  "object_kind (OConfigMap x) = (KConfigMap, cm_meta x)"
| "object_kind (OSecret x) = (KSecret, sec_meta x)"
| "object_kind (OStatefulSet x) = (KStatefulSet, sts_meta x)"
| "object_kind (OServiceAccount x) = (KServiceAccount, sa_meta x)"
| "object_kind (ORole x) = (KRole, role_meta x)"
| "object_kind (ORoleBinding x) = (KRoleBinding, rb_meta x)"
| "object_kind (OService x) = (KService, svc_meta x)"
| "object_kind (OIngress x) = (KIngress, ing_meta x)"
| "object_kind (ONetworkPolicy x) = (KNetworkPolicy, np_meta x)"
| "object_kind (OPersistentVolumeClaim x) = (KPersistentVolumeClaim, pvc_meta x)"
| "object_kind (OPod x) = (KPod, pod_meta x)"
| "object_kind (OUnstructured x) = (KUnstructured volumeSnapshotObjectGVK, objectMeta [] [] [])"

definition owned_object :: "hermes_agent \<Rightarrow> api_object \<Rightarrow> bool" where
  "owned_object ha obj \<longleftrightarrow> owned_key ha (fst (object_kind obj)) (meta_key (snd (object_kind obj)))"

text \<open>
  The requests of a reconciliation.  A snapshot is created as \<^verbatim>\<open>buildSnapshot\<close> gives it, labelled with the
  agent's name; a snapshot that is deleted is in the agent's namespace and not the restore source.
\<close>

fun owned_request :: "'w env \<Rightarrow> hermes_agent \<Rightarrow> api_request \<Rightarrow> bool" where
  "owned_request E ha (GetReq k nn) \<longleftrightarrow>
     nn_Namespace nn = ha_Namespace ha \<and> nn_Name nn \<in> set (owned_names ha k @ read_names ha k)"
| "owned_request E ha (ListReq k ns ls) \<longleftrightarrow>
     k = KUnstructured volumeSnapshotGVK \<and> ns = ha_Namespace ha \<and> ls = [(snapshotAgentLabel, ha_Name ha)]"
| "owned_request E ha (StatusReq ha') \<longleftrightarrow> same_agent ha ha'"
| "owned_request E ha (CreateReq obj) \<longleftrightarrow>
     (case obj of
        OUnstructured u \<Rightarrow>
          (\<exists>now. toUnstructuredVolumeSnapshot E
             (label_snapshot ha (buildSnapshot ha (buildSnapshotName (buildDataPVCName ha) now))) = Inr u)
      | OPod p \<Rightarrow> False
      | _ \<Rightarrow> owned_object ha obj)"
| "owned_request E ha (UpdateReq obj) \<longleftrightarrow>
     (case obj of OUnstructured u \<Rightarrow> False | OPod p \<Rightarrow> False | OPersistentVolumeClaim p \<Rightarrow> False
      | _ \<Rightarrow> owned_object ha obj)"
| "owned_request E ha (DeleteReq k nn) \<longleftrightarrow>
     (case k of
        KUnstructured g \<Rightarrow> g = volumeSnapshotGVK \<and> nn_Namespace nn = ha_Namespace ha \<and>
                           (restore_source ha = [] \<or> nn_Name nn \<noteq> restore_source ha)
      | KPersistentVolumeClaim \<Rightarrow> False
      | _ \<Rightarrow> owned_key ha k nn)"

lemma GetEgressCASecretName_nonempty [simp]: "GetEgressCASecretName ha \<noteq> []" "[] \<noteq> GetEgressCASecretName ha"
  by (simp_all add: GetEgressCASecretName_def)

lemmas owned_defs = owned_object_def owned_key_def meta_key_def objectMeta_def

section \<open>The rules at these requests\<close>

context lawful_env
begin

lemma controller_reference_key: "am_SetControllerReference (mach E) ha m = Inr m' \<Longrightarrow> meta_key m' = meta_key m"
  by (auto dest!: controller_reference_owner simp: meta_key_def)

lemma request_invariant_owned: "request_invariant E (same_agent ha0) (owned_request E ha0)"
  by unfold_locales
     (auto simp: same_agent_def dest: status_update_same)

end

sublocale lawful_env \<subseteq> ow: request_invariant E "same_agent ha0" "owned_request E ha0" for ha0
  by (rule request_invariant_owned)

abbreviation owned_inv :: "'w env \<Rightarrow> hermes_agent \<Rightarrow> 'w rst \<Rightarrow> bool" where
  "owned_inv E ha0 \<equiv> req_inv (same_agent ha0) (owned_request E ha0)"

context lawful_env
begin

lemma create_owned_meta:
  assumes "\<And>m. meta_key m = meta_key (ki_meta k obj) \<Longrightarrow> owned_request E ha0 (CreateReq (ki_wrap k (ki_set_meta k m obj)))"
  shows "keeps (owned_inv E ha0) (create_owned E k c obj)"
  by (rule ow.keeps_create_owned) (use assms controller_reference_key in metis)

lemma update_owned_meta:
  assumes "\<And>m. meta_key m = meta_key (ki_meta k obj) \<Longrightarrow> owned_request E ha0 (UpdateReq (ki_wrap k (ki_set_meta k m obj)))"
  shows "keeps (owned_inv E ha0) (update_owned E k c obj)"
  by (rule ow.keeps_update_owned) (use assms controller_reference_key in metis)

lemmas owned_intros = ow.keeps_agent ow.keeps_effects create_owned_meta update_owned_meta
  ow.keeps_delete_object ow.keeps_defer_mark

lemma keeps_reconcileServiceAccount: "keeps (owned_inv E ha0) (reconcileServiceAccount E)"
  unfolding reconcileServiceAccount_def client_defs
  by (auto intro!: owned_intros wp_intros simp: same_agent_simps kind_defs buildServiceAccount_def owned_defs)

lemma keeps_reconcileRole: "keeps (owned_inv E ha0) (reconcileRole E)"
  unfolding reconcileRole_def ensure_role_def ensure_role_binding_def client_defs
  by (auto intro!: owned_intros wp_intros
      simp: same_agent_simps kind_defs buildRole_def buildRoleBinding_def owned_defs)

lemma keeps_reconcileService: "keeps (owned_inv E ha0) (reconcileService E)"
  unfolding reconcileService_def client_defs
  by (auto intro!: owned_intros wp_intros simp: same_agent_simps kind_defs buildService_def owned_defs Let_def)

lemma keeps_reconcileIngress: "keeps (owned_inv E ha0) (reconcileIngress E)"
  unfolding reconcileIngress_def client_defs
  by (auto intro!: owned_intros wp_intros simp: same_agent_simps kind_defs buildIngress_def owned_defs)

lemma keeps_reconcileNetworkPolicy: "keeps (owned_inv E ha0) (reconcileNetworkPolicy E)"
  unfolding reconcileNetworkPolicy_def client_defs
  by (auto intro!: owned_intros wp_intros simp: same_agent_simps kind_defs buildNetworkPolicy_def owned_defs)

lemma keeps_reconcileSearXNGConfigMap: "keeps (owned_inv E ha0) (reconcileSearXNGConfigMap E)"
  unfolding reconcileSearXNGConfigMap_def client_defs
  by (auto intro!: owned_intros wp_intros simp: same_agent_simps kind_defs buildSearXNGConfigMap_def owned_defs)

text \<open>A Secret that was read has the key it was asked for; a Secret that was built has its name.\<close>

lemma yields_GetSecret:
  "owned_request E ha0 (GetReq KSecret nn) \<Longrightarrow> yields (owned_inv E ha0) (GetSecret E nn) (on_ok (\<lambda>r. \<forall>s. r = Some s \<longrightarrow> meta_key (sec_meta s) = nn))"
  unfolding GetSecret_def by (rule ow.yields_get_object) (auto simp: kind_defs dest: get_secret_key)

lemma keeps_random_hex: "keeps (owned_inv E ha0) (random_hex E n)"
  unfolding random_hex_def by (intro wp_intros owned_intros)

lemma keeps_stable_key: "keeps (owned_inv E ha0) (stable_key E existing key data)"
  unfolding stable_key_def by (intro wp_intros keeps_random_hex)

lemma yields_buildHermesSecret:
  "yields (owned_inv E ha0) (buildHermesSecret E ha existing)
     (on_ok (\<lambda>s. meta_key (sec_meta s) = \<lparr>nn_Namespace = ha_Namespace ha, nn_Name = GetHermesName ha\<rparr>))"
  unfolding buildHermesSecret_def
  by (auto intro!: yields_bind [where R = "\<lambda>_. True"] yields_return keeps_stable_key
      simp: keeps_yields [symmetric] objectMeta_def meta_key_def wp_intros split: sum.split)

lemma keeps_reconcileHermesSecret: "keeps (owned_inv E ha0) (reconcileHermesSecret E)"
  unfolding reconcileHermesSecret_def Let_def
  by (rule ow.keeps_defer_mark, rule ow.keeps_agent, rule keeps_get30_yields [OF yields_GetSecret],
      simp add: same_agent_simps, rule keeps_get30_yields [OF yields_buildHermesSecret])
     (auto intro!: owned_intros wp_intros
        simp: same_agent_simps kind_defs client_defs owned_object_def owned_key_def)

lemma yields_buildSearXNGSecret:
  "yields (owned_inv E ha0) (buildSearXNGSecret E ha)
     (on_ok (\<lambda>s. meta_key (sec_meta s) = \<lparr>nn_Namespace = ha_Namespace ha, nn_Name = GetSearXNGName ha\<rparr>))"
  unfolding buildSearXNGSecret_def
  by (auto intro!: yields_bind [where R = "\<lambda>_. True"] yields_return keeps_random_hex
      simp: keeps_yields [symmetric] objectMeta_def meta_key_def split: sum.split)

lemma keeps_reconcileSearXNGSecret: "keeps (owned_inv E ha0) (reconcileSearXNGSecret E)"
  unfolding reconcileSearXNGSecret_def
  by (auto intro!: keeps_get30_yields [OF yields_buildSearXNGSecret] owned_intros wp_intros
      simp: same_agent_simps kind_defs client_defs owned_object_def owned_key_def)

section \<open>Egress\<close>

lemma keeps_bind_err: "keeps I m \<Longrightarrow> (\<And>v. keeps I (k v)) \<Longrightarrow> keeps I (bind_err m k)"
  unfolding bind_err_def by (intro wp_intros)

lemma yields_bind_err:
  "keeps I m \<Longrightarrow> (\<And>v. yields I (k v) (on_ok Q)) \<Longrightarrow> yields I (bind_err m k) (on_ok Q)"
  unfolding bind_err_def
  by (rule yields_bind [where R = "\<lambda>_. True"]) (auto intro: yields_return simp: keeps_yields split: sum.split)

lemma yields_buildEgressCASecret:
  "yields (owned_inv E ha0) (buildEgressCASecret E ha)
     (on_ok (\<lambda>s. meta_key (sec_meta s) = \<lparr>nn_Namespace = ha_Namespace ha, nn_Name = GetEgressCASecretName ha\<rparr>))"
  unfolding buildEgressCASecret_def
  by (auto intro!: yields_bind_err yields_bind [where R = "\<lambda>_. True"] yields_return wp_intros owned_intros
      simp: keeps_yields [symmetric] objectMeta_def meta_key_def split: sum.split)

lemma keeps_recordEgressCASecret: "keeps (owned_inv E ha0) (recordEgressCASecret E name)"
  unfolding recordEgressCASecret_def by (intro owned_intros wp_intros)

lemma keeps_reconcileEgressCA: "keeps (owned_inv E ha0) (reconcileEgressCA E)"
  unfolding reconcileEgressCA_def
  by (auto intro!: keeps_get30_yields [OF yields_buildEgressCASecret] keeps_recordEgressCASecret owned_intros wp_intros
      simp: same_agent_simps kind_defs client_defs owned_object_def owned_key_def GetEgressSourceSecretNames_def Let_def)

lemma keeps_egress_tokens: "keeps (owned_inv E ha0) (egress_tokens E existing creds tokens)"
  by (induction creds arbitrary: tokens)
     (auto simp: mintEgressProxyToken_def intro!: wp_intros owned_intros)

lemma yields_buildEgressSecret:
  "yields (owned_inv E ha0) (buildEgressSecret E ha creds existing)
     (on_ok (\<lambda>s. meta_key (sec_meta s) = \<lparr>nn_Namespace = ha_Namespace ha, nn_Name = GetEgressSecretName ha\<rparr>))"
  unfolding buildEgressSecret_def
  by (auto intro!: yields_bind [where R = "\<lambda>_. True"] yields_return keeps_egress_tokens
      simp: keeps_yields [symmetric] objectMeta_def meta_key_def split: sum.split)

lemma keeps_resolveEgressCredentials:
  "same_agent ha0 ha \<Longrightarrow> Egress_IsEnabled (GetEgress ha) \<Longrightarrow> keeps (owned_inv E ha0) (resolveEgressCredentials E ha)"
  unfolding resolveEgressCredentials_def client_defs
  by (auto intro!: owned_intros wp_intros simp: same_agent_simps kind_defs GetEgressSourceSecretNames_def Let_def)

lemma keeps_recordEgressSecret: "keeps (owned_inv E ha0) (recordEgressSecret E name)"
  unfolding recordEgressSecret_def by (intro owned_intros wp_intros)

lemma keeps_reconcileEgressSecret: "keeps (owned_inv E ha0) (reconcileEgressSecret E)"
  unfolding reconcileEgressSecret_def Let_def
  by (rule ow.keeps_defer_mark, rule ow.keeps_agent, rule keeps_get30_yields [OF yields_GetSecret],
      simp add: same_agent_simps)
     (auto intro!: keeps_get30_yields [OF yields_buildEgressSecret] keeps_recordEgressSecret
          keeps_resolveEgressCredentials owned_intros wp_intros
        simp: same_agent_simps kind_defs client_defs owned_object_def owned_key_def)

section \<open>The bootstrap ConfigMap\<close>

lemma keeps_readConfigDocument:
  "ckr_Name ref \<in> set (GetConfigSourceConfigMapNames (Some ha0)) \<Longrightarrow>
     keeps (owned_inv E ha0) (readConfigDocument E (ha_Namespace ha0) ref)"
  unfolding readConfigDocument_def client_defs by (auto intro!: owned_intros wp_intros simp: kind_defs)

text \<open>A referenced document is one of the ConfigMaps that the watch maps back to the agent.\<close>

lemma profile_config_source:
  "HermesProfileConfig_GetConfigMapRef (profile_config ha name) = Some ref \<Longrightarrow>
     ckr_Name ref \<in> set (GetConfigSourceConfigMapNames (Some ha))"
  by (force simp: profile_config_def GetConfigSourceConfigMapNames_def HermesProfileConfig_GetConfigMapRef_def
      dest!: map_of_SomeD split: option.splits)

lemma same_agent_sources:
  "same_agent ha0 ha \<Longrightarrow> GetConfigSourceConfigMapNames (Some ha) = GetConfigSourceConfigMapNames (Some ha0)"
  by (simp add: GetConfigSourceConfigMapNames_def same_agent_simps)

lemma keeps_read_profile_documents:
  assumes "same_agent ha0 ha"
  shows "keeps (owned_inv E ha0) (read_profile_documents E ha names docs)"
  by (induction names arbitrary: docs)
     (auto intro!: keeps_readConfigDocument wp_intros simp: same_agent_simps [OF assms]
        dest!: profile_config_source simp: same_agent_sources [OF assms])

lemma keeps_resolveConfigDocuments:
  assumes "same_agent ha0 ha"
  shows "keeps (owned_inv E ha0) (resolveConfigDocuments E ha)"
  unfolding resolveConfigDocuments_def
  by (auto intro!: wp_intros keeps_readConfigDocument keeps_read_profile_documents assms
      simp: same_agent_simps [OF assms] GetConfigSourceConfigMapNames_def split: option.splits)

lemma keeps_reconcileHermesConfigMap: "keeps (owned_inv E ha0) (reconcileHermesConfigMap E)"
  unfolding reconcileHermesConfigMap_def client_defs
  by (auto intro!: keeps_resolveConfigDocuments owned_intros wp_intros
      simp: same_agent_simps kind_defs owned_defs GetHermesConfigMapRef_def)

section \<open>Restore and snapshots\<close>

lemma keeps_restore_failed_nil: "keeps (owned_inv E ha0) (restore_failed_nil E reason message)"
  unfolding restore_failed_nil_def setRestoreFailed_def by (intro owned_intros wp_intros)

lemma keeps_clearRestoreFailed: "keeps (owned_inv E ha0) (clearRestoreFailed E)"
  unfolding clearRestoreFailed_def by (intro owned_intros wp_intros)

lemma yields_GetVolumeSnapshot:
  "owned_request E ha0 (GetReq (KUnstructured volumeSnapshotObjectGVK) nn) \<Longrightarrow>
   yields (owned_inv E ha0) (GetVolumeSnapshot E nn) (on_ok (\<lambda>r. \<forall>v. r = Some v \<longrightarrow> meta_key (vs_meta v) = nn))"
  unfolding GetVolumeSnapshot_def
  by (rule yields_bind [OF ow.yields_api_call
        [where Q = "on_ok (\<lambda>u. \<forall>v. am_FromUnstructured (mach E) u = Inr v \<longrightarrow> meta_key (vs_meta v) = nn)"]])
     (auto simp: on_ok_def fromUnstructuredVolumeSnapshot_def dest: get_snapshot_key intro!: yields_return
        split: sum.splits if_splits)

lemma yields_getReadySnapshot:
  assumes name: "name = restore_source ha0" "name \<noteq> []"
  shows "yields (owned_inv E ha0) (getReadySnapshot E name)
     (on_ok (\<lambda>r. \<forall>v. r = Some v \<longrightarrow> meta_key (vs_meta v) = \<lparr>nn_Namespace = ha_Namespace ha0, nn_Name = name\<rparr>))"
proof -
  have nil: "yields (owned_inv E ha0) (restore_failed_nil E reason message) (on_ok (\<lambda>r. r = None))" for reason message
    unfolding restore_failed_nil_def setRestoreFailed_def
    by (rule yields_bind [where R = "\<lambda>_. True"],
        (auto simp: keeps_yields [symmetric] intro!: owned_intros wp_intros)[1],
        rule yields_bind [where R = "\<lambda>_. True"])
       (auto simp: keeps_yields [symmetric] intro!: owned_intros yields_return split: option.split)
  show ?thesis
    unfolding getReadySnapshot_def
    by (rule ow.yields_agent, rule yields_bind [OF yields_GetVolumeSnapshot])
       (auto simp: name [symmetric] name(2) same_agent_simps on_ok_def intro!: yields_return yields_mono [OF nil] split: sum.split option.splits)
qed

lemma keeps_reshape_gate:
  "owned_key ha0 KStatefulSet nn \<Longrightarrow> keeps (owned_inv E ha0) (reshape_gate E nn)"
  unfolding reshape_gate_def client_defs
  by (auto intro!: owned_intros wp_intros keeps_clearRestoreFailed simp: kind_defs owned_key_def)

lemma keeps_provision_restore:
  assumes "keeps (owned_inv E ha0) k" and "source = restore_source ha0" and "source \<noteq> []"
    and "owned_key ha0 KPersistentVolumeClaim nn"
  shows "keeps (owned_inv E ha0) (provision_restore E nn source k)"
  unfolding provision_restore_def client_defs
  by (rule keeps_get30_yields [OF yields_getReadySnapshot [OF assms(2,3)]])
     (use assms in \<open>auto intro!: owned_intros wp_intros
        simp: kind_defs owned_defs buildRestoredPVC_def same_agent_simps Let_def\<close>)

lemma keeps_reconcileRestore: "keeps (owned_inv E ha0) (reconcileRestore E)"
  unfolding reconcileRestore_def
  by (auto intro!: owned_intros wp_intros keeps_clearRestoreFailed keeps_provision_restore keeps_reshape_gate
      simp: same_agent_simps client_defs owned_key_def restore_source_def kind_defs)

lemma convert_items_all:
  "convert_items E' us = Inr ss \<Longrightarrow> (\<And>u v. u \<in> set us \<Longrightarrow> am_FromUnstructured (mach E') u = Inr v \<Longrightarrow> Q v) \<Longrightarrow>
     \<forall>v\<in>set ss. Q v"
proof (induction us arbitrary: ss)
  case (Cons u us)
  then obtain v vs where "am_FromUnstructured (mach E') u = Inr v" "convert_items E' us = Inr vs" "ss = v # vs"
    by (auto simp: fromUnstructuredVolumeSnapshot_def split: sum.splits)
  with Cons.IH [of vs] Cons.prems(2) show ?case by auto
qed simp

lemma yields_ListVolumeSnapshots:
  assumes "ns = ha_Namespace ha0" "name = ha_Name ha0"
  shows "yields (owned_inv E ha0) (ListVolumeSnapshotsOwnedByAgent E ns name)
     (on_ok (\<lambda>ss. \<forall>v\<in>set ss. om_Namespace (vs_meta v) = ns))"
  unfolding ListVolumeSnapshotsOwnedByAgent_def
  by (rule yields_bind [OF ow.yields_api_call
        [where Q = "on_ok (\<lambda>us. \<forall>u\<in>set us. \<forall>v. am_FromUnstructured (mach E) u = Inr v \<longrightarrow> om_Namespace (vs_meta v) = ns)"]])
     (auto simp: assms on_ok_def dest: list_snapshot_namespace intro!: yields_return
        dest!: convert_items_all [where Q = "\<lambda>v. om_Namespace (vs_meta v) = ns"] split: sum.splits)

lemma keeps_delete_expired:
  assumes "keeps (owned_inv E ha0) k"
    and "\<forall>v\<in>set ss. om_Namespace (vs_meta v) = ha_Namespace ha0 \<and>
                   (restore_source ha0 = [] \<or> om_Name (vs_meta v) \<noteq> restore_source ha0)"
  shows "keeps (owned_inv E ha0) (delete_expired E ss k)"
  using assms(2)
  by (induction ss)
     (auto simp: DeleteVolumeSnapshot_def meta_key_def assms(1) intro!: wp_intros owned_intros ow.keeps_api_call)

lemma keeps_record_snapshots: "keeps (owned_inv E ha0) (record_snapshots E snap schedule now)"
  unfolding record_snapshots_def by (auto intro!: owned_intros wp_intros simp: same_agent_simps)

lemma same_agent_snapshot:
  assumes "same_agent ha0 ha"
  shows "buildSnapshot ha = buildSnapshot ha0" "label_snapshot ha = label_snapshot ha0"
  using same_agent_simps [OF assms]
  by (auto simp: fun_eq_iff buildSnapshot_def label_snapshot_def ResourceLabels_def Let_def)

lemma keeps_take_snapshot:
  "keeps (owned_inv E ha0) (take_snapshot E snap schedule (buildDataPVCName ha0) now)"
  unfolding take_snapshot_def CreateVolumeSnapshotOwnedByHermesAgent_def
  by (auto intro!: owned_intros wp_intros ow.keeps_api_call keeps_record_snapshots
      simp: same_agent_snapshot exI [of _ now])


lemma keeps_run_schedule:
  "keeps (owned_inv E ha0) (run_schedule E snap schedule (buildDataPVCName ha0))"
  unfolding run_schedule_def Let_def by (intro wp_intros owned_intros keeps_take_snapshot)

lemma set_splitSnapshots: "set (snd (splitSnapshots ss n)) \<subseteq> set ss"
  by (auto simp: splitSnapshots_def Let_def dest: in_set_dropD)

lemma keeps_prune_and_run:
  assumes "\<forall>v\<in>set ss. om_Namespace (vs_meta v) = ha_Namespace ha0"
  shows "keeps (owned_inv E ha0) (prune_and_run E snap schedule (buildDataPVCName ha0) ss)"
  unfolding prune_and_run_def Let_def
  by (rule ow.keeps_agent, rule keeps_delete_expired [OF keeps_run_schedule])
     (use assms in \<open>auto simp: expired_snapshots_def same_agent_simps restore_source_def
        dest!: set_splitSnapshots [THEN subsetD] split: if_splits\<close>)

lemma keeps_clearSnapshotUnsupported: "keeps (owned_inv E ha0) (clearSnapshotUnsupported E)"
  unfolding clearSnapshotUnsupported_def by (intro owned_intros wp_intros)

lemma keeps_setSnapshotUnsupported: "keeps (owned_inv E ha0) (setSnapshotUnsupported E reason message)"
  unfolding setSnapshotUnsupported_def by (intro owned_intros wp_intros)

lemma keeps_list_snapshots_bind:
  "same_agent ha0 ha \<Longrightarrow>
     (\<And>r. on_ok (\<lambda>ss. \<forall>v\<in>set ss. om_Namespace (vs_meta v) = ha_Namespace ha0) r \<Longrightarrow> keeps (owned_inv E ha0) (f r)) \<Longrightarrow>
     keeps (owned_inv E ha0) (State_Monad.bind (ListVolumeSnapshotsOwnedByAgent E (ha_Namespace ha) (ha_Name ha)) f)"
  by (rule keeps_yields_bind [OF yields_ListVolumeSnapshots]) (auto simp: same_agent_simps)

lemma keeps_get_data_claim:
  "same_agent ha0 ha \<Longrightarrow>
     keeps (owned_inv E ha0) (GetPersistentVolumeClaim E \<lparr>nn_Namespace = ha_Namespace ha, nn_Name = buildDataPVCName ha\<rparr>)"
  unfolding client_defs by (rule ow.keeps_get_object) (simp add: kind_defs same_agent_simps)

lemma keeps_reconcileSnapshot: "keeps (owned_inv E ha0) (reconcileSnapshot E)"
  unfolding reconcileSnapshot_def Let_def
  by (rule ow.keeps_agent)
     ((rule keeps_list_snapshots_bind keeps_get_data_claim, assumption | rule wp_intros keeps_clearSnapshotUnsupported
         keeps_setSnapshotUnsupported ow.keeps_effects)+,
      auto simp: same_agent_simps on_ok_def intro!: keeps_prune_and_run)

section \<open>The StatefulSet\<close>

lemma keeps_read_egress_sources:
  assumes "same_agent ha0 ha" and "\<forall>(n, ks)\<in>set srcs. n \<noteq> [] \<longrightarrow> n \<in> set (owned_names ha0 KSecret @ read_names ha0 KSecret)"
  shows "keeps (owned_inv E ha0) (read_egress_sources E ha srcs acc)"
  using assms(2)
proof (induction srcs arbitrary: acc)
  case (Cons src srcs)
  then show ?case
    by (cases src) (auto simp: client_defs kind_defs same_agent_simps [OF assms(1)] intro!: owned_intros wp_intros)
qed (simp add: keeps_return)

lemma keeps_egressPodInputs:
  assumes "same_agent ha0 ha" and "Egress_IsEnabled (GetEgress ha)"
  shows "keeps (owned_inv E ha0) (egressPodInputs E ha)"
  unfolding egressPodInputs_def
  by (rule keeps_case_prod, rule keeps_case_prod, rule keeps_bind,
      rule keeps_read_egress_sources [OF assms(1)])
     (use assms(2) in \<open>auto simp: same_agent_simps [OF assms(1)] GetEgressCASource_def GetEgressSourceSecretNames_def
        Let_def keeps_return split: if_splits\<close>)

lemma keeps_deriveStatus: "keeps (owned_inv E ha0) (deriveStatus E)"
  unfolding deriveStatus_def client_defs
  by (auto intro!: owned_intros wp_intros simp: same_agent_simps kind_defs pod_name_def)

lemma keeps_applyInitFailedCondition: "keeps (owned_inv E ha0) (applyInitFailedCondition E failure)"
  unfolding applyInitFailedCondition_def clear_init_failed_def Let_def by (intro owned_intros wp_intros)

lemma keeps_report_status: "keeps (owned_inv E ha0) (report_status E)"
  unfolding report_status_def Let_def
  by (intro owned_intros wp_intros keeps_deriveStatus keeps_applyInitFailedCondition)

lemma sts_meta_buildStatefulSet:
  "sts_meta (buildStatefulSet ha ssi) = objectMeta (ha_Name ha) (ha_Namespace ha) (ResourceLabels ha)"
  by (simp add: buildStatefulSet_def add_user_parts_def buildEgressContainer_def buildCamofoxContainer_def
      buildSearXNGContainer_def buildHermesContainer_def base_statefulset_def update_container_def map_pod_spec_def
      Let_def split: option.split)

lemma keeps_update_statefulset:
  assumes "keeps (owned_inv E ha0) k" and "same_agent ha0 ha" and "owned_key ha0 KStatefulSet (meta_key (sts_meta desired))"
  shows "keeps (owned_inv E ha0) (update_statefulset E ha sts desired k)"
  unfolding update_statefulset_def client_defs
  using assms
  by (auto intro!: owned_intros wp_intros simp: kind_defs owned_defs same_agent_simps pod_name_def)

lemma keeps_apply_statefulset:
  assumes "same_agent ha0 ha"
  shows "keeps (owned_inv E ha0) (apply_statefulset E ha live ssi)"
  unfolding apply_statefulset_def client_defs Let_def
  using assms
  by (auto intro!: owned_intros wp_intros keeps_update_statefulset keeps_report_status
      simp: kind_defs owned_defs same_agent_simps sts_meta_buildStatefulSet)

lemma keeps_get_statefulset_inputs:
  assumes "same_agent ha0 ha"
  shows "keeps (owned_inv E ha0) (GetStatefulSet E \<lparr>nn_Namespace = ha_Namespace ha, nn_Name = ha_Name ha\<rparr>)"
    and "keeps (owned_inv E ha0) (GetConfigMap E
           \<lparr>nn_Namespace = hcmr_Namespace (GetHermesConfigMapRef ha), nn_Name = hcmr_Name (GetHermesConfigMapRef ha)\<rparr>)"
  unfolding client_defs using assms
  by (auto intro!: ow.keeps_get_object simp: kind_defs same_agent_simps GetHermesConfigMapRef_def)

lemma keeps_reconcileStatefulSet: "keeps (owned_inv E ha0) (reconcileStatefulSet E)"
  unfolding reconcileStatefulSet_def Let_def
  by (rule ow.keeps_defer_mark, rule ow.keeps_agent)
     ((rule keeps_get_statefulset_inputs keeps_egressPodInputs keeps_apply_statefulset | assumption
        | rule wp_intros ow.keeps_effects)+)

section \<open>The whole reconciliation\<close>

lemma keeps_run_loop:
  "keeps (owned_inv E ha0) body \<Longrightarrow> keeps (owned_inv E ha0) k \<Longrightarrow> keeps (owned_inv E ha0) (run_loop nn body msg k)"
  unfolding run_loop_def by (intro wp_intros owned_intros)

lemma keeps_run_loops:
  "list_all (\<lambda>l. keeps (owned_inv E ha0) (fst l)) loops \<Longrightarrow> keeps (owned_inv E ha0) k \<Longrightarrow>
     keeps (owned_inv E ha0) (run_loops nn loops k)"
  by (induction loops) (auto simp: run_loops_def intro: keeps_run_loop)

lemmas keeps_loops = keeps_reconcileHermesConfigMap keeps_reconcileHermesSecret keeps_reconcileSearXNGConfigMap
  keeps_reconcileSearXNGSecret keeps_reconcileServiceAccount keeps_reconcileRole keeps_reconcileService
  keeps_reconcileIngress keeps_reconcileNetworkPolicy keeps_reconcileEgressCA keeps_reconcileEgressSecret
  keeps_reconcileRestore keeps_reconcileStatefulSet keeps_reconcileSnapshot

lemma keeps_reconcile_loops:
  "keeps (owned_inv E ha0) (run_loops nn (reconcile_loops E) (report_success nn))"
  by (rule keeps_run_loops)
     (auto simp: reconcile_loops_def report_success_def keeps_loops intro!: wp_intros owned_intros)

end

end
