(* ===== verification/Sample_Agents.thy ===== *)
theory Sample_Agents
  imports Api_Egress
begin

text \<open>Concrete agents, as the inputs at which the properties are instantiated.\<close>

text \<open>An agent with an empty spec.\<close>

definition empty_spec :: hermes_agent_spec where
  "empty_spec =
     \<lparr>spec_Suspend = None, spec_Hermes = None, spec_Security = None, spec_Networking = None,
      spec_InitContainers = [], spec_Sidecars = [], spec_ExtraVolumes = [], spec_ExtraVolumeMounts = [],
      spec_HostUsers = None, spec_PodAnnotations = [], spec_PodLabels = [], spec_PriorityClassName = [],
      spec_RuntimeClassName = None, spec_SearXNG = None, spec_Camofox = None, spec_Egress = None\<rparr>"

definition empty_status :: hermes_agent_status where
  "empty_status =
     \<lparr>st_Phase = [], st_Reason = [], st_Conditions = [],
      st_ManagedResources =
        \<lparr>mr_HermesConfigMap = [], mr_HermesSecret = [], mr_SearXNGConfigMap = [], mr_SearXNGSecret = [],
         mr_ServiceAccount = [], mr_Role = [], mr_RoleBinding = [], mr_Service = [], mr_Ingress = [],
         mr_NetworkPolicy = [], mr_EgressSecret = [], mr_EgressCASecret = [], mr_StatefulSet = []\<rparr>,
      st_Snapshot = \<lparr>ss_LastScheduleTime = None, ss_Snapshots = []\<rparr>\<rparr>"

definition agent_with :: "hermes_agent_spec \<Rightarrow> hermes_agent" where
  "agent_with sp = \<lparr>ha_meta = objectMeta ''demo'' ''ns'' [], ha_Spec = sp, ha_Status = empty_status\<rparr>"

definition demo_agent :: hermes_agent where
  "demo_agent = agent_with empty_spec"

text \<open>An agent behind the egress proxy, with a credentials Secret of the user.\<close>

definition demo_egress :: egress where
  "demo_egress =
     \<lparr>eg_Enabled = True, eg_Image = [], eg_Resources = None, eg_Env = [], eg_Credentials = Some ''creds'',
      eg_CA = None, eg_Config = None\<rparr>"

definition demo_egress_agent :: hermes_agent where
  "demo_egress_agent = agent_with (empty_spec\<lparr>spec_Egress := Some demo_egress\<rparr>)"

lemmas demo_defs = demo_agent_def demo_egress_agent_def demo_egress_def agent_with_def empty_spec_def
  empty_status_def objectMeta_def

end
