(* ===== verification/Memory_Client.thy ===== *)
theory Memory_Client
  imports Owned_Requests Sample_Agents
begin

text \<open>
  A cluster in memory, as an instance of the parameters: a list of objects per kind, the clock and a
  seed.  The client answers the way the API server documents: \<^verbatim>\<open>NotFound\<close> for an absent object,
  \<^verbatim>\<open>AlreadyExists\<close> for a second creation; a status update replaces the status of the stored agent.
  The API machinery is instantiated by its documented effect (\<^verbatim>\<open>SetStatusCondition\<close> replaces the
  condition of the same type and keeps the transition time of an unchanged status), the printers and
  the cryptographic packages by simple total functions.
\<close>

section \<open>Stores\<close>

definition not_found :: go_error where
  "not_found = ApiStatusError ''NotFound'' ''object not found''"

definition already_exists :: go_error where
  "already_exists = ApiStatusError ''AlreadyExists'' ''object already exists''"

definition mem_lookup :: "('o \<Rightarrow> objectmeta) \<Rightarrow> namespaced_name \<Rightarrow> 'o list \<Rightarrow> 'o option" where
  "mem_lookup meta nn os = find (\<lambda>x. meta_key (meta x) = nn) os"

definition mem_get ::
  "('w \<Rightarrow> 'o list) \<Rightarrow> ('o \<Rightarrow> objectmeta) \<Rightarrow> namespaced_name \<Rightarrow> 'w \<Rightarrow> (go_error + 'o) \<times> 'w" where
  "mem_get objs meta nn w =
     (case mem_lookup meta nn (objs w) of None \<Rightarrow> (Inl not_found, w) | Some x \<Rightarrow> (Inr x, w))"

definition mem_create ::
  "('w \<Rightarrow> 'o list) \<Rightarrow> (('o list \<Rightarrow> 'o list) \<Rightarrow> 'w \<Rightarrow> 'w) \<Rightarrow> ('o \<Rightarrow> objectmeta) \<Rightarrow> 'o \<Rightarrow> 'w \<Rightarrow> go_error option \<times> 'w" where
  "mem_create objs upd meta x w =
     (case mem_lookup meta (meta_key (meta x)) (objs w) of
        None \<Rightarrow> (None, upd (\<lambda>os. os @ [x]) w)
      | Some y \<Rightarrow> (Some already_exists, w))"

definition mem_update ::
  "('w \<Rightarrow> 'o list) \<Rightarrow> (('o list \<Rightarrow> 'o list) \<Rightarrow> 'w \<Rightarrow> 'w) \<Rightarrow> ('o \<Rightarrow> objectmeta) \<Rightarrow> 'o \<Rightarrow> 'w \<Rightarrow> go_error option \<times> 'w" where
  "mem_update objs upd meta x w =
     (case mem_lookup meta (meta_key (meta x)) (objs w) of
        None \<Rightarrow> (Some not_found, w)
      | Some y \<Rightarrow> (None, upd (map (\<lambda>y. if meta_key (meta y) = meta_key (meta x) then x else y)) w))"

definition mem_delete ::
  "('w \<Rightarrow> 'o list) \<Rightarrow> (('o list \<Rightarrow> 'o list) \<Rightarrow> 'w \<Rightarrow> 'w) \<Rightarrow> ('o \<Rightarrow> objectmeta) \<Rightarrow> namespaced_name \<Rightarrow> 'w \<Rightarrow> go_error option \<times> 'w" where
  "mem_delete objs upd meta nn w =
     (case mem_lookup meta nn (objs w) of
        None \<Rightarrow> (Some not_found, w)
      | Some y \<Rightarrow> (None, upd (filter (\<lambda>y. meta_key (meta y) \<noteq> nn)) w))"

definition mem_client ::
  "('w \<Rightarrow> 'o list) \<Rightarrow> (('o list \<Rightarrow> 'o list) \<Rightarrow> 'w \<Rightarrow> 'w) \<Rightarrow> ('o \<Rightarrow> objectmeta) \<Rightarrow> ('w, 'o) rclient" where
  "mem_client objs upd meta =
     \<lparr>rc_Get = mem_get objs meta, rc_Create = mem_create objs upd meta,
      rc_Update = mem_update objs upd meta, rc_Delete = mem_delete objs upd meta\<rparr>"

section \<open>The cluster\<close>

record cluster =
  cl_Agents :: "hermes_agent list"
  cl_Pods :: "pod list"
  cl_ConfigMaps :: "configmap list"
  cl_Secrets :: "secret list"
  cl_StatefulSets :: "statefulset list"
  cl_ServiceAccounts :: "service_account list"
  cl_Roles :: "role list"
  cl_RoleBindings :: "role_binding list"
  cl_Services :: "k8s_service list"
  cl_Ingresses :: "k8s_ingress list"
  cl_NetworkPolicies :: "k8s_network_policy list"
  cl_Claims :: "persistent_volume_claim list"
  cl_Snapshots :: "unstructured list"
  cl_Clock :: go_time
  cl_Seed :: nat

definition empty_cluster :: cluster where
  "empty_cluster =
     \<lparr>cl_Agents = [], cl_Pods = [], cl_ConfigMaps = [], cl_Secrets = [], cl_StatefulSets = [],
      cl_ServiceAccounts = [], cl_Roles = [], cl_RoleBindings = [], cl_Services = [], cl_Ingresses = [],
      cl_NetworkPolicies = [], cl_Claims = [], cl_Snapshots = [], cl_Clock = 0, cl_Seed = 0\<rparr>"

definition mem_status_update :: "hermes_agent \<Rightarrow> cluster \<Rightarrow> (go_error + hermes_agent) \<times> cluster" where
  "mem_status_update ha w =
     (case mem_lookup ha_meta (meta_key (ha_meta ha)) (cl_Agents w) of
        None \<Rightarrow> (Inl not_found, w)
      | Some old \<Rightarrow>
          if ha_Spec old \<noteq> ha_Spec ha then (Inl (ApiStatusError ''Conflict'' ''object has been modified''), w)
          else (Inr (old\<lparr>ha_Status := ha_Status ha\<rparr>),
                cl_Agents_update (map (\<lambda>a. if meta_key (ha_meta a) = meta_key (ha_meta ha)
                                           then old\<lparr>ha_Status := ha_Status ha\<rparr> else a)) w))"

section \<open>Snapshots as unstructured objects\<close>

definition mem_to_unstructured :: "volume_snapshot \<Rightarrow> go_error + unstructured" where
  "mem_to_unstructured v =
     Inr [(''metadata'', JObj [(''name'', JStr (om_Name (vs_meta v))), (''namespace'', JStr (om_Namespace (vs_meta v))),
                               (''labels'', JObj (map (\<lambda>(k, x). (k, JStr x)) (om_Labels (vs_meta v))))]),
          (''spec'', JObj [(''source'', JObj [(''persistentVolumeClaimName'', JStr (vs_PersistentVolumeClaimName v))])])]"

definition jobj :: "json option \<Rightarrow> json gomap" where
  "jobj j = (case j of Some (JObj ms) \<Rightarrow> ms | _ \<Rightarrow> [])"

definition jstr :: "json option \<Rightarrow> string" where
  "jstr j = (case j of Some (JStr x) \<Rightarrow> x | _ \<Rightarrow> [])"

definition mem_from_unstructured :: "unstructured \<Rightarrow> go_error + volume_snapshot" where
  "mem_from_unstructured u =
     (let m = jobj (map_get u ''metadata''); src = jobj (map_get (jobj (map_get u ''spec'')) ''source'')
      in Inr \<lparr>vs_meta = objectMeta (jstr (map_get m ''name'')) (jstr (map_get m ''namespace''))
                (map (\<lambda>(k, x). (k, jstr (Some x))) (jobj (map_get m ''labels''))),
              vs_PersistentVolumeClaimName = jstr (map_get src ''persistentVolumeClaimName''),
              vs_VolumeSnapshotClassName = None, vs_Status = None\<rparr>)"

definition u_meta :: "unstructured \<Rightarrow> objectmeta" where
  "u_meta u = (case mem_from_unstructured u of Inl e \<Rightarrow> objectMeta [] [] [] | Inr v \<Rightarrow> vs_meta v)"

definition mem_list_snapshots :: "string \<Rightarrow> string gomap \<Rightarrow> cluster \<Rightarrow> (go_error + unstructured list) \<times> cluster" where
  "mem_list_snapshots ns ls w =
     (Inr (filter (\<lambda>u. om_Namespace (u_meta u) = ns \<and> list_all (\<lambda>(k, x). map_get (om_Labels (u_meta u)) k = Some x) ls)
        (cl_Snapshots w)), w)"

definition mem_kube :: "cluster kube_api" where
  "mem_kube =
     \<lparr>ka_GetHermesAgent = mem_get cl_Agents ha_meta,
      ka_ListHermesAgents = (\<lambda>ns w. (Inr (filter (\<lambda>a. ha_Namespace a = ns) (cl_Agents w)), w)),
      ka_StatusUpdate = mem_status_update,
      ka_Pod = mem_client cl_Pods cl_Pods_update pod_meta,
      ka_ConfigMap = mem_client cl_ConfigMaps cl_ConfigMaps_update cm_meta,
      ka_Secret = mem_client cl_Secrets cl_Secrets_update sec_meta,
      ka_StatefulSet = mem_client cl_StatefulSets cl_StatefulSets_update sts_meta,
      ka_ServiceAccount = mem_client cl_ServiceAccounts cl_ServiceAccounts_update sa_meta,
      ka_Role = mem_client cl_Roles cl_Roles_update role_meta,
      ka_RoleBinding = mem_client cl_RoleBindings cl_RoleBindings_update rb_meta,
      ka_Service = mem_client cl_Services cl_Services_update svc_meta,
      ka_Ingress = mem_client cl_Ingresses cl_Ingresses_update ing_meta,
      ka_NetworkPolicy = mem_client cl_NetworkPolicies cl_NetworkPolicies_update np_meta,
      ka_PersistentVolumeClaim = mem_client cl_Claims cl_Claims_update pvc_meta,
      ka_GetUnstructured = (\<lambda>g nn w. mem_get cl_Snapshots u_meta nn w),
      ka_ListUnstructured = (\<lambda>g ns ls w. mem_list_snapshots ns ls w),
      ka_CreateUnstructured = mem_create cl_Snapshots cl_Snapshots_update u_meta,
      ka_DeleteUnstructured = (\<lambda>g nn w. mem_delete cl_Snapshots cl_Snapshots_update u_meta nn w)\<rparr>"

section \<open>Conditions\<close>

definition mem_set_condition ::
  "condition list \<Rightarrow> condition \<Rightarrow> cluster \<Rightarrow> (bool \<times> condition list) \<times> cluster" where
  "mem_set_condition cs c w =
     (case find (\<lambda>d. co_Type d = co_Type c) cs of
        None \<Rightarrow> ((True, cs @ [c\<lparr>co_LastTransitionTime := cl_Clock w\<rparr>]), w)
      | Some old \<Rightarrow>
          (let c' = c\<lparr>co_LastTransitionTime :=
                        (if co_Status old = co_Status c then co_LastTransitionTime old else cl_Clock w)\<rparr>
           in ((c' \<noteq> old, map (\<lambda>d. if co_Type d = co_Type c then c' else d) cs), w)))"

definition mem_remove_condition :: "condition list \<Rightarrow> string \<Rightarrow> bool \<times> condition list" where
  "mem_remove_condition cs typ =
     (let cs' = filter (\<lambda>d. co_Type d \<noteq> typ) cs in (length cs' \<noteq> length cs, cs'))"

section \<open>The rest of the environment\<close>

definition mem_set_controller :: "hermes_agent \<Rightarrow> objectmeta \<Rightarrow> go_error + objectmeta" where
  "mem_set_controller ha m =
     (if om_OwnerReferences m \<noteq> [] \<and> om_OwnerReferences m \<noteq> [ha_Name ha]
      then Inl (PlainError ''already owned by another controller'')
      else Inr (m\<lparr>om_OwnerReferences := [ha_Name ha]\<rparr>))"

fun print_json :: "json \<Rightarrow> string" where
  "print_json JNull = ''null''"
| "print_json (JBool b) = (if b then ''true'' else ''false'')"
| "print_json (JNum n) = n"
| "print_json (JStr x) = quote x"
| "print_json (JArr xs) = ''['' @ concat (map (\<lambda>x. print_json x @ '','') xs) @ '']''"
| "print_json (JObj ms) = ''{'' @ concat (map (\<lambda>(k, x). quote k @ '':'' @ print_json x @ '','') ms) @ ''}''"

definition mem_mach :: "cluster machinery" where
  "mem_mach =
     \<lparr>am_ToUnstructured = mem_to_unstructured, am_FromUnstructured = mem_from_unstructured,
      am_SetControllerReference = mem_set_controller,
      am_SetStatusCondition = mem_set_condition, am_RemoveStatusCondition = mem_remove_condition,
      am_DeepEqual_rules = (=), am_DeepEqual_subjects = (=), am_DeepEqual_ports = (=),
      am_DeepEqual_ingress = (=), am_DeepEqual_netpol = (=),
      am_JSONToYAML = (\<lambda>r. case r of RawJSON j \<Rightarrow> Inr (print_json j) | _ \<Rightarrow> Inl (PlainError ''invalid document'')),
      am_YAMLToJSON = (\<lambda>doc. if doc = [] then Inr JNull else Inr (JObj [(''text'', JStr doc)])),
      am_MarshalYAML = (\<lambda>j. Inr (print_json j)),
      am_MarshalStatefulSet = (\<lambda>n t vs. nat_digits (unat n) @ concat (map (\<lambda>c. con_Image c @ concat (con_Args c)) (ps_Containers (pt_Spec t)))),
      am_CronParseStandard = (\<lambda>x. if x = [] then Inl (PlainError ''empty schedule'') else Inr (\<lambda>t. t + 3600 * second))\<rparr>"

definition mem_plat :: "cluster platform" where
  "mem_plat =
     \<lparr>pf_Now = (\<lambda>w. (cl_Clock w, w)),
      pf_RandRead = (\<lambda>n w. (Inr (replicate n (char_of (cl_Seed w))), w\<lparr>cl_Seed := cl_Seed w + 1\<rparr>)),
      pf_RandInt = (\<lambda>n w. (Inr (int (cl_Seed w) mod n), w\<lparr>cl_Seed := cl_Seed w + 1\<rparr>)),
      pf_GenerateKey = (\<lambda>w. (Inr (nat_digits (cl_Seed w)), w\<lparr>cl_Seed := cl_Seed w + 1\<rparr>)),
      pf_CreateCertificate = (\<lambda>c k w. (Inr (cert_CommonName c @ k), w)),
      pf_ParseCertificate = (\<lambda>b. Inl (PlainError ''malformed certificate'')),
      pf_MarshalPKCS8PrivateKey = (\<lambda>k. Inr k),
      pf_PemDecode = (\<lambda>t. None),
      pf_PemEncode = (\<lambda>label b. label @ b),
      pf_SHA256 = (\<lambda>t. take 32 (t @ replicate 32 (CHR 0x00))),
      pf_ReencodeNumber = (\<lambda>n. Some n),
      pf_UnmarshalError = (\<lambda>r. PlainError ''cannot unmarshal'')\<rparr>"

definition mem_env :: "cluster env" where
  "mem_env = \<lparr>kube = mem_kube, mach = mem_mach, plat = mem_plat\<rparr>"

section \<open>The laws hold\<close>

lemma mem_lookup_Some: "mem_lookup meta nn os = Some x \<Longrightarrow> x \<in> set os \<and> meta_key (meta x) = nn"
  by (auto simp: mem_lookup_def find_Some_iff)

interpretation mem: lawful_env mem_env
proof unfold_locales
  fix ha w ha' w'
  assume "ka_StatusUpdate (kube mem_env) ha w = (Inr ha', w')"
  then show "same_agent ha ha'"
    by (auto simp: mem_env_def mem_kube_def mem_status_update_def same_agent_def dest!: mem_lookup_Some
        split: option.splits if_splits)
next
  fix ha m m'
  assume "am_SetControllerReference (mach mem_env) ha m = Inr m'"
  then show "\<exists>os. m' = m\<lparr>om_OwnerReferences := os\<rparr>"
    by (auto simp: mem_env_def mem_mach_def mem_set_controller_def split: if_splits)
next
  fix nn w x w'
  assume "rc_Get (ka_Secret (kube mem_env)) nn w = (Inr x, w')"
  then show "meta_key (sec_meta x) = nn"
    by (auto simp: mem_env_def mem_kube_def mem_client_def mem_get_def dest!: mem_lookup_Some split: option.splits)
next
  fix nn w ha w'
  assume "ka_GetHermesAgent (kube mem_env) nn w = (Inr ha, w')"
  then show "meta_key (ha_meta ha) = nn"
    by (auto simp: mem_env_def mem_kube_def mem_get_def dest!: mem_lookup_Some split: option.splits)
next
  fix g nn w u w' v
  assume "ka_GetUnstructured (kube mem_env) g nn w = (Inr u, w')" "am_FromUnstructured (mach mem_env) u = Inr v"
  then show "meta_key (vs_meta v) = nn"
    by (auto simp: mem_env_def mem_kube_def mem_mach_def mem_get_def u_meta_def dest!: mem_lookup_Some split: option.splits)
next
  fix g ns ls w us w' u v
  assume "ka_ListUnstructured (kube mem_env) g ns ls w = (Inr us, w')" "u \<in> set us"
    "am_FromUnstructured (mach mem_env) u = Inr v"
  then show "om_Namespace (vs_meta v) = ns"
    by (auto simp: mem_env_def mem_kube_def mem_mach_def mem_list_snapshots_def u_meta_def)
qed

section \<open>A small cluster\<close>

text \<open>A cluster with one agent.\<close>

definition demo_state :: "hermes_agent \<Rightarrow> cluster rst" where
  "demo_state ha =
     \<lparr>rs_world = empty_cluster\<lparr>cl_Agents := [ha]\<rparr>, rs_agent = ha, rs_trace = [], rs_tel = []\<rparr>"

lemma demo_get:
  "ka_GetHermesAgent (kube mem_env) (meta_key (ha_meta ha)) (rs_world (demo_state ha)) =
     (Inr ha, rs_world (demo_state ha))"
  by (simp add: mem_env_def mem_kube_def mem_get_def mem_lookup_def demo_state_def)

end
