(* ===== verification/Convergence.thy ===== *)
theory Convergence
  imports Ensure Memory_Client
begin

text \<open>
  The loops against a reliable store: the plans of the five create-update-delete loops fit their kinds,
  so the loops bring the store to the desired object and are quiet afterwards; and the stores of the
  cluster in memory are reliable.
\<close>

section \<open>The plans fit their kinds\<close>

lemma ensured_searxng_cm:
  assumes "reliable_store E kConfigMap c look"
  shows "ensured E kConfigMap c look (searxng_cm_plan ha)"
  using assms
  by (rule ensured.intro)
     (unfold_locales, auto simp: plan_defs kind_defs buildSearXNGConfigMap_def objectMeta_def meta_key_def
        configMapDataEqual_def maps_Equal_iff)

lemma ensured_service_account:
  assumes "reliable_store E kServiceAccount c look"
  shows "ensured E kServiceAccount c look (service_account_plan ha)"
  using assms
  by (rule ensured.intro)
     (unfold_locales, auto simp: plan_defs kind_defs buildServiceAccount_def objectMeta_def meta_key_def Let_def
        serviceAccountEqual_def maps_Equal_iff)

lemma ensured_service:
  assumes "reliable_store E kService c look" and "\<And>x. am_DeepEqual_ports (mach E) x x"
  shows "ensured E kService c look (service_plan E ha)"
  using assms(1)
  by (rule ensured.intro)
     (unfold_locales, auto simp: plan_defs kind_defs buildService_def objectMeta_def meta_key_def Let_def
        serviceEqual_def maps_Equal_iff assms(2))

lemma ensured_ingress:
  assumes "reliable_store E kIngress c look" and "\<And>x. am_DeepEqual_ingress (mach E) x x"
  shows "ensured E kIngress c look (ingress_plan E ha)"
  using assms(1)
  by (rule ensured.intro)
     (unfold_locales, auto simp: plan_defs kind_defs buildIngress_def objectMeta_def meta_key_def Let_def
        ingressEqual_def maps_Equal_iff assms(2))

lemma ensured_network_policy:
  assumes "reliable_store E kNetworkPolicy c look" and "\<And>x. am_DeepEqual_netpol (mach E) x x"
  shows "ensured E kNetworkPolicy c look (network_policy_plan E ha)"
  using assms(1)
  by (rule ensured.intro)
     (unfold_locales, auto simp: plan_defs kind_defs buildNetworkPolicy_def objectMeta_def meta_key_def Let_def
        networkPolicyEqual_def assms(2))

section \<open>Convergence of the loops\<close>

text \<open>
  A loop converges from a state when it leaves the store settled, and a later run on a store that still
  holds that object, for an agent with the same plan, succeeds with one read and no write.
\<close>

definition converges ::
  "('w \<Rightarrow> namespaced_name \<Rightarrow> 'o option) \<Rightarrow> 'o kind_info \<Rightarrow> (hermes_agent \<Rightarrow> 'o ensure_plan) \<Rightarrow> 'w loop \<Rightarrow> 'w rst \<Rightarrow> bool" where
  "converges look k plan loop s \<longleftrightarrow>
     (let p = plan (rs_agent s); s1 = snd (run_state loop s) in
      plan_settled p (look (rs_world s1) (ep_key p)) \<and>
      (\<forall>s2. plan (rs_agent s2) = p \<and> look (rs_world s2) (ep_key p) = look (rs_world s1) (ep_key p) \<and> ep_wanted p \<longrightarrow>
         fst (run_state loop s2) = (done_result, None) \<and>
         rs_trace (snd (run_state loop s2)) = rs_trace s2 @ [GetReq (ki_kind k) (ep_key p)]))"

lemma ensured_converges:
  assumes "\<And>ha. ensured E k c look (plan ha)"
    and "loop = defer_mark E reason (do { ha \<leftarrow> get_agent; ensure_loop E k c (plan ha) })"
  shows "converges look k plan loop s"
proof -
  have "plan_settled (plan (rs_agent s)) (look (rs_world (snd (run_state loop s))) (ep_key (plan (rs_agent s))))"
    unfolding assms(2) by (rule ensured.loop_settles [OF assms(1) refl refl])
  moreover have "fst (run_state loop s2) = (done_result, None) \<and>
      rs_trace (snd (run_state loop s2)) = rs_trace s2 @ [GetReq (ki_kind k) (ep_key p)]"
    if "plan (rs_agent s2) = p" "plan_settled p (look (rs_world s2) (ep_key p))" "ep_wanted p" for s2 p
    using ensured.loop_settled_quiet [OF assms(1) refl refl, where s = s2 and reason = reason] that unfolding assms(2) by simp
  ultimately show ?thesis unfolding converges_def Let_def by metis
qed

text \<open>
  On a reliable store each of the five loops converges: after one run, whatever the status update
  answers, the object is the desired one (or gone, when it is not wanted), and another run with the
  same plan is quiet and writes nothing, so a steady cluster sees no updates.
\<close>

theorem loops_converge:
  assumes "reliable_store E kConfigMap (ka_ConfigMap (kube E)) lookC"
    and "reliable_store E kServiceAccount (ka_ServiceAccount (kube E)) lookA"
    and "reliable_store E kService (ka_Service (kube E)) lookS"
    and "reliable_store E kIngress (ka_Ingress (kube E)) lookI"
    and "reliable_store E kNetworkPolicy (ka_NetworkPolicy (kube E)) lookN"
    and "\<And>x. am_DeepEqual_ports (mach E) x x" and "\<And>x. am_DeepEqual_ingress (mach E) x x"
    and "\<And>x. am_DeepEqual_netpol (mach E) x x"
  shows "converges lookC kConfigMap searxng_cm_plan (reconcileSearXNGConfigMap E) s \<and>
         converges lookA kServiceAccount service_account_plan (reconcileServiceAccount E) s \<and>
         converges lookS kService (service_plan E) (reconcileService E) s \<and>
         converges lookI kIngress (ingress_plan E) (reconcileIngress E) s \<and>
         converges lookN kNetworkPolicy (network_policy_plan E) (reconcileNetworkPolicy E) s"
  by (intro conjI; rule ensured_converges)
     (auto simp: reconcile_as_ensure intro: ensured_searxng_cm ensured_service_account ensured_service ensured_ingress
        ensured_network_policy assms)

section \<open>The cluster in memory is reliable\<close>

text \<open>A store in memory: a list of objects in a field of the cluster.\<close>

lemma mem_lookup_map_replace:
  "mem_lookup meta nn (map (\<lambda>y. if meta_key (meta y) = meta_key (meta x) then x else y) os) =
     (if nn = meta_key (meta x) then (if mem_lookup meta nn os = None then None else Some x) else mem_lookup meta nn os)"
  by (induction os) (auto simp: mem_lookup_def)

lemma mem_lookup_filter:
  "mem_lookup meta nn' (filter (\<lambda>y. meta_key (meta y) \<noteq> nn) os) = (if nn' = nn then None else mem_lookup meta nn' os)"
  by (induction os) (auto simp: mem_lookup_def)

lemma mem_lookup_append:
  "mem_lookup meta nn (os @ [x]) =
     (case mem_lookup meta nn os of Some y \<Rightarrow> Some y | None \<Rightarrow> if meta_key (meta x) = nn then Some x else None)"
  by (induction os) (auto simp: mem_lookup_def)

lemma mem_frames:
  "snd (mem_status_update ha w) = w \<or> (\<exists>f. snd (mem_status_update ha w) = cl_Agents_update f w)"
  "snd (mem_set_condition cs cond w) = w"
  by (auto simp: mem_status_update_def mem_set_condition_def Let_def split: option.split)

lemma mem_reliable:
  assumes objs: "\<And>f w. objs (upd f w) = f (objs w)"
    and agents: "\<And>f w. objs (cl_Agents_update f w) = objs w"
    and set_meta: "\<And>m x. ki_meta k (ki_set_meta k m x) = m"
  shows "reliable_store mem_env k (mem_client objs upd (ki_meta k)) (\<lambda>w nn. mem_lookup (ki_meta k) nn (objs w))"
proof unfold_locales
  fix ha w r w'
  assume "ka_StatusUpdate (kube mem_env) ha w = (r, w')"
  then show "(\<lambda>nn. mem_lookup (ki_meta k) nn (objs w')) = (\<lambda>nn. mem_lookup (ki_meta k) nn (objs w))"
    using mem_frames(1) [of ha w] agents by (auto simp: mem_env_def mem_kube_def)
next
  fix cs cond w rc w'
  assume "am_SetStatusCondition (mach mem_env) cs cond w = (rc, w')"
  then show "(\<lambda>nn. mem_lookup (ki_meta k) nn (objs w')) = (\<lambda>nn. mem_lookup (ki_meta k) nn (objs w))"
    using mem_frames(2) [of cs cond w] by (simp add: mem_env_def mem_mach_def)
qed (auto simp: mem_client_def mem_get_def mem_create_def mem_update_def mem_delete_def mem_env_def mem_mach_def
    mem_set_controller_def not_found_def objs set_meta fun_eq_iff mem_lookup_map_replace mem_lookup_filter
    mem_lookup_append split: option.split)

interpretation memC: reliable_store mem_env kConfigMap "ka_ConfigMap (kube mem_env)" "\<lambda>w nn. mem_lookup cm_meta nn (cl_ConfigMaps w)"
  using mem_reliable [of cl_ConfigMaps cl_ConfigMaps_update kConfigMap] by (simp add: kind_defs mem_env_def mem_kube_def)

interpretation memA: reliable_store mem_env kServiceAccount "ka_ServiceAccount (kube mem_env)" "\<lambda>w nn. mem_lookup sa_meta nn (cl_ServiceAccounts w)"
  using mem_reliable [of cl_ServiceAccounts cl_ServiceAccounts_update kServiceAccount] by (simp add: kind_defs mem_env_def mem_kube_def)

interpretation memS: reliable_store mem_env kService "ka_Service (kube mem_env)" "\<lambda>w nn. mem_lookup svc_meta nn (cl_Services w)"
  using mem_reliable [of cl_Services cl_Services_update kService] by (simp add: kind_defs mem_env_def mem_kube_def)

interpretation memI: reliable_store mem_env kIngress "ka_Ingress (kube mem_env)" "\<lambda>w nn. mem_lookup ing_meta nn (cl_Ingresses w)"
  using mem_reliable [of cl_Ingresses cl_Ingresses_update kIngress] by (simp add: kind_defs mem_env_def mem_kube_def)

interpretation memN: reliable_store mem_env kNetworkPolicy "ka_NetworkPolicy (kube mem_env)" "\<lambda>w nn. mem_lookup np_meta nn (cl_NetworkPolicies w)"
  using mem_reliable [of cl_NetworkPolicies cl_NetworkPolicies_update kNetworkPolicy] by (simp add: kind_defs mem_env_def mem_kube_def)

interpretation planA: ensured mem_env kServiceAccount "ka_ServiceAccount (kube mem_env)"
  "\<lambda>w nn. mem_lookup sa_meta nn (cl_ServiceAccounts w)" "service_account_plan ha" for ha
  by (rule ensured_service_account) (rule memA.reliable_store_axioms)

lemma mem_deep_equal:
  "am_DeepEqual_ports (mach mem_env) x x" "am_DeepEqual_ingress (mach mem_env) y y" "am_DeepEqual_netpol (mach mem_env) z z"
  by (simp_all add: mem_env_def mem_mach_def)

theorem loops_converge_witness:
  "converges (\<lambda>w nn. mem_lookup sa_meta nn (cl_ServiceAccounts w)) kServiceAccount service_account_plan
     (reconcileServiceAccount mem_env) (demo_state demo_agent)"
  using loops_converge [OF memC.reliable_store_axioms memA.reliable_store_axioms memS.reliable_store_axioms
      memI.reliable_store_axioms memN.reliable_store_axioms mem_deep_equal, of "demo_state demo_agent"]
  by simp

end
