(* ===== verification/StatefulSet_Store.thy ===== *)
theory StatefulSet_Store
  imports Convergence
begin

text \<open>
  The StatefulSet loop against a reliable store: what the store holds after the desired StatefulSet is
  applied, on every branch, and that the result needs no further write.
\<close>

section \<open>The store of StatefulSets\<close>

text \<open>
  The contract of the client for StatefulSets, with the frame of the pod calls: reading or deleting a
  pod leaves the StatefulSets alone.  The pod calls may fail.
\<close>

locale statefulset_store = reliable_store E kStatefulSet "ka_StatefulSet (kube E)" look
  for E :: "'w env" and look :: "'w \<Rightarrow> namespaced_name \<Rightarrow> statefulset option" +
  assumes pod_get_frame: "rc_Get (ka_Pod (kube E)) nn w = (r, w') \<Longrightarrow> look w' = look w"
    and pod_delete_frame: "rc_Delete (ka_Pod (kube E)) nn w = (err, w') \<Longrightarrow> look w' = look w"
begin

lemma get_pod_frame [simp]: "look (rs_world (snd (run_state (GetPod E nn) s))) = look (rs_world s)"
  by (auto simp: GetPod_def get_object_def case_prod_unfold intro: pod_get_frame [OF prod.collapse [symmetric]])

lemma delete_pod_frame [simp]: "look (rs_world (snd (run_state (DeletePod E nn) s))) = look (rs_world s)"
  by (auto simp: DeletePod_def delete_object_def case_prod_unfold intro: pod_delete_frame [OF prod.collapse [symmetric]])

lemma conditions_frame [simp]:
  "look (rs_world (snd (run_state (set_condition E typ status reason message) s))) = look (rs_world s)"
  "look (rs_world (snd (run_state (remove_condition E typ) s))) = look (rs_world s)"
  by (auto simp: set_condition_def remove_condition_def case_prod_unfold Let_def
      intro: condition_frame [OF prod.collapse [symmetric]])

lemma status_parts_frame [simp]:
  "look (rs_world (snd (run_state (deriveStatus E) s))) = look (rs_world s)"
  "look (rs_world (snd (run_state (markReady E) s))) = look (rs_world s)"
  "look (rs_world (snd (run_state (applyInitFailedCondition E failure) s))) = look (rs_world s)"
  by (simp_all add: deriveStatus_def markReady_def setReadyCondition_def applyInitFailedCondition_def
      clear_init_failed_def Let_def case_prod_unfold split: option.split)

lemma report_status_frame: "look (rs_world (snd (run_state (report_status E) s))) = look (rs_world s)"
  by (simp add: report_status_def try30_def fail30_def finish_def Let_def case_prod_unfold status_update_frame
      split: option.split)

end

text \<open>The key of the StatefulSet of an agent, and the object that is written for it.\<close>

definition sts_key :: "hermes_agent \<Rightarrow> namespaced_name" where
  "sts_key ha = \<lparr>nn_Namespace = ha_Namespace ha, nn_Name = ha_Name ha\<rparr>"

definition desired_statefulset :: "'w env \<Rightarrow> hermes_agent \<Rightarrow> statefulSetInputs \<Rightarrow> statefulset" where
  "desired_statefulset E ha ssi =
     (let built = buildStatefulSet ha ssi
      in sts_meta_update (om_Annotations_update (map_put annotationDesiredSpecHash (desiredSpecHash E built))) built)"

text \<open>The written object is settled, whatever its resource version and owners become.\<close>

lemma desired_settled:
  assumes "om_Annotations m = om_Annotations (sts_meta (desired_statefulset E ha ssi))"
  shows "sts_settled E ha ssi (desired_statefulset E ha ssi\<lparr>sts_meta := m\<rparr>)"
  using assms
  by (simp add: sts_settled_def desired_statefulset_def Let_def sameVolumeClaimTemplateNames_def vct_names_def list_all_iff)

lemma desired_meta:
  "meta_key (sts_meta (desired_statefulset E ha ssi)) = sts_key ha"
  "om_OwnerReferences (sts_meta (desired_statefulset E ha ssi)) = []"
  by (simp_all add: desired_statefulset_def sts_key_def buildStatefulSet_fixed Let_def meta_key_def objectMeta_def)

context statefulset_store
begin

abbreviation stored :: "'w rst \<Rightarrow> hermes_agent \<Rightarrow> statefulset option" where
  "stored s ha \<equiv> look (rs_world s) (sts_key ha)"

lemma apply_creates:
  assumes "stored s ha = None"
  shows "\<exists>x. stored (snd (run_state (apply_statefulset E ha None ssi) s)) ha = Some x \<and> sts_settled E ha ssi x"
proof -
  obtain w x os where x: "x = desired_statefulset E ha ssi\<lparr>sts_meta := (sts_meta (desired_statefulset E ha ssi))\<lparr>om_OwnerReferences := os\<rparr>\<rparr>"
    and run: "run_state (CreateStatefulSetOwnedByHermesAgent E (desired_statefulset E ha ssi)) s =
      (None, s\<lparr>rs_world := w, rs_trace := rs_trace s @ [CreateReq (OStatefulSet x)]\<rparr>)"
    and w: "look w = (look (rs_world s))(sts_key ha \<mapsto> x)"
    using run_create_owned [of s "desired_statefulset E ha ssi"] assms
    by (auto simp: kind_defs desired_meta CreateStatefulSetOwnedByHermesAgent_def)
  have "stored (snd (run_state (apply_statefulset E ha None ssi) s)) ha = Some x"
    using run [unfolded desired_statefulset_def Let_def] w
    by (simp add: apply_statefulset_def Let_def try30_def report_status_frame)
  moreover have "sts_settled E ha ssi x" unfolding x by (rule desired_settled) simp
  ultimately show ?thesis by blast
qed

lemma apply_reshapes:
  assumes "stored s ha = Some live" and "\<not> sameVolumeClaimTemplateNames live (buildStatefulSet ha ssi)"
  shows "stored (snd (run_state (apply_statefulset E ha (Some live) ssi) s)) ha = None"
    and "fst (run_state (apply_statefulset E ha (Some live) ssi) s) = (requeue 30, None)"
proof -
  obtain w where run: "run_state (DeleteStatefulSet E (sts_key ha)) s =
      (None, s\<lparr>rs_world := w, rs_trace := rs_trace s @ [DeleteReq KStatefulSet (sts_key ha)]\<rparr>)"
    and w: "look w = (look (rs_world s))(sts_key ha := None)"
    using run_delete_object [OF assms(1)] by (auto simp: kind_defs DeleteStatefulSet_def)
  show "stored (snd (run_state (apply_statefulset E ha (Some live) ssi) s)) ha = None"
    and "fst (run_state (apply_statefulset E ha (Some live) ssi) s) = (requeue 30, None)"
    using assms(2) run [unfolded sts_key_def] w by (simp_all add: apply_statefulset_def Let_def try30_def sts_key_def)
qed

lemma update_settles:
  assumes "stored s ha = Some live"
  shows "\<exists>x. stored (snd (run_state (update_statefulset E ha live (desired_statefulset E ha ssi) (report_status E)) s)) ha = Some x \<and>
     (sts_settled E ha ssi x \<or> x = live \<and>
       snd (fst (run_state (update_statefulset E ha live (desired_statefulset E ha ssi) (report_status E)) s)) \<noteq> None)"
proof -
  let ?e = "desired_statefulset E ha ssi"
  let ?d = "?e\<lparr>sts_meta := (sts_meta ?e)\<lparr>om_ResourceVersion := om_ResourceVersion (sts_meta live)\<rparr>\<rparr>"
  let ?s = "snd (run_state (GetPod E (pod_name ha)) s)"
  have found: "look (rs_world ?s) (meta_key (ki_meta kStatefulSet ?d)) = Some live"
    and free: "om_OwnerReferences (ki_meta kStatefulSet ?d) = []"
    using assms desired_meta [of E ha ssi] by (simp_all add: kind_defs meta_key_def)
  obtain w x os where x: "x = ?e\<lparr>sts_meta := (sts_meta ?d)\<lparr>om_OwnerReferences := os\<rparr>\<rparr>"
    and run: "run_state (UpdateStatefulSetOwnedByHermesAgent E ?d) ?s =
      (None, ?s\<lparr>rs_world := w, rs_trace := rs_trace ?s @ [UpdateReq (OStatefulSet x)]\<rparr>)"
    and w: "look w (sts_key ha) = Some x"
    using run_update_owned [OF found free] desired_meta [of E ha ssi]
    by (auto simp: kind_defs UpdateStatefulSetOwnedByHermesAgent_def meta_key_def)
  have settled: "sts_settled E ha ssi x" unfolding x by (rule desired_settled) simp
  have "?d = sts_meta_update (om_ResourceVersion_update (\<lambda>_. om_ResourceVersion (sts_meta live))) ?e" by simp
  from assms run [unfolded this] w settled show ?thesis
    by (auto simp: update_statefulset_def get30_def try30_def fail30_def Let_def case_prod_unfold report_status_frame
        split: sum.splits option.splits)
qed

lemma apply_outcome:
  assumes "stored s ha = live"
  shows "case stored (snd (run_state (apply_statefulset E ha live ssi) s)) ha of
           None \<Rightarrow> (\<exists>sts. live = Some sts \<and> \<not> sameVolumeClaimTemplateNames sts (buildStatefulSet ha ssi)) \<and>
             fst (run_state (apply_statefulset E ha live ssi) s) = (requeue 30, None)
         | Some x \<Rightarrow> sts_settled E ha ssi x \<or>
             live = Some x \<and> snd (fst (run_state (apply_statefulset E ha live ssi) s)) \<noteq> None"
proof (cases live)
  case None
  then show ?thesis using assms apply_creates [of s ha ssi] by auto
next
  case (Some x)
  note stored = assms [unfolded Some]
  consider (reshape) "\<not> sameVolumeClaimTemplateNames x (buildStatefulSet ha ssi)"
    | (settled) "sts_settled E ha ssi x"
    | (update) "sameVolumeClaimTemplateNames x (buildStatefulSet ha ssi)"
        "apply_statefulset E ha (Some x) ssi = update_statefulset E ha x (desired_statefulset E ha ssi) (report_status E)"
    by (cases "sameVolumeClaimTemplateNames x (buildStatefulSet ha ssi)"; cases "sts_settled E ha ssi x")
       (auto simp: sts_settled_def apply_statefulset_def desired_statefulset_def Let_def)
  then show ?thesis
  proof cases
    case reshape
    then show ?thesis using apply_reshapes [OF stored reshape] Some by simp
  next
    case settled
    then show ?thesis using stored by (simp add: Some apply_statefulset_settled report_status_frame)
  next
    case update
    then show ?thesis using update_settles [OF stored, of ssi] by (auto simp: Some)
  qed
qed

end

section \<open>Applying the desired StatefulSet\<close>


interpretation memT: statefulset_store mem_env "\<lambda>w nn. mem_lookup sts_meta nn (cl_StatefulSets w)"
proof (rule statefulset_store.intro)
  show "reliable_store mem_env kStatefulSet (ka_StatefulSet (kube mem_env)) (\<lambda>w nn. mem_lookup sts_meta nn (cl_StatefulSets w))"
    using mem_reliable [of cl_StatefulSets cl_StatefulSets_update kStatefulSet] by (simp add: kind_defs mem_env_def mem_kube_def)
qed (unfold_locales, auto simp: mem_env_def mem_kube_def mem_client_def mem_get_def mem_delete_def split: option.splits)

text \<open>At the cluster in memory, where the agent has no StatefulSet yet.\<close>

definition demo_inputs :: statefulSetInputs where
  "demo_inputs = \<lparr>ssi_configHash = ''0'', ssi_egressTokenNames = [], ssi_egressHash = []\<rparr>"


text \<open>The StatefulSet that was written for the small agent is left alone.\<close>

theorem settled_statefulset_untouched_witness:
  "\<exists>ha'. rs_trace (snd (run_state (apply_statefulset mem_env demo_agent
           (Some (desired_statefulset mem_env demo_agent demo_inputs)) demo_inputs) (demo_state demo_agent))) =
     [GetReq KPod \<lparr>nn_Namespace = ''ns'', nn_Name = ''demo-0''\<rparr>, StatusReq ha']"
proof -
  have "sts_settled mem_env demo_agent demo_inputs (desired_statefulset mem_env demo_agent demo_inputs)"
    using desired_settled [of "sts_meta (desired_statefulset mem_env demo_agent demo_inputs)" mem_env demo_agent demo_inputs]
    by simp
  from settled_statefulset_untouched [OF this, of "demo_state demo_agent"]
  show ?thesis by (simp add: demo_state_def IsSuspended_def pod_name_def demo_defs)
qed

end
