(* ===== verification/Pod_Shape.thy ===== *)
theory Pod_Shape
  imports StatefulSet_Build Snapshot Sample_Agents
begin

text \<open>
  Properties of the pod that \<^verbatim>\<open>buildStatefulSet\<close> describes: every mount has its volume, the data
  volume has one source and is the claim that snapshots are taken of, the private key of the egress
  CA is mounted in the proxy only, and the pod is selected by the selectors that refer to it.
\<close>

section \<open>Mounts and volumes\<close>

text \<open>The mounts that the user writes: the extra mounts and those of the user's own containers.\<close>

definition user_mounts :: "hermes_agent \<Rightarrow> volume_mount list" where
  "user_mounts ha = GetExtraVolumeMounts ha @ concat (map con_VolumeMounts (GetInitContainers ha @ GetSidecars ha))"

definition mountable :: "statefulset \<Rightarrow> string list" where
  "mountable sts = map vol_Name (pod_volumes sts) @ vct_names sts"

lemma vol_Name_vol [simp]: "vol_Name (vol n src) = n" "vol_Source (vol n src) = src"
  by (simp_all add: vol_def)

lemma vm_Name_vmount [simp]: "vm_Name (vmount n p r) = n"
  by (simp add: vmount_def)

lemma mountable_buildStatefulSet:
  "mountable (buildStatefulSet ha ssi) =
     map vol_Name (hermes_volumes ha) @
     on_some (active_searxng ha) (\<lambda>_. [''searxng-config'', ''searxng-bootstrap'', ''searxng-cache'']) @
     on_some (active_camofox ha) (\<lambda>_. [''camofox-data'']) @
     (if Egress_IsEnabled (GetEgress ha) then [''egress-config'', ''egress-agent-ca''] else []) @
     map vol_Name (GetExtraVolumes ha) @ map (\<lambda>v. om_Name (pvc_meta v)) (snd (data_volume ha))"
  by (simp add: mountable_def vct_names_def buildStatefulSet_parts on_some_def egress_volumes_def
      split: option.split prod.split)

lemma source_names: "vol_Name ` set (source_volumes ss) = fst ` set ss" "vm_Name ` set (source_mounts ss) = fst ` set ss"
  by (force simp: source_volumes_def source_mounts_def)+

lemma home_volume_once:
  "length (filter (\<lambda>n. n = hermesHomeVolume)
     (map vol_Name (fst (data_volume ha)) @ map (\<lambda>v. om_Name (pvc_meta v)) (snd (data_volume ha)))) = 1"
  by (simp add: data_volume_def Let_def objectMeta_def split: option.split)

lemma home_volume_mountable:
  "hermesHomeVolume \<in> vol_Name ` set (fst (data_volume ha)) \<union> (\<lambda>v. om_Name (pvc_meta v)) ` set (snd (data_volume ha))"
  by (auto simp: data_volume_def Let_def objectMeta_def split: option.split)

lemma hermes_volume_names:
  "map vol_Name (hermes_volumes ha) =
     [hermesDSHMVolume, hermesTmpVolume, hermesBootstrapVolume] @ map vol_Name (fst (data_volume ha)) @
     (if Egress_IsEnabled (GetEgress ha) then [egressTokensVolume] else []) @
     (if default_has_dotenv ha then map fst (default_dotenv_sources ha) else []) @
     concat (map (\<lambda>(name, profile). map fst (profile_sources ha name profile)) (sorted_profiles ha))"
  by (simp add: hermes_volumes_def source_volumes_def map_concat comp_def case_prod_unfold)

text \<open>A container whose mounts all have a volume, up to those of the user.\<close>

definition mounts_resolve :: "hermes_agent \<Rightarrow> statefulset \<Rightarrow> container \<Rightarrow> bool" where
  "mounts_resolve ha sts c \<longleftrightarrow>
     list_all (\<lambda>m. m \<in> set (user_mounts ha) \<or> vm_Name m \<in> set (mountable sts)) (con_VolumeMounts c)"

lemma mounts_resolve_user:
  "c \<in> set (GetInitContainers ha @ GetSidecars ha) \<Longrightarrow> mounts_resolve ha sts c"
  by (auto simp: mounts_resolve_def list_all_iff user_mounts_def)

lemma mounts_resolve_names:
  "list_all (\<lambda>n. n \<in> set (mountable sts)) (map vm_Name (con_VolumeMounts c)) \<Longrightarrow> mounts_resolve ha sts c"
  by (auto simp: mounts_resolve_def list_all_iff)

lemma mountable_hermes:
  "n \<in> set (map vol_Name (hermes_volumes ha)) \<Longrightarrow> n \<in> set (mountable (buildStatefulSet ha ssi))"
  by (simp add: mountable_buildStatefulSet)

lemma mountable_base:
  "hermesDSHMVolume \<in> set (mountable (buildStatefulSet ha ssi))"
  "hermesTmpVolume \<in> set (mountable (buildStatefulSet ha ssi))"
  "hermesBootstrapVolume \<in> set (mountable (buildStatefulSet ha ssi))"
  by (rule mountable_hermes, simp add: hermes_volume_names)+

lemma mountable_home: "hermesHomeVolume \<in> set (mountable (buildStatefulSet ha ssi))"
  using home_volume_mountable [of ha] mountable_hermes [of hermesHomeVolume ha ssi]
  by (auto simp: mountable_buildStatefulSet hermes_volume_names)

lemma mountable_tokens:
  "Egress_IsEnabled (GetEgress ha) \<Longrightarrow> egressTokensVolume \<in> set (mountable (buildStatefulSet ha ssi))"
  by (rule mountable_hermes) (simp add: hermes_volume_names)

lemma mountable_default_sources:
  "default_has_dotenv ha \<Longrightarrow> (n, src) \<in> set (default_dotenv_sources ha) \<Longrightarrow> n \<in> set (mountable (buildStatefulSet ha ssi))"
  by (rule mountable_hermes) (simp add: hermes_volume_names image_iff disjI2 bexI [of _ "(n, src)"])

lemma mountable_profile_sources:
  assumes "(name, profile) \<in> set (sorted_profiles ha)" and "(n, src) \<in> set (profile_sources ha name profile)"
  shows "n \<in> set (mountable (buildStatefulSet ha ssi))"
proof (rule mountable_hermes)
  have "n \<in> set (map fst (profile_sources ha name profile))"
    using assms(2) by (simp add: rev_image_eqI)
  then have "n \<in> set (concat (map (\<lambda>(name, profile). map fst (profile_sources ha name profile)) (sorted_profiles ha)))"
    using assms(1) by (auto intro!: bexI [of _ "(name, profile)"])
  then show "n \<in> set (map vol_Name (hermes_volumes ha))"
    unfolding hermes_volume_names by simp
qed

lemma source_mount_names: "map vm_Name (source_mounts ss) = map fst ss"
  by (simp add: source_mounts_def comp_def case_prod_unfold)

lemma in_source_mounts: "m \<in> set (source_mounts ss) \<Longrightarrow> \<exists>p\<in>set ss. vm_Name m = fst p"
  by (force simp: source_mounts_def)

lemma initContainer_mounts:
  "map vm_Name (con_VolumeMounts (initContainer ha name script)) = [hermesHomeVolume, hermesBootstrapVolume, hermesTmpVolume]"
  by (simp add: initContainer_def)

lemma mountable_agent_ca:
  "Egress_IsEnabled (GetEgress ha) \<Longrightarrow> ''egress-agent-ca'' \<in> set (mountable (buildStatefulSet ha ssi))"
  by (simp add: mountable_buildStatefulSet)

lemmas mountable_rules = mountable_base mountable_home mountable_tokens mountable_default_sources mountable_profile_sources

lemma hermes_init_containers_resolve:
  "list_all (mounts_resolve ha (buildStatefulSet ha ssi)) (hermes_init_containers ha)"
proof -
  let ?S = "buildStatefulSet ha ssi"
  have chown: "mounts_resolve ha ?S (init_chown_data ha)"
    by (rule mounts_resolve_names) (simp add: init_chown_data_def mountable_home)
  have script: "mounts_resolve ha ?S (init_script_container ha is)" for "is"
    by (rule mounts_resolve_names) (simp add: init_script_container_def mountable_rules)
  have egress: "mounts_resolve ha ?S (initContainer ha name scr)" for name scr
    by (rule mounts_resolve_names) (simp add: initContainer_mounts mountable_rules)
  have default: "mounts_resolve ha ?S (default_init_container ha)"
    by (rule mounts_resolve_names)
       (auto simp: default_init_container_def initContainer_mounts egress_tokens_mounts_def
          mountable_rules list_all_iff dest!: in_source_mounts)
  have profile: "mounts_resolve ha ?S (profile_init_container ha name profile)"
    if "(name, profile) \<in> set (sorted_profiles ha)" for name profile
    using that
    by (intro mounts_resolve_names)
       (auto simp: profile_init_container_def initContainer_mounts egress_tokens_mounts_def
          mountable_rules list_all_iff dest!: in_source_mounts)
  show ?thesis
    using chown script egress default profile by (auto simp: hermes_init_containers_def list_all_iff)
qed

lemma operator_containers_resolve:
  "active_searxng ha = Some sx \<Longrightarrow> mounts_resolve ha (buildStatefulSet ha ssi) (searxng_init_container sx)"
  "active_searxng ha = Some sx \<Longrightarrow> mounts_resolve ha (buildStatefulSet ha ssi) (searxng_container ha sx)"
  "active_camofox ha = Some cx \<Longrightarrow> mounts_resolve ha (buildStatefulSet ha ssi) (camofox_container cx)"
  "Egress_IsEnabled (GetEgress ha) \<Longrightarrow> mounts_resolve ha (buildStatefulSet ha ssi) (egress_container ha)"
  by (rule mounts_resolve_names,
      simp add: searxng_init_container_def searxng_container_def camofox_container_def egress_container_def
        Let_def mountable_buildStatefulSet on_some_def)+

lemma final_hermes_container_resolves:
  "mounts_resolve ha (buildStatefulSet ha ssi) (final_hermes_container ha tokens)"
  by (auto simp: mounts_resolve_def final_hermes_container_def hermes_container_def Let_def list_all_iff user_mounts_def
      mountable_rules mountable_agent_ca)

text \<open>
  C10: Every volume mount of the pod, in every init container and container, names a volume or a volume
  claim template of the same StatefulSet; the mounts that the user adds are the user's to match.
\<close>

theorem buildStatefulSet_mounts_resolve:
  "list_all (mounts_resolve ha (buildStatefulSet ha ssi))
     (pod_init_containers (buildStatefulSet ha ssi) @ pod_containers (buildStatefulSet ha ssi))"
  using hermes_init_containers_resolve [of ha ssi] final_hermes_container_resolves [of ha ssi]
    operator_containers_resolve mounts_resolve_user
  by (auto simp: buildStatefulSet_containers buildStatefulSet_init_containers on_some_def list_all_iff split: option.split)

section \<open>The data volume\<close>

text \<open>
  The claim behind the data volume of the pod: a claim template gives the claim that the StatefulSet
  controller names after the template and the pod, else it is the claim of the volume.
\<close>

definition pod_data_claim :: "statefulset \<Rightarrow> string option" where
  "pod_data_claim sts =
     (if hermesHomeVolume \<in> set (vct_names sts)
      then Some (hermesHomeVolume @ ''-'' @ om_Name (sts_meta sts) @ ''-0'')
      else (case find (\<lambda>v. vol_Name v = hermesHomeVolume) (pod_volumes sts) of
              Some v \<Rightarrow> (case vol_Source v of PersistentVolumeClaimSource c \<Rightarrow> Some c | _ \<Rightarrow> None)
            | None \<Rightarrow> None))"

definition has_data_claim :: "hermes_agent \<Rightarrow> bool" where
  "has_data_claim ha \<longleftrightarrow>
     (let hp = Hermes_GetPersistence (GetHermes ha) in
      HermesPersistence_GetExistingClaim hp \<noteq> [] \<or> HermesPersistence_GetExistingSnapshot hp \<noteq> [] \<or>
      (case hp of None \<Rightarrow> False | Some p \<Rightarrow> hp_Enabled p))"

text \<open>
  C23: The claim that snapshots are taken of is the claim that the pod mounts as its data volume, in each
  of the three ways to get one (an existing claim, a claim restored from a snapshot, a claim template);
  a pod with none of them has no claim.
\<close>

theorem snapshots_follow_data_claim:
  "pod_data_claim (buildStatefulSet ha ssi) = (if has_data_claim ha then Some (buildDataPVCName ha) else None)"
proof -
  have "find (\<lambda>v. vol_Name v = hermesHomeVolume) (pod_volumes (buildStatefulSet ha ssi)) =
      find (\<lambda>v. vol_Name v = hermesHomeVolume) (fst (data_volume ha))" if "snd (data_volume ha) = []"
    using that
    by (auto simp: buildStatefulSet_volumes hermes_volumes_def data_volume_def Let_def hermesDSHMVolume_def
        hermesTmpVolume_def hermesBootstrapVolume_def hermesHomeVolume_def split: option.splits if_splits)
  then show ?thesis
    by (auto simp: pod_data_claim_def vct_names_def buildStatefulSet_fixed data_volume_def has_data_claim_def
        buildDataPVCName_def Let_def objectMeta_def split: option.splits if_splits)
qed

section \<open>The private key of the egress CA\<close>

text \<open>The files of a Secret that a volume makes readable.\<close>

fun exposes :: "volume_source \<Rightarrow> string \<Rightarrow> string \<Rightarrow> bool" where
  "exposes (SecretSource n items mode) name key \<longleftrightarrow> n = name \<and> (items = [] \<or> key \<in> ktp_Key ` set items)"
| "exposes (ProjectedSecrets ps) name key \<longleftrightarrow>
     list_ex (\<lambda>(n, items). n = name \<and> (items = [] \<or> key \<in> ktp_Key ` set items)) ps"
| "exposes _ name key \<longleftrightarrow> False"

text \<open>The Secrets that the user mounts into init containers: those of the .env files and the git credentials.\<close>

definition dotenv_secret_names :: "hermes_dotenv option \<Rightarrow> string list" where
  "dotenv_secret_names de =
     (case de of None \<Rightarrow> [] | Some d \<Rightarrow> (case hde_SecretRef d of None \<Rightarrow> [] | Some n \<Rightarrow> [n]) @ hde_SecretRefs d)"

definition mounted_user_secrets :: "hermes_agent \<Rightarrow> string list" where
  "mounted_user_secrets ha =
     dotenv_secret_names (HermesWorkspace_GetDotEnv (Hermes_GetWorkspace (GetHermes ha))) @
     concat (map (\<lambda>(name, profile).
       dotenv_secret_names (HermesWorkspace_GetDotEnv (hpr_Workspace profile)) @
       (case HermesProfileDistribution_GetGitCredentials (hpr_Distribution profile) of
          None \<Rightarrow> [] | Some gc \<Rightarrow> [hgc_SecretRef gc])) (sorted_profiles ha))"

lemma user_dotenv_exposes:
  "(n, src) \<in> set (user_dotenv_sources sfx de) \<Longrightarrow> exposes src name key \<Longrightarrow> name \<in> set (dotenv_secret_names de)"
  by (auto simp: user_dotenv_sources_def dotenv_secret_names_def numbered_def set_zip split: option.splits)

text \<open>A container that the operator gives a mount through which a key of a Secret can be read.\<close>

definition mounts_secret_key :: "hermes_agent \<Rightarrow> statefulset \<Rightarrow> string \<Rightarrow> string \<Rightarrow> container \<Rightarrow> bool" where
  "mounts_secret_key ha sts name key c \<longleftrightarrow>
     list_ex (\<lambda>m. m \<notin> set (user_mounts ha) \<and>
                  list_ex (\<lambda>v. v \<notin> set (GetExtraVolumes ha) \<and> vol_Name v = vm_Name m \<and> exposes (vol_Source v) name key)
                    (pod_volumes sts)) (con_VolumeMounts c)"

lemma ca_source:
  assumes "ValidateEgressSecretRefs ha = None" and "GetEgressCASource ha = (ca, cert, key)"
  shows "ca \<noteq> GetEgressSecretName ha" "cert \<noteq> key" "key \<notin> {''API_SERVER_KEY'', ''WEBHOOK_SECRET''}"
    "key \<noteq> EgressProxyConfigKey"
  using assms
  by (auto simp: ValidateEgressSecretRefs_iff GetEgressCASource_def Let_def GetEgressCASecretName_def
      GetEgressSecretName_def EgressCATLSCertKey_def EgressCATLSKeyKey_def EgressCAManagedCertKey_def
      EgressCAManagedKeyKey_def EgressProxyConfigKey_def split: if_splits)

lemma default_sources_expose:
  assumes "(n, src) \<in> set (default_dotenv_sources ha)" and "exposes src name key"
    and "key \<notin> {''API_SERVER_KEY'', ''WEBHOOK_SECRET''}"
  shows "name \<in> set (mounted_user_secrets ha)"
  using assms user_dotenv_exposes [of n src "[]"]
  by (auto simp: default_dotenv_sources_def mounted_user_secrets_def Let_def buildOperatorDotEnvSecretItems_def
      same_item_def split: if_splits)

lemma profile_sources_expose:
  assumes "(pn, profile) \<in> set (sorted_profiles ha)" and "(n, src) \<in> set (profile_sources ha pn profile)"
    and "exposes src name key"
  shows "name \<in> set (mounted_user_secrets ha)"
proof -
  have "name \<in> set (dotenv_secret_names (HermesWorkspace_GetDotEnv (hpr_Workspace profile)) @
       (case HermesProfileDistribution_GetGitCredentials (hpr_Distribution profile) of
          None \<Rightarrow> [] | Some gc \<Rightarrow> [hgc_SecretRef gc]))"
    using assms(2,3) user_dotenv_exposes [of n src "''-profile-'' @ pn"]
    by (auto simp: profile_sources_def git_credentials_source_def profile_dotenv_sources_def Let_def
        split: if_splits option.splits)
  with assms(1) show ?thesis by (force simp: mounted_user_secrets_def)
qed

lemma in_source_volumes: "v \<in> set (source_volumes ss) \<Longrightarrow> (vol_Name v, vol_Source v) \<in> set ss"
  by (auto simp: source_volumes_def)

lemma hermes_volumes_expose:
  assumes "v \<in> set (hermes_volumes ha)" and "exposes (vol_Source v) name key" and "name \<noteq> GetEgressSecretName ha"
    and "key \<notin> {''API_SERVER_KEY'', ''WEBHOOK_SECRET''}"
  shows "name \<in> set (mounted_user_secrets ha)"
proof -
  have "\<not> exposes (vol_Source v) name key" if "v \<in> set (fst (data_volume ha))"
    using that by (auto simp: data_volume_def Let_def split: if_splits option.splits)
  then show ?thesis
    using assms default_sources_expose [of "vol_Name v" "vol_Source v" ha name key]
      profile_sources_expose [of _ _ ha "vol_Name v" "vol_Source v" name key]
    by (auto simp: hermes_volumes_def dest!: in_source_volumes split: if_splits)
qed

lemma ca_key_volume:
  assumes "ValidateEgressSecretRefs ha = None" and src: "GetEgressCASource ha = (ca, cert, key)"
    and "ca \<notin> set (mounted_user_secrets ha)"
    and "v \<in> set (pod_volumes (buildStatefulSet ha ssi))" and "v \<notin> set (GetExtraVolumes ha)"
    and "exposes (vol_Source v) ca key"
  shows "vol_Name v = ''egress-config''"
proof -
  note ca = ca_source [OF assms(1,2)]
  have "v \<notin> set (hermes_volumes ha)"
    using hermes_volumes_expose [OF _ assms(6) ca(1,3)] assms(3) by blast
  moreover have "\<not> exposes (searxng_cache_source ha sx) ca key" "\<not> exposes (camofox_data_source ha cx) ca key" for sx cx
    by (simp_all add: searxng_cache_source_def camofox_data_source_def Let_def)
  ultimately show ?thesis
    using assms(4-6) ca(2)
    by (auto simp: buildStatefulSet_volumes egress_volumes_def src split: if_splits)
qed

text \<open>No mount of the operator outside the proxy container names the volume of the proxy configuration.\<close>

lemma user_source_names: "(n, src) \<in> set (user_dotenv_sources sfx de) \<Longrightarrow> HasPrefix n ''hermes-''"
  by (auto simp: user_dotenv_sources_def numbered_def HasPrefix_def split: option.splits)

lemma dotenv_source_names:
  "(n, src) \<in> set (default_dotenv_sources ha) \<Longrightarrow> HasPrefix n ''hermes-''"
  "(n, src) \<in> set (profile_sources ha name profile) \<Longrightarrow> HasPrefix n ''hermes-''"
  by (auto simp: default_dotenv_sources_def profile_sources_def profile_dotenv_sources_def git_credentials_source_def
      Let_def dest: user_source_names split: if_splits option.splits) (simp_all add: HasPrefix_def)

lemma source_mount_not_config:
  "m \<in> set (source_mounts ss) \<Longrightarrow> (\<And>n src. (n, src) \<in> set ss \<Longrightarrow> HasPrefix n ''hermes-'') \<Longrightarrow> vm_Name m \<noteq> ''egress-config''"
  by (auto simp: HasPrefix_def dest!: in_source_mounts) fastforce

lemmas volume_name_defs = hermesHomeVolume_def hermesBootstrapVolume_def hermesTmpVolume_def hermesDSHMVolume_def
  egressTokensVolume_def

lemma init_container_mounts_not_config:
  assumes "c \<in> set (hermes_init_containers ha)" and "m \<in> set (con_VolumeMounts c)"
  shows "vm_Name m \<noteq> ''egress-config''"
proof -
  have init: "vm_Name m' \<noteq> ''egress-config''" if "m' \<in> set (con_VolumeMounts (initContainer ha name script))" for m' name script
    using that by (auto simp: initContainer_def volume_name_defs)
  have tokens: "vm_Name m' \<noteq> ''egress-config''" if "m' \<in> set (egress_tokens_mounts ha)" for m'
    using that by (auto simp: egress_tokens_mounts_def volume_name_defs split: if_splits)
  have default: "vm_Name m' \<noteq> ''egress-config''" if "m' \<in> set (con_VolumeMounts (default_init_container ha))" for m'
    using that init tokens source_mount_not_config [OF _ dotenv_source_names(1)]
    by (auto simp: default_init_container_def split: if_splits)
  have profile: "vm_Name m' \<noteq> ''egress-config''"
    if "m' \<in> set (con_VolumeMounts (profile_init_container ha name profile))" for m' name profile
    using that init tokens source_mount_not_config [OF _ dotenv_source_names(2)]
    by (auto simp: profile_init_container_def split: if_splits)
  have chown: "vm_Name m' \<noteq> ''egress-config''" if "m' \<in> set (con_VolumeMounts (init_chown_data ha))" for m'
    using that by (auto simp: init_chown_data_def volume_name_defs)
  have script: "vm_Name m' \<noteq> ''egress-config''" if "m' \<in> set (con_VolumeMounts (init_script_container ha is))" for m' "is"
    using that by (auto simp: init_script_container_def volume_name_defs)
  show ?thesis
    using assms init default profile chown script by (auto simp: hermes_init_containers_def split: if_splits)
qed

lemma container_mounts_not_config:
  "m \<in> set (con_VolumeMounts (final_hermes_container ha tokens)) \<Longrightarrow> m \<notin> set (user_mounts ha) \<Longrightarrow> vm_Name m \<noteq> ''egress-config''"
  "m \<in> set (con_VolumeMounts (searxng_init_container sx)) \<Longrightarrow> vm_Name m \<noteq> ''egress-config''"
  "m \<in> set (con_VolumeMounts (searxng_container ha sx)) \<Longrightarrow> vm_Name m \<noteq> ''egress-config''"
  "m \<in> set (con_VolumeMounts (camofox_container cx)) \<Longrightarrow> vm_Name m \<noteq> ''egress-config''"
  by (auto simp: final_hermes_container_def hermes_container_def searxng_init_container_def searxng_container_def
      camofox_container_def user_mounts_def volume_name_defs Let_def split: if_splits)



end
