(* ===== verification/Controller_Setup.thy ===== *)
theory Controller_Setup
  imports Owned_Requests
begin

text \<open>
  The set-up of the controller (\<^verbatim>\<open>internal/controller/hermesagent_controller.go\<close>): the kinds it watches, the
  permissions that its markers ask for, and the permission that a request needs.
\<close>

section \<open>Watches\<close>

text \<open>
  The calls of the controller builder: the reconciled kind, the owned kinds, whose changes enqueue the
  agent that controls the object, and the watched kinds with a mapping function.
\<close>

datatype watch = For api_kind | Owns api_kind | Watches api_kind

definition SetupWithManager :: "watch list" where
  "SetupWithManager =
     [For KHermesAgent, Owns KConfigMap, Watches KConfigMap, Owns KStatefulSet, Owns KServiceAccount, Owns KRole,
      Owns KRoleBinding, Owns KService, Owns KIngress, Owns KNetworkPolicy, Owns KSecret, Watches KSecret]"

section \<open>Permissions\<close>

record rbac_marker =
  rm_groups :: string
  rm_resources :: "string list"
  rm_verbs :: "string list"

definition all_verbs :: "string list" where
  "all_verbs = [''get'', ''list'', ''watch'', ''create'', ''update'', ''patch'', ''delete'']"

definition rbac_markers :: "rbac_marker list" where
  "rbac_markers =
     map (\<lambda>(g, rs, vs). \<lparr>rm_groups = g, rm_resources = rs, rm_verbs = vs\<rparr>)
       [(''agents.hermeum.app'', [''hermesagents''], all_verbs),
        (''agents.hermeum.app'', [''hermesagents/status''], [''get'', ''update'', ''patch'']),
        (''agents.hermeum.app'', [''hermesagents/finalizers''], [''update'']),
        ([], [''configmaps''], all_verbs),
        (''apps'', [''statefulsets''], all_verbs),
        ([], [''persistentvolumeclaims''], [''get'', ''list'', ''watch'', ''create'']),
        ([], [''serviceaccounts''], all_verbs),
        (''rbac.authorization.k8s.io'', [''roles'', ''rolebindings''], all_verbs),
        ([], [''services''], all_verbs),
        (''networking.k8s.io'', [''ingresses''], all_verbs),
        (''networking.k8s.io'', [''networkpolicies''], all_verbs),
        ([], [''pods''], [''get'', ''list'', ''watch'', ''delete'']),
        ([], [''secrets''], all_verbs),
        (''snapshot.storage.k8s.io'', [''volumesnapshots''], [''get'', ''list'', ''create'', ''delete''])]"

text \<open>
  The API group and the resource of a kind.  For the kinds of the snapshot API the resource is the plural
  of the kind in lower case, the same for the kind of a list.
\<close>

fun kind_resource :: "api_kind \<Rightarrow> string \<times> string" where
  "kind_resource KHermesAgent = (''agents.hermeum.app'', ''hermesagents'')"
| "kind_resource KPod = ([], ''pods'')"
| "kind_resource KConfigMap = ([], ''configmaps'')"
| "kind_resource KSecret = ([], ''secrets'')"
| "kind_resource KStatefulSet = (''apps'', ''statefulsets'')"
| "kind_resource KServiceAccount = ([], ''serviceaccounts'')"
| "kind_resource KRole = (''rbac.authorization.k8s.io'', ''roles'')"
| "kind_resource KRoleBinding = (''rbac.authorization.k8s.io'', ''rolebindings'')"
| "kind_resource KService = ([], ''services'')"
| "kind_resource KIngress = (''networking.k8s.io'', ''ingresses'')"
| "kind_resource KNetworkPolicy = (''networking.k8s.io'', ''networkpolicies'')"
| "kind_resource KPersistentVolumeClaim = ([], ''persistentvolumeclaims'')"
| "kind_resource (KUnstructured g) = (gvk_Group g, ToLower (TrimSuffix (gvk_Kind g) ''List'') @ ''s'')"

text \<open>What the API server checks for a request: group, resource and verb.\<close>

fun needed_permission :: "api_request \<Rightarrow> (string \<times> string) \<times> string" where
  "needed_permission (GetReq k nn) = (kind_resource k, ''get'')"
| "needed_permission (ListReq k ns ls) = (kind_resource k, ''list'')"
| "needed_permission (CreateReq obj) = (kind_resource (fst (object_kind obj)), ''create'')"
| "needed_permission (UpdateReq obj) = (kind_resource (fst (object_kind obj)), ''update'')"
| "needed_permission (DeleteReq k nn) = (kind_resource k, ''delete'')"
| "needed_permission (StatusReq ha) = ((''agents.hermeum.app'', ''hermesagents/status''), ''update'')"

definition granted :: "(string \<times> string) \<times> string \<Rightarrow> bool" where
  "granted p = list_ex (\<lambda>m. rm_groups m = fst (fst p) \<and> snd (fst p) \<in> set (rm_resources m) \<and> snd p \<in> set (rm_verbs m)) rbac_markers"

text \<open>The kinds of objects that are written and not watched: claims and snapshots.\<close>

definition watched_write :: "api_request \<Rightarrow> bool" where
  "watched_write r =
     (case r of
        CreateReq obj \<Rightarrow> Owns (fst (object_kind obj)) \<in> set SetupWithManager \<or>
          fst (object_kind obj) \<in> {KPersistentVolumeClaim, KUnstructured volumeSnapshotObjectGVK}
      | UpdateReq obj \<Rightarrow> Owns (fst (object_kind obj)) \<in> set SetupWithManager
      | _ \<Rightarrow> True)"

text \<open>The permissions by verb.\<close>

lemma granted_kinds:
  "list_all (\<lambda>k. granted (kind_resource k, ''get''))
     [KHermesAgent, KPod, KConfigMap, KSecret, KStatefulSet, KServiceAccount, KRole, KRoleBinding, KService, KIngress,
      KNetworkPolicy, KPersistentVolumeClaim, KUnstructured volumeSnapshotObjectGVK]"
  "list_all (\<lambda>k. granted (kind_resource k, ''create''))
     [KConfigMap, KSecret, KStatefulSet, KServiceAccount, KRole, KRoleBinding, KService, KIngress,
      KNetworkPolicy, KPersistentVolumeClaim, KUnstructured volumeSnapshotObjectGVK]"
  "list_all (\<lambda>k. granted (kind_resource k, ''update''))
     [KConfigMap, KSecret, KStatefulSet, KServiceAccount, KRole, KRoleBinding, KService, KIngress, KNetworkPolicy]"
  "list_all (\<lambda>k. granted (kind_resource k, ''delete''))
     [KPod, KConfigMap, KSecret, KStatefulSet, KServiceAccount, KRole, KRoleBinding, KService, KIngress,
      KNetworkPolicy, KUnstructured volumeSnapshotGVK]"
  "granted (kind_resource (KUnstructured volumeSnapshotGVK), ''list'')"
  "granted ((''agents.hermeum.app'', ''hermesagents/status''), ''update'')"
  by code_simp+

lemma owned_request_granted: "owned_request E ha r \<Longrightarrow> granted (needed_permission r)"
proof (induction r)
  case (GetReq k nn)
  then show ?case using granted_kinds(1) by (cases k) (simp_all del: kind_resource.simps split: if_splits)
next
  case (ListReq k ns ls)
  then show ?case using granted_kinds(5) by (simp del: kind_resource.simps)
next
  case (StatusReq ha')
  show ?case using granted_kinds(6) by simp
next
  case (CreateReq obj)
  then show ?case using granted_kinds(2) by (cases obj) (simp_all del: kind_resource.simps)
next
  case (UpdateReq obj)
  then show ?case using granted_kinds(3) by (cases obj) (simp_all del: kind_resource.simps)
next
  case (DeleteReq k nn)
  then show ?case using granted_kinds(4) by (cases k) (simp_all add: owned_key_def del: kind_resource.simps)
qed

lemma owned_request_watched: "owned_request E ha r \<Longrightarrow> watched_write r"
proof (induction r)
  case (CreateReq obj)
  then show ?case by (cases obj) (simp_all add: watched_write_def SetupWithManager_def)
next
  case (UpdateReq obj)
  then show ?case by (cases obj) (simp_all add: watched_write_def SetupWithManager_def)
qed (simp_all add: watched_write_def)

end
