(* ===== verification/Telemetry.thy ===== *)
theory Telemetry
  imports Reconcile
begin

text \<open>
  The telemetry (\<^verbatim>\<open>internal/infras/prometheus.go\<close>): the implementation of the telemetry interface by
  counters and a logger, and the metrics that a reconciliation leaves in it.
\<close>

section \<open>The collectors\<close>

text \<open>
  A counter vector maps its label values to its count, a histogram vector to the number of its
  observations (the observed duration is a measurement and not part of the model); a log line has the
  name of the logger, the verbosity, the error if there is one, and the message.
\<close>

record log_line =
  ll_Name :: string
  ll_V :: nat
  ll_Error :: "go_error option"
  ll_Msg :: string

record prometheus_telemetry =
  pt_reconcileTotal :: "string \<times> string \<times> string \<Rightarrow> nat"
  pt_reconcileDuration :: "string \<times> string \<Rightarrow> nat"
  pt_notFoundTotal :: "string \<times> string \<Rightarrow> nat"
  pt_log :: "log_line list"

definition telemetryLoggerName :: string where "telemetryLoggerName = ''hermesagent''"
definition debugVerbosity :: nat where "debugVerbosity = 1"

definition NewPrometheusTelemetry :: prometheus_telemetry where
  "NewPrometheusTelemetry =
     \<lparr>pt_reconcileTotal = (\<lambda>_. 0), pt_reconcileDuration = (\<lambda>_. 0), pt_notFoundTotal = (\<lambda>_. 0), pt_log = []\<rparr>"

definition pt_Debug :: "string \<Rightarrow> prometheus_telemetry \<Rightarrow> prometheus_telemetry" where
  "pt_Debug msg m = m\<lparr>pt_log := pt_log m @ [\<lparr>ll_Name = telemetryLoggerName, ll_V = debugVerbosity, ll_Error = None, ll_Msg = msg\<rparr>]\<rparr>"

definition pt_Info :: "string \<Rightarrow> prometheus_telemetry \<Rightarrow> prometheus_telemetry" where
  "pt_Info msg m = m\<lparr>pt_log := pt_log m @ [\<lparr>ll_Name = telemetryLoggerName, ll_V = 0, ll_Error = None, ll_Msg = msg\<rparr>]\<rparr>"

definition pt_Error :: "go_error \<Rightarrow> string \<Rightarrow> prometheus_telemetry \<Rightarrow> prometheus_telemetry" where
  "pt_Error err msg m = m\<lparr>pt_log := pt_log m @ [\<lparr>ll_Name = telemetryLoggerName, ll_V = 0, ll_Error = Some err, ll_Msg = msg\<rparr>]\<rparr>"

definition pt_Warn :: "string \<Rightarrow> prometheus_telemetry \<Rightarrow> prometheus_telemetry" where
  "pt_Warn msg m = m\<lparr>pt_log := pt_log m @ [\<lparr>ll_Name = telemetryLoggerName, ll_V = 0, ll_Error = None, ll_Msg = msg\<rparr>]\<rparr>"

fun Result_String :: "result_label \<Rightarrow> string" where
  "Result_String ResultSuccess = ''success''"
| "Result_String ResultError = ''error''"
| "Result_String ResultNotFound = ''not_found''"

definition inc :: "'l \<Rightarrow> ('l \<Rightarrow> nat) \<Rightarrow> 'l \<Rightarrow> nat" where
  "inc l c = c(l := c l + 1)"

definition pt_IncReconcile :: "namespaced_name \<Rightarrow> result_label \<Rightarrow> prometheus_telemetry \<Rightarrow> prometheus_telemetry" where
  "pt_IncReconcile nn res m =
     m\<lparr>pt_reconcileTotal := inc (nn_Namespace nn, nn_Name nn, Result_String res) (pt_reconcileTotal m)\<rparr>"

definition pt_ObserveReconcileDuration :: "namespaced_name \<Rightarrow> prometheus_telemetry \<Rightarrow> prometheus_telemetry" where
  "pt_ObserveReconcileDuration nn m =
     m\<lparr>pt_reconcileDuration := inc (nn_Namespace nn, nn_Name nn) (pt_reconcileDuration m)\<rparr>"

definition pt_IncNotFound :: "namespaced_name \<Rightarrow> prometheus_telemetry \<Rightarrow> prometheus_telemetry" where
  "pt_IncNotFound nn m = m\<lparr>pt_notFoundTotal := inc (nn_Namespace nn, nn_Name nn) (pt_notFoundTotal m)\<rparr>"

text \<open>The method that an event of the model stands for.\<close>

fun handle_event :: "tel_event \<Rightarrow> prometheus_telemetry \<Rightarrow> prometheus_telemetry" where
  "handle_event (LogDebug msg) = pt_Debug msg"
| "handle_event (LogInfo msg) = pt_Info msg"
| "handle_event (LogWarn msg) = pt_Warn msg"
| "handle_event (LogError err msg) = pt_Error err msg"
| "handle_event (IncReconcile nn res) = pt_IncReconcile nn res"
| "handle_event (IncNotFound nn) = pt_IncNotFound nn"
| "handle_event (ObserveReconcileDuration nn) = pt_ObserveReconcileDuration nn"

section \<open>The loops record no metrics\<close>

fun is_metric :: "tel_event \<Rightarrow> bool" where
  "is_metric (IncReconcile nn res) = True"
| "is_metric (IncNotFound nn) = True"
| "is_metric (ObserveReconcileDuration nn) = True"
| "is_metric _ = False"

definition metrics_are :: "tel_event list \<Rightarrow> 'w rst \<Rightarrow> bool" where
  "metrics_are M s \<longleftrightarrow> filter is_metric (rs_tel s) = M"

named_theorems metric_intros \<open>programs that record no metrics\<close>

lemma metric_prims [metric_intros]:
  "\<not> is_metric ev \<Longrightarrow> keeps (metrics_are M) (tel ev)"
  "keeps (metrics_are M) (api_call req f)" "keeps (metrics_are M) (local_call g)"
  "keeps (metrics_are M) (mod_status h)" "keeps (metrics_are M) (mod_managed h')"
  by (auto intro!: keepsI simp: metrics_are_def)

lemma metric_status [metric_intros]: "keeps (metrics_are M) (UpdateHermesAgentStatus E)"
  by (rule keepsI) (auto simp: metrics_are_def UpdateHermesAgentStatus_def split: sum.split prod.split)

lemma metric_objects [metric_intros]:
  "keeps (metrics_are M) (get_object k c nn)" "keeps (metrics_are M) (create_owned E k c obj)"
  "keeps (metrics_are M) (update_owned E k c obj)" "keeps (metrics_are M) (delete_object k c nn)"
  unfolding get_object_def create_owned_def update_owned_def delete_object_def
  by (intro wp_intros metric_intros)+

lemma metric_conditions [metric_intros]:
  "keeps (metrics_are M) (set_condition E typ status reason message)" "keeps (metrics_are M) (remove_condition E typ)"
  unfolding set_condition_def remove_condition_def by (intro wp_intros metric_intros)+

lemma metric_ready [metric_intros]:
  "keeps (metrics_are M) (markReady E)" "keeps (metrics_are M) (status_then_finish E)"
  "keeps (metrics_are M) (markReconcileFailed E reason err)"
  unfolding markReady_def status_then_finish_def setReadyCondition_def markReconcileFailed_def
  by (intro wp_intros metric_intros | simp)+

lemma metric_defer [metric_intros]: "keeps (metrics_are M) body \<Longrightarrow> keeps (metrics_are M) (defer_mark E reason body)"
  unfolding defer_mark_def by (intro wp_intros metric_intros)

lemma metric_when30 [metric_intros]:
  "keeps (metrics_are M) m \<Longrightarrow> keeps (metrics_are M) k \<Longrightarrow> \<not> is_metric ev \<Longrightarrow> keeps (metrics_are M) (when30 b m ev k)"
  unfolding when30_def by (intro wp_intros metric_intros)

lemma metric_snapshots [metric_intros]:
  "keeps (metrics_are M) (GetVolumeSnapshot E nn)" "keeps (metrics_are M) (ListVolumeSnapshotsOwnedByAgent E ns name)"
  "keeps (metrics_are M) (CreateVolumeSnapshotOwnedByHermesAgent E v)" "keeps (metrics_are M) (DeleteVolumeSnapshot E nn)"
  unfolding GetVolumeSnapshot_def ListVolumeSnapshotsOwnedByAgent_def CreateVolumeSnapshotOwnedByHermesAgent_def
    DeleteVolumeSnapshot_def
  by (intro wp_intros metric_intros | simp)+

lemma metric_recursive [metric_intros]:
  "keeps (metrics_are M) (egress_tokens E existing creds tokens)"
  "keeps (metrics_are M) (read_profile_documents E ha names docs)"
  "keeps (metrics_are M) (read_egress_sources E ha srcs acc)"
  "keeps (metrics_are M) k \<Longrightarrow> keeps (metrics_are M) (delete_expired E olds k)"
proof -
  show "keeps (metrics_are M) (egress_tokens E existing creds tokens)"
    by (induction creds arbitrary: tokens) (auto simp: mintEgressProxyToken_def intro!: wp_intros metric_intros)
  show "keeps (metrics_are M) (read_profile_documents E ha names docs)"
    by (induction names arbitrary: docs) (auto simp: readConfigDocument_def client_defs intro!: wp_intros metric_intros)
  show "keeps (metrics_are M) (read_egress_sources E ha srcs acc)"
    by (induction srcs arbitrary: acc) (auto simp: client_defs Let_def intro!: wp_intros metric_intros)
  show "keeps (metrics_are M) k \<Longrightarrow> keeps (metrics_are M) (delete_expired E olds k)"
    by (induction olds) (auto intro!: wp_intros metric_intros)
qed

lemmas metric_calls = client_defs random_hex_def stable_key_def buildHermesSecret_def buildSearXNGSecret_def
  bind_err_def buildEgressCASecret_def recordEgressCASecret_def buildEgressSecret_def resolveEgressCredentials_def
  recordEgressSecret_def resolveConfigDocuments_def readConfigDocument_def ensure_role_def ensure_role_binding_def
  setRestoreFailed_def clearRestoreFailed_def restore_failed_nil_def getReadySnapshot_def reshape_gate_def
  provision_restore_def setSnapshotUnsupported_def clearSnapshotUnsupported_def record_snapshots_def take_snapshot_def
  run_schedule_def prune_and_run_def clear_init_failed_def applyInitFailedCondition_def egressPodInputs_def
  deriveStatus_def report_status_def update_statefulset_def apply_statefulset_def

lemma metric_loops [metric_intros]:
  "keeps (metrics_are M) (reconcileHermesConfigMap E)" "keeps (metrics_are M) (reconcileHermesSecret E)"
  "keeps (metrics_are M) (reconcileSearXNGConfigMap E)" "keeps (metrics_are M) (reconcileSearXNGSecret E)"
  "keeps (metrics_are M) (reconcileServiceAccount E)" "keeps (metrics_are M) (reconcileRole E)"
  "keeps (metrics_are M) (reconcileService E)" "keeps (metrics_are M) (reconcileIngress E)"
  "keeps (metrics_are M) (reconcileNetworkPolicy E)" "keeps (metrics_are M) (reconcileEgressCA E)"
  "keeps (metrics_are M) (reconcileEgressSecret E)" "keeps (metrics_are M) (reconcileRestore E)"
  "keeps (metrics_are M) (reconcileStatefulSet E)" "keeps (metrics_are M) (reconcileSnapshot E)"
  unfolding reconcileHermesConfigMap_def reconcileHermesSecret_def reconcileSearXNGConfigMap_def
    reconcileSearXNGSecret_def reconcileServiceAccount_def reconcileRole_def reconcileService_def reconcileIngress_def
    reconcileNetworkPolicy_def reconcileEgressCA_def reconcileEgressSecret_def reconcileRestore_def
    reconcileStatefulSet_def reconcileSnapshot_def metric_calls
  by (intro wp_intros metric_intros | simp only: is_metric.simps simp_thms)+

section \<open>The metrics of a reconciliation\<close>

definition outcome_metrics :: "namespaced_name \<Rightarrow> ctrl_result \<times> go_error option \<Rightarrow> tel_event list" where
  "outcome_metrics nn r =
     (case snd r of
        Some err \<Rightarrow> [IncReconcile nn ResultError]
      | None \<Rightarrow> if IsZero (fst r) then [IncReconcile nn ResultSuccess] else [])"

lemma metrics_keep: "(\<And>M. keeps (metrics_are M) m) \<Longrightarrow> filter is_metric (rs_tel (snd (run_state m s))) = filter is_metric (rs_tel s)"
  using keepsD [of "metrics_are (filter is_metric (rs_tel s))" m s] by (simp add: metrics_are_def)

lemma run_loops_metrics:
  assumes "\<And>l M. l \<in> set (map fst loops) \<Longrightarrow> keeps (metrics_are M) l"
  shows "filter is_metric (rs_tel (snd (run_state (run_loops nn loops (report_success nn)) s))) =
         filter is_metric (rs_tel s) @ outcome_metrics nn (fst (run_state (run_loops nn loops (report_success nn)) s))"
  using assms
proof (induction loops arbitrary: s)
  case Nil
  then show ?case by (simp add: run_loops_def report_success_def outcome_metrics_def)
next
  case (Cons l loops)
  obtain body msg r s' where l: "l = (body, msg)" and run: "run_state body s = (r, s')" by (metis prod.collapse)
  have step: "run_loops nn (l # loops) k = run_loop nn body msg (run_loops nn loops k)" for k by (simp add: run_loops_def l)
  have same: "filter is_metric (rs_tel s') = filter is_metric (rs_tel s)"
    using metrics_keep [of body s] Cons.prems [of body] run by (simp add: l)
  show ?case
  proof (cases "quiet r")
    case True
    with Cons.IH [of s'] Cons.prems same show ?thesis by (simp add: step run_loop_quiet [OF run])
  next
    case False
    then show ?thesis
      by (auto simp: step run_loop_stops [OF run] same stop_events_def outcome_metrics_def quiet_def split: option.split)
  qed
qed

lemma counters_of_metrics:
  "pt_reconcileTotal (fold handle_event evs m) = pt_reconcileTotal (fold handle_event (filter is_metric evs) m)"
  "pt_reconcileDuration (fold handle_event evs m) = pt_reconcileDuration (fold handle_event (filter is_metric evs) m)"
  "pt_notFoundTotal (fold handle_event evs m) = pt_notFoundTotal (fold handle_event (filter is_metric evs) m)"
proof -
  have "pt_log_update f (fold handle_event evs m) = pt_log_update f (fold handle_event (filter is_metric evs) m)"
    if "f = (\<lambda>_. [])" for f
  proof (induction evs rule: rev_induct)
    case (snoc ev evs)
    have log: "pt_log_update f (handle_event ev a) = (if is_metric ev then handle_event ev (pt_log_update f a) else pt_log_update f a)" for a
      using that by (cases ev) (simp_all add: pt_Debug_def pt_Info_def pt_Warn_def pt_Error_def pt_IncReconcile_def
          pt_IncNotFound_def pt_ObserveReconcileDuration_def)
    from snoc show ?case by (simp add: log)
  qed simp
  then have eq: "(fold handle_event evs m)\<lparr>pt_log := []\<rparr> = (fold handle_event (filter is_metric evs) m)\<lparr>pt_log := []\<rparr>" by simp
  show "pt_reconcileTotal (fold handle_event evs m) = pt_reconcileTotal (fold handle_event (filter is_metric evs) m)"
    using arg_cong [OF eq, of pt_reconcileTotal] by simp
  show "pt_reconcileDuration (fold handle_event evs m) = pt_reconcileDuration (fold handle_event (filter is_metric evs) m)"
    using arg_cong [OF eq, of pt_reconcileDuration] by simp
  show "pt_notFoundTotal (fold handle_event evs m) = pt_notFoundTotal (fold handle_event (filter is_metric evs) m)"
    using arg_cong [OF eq, of pt_notFoundTotal] by simp
qed

lemma Reconcile_metrics:
  assumes "rs_tel s = []"
  shows "filter is_metric (rs_tel (snd (run_state (Reconcile E nn) s))) =
     (case fst (ka_GetHermesAgent (kube E) nn (rs_world s)) of
        Inl err \<Rightarrow> if IsNotFound err then [IncNotFound nn, IncReconcile nn ResultNotFound] else [IncReconcile nn ResultError]
      | Inr ha \<Rightarrow> outcome_metrics (meta_key (ha_meta ha)) (fst (run_state (Reconcile E nn) s))) @ [ObserveReconcileDuration nn]"
proof -
  have loops: "keeps (metrics_are M) l" if "l \<in> set (map fst (reconcile_loops E))" for l M
    using that by (auto simp: reconcile_loops_def intro: metric_intros)
  show ?thesis
    using assms run_loops_metrics [OF loops]
    by (auto simp: Reconcile_def GetHermesAgent_def not_found_nil_def Let_def case_prod_unfold split: sum.split)
qed

text \<open>
  C18: What a reconciliation counts.  Its duration is observed once; it adds one to the counter of
  reconciliations under the outcome: not found or error when the agent cannot be read, error when a
  loop failed, success when every loop was done, and nothing when a loop asked to be called again;
  the loops themselves record no metrics.
\<close>

theorem reconcile_counters:
  assumes "rs_tel s = []"
  shows "case run_state (Reconcile E nn) s of
     (r, s') \<Rightarrow>
       pt_reconcileDuration (fold handle_event (rs_tel s') m) = inc (nn_Namespace nn, nn_Name nn) (pt_reconcileDuration m) \<and>
       pt_reconcileTotal (fold handle_event (rs_tel s') m) =
         (case fst (ka_GetHermesAgent (kube E) nn (rs_world s)) of
            Inl err \<Rightarrow>
              inc (nn_Namespace nn, nn_Name nn, if IsNotFound err then ''not_found'' else ''error'') (pt_reconcileTotal m)
          | Inr ha \<Rightarrow>
              if snd r \<noteq> None then inc (ha_Namespace ha, ha_Name ha, ''error'') (pt_reconcileTotal m)
              else if IsZero (fst r) then inc (ha_Namespace ha, ha_Name ha, ''success'') (pt_reconcileTotal m)
              else pt_reconcileTotal m)"
  using Reconcile_metrics [OF assms, of E nn]
  by (auto simp: counters_of_metrics [of "rs_tel _"] outcome_metrics_def pt_IncReconcile_def pt_IncNotFound_def
      pt_ObserveReconcileDuration_def meta_key_def split: prod.splits sum.splits option.splits if_splits)

end
