(* ===== verification/Heartbeat.thy ===== *)
theory Heartbeat
  imports Runtime
begin

text \<open>
  The heartbeat (\<^verbatim>\<open>internal/usecase/heartbeat_reporter.go\<close>, \<^verbatim>\<open>heartbeat_interface.go\<close>,
  \<^verbatim>\<open>internal/infras/posthog.go\<close>): a goroutine that sends an event at every tick of a ticker until
  the reporter is closed, the callers of \<^verbatim>\<open>Close\<close>, and the senders.

  The reporter runs concurrently with its callers, so it is a step relation: one step is one
  operation on shared state (the ticker, the channel \<^verbatim>\<open>done\<close>, the \<^verbatim>\<open>sync.Once\<close>, the sender), and the
  steps of the goroutine, of the callers and of the clock interleave freely.  The module asks for
  Go 1.25, where stopping a ticker discards a tick that was not received, a channel of a ticker
  holds at most one tick, closing a closed channel panics, and a caller of \<^verbatim>\<open>Once.Do\<close> waits until
  the first call has returned.
\<close>

section \<open>Events and senders\<close>

definition HeartbeatEvent :: string where "HeartbeatEvent = ''hermes_agent_heartbeat''"
definition PropertyOperatorVersion :: string where "PropertyOperatorVersion = ''operator_version''"

text \<open>In nanoseconds.\<close>

definition HeartbeatInterval :: int where "HeartbeatInterval = 3600 * 1000000000"

text \<open>The calls of a sender.\<close>

datatype sender_call =
    SendHeartbeat string "string gomap"
  | SenderClose

text \<open>The sender that discards everything.\<close>

definition NoopHeartbeat_SendHeartbeat :: "string \<Rightarrow> string gomap \<Rightarrow> 's \<Rightarrow> 's" where
  "NoopHeartbeat_SendHeartbeat event properties s = s"

definition NoopHeartbeat_Close :: "'s \<Rightarrow> 's" where
  "NoopHeartbeat_Close s = s"

section \<open>The PostHog sender\<close>

text \<open>
  The client is a parameter.  An event keeps the distinct ID, the name and the properties (\<^verbatim>\<open>nil\<close>
  properties are an empty map, which is how a nil map reads); its time stamp is that of the call.
\<close>

record ph_capture =
  cap_DistinctId :: string
  cap_Event :: string
  cap_Properties :: "string gomap"
  cap_Timestamp :: int

record 's posthog_client =
  ph_Enqueue :: "ph_capture \<Rightarrow> 's \<Rightarrow> go_error option \<times> 's"
  ph_Close :: "'s \<Rightarrow> go_error option \<times> 's"

record posthog_config =
  phc_Endpoint :: string
  phc_Interval :: int
  phc_BatchSize :: int

record 's posthog_heartbeat =
  phh_client :: "'s posthog_client"
  phh_deploymentID :: string

definition postHogAPIKey :: string where "postHogAPIKey = ''phc_z2nKsNVLSSSYbszJYmxzJZY2FZw4qBWnnrqNKM4vTbgZ''"
definition postHogHost :: string where "postHogHost = ''https://us.i.posthog.com''"

definition NewPostHogHeartbeat ::
  "(string \<Rightarrow> posthog_config \<Rightarrow> go_error + 's posthog_client) \<Rightarrow> string \<Rightarrow> go_error + 's posthog_heartbeat" where
  "NewPostHogHeartbeat NewWithConfig deploymentID =
     (case NewWithConfig postHogAPIKey
             \<lparr>phc_Endpoint = postHogHost, phc_Interval = 30 * 1000000000, phc_BatchSize = 100\<rparr> of
        Inl err \<Rightarrow> Inl err
      | Inr cl \<Rightarrow> Inr \<lparr>phh_client = cl, phh_deploymentID = deploymentID\<rparr>)"

text \<open>An enqueue error is logged and swallowed; the state is that of the client and the log.\<close>

definition PostHogHeartbeat_SendHeartbeat ::
  "'s posthog_heartbeat \<Rightarrow> int \<Rightarrow> string \<Rightarrow> string gomap \<Rightarrow> 's \<times> tel_event list \<Rightarrow> 's \<times> tel_event list" where
  "PostHogHeartbeat_SendHeartbeat p now event properties st =
     (case ph_Enqueue (phh_client p)
             \<lparr>cap_DistinctId = phh_deploymentID p, cap_Event = event, cap_Properties = properties, cap_Timestamp = now\<rparr>
             (fst st) of
        (None, s') \<Rightarrow> (s', snd st)
      | (Some err, s') \<Rightarrow> (s', snd st @ [LogError err ''Failed to enqueue heartbeat event'']))"

definition PostHogHeartbeat_Close :: "'s posthog_heartbeat \<Rightarrow> 's \<times> tel_event list \<Rightarrow> 's \<times> tel_event list" where
  "PostHogHeartbeat_Close p st = (snd (ph_Close (phh_client p) (fst st)), snd st)"

section \<open>The reporter\<close>

text \<open>Where the goroutine is: at the \<^verbatim>\<open>select\<close>, about to send, or returned.\<close>

datatype run_pc = Selecting | Sending | Stopped

text \<open>
  The \<^verbatim>\<open>sync.Once\<close>: not called, or inside the function at its first, second or third statement
  (stop the ticker, close the channel, close the sender), or done.
\<close>

datatype once_pc = OnceFresh | AtStop | AtClose | AtSender | OnceDone

record heartbeat_reporter =
  hb_version :: string
  hb_ticking :: bool
  hb_tick :: bool           \<comment> \<open>a tick waits in the channel of the ticker\<close>
  hb_done :: bool           \<comment> \<open>the channel \<^verbatim>\<open>done\<close> is closed\<close>
  hb_panic :: bool
  hb_once :: once_pc
  hb_run :: run_pc
  hb_waiting :: nat         \<comment> \<open>callers of \<^verbatim>\<open>Close\<close> that have not returned\<close>
  hb_returned :: nat
  hb_ticks :: nat           \<comment> \<open>ticks the clock has delivered\<close>
  hb_calls :: "sender_call list"

definition NewHeartbeatReporter :: "string \<Rightarrow> heartbeat_reporter" where
  "NewHeartbeatReporter version =
     \<lparr>hb_version = version, hb_ticking = True, hb_tick = False, hb_done = False, hb_panic = False,
      hb_once = OnceFresh, hb_run = Selecting, hb_waiting = 0, hb_returned = 0, hb_ticks = 0, hb_calls = []\<rparr>"

definition heartbeat :: "string \<Rightarrow> sender_call" where
  "heartbeat v = SendHeartbeat HeartbeatEvent [(PropertyOperatorVersion, v)]"

text \<open>The steps of the goroutine \<^verbatim>\<open>run\<close>; \<^verbatim>\<open>select\<close> takes any ready case.\<close>

inductive run_step :: "heartbeat_reporter \<Rightarrow> heartbeat_reporter \<Rightarrow> bool" where
  recv_done: "hb_run r = Selecting \<Longrightarrow> hb_done r \<Longrightarrow> run_step r (r\<lparr>hb_run := Stopped\<rparr>)"
| recv_tick: "hb_run r = Selecting \<Longrightarrow> hb_tick r \<Longrightarrow> run_step r (r\<lparr>hb_run := Sending, hb_tick := False\<rparr>)"
| send: "hb_run r = Sending \<Longrightarrow> run_step r (r\<lparr>hb_run := Selecting, hb_calls := hb_calls r @ [heartbeat (hb_version r)]\<rparr>)"

text \<open>The steps of the callers of \<^verbatim>\<open>Close\<close>.\<close>

inductive close_step :: "heartbeat_reporter \<Rightarrow> heartbeat_reporter \<Rightarrow> bool" where
  call_first: "hb_once r = OnceFresh \<Longrightarrow> close_step r (r\<lparr>hb_once := AtStop, hb_waiting := hb_waiting r + 1\<rparr>)"
| call_again: "hb_once r \<noteq> OnceFresh \<Longrightarrow> close_step r (r\<lparr>hb_waiting := hb_waiting r + 1\<rparr>)"
| stop_ticker: "hb_once r = AtStop \<Longrightarrow> close_step r (r\<lparr>hb_once := AtClose, hb_ticking := False, hb_tick := False\<rparr>)"
| close_done: "hb_once r = AtClose \<Longrightarrow>
    close_step r (r\<lparr>hb_once := AtSender, hb_done := True, hb_panic := hb_panic r \<or> hb_done r\<rparr>)"
| close_sender: "hb_once r = AtSender \<Longrightarrow> close_step r (r\<lparr>hb_once := OnceDone, hb_calls := hb_calls r @ [SenderClose]\<rparr>)"
| call_returns: "hb_once r = OnceDone \<Longrightarrow> hb_waiting r > 0 \<Longrightarrow>
    close_step r (r\<lparr>hb_waiting := hb_waiting r - 1, hb_returned := hb_returned r + 1\<rparr>)"

inductive hb_step :: "heartbeat_reporter \<Rightarrow> heartbeat_reporter \<Rightarrow> bool" where
  clock: "hb_ticking r \<Longrightarrow> hb_step r (r\<lparr>hb_tick := True, hb_ticks := hb_ticks r + 1\<rparr>)"
| goroutine: "run_step r r' \<Longrightarrow> hb_step r r'"
| caller: "close_step r r' \<Longrightarrow> hb_step r r'"

inductive hb_reachable :: "string \<Rightarrow> heartbeat_reporter \<Rightarrow> bool" for v where
  start: "hb_reachable v (NewHeartbeatReporter v)"
| step: "hb_reachable v r \<Longrightarrow> hb_step r r' \<Longrightarrow> hb_reachable v r'"

code_pred run_step .
code_pred close_step .
code_pred hb_step .

inductive_cases hb_stepE: "hb_step r r'"
inductive_cases run_stepE: "run_step r r'"
inductive_cases close_stepE: "close_step r r'"

section \<open>Closing\<close>

text \<open>The heartbeats that were sent after the sender was closed.\<close>

definition late_calls :: "sender_call list \<Rightarrow> sender_call list" where
  "late_calls cs = tl (dropWhile (\<lambda>c. c \<noteq> SenderClose) cs)"

definition is_send :: "sender_call \<Rightarrow> bool" where
  "is_send c \<longleftrightarrow> c \<noteq> SenderClose"

text \<open>
  The invariant.  The flags follow the statement that \<^verbatim>\<open>Close\<close> has reached; the sender has been closed
  exactly when the function of the \<^verbatim>\<open>Once\<close> is done; every other call is the heartbeat; each heartbeat
  sent, in flight or waiting has a tick of its own; and after the sender was closed at most the one
  heartbeat that was in flight is sent.
\<close>

definition in_flight :: "heartbeat_reporter \<Rightarrow> nat" where
  "in_flight r = (if hb_run r = Sending then 1 else 0)"

definition hb_inv :: "string \<Rightarrow> heartbeat_reporter \<Rightarrow> bool" where
  "hb_inv v r \<longleftrightarrow>
     hb_version r = v \<and> \<not> hb_panic r \<and>
     hb_ticking r = (hb_once r \<in> {OnceFresh, AtStop}) \<and>
     (hb_tick r \<longrightarrow> hb_ticking r) \<and>
     hb_done r = (hb_once r \<in> {AtSender, OnceDone}) \<and>
     (hb_run r = Stopped \<longrightarrow> hb_done r) \<and>
     filter (\<lambda>c. c \<noteq> heartbeat v) (hb_calls r) = (if hb_once r = OnceDone then [SenderClose] else []) \<and>
     length (filter is_send (hb_calls r)) + in_flight r + (if hb_tick r then 1 else 0) \<le> hb_ticks r \<and>
     length (late_calls (hb_calls r)) + in_flight r \<le> 1 \<and>
     (hb_once r = OnceFresh \<longrightarrow> hb_waiting r = 0) \<and> (hb_returned r > 0 \<longrightarrow> hb_once r = OnceDone)"

lemma late_calls_append:
  "late_calls (cs @ [c]) =
     (if SenderClose \<in> set cs then late_calls cs @ [c] else [])"
  by (induction cs) (auto simp: late_calls_def)

lemma SenderClose_called:
  "hb_inv v r \<Longrightarrow> SenderClose \<in> set (hb_calls r) \<longleftrightarrow> hb_once r = OnceDone"
proof -
  assume "hb_inv v r"
  then have "filter (\<lambda>c. c \<noteq> heartbeat v) (hb_calls r) = (if hb_once r = OnceDone then [SenderClose] else [])"
    by (simp add: hb_inv_def)
  then have "SenderClose \<in> set (filter (\<lambda>c. c \<noteq> heartbeat v) (hb_calls r)) \<longleftrightarrow> hb_once r = OnceDone" by simp
  then show ?thesis by (simp add: heartbeat_def)
qed

lemma late_calls_none: "SenderClose \<notin> set cs \<Longrightarrow> late_calls cs = []"
  by (induction cs) (auto simp: late_calls_def)

lemma heartbeat_simps [simp]: "heartbeat v \<noteq> SenderClose" "SenderClose \<noteq> heartbeat v" "is_send (heartbeat v)" "\<not> is_send SenderClose"
  by (simp_all add: heartbeat_def is_send_def)

lemma hb_inv_run:
  assumes "run_step r r'" and inv: "hb_inv v r"
  shows "hb_inv v r'"
  using assms(1)
proof cases
  case send
  with inv SenderClose_called [OF inv] show ?thesis by (auto simp: hb_inv_def in_flight_def late_calls_append)
qed (use inv SenderClose_called [OF inv] in \<open>auto simp: hb_inv_def in_flight_def late_calls_none\<close>)

lemma hb_inv_close:
  assumes "close_step r r'" and inv: "hb_inv v r"
  shows "hb_inv v r'"
  using assms(1)
proof cases
  case close_sender
  with inv SenderClose_called [OF inv] show ?thesis by (auto simp: hb_inv_def in_flight_def late_calls_append)
qed (use inv in \<open>auto simp: hb_inv_def in_flight_def\<close>)

lemma hb_inv_step: "hb_step r r' \<Longrightarrow> hb_inv v r \<Longrightarrow> hb_inv v r'"
  by (cases rule: hb_step.cases, assumption) (simp_all add: hb_inv_run hb_inv_close, auto simp: hb_inv_def in_flight_def)

lemma hb_inv_reachable: "hb_reachable v r \<Longrightarrow> hb_inv v r"
proof (induction rule: hb_reachable.induct)
  case start
  then show ?case by (simp add: hb_inv_def NewHeartbeatReporter_def in_flight_def late_calls_def)
next
  case (step r r')
  then show ?case by (blast intro: hb_inv_step)
qed

text \<open>
  C35: However the goroutine, the clock and any number of callers of \<^verbatim>\<open>Close\<close> interleave: the channel is
  closed at most once, so there is no panic; the sender is closed at most once, and it has been when a
  call of \<^verbatim>\<open>Close\<close> returns; everything else the sender is given is the heartbeat with the version of
  the operator, at most once per tick; and at most one heartbeat reaches a sender that is closed.
\<close>

theorem heartbeat_close_safe:
  assumes "hb_reachable v r"
  shows "\<not> hb_panic r \<and>
         filter (\<lambda>c. c \<noteq> heartbeat v) (hb_calls r) = (if hb_once r = OnceDone then [SenderClose] else []) \<and>
         (hb_returned r > 0 \<longrightarrow> SenderClose \<in> set (hb_calls r)) \<and>
         length (filter is_send (hb_calls r)) \<le> hb_ticks r \<and>
         length (late_calls (hb_calls r)) \<le> 1"
  using hb_inv_reachable [OF assms] SenderClose_called [OF hb_inv_reachable [OF assms]]
  by (simp add: hb_inv_def)

text \<open>A run in which the heartbeat is in flight while the reporter is closed.\<close>

definition late_run :: "heartbeat_reporter" where
  "late_run = (NewHeartbeatReporter ''dev'')\<lparr>hb_ticking := False, hb_done := True, hb_once := OnceDone, hb_waiting := 1,
     hb_ticks := 1, hb_calls := [SenderClose, heartbeat ''dev'']\<rparr>"

lemma late_run_reachable: "hb_reachable ''dev'' late_run"
proof -
  let ?r0 = "NewHeartbeatReporter ''dev''"
  let ?r1 = "?r0\<lparr>hb_tick := True, hb_ticks := 1\<rparr>"
  let ?r2 = "?r1\<lparr>hb_run := Sending, hb_tick := False\<rparr>"
  let ?r3 = "?r2\<lparr>hb_once := AtStop, hb_waiting := 1\<rparr>"
  let ?r4 = "?r3\<lparr>hb_once := AtClose, hb_ticking := False\<rparr>"
  let ?r5 = "?r4\<lparr>hb_once := AtSender, hb_done := True\<rparr>"
  let ?r6 = "?r5\<lparr>hb_once := OnceDone, hb_calls := [SenderClose]\<rparr>"
  have "hb_step ?r0 ?r1" using clock [of ?r0] by (simp add: NewHeartbeatReporter_def)
  moreover have "hb_step ?r1 ?r2" using goroutine [OF recv_tick, of ?r1] by (simp add: NewHeartbeatReporter_def)
  moreover have "hb_step ?r2 ?r3" using caller [OF call_first, of ?r2] by (simp add: NewHeartbeatReporter_def)
  moreover have "hb_step ?r3 ?r4" using caller [OF stop_ticker, of ?r3] by (simp add: NewHeartbeatReporter_def)
  moreover have "hb_step ?r4 ?r5" using caller [OF close_done, of ?r4] by (simp add: NewHeartbeatReporter_def)
  moreover have "hb_step ?r5 ?r6" using caller [OF close_sender, of ?r5] by (simp add: NewHeartbeatReporter_def)
  moreover have "hb_step ?r6 late_run" using goroutine [OF send, of ?r6] by (simp add: NewHeartbeatReporter_def late_run_def)
  ultimately show ?thesis by (meson hb_reachable.intros)
qed

theorem heartbeat_close_safe_witness:
  "length (late_calls (hb_calls late_run)) \<le> 1 \<and> \<not> hb_panic late_run"
  using heartbeat_close_safe [OF late_run_reachable] by simp


text \<open>The number of steps the goroutine has left once the channel is closed.\<close>

definition run_rank :: "heartbeat_reporter \<Rightarrow> nat" where
  "run_rank r = (case hb_run r of Stopped \<Rightarrow> 0 | Selecting \<Rightarrow> 1 | Sending \<Rightarrow> 2)"

text \<open>
  C36: The goroutine ends.  Once the channel is closed it stays closed, the goroutine is either stopped or
  able to step, each of its steps decreases its rank, which is at most two, and no step of another
  party increases it.
\<close>

theorem heartbeat_run_stops:
  assumes "hb_reachable v r" and "hb_done r"
  shows "run_rank r \<le> 2 \<and> (hb_run r = Stopped \<or> (\<exists>r'. run_step r r')) \<and>
         (\<forall>r'. run_step r r' \<longrightarrow> run_rank r' < run_rank r) \<and>
         (\<forall>r'. hb_step r r' \<longrightarrow> hb_done r' \<and> run_rank r' \<le> run_rank r)"
proof -
  have "\<not> hb_tick r" using hb_inv_reachable [OF assms(1)] assms(2) by (auto simp: hb_inv_def)
  then have dec: "run_rank r' < run_rank r \<and> hb_done r'" if "run_step r r'" for r'
    using that assms(2) by (auto elim!: run_stepE simp: run_rank_def)
  have keep: "run_rank r' = run_rank r \<and> hb_done r'" if "close_step r r'" for r'
    using that assms(2) by (auto elim!: close_stepE simp: run_rank_def)
  have clock: "run_rank (r\<lparr>hb_tick := b, hb_ticks := n\<rparr>) = run_rank r" for b n by (simp add: run_rank_def)
  have "hb_done r' \<and> run_rank r' \<le> run_rank r" if "hb_step r r'" for r'
    using that by cases (use assms(2) dec keep clock in \<open>auto simp: less_imp_le\<close>)
  moreover have "hb_run r = Stopped \<or> (\<exists>r'. run_step r r')"
    using assms(2) by (cases "hb_run r") (auto intro: run_step.intros)
  moreover have "run_rank r \<le> 2" by (simp add: run_rank_def split: run_pc.split)
  ultimately show ?thesis using dec by blast
qed

theorem heartbeat_run_stops_witness: "\<exists>r'. run_step late_run r'"
  using heartbeat_run_stops [OF late_run_reachable] by (simp add: late_run_def NewHeartbeatReporter_def)

end
