(* ===== verification/Program_Entry.thy ===== *)
theory Program_Entry
  imports Heartbeat
begin

text \<open>
  The program entry (\<^verbatim>\<open>cmd/main.go\<close>): the flags, the options built from them, the sequence of start-up
  with its exits, and the list of watched namespaces.  The manager, the flag parser and the PostHog
  package are outside: their results are the argument \<open>startup\<close> of \<open>main_program\<close>.
\<close>

section \<open>Namespaces\<close>

definition add_namespace :: "string list \<Rightarrow> string \<Rightarrow> string list" where
  "add_namespace namespaces seg =
     (let ns = TrimSpace seg in
      if ns = [] then namespaces else if ns \<in> set namespaces then namespaces else namespaces @ [ns])"

text \<open>The nil slice and the empty slice are both the empty list.\<close>

definition parseNamespaces :: "string \<Rightarrow> string list" where
  "parseNamespaces csv =
     (if TrimSpace csv = [] then [] else foldl add_namespace [] (Split csv CHR '',''))"

section \<open>Flags and options\<close>

record flags =
  fl_metricsAddr :: string
  fl_probeAddr :: string
  fl_enableLeaderElection :: bool
  fl_secureMetrics :: bool
  fl_webhookCertPath :: string
  fl_webhookCertName :: string
  fl_webhookCertKey :: string
  fl_metricsCertPath :: string
  fl_metricsCertName :: string
  fl_metricsCertKey :: string
  fl_enableHTTP2 :: bool
  fl_heartbeatDisabled :: bool
  fl_watchNamespaces :: string

definition default_flags :: flags where
  "default_flags =
     \<lparr>fl_metricsAddr = ''0'', fl_probeAddr = '':8081'', fl_enableLeaderElection = False, fl_secureMetrics = True,
      fl_webhookCertPath = [], fl_webhookCertName = ''tls.crt'', fl_webhookCertKey = ''tls.key'',
      fl_metricsCertPath = [], fl_metricsCertName = ''tls.crt'', fl_metricsCertKey = ''tls.key'',
      fl_enableHTTP2 = False, fl_heartbeatDisabled = False, fl_watchNamespaces = []\<rparr>"

text \<open>The one TLS option: a function that leaves \<^verbatim>\<open>http/1.1\<close> as the only protocol.\<close>

record tls_config =
  tls_NextProtos :: "string list"

definition disableHTTP2 :: "tls_config \<Rightarrow> tls_config" where
  "disableHTTP2 c = c\<lparr>tls_NextProtos := [''http/1.1'']\<rparr>"

definition tlsOpts :: "flags \<Rightarrow> (tls_config \<Rightarrow> tls_config) list" where
  "tlsOpts fl = (if \<not> fl_enableHTTP2 fl then [disableHTTP2] else [])"

record webhook_options =
  wh_TLSOpts :: "(tls_config \<Rightarrow> tls_config) list"
  wh_CertDir :: string
  wh_CertName :: string
  wh_KeyName :: string

definition webhookServerOptions :: "flags \<Rightarrow> webhook_options" where
  "webhookServerOptions fl =
     (let o0 = \<lparr>wh_TLSOpts = tlsOpts fl, wh_CertDir = [], wh_CertName = [], wh_KeyName = []\<rparr> in
      if fl_webhookCertPath fl \<noteq> []
      then o0\<lparr>wh_CertDir := fl_webhookCertPath fl, wh_CertName := fl_webhookCertName fl, wh_KeyName := fl_webhookCertKey fl\<rparr>
      else o0)"

record metrics_options =
  mo_BindAddress :: string
  mo_SecureServing :: bool
  mo_TLSOpts :: "(tls_config \<Rightarrow> tls_config) list"
  mo_FilterProvider :: "string option"
  mo_CertDir :: string
  mo_CertName :: string
  mo_KeyName :: string

definition metricsServerOptions :: "flags \<Rightarrow> metrics_options" where
  "metricsServerOptions fl =
     (let o0 = \<lparr>mo_BindAddress = fl_metricsAddr fl, mo_SecureServing = fl_secureMetrics fl, mo_TLSOpts = tlsOpts fl,
                mo_FilterProvider = None, mo_CertDir = [], mo_CertName = [], mo_KeyName = []\<rparr>;
          o1 = (if fl_secureMetrics fl then o0\<lparr>mo_FilterProvider := Some ''WithAuthenticationAndAuthorization''\<rparr> else o0)
      in if fl_metricsCertPath fl \<noteq> []
         then o1\<lparr>mo_CertDir := fl_metricsCertPath fl, mo_CertName := fl_metricsCertName fl, mo_KeyName := fl_metricsCertKey fl\<rparr>
         else o1)"

text \<open>The namespaces of the cache: none of them means the whole cluster.\<close>

definition cacheOptions :: "flags \<Rightarrow> unit gomap" where
  "cacheOptions fl = foldl (\<lambda>m ns. map_put ns () m) [] (parseNamespaces (fl_watchNamespaces fl))"

record manager_options =
  mgr_Metrics :: metrics_options
  mgr_WebhookServer :: webhook_options
  mgr_HealthProbeBindAddress :: string
  mgr_LeaderElection :: bool
  mgr_LeaderElectionID :: string
  mgr_Cache :: "unit gomap"

definition managerOptions :: "flags \<Rightarrow> manager_options" where
  "managerOptions fl =
     \<lparr>mgr_Metrics = metricsServerOptions fl, mgr_WebhookServer = webhookServerOptions fl,
      mgr_HealthProbeBindAddress = fl_probeAddr fl, mgr_LeaderElection = fl_enableLeaderElection fl,
      mgr_LeaderElectionID = ''24daf6e5.hermeum.app'', mgr_Cache = cacheOptions fl\<rparr>"

section \<open>Start-up\<close>

datatype sender_kind = NoopSender | PostHogSender

datatype main_event =
    SetupLog string
  | SetupError go_error string
  | NewManager manager_options
  | NewReporter sender_kind
  | SetupController
  | AddCheck string
  | StartManager
  | CloseReporter

text \<open>The results of the calls, in their order; \<open>None\<close> is no error.\<close>

record startup =
  su_NewManager :: "go_error option"
  su_NewPostHog :: "go_error option"
  su_SetupWithManager :: "go_error option"
  su_AddHealthz :: "go_error option"
  su_AddReadyz :: "go_error option"
  su_Start :: "go_error option"

text \<open>\<^verbatim>\<open>if err != nil { setupLog.Error(err, msg); os.Exit(1) }\<close> before the rest.\<close>

definition or_exit :: "go_error option \<Rightarrow> string \<Rightarrow> main_event list \<times> int \<Rightarrow> main_event list \<times> int" where
  "or_exit e msg k = (case e of Some err \<Rightarrow> ([SetupError err msg], 1) | None \<Rightarrow> k)"

definition emit :: "main_event list \<Rightarrow> main_event list \<times> int \<Rightarrow> main_event list \<times> int" where
  "emit evs k = (evs @ fst k, snd k)"

definition choose_sender :: "flags \<Rightarrow> startup \<Rightarrow> sender_kind \<times> main_event list" where
  "choose_sender fl su =
     (if \<not> fl_heartbeatDisabled fl then
        (case su_NewPostHog su of
           Some err \<Rightarrow> (NoopSender, [SetupError err ''Failed to create PostHog heartbeat, heartbeat disabled''])
         | None \<Rightarrow> (PostHogSender, []))
      else (NoopSender, [SetupLog ''Anonymous deployment heartbeat disabled'']))"

definition setup_notices :: "flags \<Rightarrow> main_event list" where
  "setup_notices fl =
     [SetupLog ''Starting hermes-agent-operator''] @
     (if fl_webhookCertPath fl \<noteq> [] then [SetupLog ''Initializing webhook certificate watcher using provided certificates''] else []) @
     (if fl_metricsCertPath fl \<noteq> [] then [SetupLog ''Initializing metrics certificate watcher using provided certificates''] else []) @
     (if parseNamespaces (fl_watchNamespaces fl) \<noteq> [] then [SetupLog ''Restricting manager to namespaces''] else [])"

text \<open>The events of a run and the exit code.\<close>

definition main_program :: "flags \<Rightarrow> startup \<Rightarrow> main_event list \<times> int" where
  "main_program fl su =
     emit (setup_notices fl @ [NewManager (managerOptions fl)])
       (or_exit (su_NewManager su) ''Failed to start manager''
         (case choose_sender fl su of
            (sender, notices) \<Rightarrow>
              emit (notices @ [NewReporter sender, SetupController])
                (or_exit (su_SetupWithManager su) ''Failed to create controller''
                  (emit [AddCheck ''healthz'']
                    (or_exit (su_AddHealthz su) ''Failed to set up health check''
                      (emit [AddCheck ''readyz'']
                        (or_exit (su_AddReadyz su) ''Failed to set up ready check''
                          (emit [SetupLog ''Starting manager'', StartManager]
                            (or_exit (su_Start su) ''Failed to run manager''
                              ([CloseReporter], 0))))))))))"

section \<open>The watched namespaces\<close>

text \<open>The first occurrences of the elements of a list.\<close>

definition firsts :: "'a list \<Rightarrow> 'a list" where
  "firsts xs = rev (remdups (rev xs))"

lemma firsts_simps [simp]:
  "firsts [] = []" "firsts (xs @ [x]) = (if x \<in> set xs then firsts xs else firsts xs @ [x])"
  "set (firsts xs) = set xs" "distinct (firsts xs)"
  by (auto simp: firsts_def)

lemma firsts_distinct: "distinct xs \<Longrightarrow> firsts xs = xs"
  by (simp add: firsts_def distinct_remdups_id)

lemma foldl_add_namespace:
  "foldl add_namespace [] segs = firsts (filter (\<lambda>ns. ns \<noteq> []) (map TrimSpace segs))"
  by (induction segs rule: rev_induct) (auto simp: add_namespace_def Let_def)

lemma TrimSpace_empty_iff: "TrimSpace xs = [] \<longleftrightarrow> list_all is_space xs"
proof -
  have "list_all is_space (dropWhile is_space xs) \<longleftrightarrow> list_all is_space xs" by (induction xs) auto
  then show ?thesis by (simp add: TrimSpace_def dropWhile_eq_Nil_conv list_all_iff)
qed

lemma Split_members: "seg \<in> set (Split s sep) \<Longrightarrow> set seg \<subseteq> set s \<and> sep \<notin> set seg"
  by (induction s arbitrary: seg) (fastforce split: if_splits list.splits)+

lemma TrimSpace_set: "set (TrimSpace xs) \<subseteq> set xs"
  by (auto simp: TrimSpace_def dest!: set_dropWhileD)

text \<open>The guard on blank input changes nothing: the segments of a blank text are blank.\<close>

lemma parseNamespaces_segments:
  "parseNamespaces csv = firsts (filter (\<lambda>ns. ns \<noteq> []) (map TrimSpace (Split csv CHR '','')))"
proof (cases "TrimSpace csv = []")
  case True
  then have "list_all is_space csv" by (simp add: TrimSpace_empty_iff)
  then have "TrimSpace seg = []" if "seg \<in> set (Split csv CHR '','')" for seg
    using Split_members [OF that] by (auto simp: TrimSpace_empty_iff list_all_iff)
  then have "filter (\<lambda>ns. ns \<noteq> []) (map TrimSpace (Split csv CHR '','')) = []" by (auto simp: filter_empty_conv)
  with True show ?thesis by (simp add: parseNamespaces_def)
qed (simp add: parseNamespaces_def foldl_add_namespace)

lemma dropWhile_idem: "dropWhile P (dropWhile P xs) = dropWhile P xs"
  by (induction xs) auto

lemma trim_front_kept:
  "dropWhile P (rev (dropWhile P (rev (dropWhile P xs)))) = rev (dropWhile P (rev (dropWhile P xs)))"
proof (cases "dropWhile P xs")
  case (Cons y ys)
  then have y: "\<not> P y" by (metis hd_dropWhile list.distinct(1) list.sel(1))
  then have "dropWhile P (rev ys @ [y]) = dropWhile P (rev ys) @ [y]"
    by (cases "list_all P (rev ys)") (auto simp: dropWhile_append list_all_iff dropWhile_eq_Nil_conv)
  with Cons y show ?thesis by simp
next
  case Nil
  then show ?thesis by (simp only: rev.simps dropWhile.simps)
qed

lemma TrimSpace_idem: "TrimSpace (TrimSpace xs) = TrimSpace xs"
  by (simp only: TrimSpace_def trim_front_kept rev_rev_ident dropWhile_idem)

text \<open>
  C38: The namespaces are the non-blank segments of the list, trimmed, each once and in the order of its
  first occurrence; each is free of commas and of surrounding space, and a blank list gives none.
\<close>

theorem parseNamespaces_spec:
  "parseNamespaces csv = firsts (filter (\<lambda>ns. ns \<noteq> []) (map TrimSpace (Split csv CHR '',''))) \<and>
   distinct (parseNamespaces csv) \<and>
   list_all (\<lambda>ns. ns \<noteq> [] \<and> TrimSpace ns = ns \<and> CHR '','' \<notin> set ns) (parseNamespaces csv)"
proof -
  have "CHR '','' \<notin> set (TrimSpace seg)" if "seg \<in> set (Split csv CHR '','')" for seg
    using Split_members [OF that] TrimSpace_set [of seg] by blast
  then show ?thesis
    by (auto simp: parseNamespaces_segments list_all_iff TrimSpace_idem)
qed

lemma Split_no_sep: "sep \<notin> set x \<Longrightarrow> Split x sep = [x]"
  by (induction x) auto

lemma Split_append_sep: "sep \<notin> set x \<Longrightarrow> Split (x @ sep # rest) sep = x # Split rest sep"
  by (induction x) auto

lemma Split_Join: "xs \<noteq> [] \<Longrightarrow> list_all (\<lambda>x. sep \<notin> set x) xs \<Longrightarrow> Split (Join xs [sep]) sep = xs"
  by (induction xs rule: induct_list012) (simp_all add: Split_no_sep Split_append_sep)



section \<open>The outcome of the start-up\<close>

text \<open>The first call that fails.\<close>

definition startup_error :: "startup \<Rightarrow> go_error option" where
  "startup_error su =
     (case filter (\<lambda>e. e \<noteq> None)
             [su_NewManager su, su_SetupWithManager su, su_AddHealthz su, su_AddReadyz su, su_Start su] of
        [] \<Rightarrow> None | e # es \<Rightarrow> e)"

text \<open>The events that make the manager ready, in their order.\<close>

fun is_milestone :: "main_event \<Rightarrow> bool" where
  "is_milestone SetupController = True"
| "is_milestone (AddCheck name) = True"
| "is_milestone StartManager = True"
| "is_milestone _ = False"

definition milestones :: "main_event list" where
  "milestones = [SetupController, AddCheck ''healthz'', AddCheck ''readyz'', StartManager]"

lemma notices_plain:
  "filter is_milestone (setup_notices fl) = []" "CloseReporter \<notin> set (setup_notices fl)"
  "filter is_milestone (snd (choose_sender fl su)) = []" "CloseReporter \<notin> set (snd (choose_sender fl su))"
  by (simp_all add: setup_notices_def choose_sender_def split: option.split)

lemma main_program_cases:
  "main_program fl su =
     (let pre = setup_notices fl @ [NewManager (managerOptions fl)];
          mid = pre @ snd (choose_sender fl su) @ [NewReporter (fst (choose_sender fl su)), SetupController];
          hz = mid @ [AddCheck ''healthz'']; rz = hz @ [AddCheck ''readyz''];
          run = rz @ [SetupLog ''Starting manager'', StartManager]
      in case su_NewManager su of Some e \<Rightarrow> (pre @ [SetupError e ''Failed to start manager''], 1)
       | None \<Rightarrow> case su_SetupWithManager su of Some e \<Rightarrow> (mid @ [SetupError e ''Failed to create controller''], 1)
       | None \<Rightarrow> case su_AddHealthz su of Some e \<Rightarrow> (hz @ [SetupError e ''Failed to set up health check''], 1)
       | None \<Rightarrow> case su_AddReadyz su of Some e \<Rightarrow> (rz @ [SetupError e ''Failed to set up ready check''], 1)
       | None \<Rightarrow> case su_Start su of Some e \<Rightarrow> (run @ [SetupError e ''Failed to run manager''], 1)
       | None \<Rightarrow> (run @ [CloseReporter], 0))"
  by (simp add: main_program_def emit_def or_exit_def Let_def case_prod_unfold split: option.split)

text \<open>
  C40: The program exits with 0 exactly when no call of the start-up failed, a failing PostHog client not
  counting; the exit code is 1 otherwise, with the first error logged last.  The reporter is closed
  exactly when the manager ended without an error, after everything else.  The controller, the two
  checks and the start of the manager come in this order, and a failure cuts the sequence short.
\<close>

theorem main_program_outcome:
  "case main_program fl su of
     (evs, code) \<Rightarrow>
       (case startup_error su of
          None \<Rightarrow> code = 0 \<and> last evs = CloseReporter \<and> filter is_milestone evs = milestones
        | Some err \<Rightarrow> code = 1 \<and> CloseReporter \<notin> set evs \<and> (\<exists>msg. last evs = SetupError err msg) \<and>
            (\<exists>n. filter is_milestone evs = take n milestones))"
proof -
  have take: "take 0 milestones = []" "take 1 milestones = [SetupController]"
    "take 2 milestones = [SetupController, AddCheck ''healthz'']"
    "take 3 milestones = [SetupController, AddCheck ''healthz'', AddCheck ''readyz'']" "take 4 milestones = milestones"
    by (simp_all add: milestones_def)
  show ?thesis
    unfolding main_program_cases Let_def startup_error_def
    by (simp add: notices_plain milestones_def split: option.split)
       (metis take take_Nil milestones_def)
qed

text \<open>
  What the flags promise about exposure: unless HTTP/2 is enabled, every TLS option list given to the
  webhook and the metrics server leaves \<^verbatim>\<open>http/1.1\<close> as the only protocol; secure metrics are
  served behind authentication and authorisation; and the cache is restricted to exactly the
  namespaces of the flag, the whole cluster when the flag is blank.
\<close>

lemma manager_options_spec:
  "(if fl_enableHTTP2 fl then mo_TLSOpts (metricsServerOptions fl) = [] \<and> wh_TLSOpts (webhookServerOptions fl) = []
    else tls_NextProtos (fold (\<lambda>f. f) (mo_TLSOpts (metricsServerOptions fl)) c) = [''http/1.1''] \<and>
         tls_NextProtos (fold (\<lambda>f. f) (wh_TLSOpts (webhookServerOptions fl)) c) = [''http/1.1'']) \<and>
   (fl_secureMetrics fl = (mo_FilterProvider (metricsServerOptions fl) \<noteq> None)) \<and>
   mo_SecureServing (metricsServerOptions fl) = fl_secureMetrics fl \<and>
   dom (map_of (mgr_Cache (managerOptions fl))) = set (parseNamespaces (fl_watchNamespaces fl))"
proof -
  have "dom (map_of (foldl (\<lambda>m ns. map_put ns () m) acc nss)) = set nss \<union> dom (map_of acc)" for nss and acc :: "unit gomap"
    by (induction nss arbitrary: acc) (auto simp: update_conv')
  then show ?thesis
    by (simp add: metricsServerOptions_def webhookServerOptions_def tlsOpts_def disableHTTP2_def managerOptions_def
        cacheOptions_def Let_def)
qed

end
