(* ===== verification/Config_Facts.thy ===== *)
theory Config_Facts
  imports Memory_Client
begin

text \<open>
  What the configuration promises: workspace files that find their way back from their keys, words that
  the shell reads back, defaults that never override the user, and keys that exist where the pod
  projects them.
\<close>

section \<open>Workspace files\<close>

lemma ReplaceAll_char: "ReplaceAll s [c] new = concat (map (\<lambda>x. if x = c then new else [x]) s)"
  by (induction s) (auto simp: HasPrefix_def)

text \<open>
  The init script reads the path back from the key with \<^verbatim>\<open>sed 's/--/\//g'\<close>, which replaces the
  occurrences from the left.
\<close>

definition decode_path :: "string \<Rightarrow> string" where
  "decode_path key = ReplaceAll key HermesWorkspacePathSeparator ''/''"

definition encode_path :: "string \<Rightarrow> string" where
  "encode_path path = ReplaceAll path ''/'' HermesWorkspacePathSeparator"

text \<open>A path in which no dash is followed by a dash or a slash.\<close>

fun plain_path :: "string \<Rightarrow> bool" where
  "plain_path (c # d # cs) \<longleftrightarrow> \<not> (c = CHR ''-'' \<and> (d = CHR ''-'' \<or> d = CHR ''/'')) \<and> plain_path (d # cs)"
| "plain_path _ \<longleftrightarrow> True"

lemma encode_simps [simp]:
  "encode_path [] = []" "encode_path (c # cs) = (if c = CHR ''/'' then ''--'' else [c]) @ encode_path cs"
  by (simp_all add: encode_path_def HermesWorkspacePathSeparator_def ReplaceAll_char)

lemma decode_simps [simp]:
  "decode_path [] = []" "decode_path (CHR ''-'' # CHR ''-'' # cs) = CHR ''/'' # decode_path cs"
  "c \<noteq> CHR ''-'' \<Longrightarrow> decode_path (c # cs) = c # decode_path cs"
  "decode_path [c] = [c]"
  "d \<noteq> CHR ''-'' \<Longrightarrow> decode_path (c # d # cs) = c # decode_path (d # cs)"
  by (simp_all add: decode_path_def HermesWorkspacePathSeparator_def HasPrefix_def)


section \<open>Shell words\<close>

text \<open>
  How a POSIX shell splits a command into words, as far as single quotes, the backslash and blanks
  go; a character with another meaning outside quotes, or an open quote, gives \<^const>\<open>None\<close>.  The flag
  says whether a single quote is open, and the second argument is the word read so far.
\<close>

definition shell_safe :: "char \<Rightarrow> bool" where
  "shell_safe c \<longleftrightarrow> c \<in> set ''abcdefghijklmnopqrstuvwxyzABCDEFGHIJKLMNOPQRSTUVWXYZ0123456789_-./:,@%+=''"

fun shell_split :: "bool \<Rightarrow> string option \<Rightarrow> string \<Rightarrow> string list option" where
  "shell_split q cur [] = (if q then None else Some (case cur of None \<Rightarrow> [] | Some w \<Rightarrow> [w]))"
| "shell_split q cur (c # cs) =
     (let w = (case cur of None \<Rightarrow> [] | Some w \<Rightarrow> w) in
      if q then (if c = CHR 0x27 then shell_split False (Some w) cs else shell_split True (Some (w @ [c])) cs)
      else if c = CHR 0x27 then shell_split True (Some w) cs
      else if c = CHR '' '' then
        (case cur of None \<Rightarrow> shell_split False None cs | Some w \<Rightarrow> map_option (Cons w) (shell_split False None cs))
      else if c = CHR 0x5C then
        (case cs of [] \<Rightarrow> None | d # ds \<Rightarrow> shell_split False (Some (w @ [d])) ds)
      else if shell_safe c then shell_split False (Some (w @ [c])) cs
      else None)"

lemma shell_split_quoted:
  "shell_split True (Some w) (concat (map (\<lambda>x. if x = CHR 0x27 then sq @ bs @ sq @ sq else [x]) v) @ sq @ rest) =
     shell_split False (Some (w @ v)) rest"
  by (induction v arbitrary: w) (simp_all add: sq_def bs_def)

lemma shell_split_word: "shell_split False None (shell_word v @ rest) = shell_split False (Some v) rest"
proof -
  have "ReplaceAll v sq new = concat (map (\<lambda>x. if x = CHR 0x27 then new else [x]) v)" for new
    by (simp add: sq_def ReplaceAll_char)
  then show ?thesis
    using shell_split_quoted [of "[]" v rest] by (simp add: shell_word_def) (simp add: sq_def)
qed

text \<open>
  C31: The words that the scripts pass to the shell are read back as they are: splitting the text of
  \<^verbatim>\<open>shellWords\<close> the way a shell does gives the values, whatever characters they contain.
\<close>

theorem shellWords_roundtrip: "shell_split False None (shellWords vs) = Some vs"
proof (induction vs rule: induct_list012)
  case (2 v)
  show ?case using shell_split_word [of v "[]"] by (simp add: shellWords_def)
next
  case (3 v w vs)
  have "shellWords (v # w # vs) = shell_word v @ CHR '' '' # shellWords (w # vs)" by (simp add: shellWords_def)
  with 3 show ?case by (simp add: shell_split_word)
qed (simp add: shellWords_def)

section \<open>Defaults\<close>

lemma map_of_sort_members [simp]: "map_of (sort_members m) = map_of m"
proof
  fix k
  have "map_of (map (\<lambda>k. (k, the (map_of m k))) ks) k = (if k \<in> set ks then Some (the (map_of m k)) else None)" for ks
    by (induction ks) auto
  then show "map_of (sort_members m) k = map_of m k" by (auto simp: sort_members_def domIff)
qed

lemma map_of_set_default: "map_of (set_default k v m) = (map_of [(k, v)]) ++ map_of m"
  by (auto simp: set_default_def update_conv' map_add_def fun_eq_iff split: option.split)

lemma map_of_put_object [simp]: "map_of (put_object k sub m) = (map_of m)(k \<mapsto> JObj (sort_members sub))"
  by (simp add: put_object_def update_conv')

lemma sub_object_put [simp]: "map_of (sub_object (put_object k sub m) k') = (if k' = k then map_of sub else map_of (sub_object m k'))"
  by (simp add: sub_object_def)


section \<open>Keys of the projected files\<close>

lemma operator_env_keys:
  "map fst (operator_env ha) = map ktp_Key (buildOperatorDotEnvItems ha)"
  "set (map ktp_Key (buildProfileSidecarDotEnvItems ha)) \<subseteq> set (map fst (operator_env ha))"
  "distinct (map fst (operator_env ha))"
  by (auto simp: operator_env_def buildOperatorDotEnvItems_def buildProfileSidecarDotEnvItems_def same_item_def Let_def)

lemma foldl_put_member:
  assumes "distinct (map fst ps)" and "(n, v) \<in> set ps"
  shows "map_of (foldl (\<lambda>d (name, v). map_put name v d) data ps) n = Some v"
  using assms
proof (induction ps arbitrary: data rule: rev_induct)
  case (snoc p ps)
  show ?case
  proof (cases "p = (n, v)")
    case False
    with snoc.prems(2) have mem: "(n, v) \<in> set ps" by auto
    then have "n \<in> fst ` set ps" by force
    with snoc.prems(1) have "fst p \<noteq> n" by auto
    with mem snoc.IH [of data] snoc.prems(1) show ?thesis by (simp add: update_conv' case_prod_unfold)
  qed (simp add: update_conv')
qed simp

text \<open>
  C29: What the pod projects from the operator's ConfigMap exists there.  The data of the bootstrap ConfigMap
  carries the operator's value for every operator variable, over anything of the same name, and the
  items that the default profile and the other profiles project are among these variables; so the
  kubelet finds every key the pod refers to.
\<close>

theorem operator_items_present:
  assumes "buildHermesConfigMapData E ha refs = Inr data"
  shows "map_of (operator_env ha) \<subseteq>\<^sub>m map_of data \<and>
         list_all (\<lambda>it. map_of data (ktp_Key it) = map_of (operator_env ha) (ktp_Key it) \<and> map_of data (ktp_Key it) \<noteq> None)
           (buildOperatorDotEnvItems ha @ buildProfileSidecarDotEnvItems ha)"
proof -
  obtain base where data: "data = foldl (\<lambda>d (k, v). map_put k v d) base (operator_env ha)"
    using assms by (auto simp: buildHermesConfigMapData_def split: sum.splits)
  have "map_of data k = Some v" if "map_of (operator_env ha) k = Some v" for k v
    unfolding data by (rule foldl_put_member [OF operator_env_keys(3) map_of_SomeD [OF that]])
  then have le: "map_of (operator_env ha) \<subseteq>\<^sub>m map_of data" by (auto simp: map_le_def)
  have "set (map ktp_Key (buildOperatorDotEnvItems ha)) = set (map fst (operator_env ha))"
    by (simp only: operator_env_keys(1))
  then have "ktp_Key it \<in> dom (map_of (operator_env ha))"
    if "it \<in> set (buildOperatorDotEnvItems ha) \<union> set (buildProfileSidecarDotEnvItems ha)" for it
    using that operator_env_keys(2) [of ha] unfolding dom_map_of_conv_image_fst set_map by blast
  with le show ?thesis by (force simp: list_all_iff map_le_def)
qed

section \<open>The keys of the generated Secret\<close>

text \<open>A random source that returns bytes when it succeeds.\<close>

definition reads_bytes :: "'w env \<Rightarrow> bool" where
  "reads_bytes E \<longleftrightarrow> (\<forall>w raw. fst (pf_RandRead (plat E) 32 w) = Inr raw \<longrightarrow> raw \<noteq> [])"

lemma stable_key_spec:
  assumes "run_state (stable_key E existing key data) s = (Inr data', s')" and "key \<notin> dom (map_of data)"
    and "reads_bytes E"
  shows "\<exists>v. v \<noteq> [] \<and> data' = map_put key v data \<and> (existing_value existing key \<noteq> [] \<longrightarrow> v = existing_value existing key)"
proof -
  have empty: "map_str data key = []" using assms(2) by (auto simp: map_str_def domIff)
  have hex: "hex_bytes raw \<noteq> []" if "fst (pf_RandRead (plat E) 32 w) = Inr raw" for w raw
    using assms(3) that length_hex_bytes [of raw] unfolding reads_bytes_def by (metis length_0_conv mult_eq_0_iff zero_neq_numeral)
  show ?thesis
    using assms(1) empty hex [of "rs_world s"]
    by (cases existing)
       (auto simp: stable_key_def random_hex_def existing_value_def Let_def case_prod_unfold split: if_splits sum.splits)
qed

lemma stable_key_kept:
  "map_str (sec_Data old) key \<noteq> [] \<Longrightarrow>
     run_state (stable_key E (Some old) key data) s = (Inr (map_put key (map_str (sec_Data old) key) data), s)"
  by (simp add: stable_key_def Let_def)

text \<open>
  C22: The generated keys are stable.  When the random source returns bytes, the built Secret has exactly the
  keys that the pod projects from it, each with a non-empty value, the one the existing Secret had
  when it had one; and building it again from the result gives the same Secret and draws no random
  bytes, so the API key and the webhook secret survive reconciliations.
\<close>

theorem hermes_secret_stable:
  assumes "run_state (buildHermesSecret E ha existing) s = (Inr x, s1)"
    and "reads_bytes E"
  shows "map fst (sec_Data x) = map ktp_Key (buildOperatorDotEnvSecretItems ha) \<and>
         list_all (\<lambda>k. map_str (sec_Data x) k \<noteq> [] \<and>
             (if existing_value existing k \<noteq> [] then map_str (sec_Data x) k = existing_value existing k else True))
           (map fst (sec_Data x)) \<and>
         run_state (buildHermesSecret E ha (Some x)) s2 = (Inr x, s2)"
proof -
  let ?api = "HermesAPIServer_IsEnabled (Hermes_GetAPIServer (GetHermes ha))"
  let ?hook = "HermesWebhook_IsEnabled (Hermes_GetWebhook (GetHermes ha))"
  obtain d1 sa where d1: "run_state (if ?api then stable_key E existing ''API_SERVER_KEY'' [] else State_Monad.return (Inr [])) s = (Inr d1, sa)"
    and d2: "\<exists>sb. run_state (if ?hook then stable_key E existing ''WEBHOOK_SECRET'' d1 else State_Monad.return (Inr d1)) sa = (Inr (sec_Data x), sb)"
    and x: "x = \<lparr>sec_meta = objectMeta (GetHermesName ha) (ha_Namespace ha) (ResourceLabels ha), sec_Data = sec_Data x\<rparr>"
    using assms(1) unfolding buildHermesSecret_def by (auto simp del: if_split split: sum.splits prod.splits)
  obtain v1 where v1: "?api \<Longrightarrow> v1 \<noteq> [] \<and> (existing_value existing ''API_SERVER_KEY'' \<noteq> [] \<longrightarrow> v1 = existing_value existing ''API_SERVER_KEY'')"
    and d1': "d1 = (if ?api then [(''API_SERVER_KEY'', v1)] else [])"
    using d1 stable_key_spec [where E = E and existing = existing and key = "''API_SERVER_KEY''" and data = "[]" and s = s
        and data' = d1 and s' = sa, OF _ _ assms(2)]
    by (cases ?api) auto
  obtain v2 where v2: "?hook \<Longrightarrow> v2 \<noteq> [] \<and> (existing_value existing ''WEBHOOK_SECRET'' \<noteq> [] \<longrightarrow> v2 = existing_value existing ''WEBHOOK_SECRET'')"
    and d2': "sec_Data x = d1 @ (if ?hook then [(''WEBHOOK_SECRET'', v2)] else [])"
    using d2 stable_key_spec [where E = E and existing = existing and key = "''WEBHOOK_SECRET''" and data = d1 and s = sa
        and data' = "sec_Data x", OF _ _ assms(2)]
    by (cases ?hook) (auto simp: d1' split: if_splits)
  have keys: "map fst (sec_Data x) = map ktp_Key (buildOperatorDotEnvSecretItems ha)"
    by (simp add: d2' d1' buildOperatorDotEnvSecretItems_def same_item_def)
  have again: "run_state (buildHermesSecret E ha (Some x)) s2 =
      (Inr \<lparr>sec_meta = objectMeta (GetHermesName ha) (ha_Namespace ha) (ResourceLabels ha), sec_Data = sec_Data x\<rparr>, s2)"
    using v1 v2 by (cases ?api; cases ?hook) (simp_all add: buildHermesSecret_def stable_key_kept d2' d1' map_str_def)
  have "list_all (\<lambda>k. map_str (sec_Data x) k \<noteq> [] \<and>
      (if existing_value existing k \<noteq> [] then map_str (sec_Data x) k = existing_value existing k else True)) (map fst (sec_Data x))"
    using v1 v2 by (simp add: d2' d1' map_str_def)
  then show ?thesis by (intro conjI keys again [unfolded x [symmetric]])
qed

text \<open>An agent with the API server and the SearXNG sidecar.\<close>

definition demo_api_agent :: hermes_agent where
  "demo_api_agent = agent_with (empty_spec\<lparr>
     spec_Hermes := Some
       \<lparr>h_Image = None,
        h_Config = Some \<lparr>hc_Raw = None, hc_ConfigMapRef = None,
                         hc_APIServer = Some \<lparr>has_Enabled = True, has_Port = None, has_CORSOrigins = []\<rparr>, hc_Webhook = None\<rparr>,
        h_Storage = None, h_Workspace = None, h_Packages = None, h_Plugins = [], h_Skills = [], h_Crons = [], h_Bundles = [],
        h_Env = [], h_EnvFrom = [], h_Resources = None, h_Probes = None, h_Ports = [], h_InitChownData = False,
        h_InitScripts = [], h_Profiles = []\<rparr>,
     spec_SearXNG := Some \<lparr>sx_Enabled = True, sx_Image = None, sx_Resources = None, sx_ConfigFiles = [],
                           sx_Persistence = None, sx_Env = []\<rparr>\<rparr>)"

lemma demo_api_simps:
  "HermesAPIServer_IsEnabled (Hermes_GetAPIServer (GetHermes demo_api_agent))"
  "\<not> HermesWebhook_IsEnabled (Hermes_GetWebhook (GetHermes demo_api_agent))"
  "SearXNG_IsEnabled (GetSearXNG demo_api_agent)"
  by (simp_all add: demo_api_agent_def agent_with_def empty_spec_def GetHermes_def GetSearXNG_def Hermes_GetAPIServer_def
      Hermes_GetWebhook_def HermesConfig_GetAPIServer_def HermesConfig_GetWebhook_def HermesAPIServer_IsEnabled_def
      HermesWebhook_IsEnabled_def SearXNG_IsEnabled_def)

theorem hermes_secret_stable_witness:
  "\<exists>x. map fst (sec_Data x) = [''API_SERVER_KEY''] \<and>
     run_state (buildHermesSecret mem_env demo_api_agent (Some x)) (demo_state demo_api_agent) = (Inr x, demo_state demo_api_agent)"
proof -
  obtain x s1 where "run_state (buildHermesSecret mem_env demo_api_agent None) (demo_state demo_api_agent) = (Inr x, s1)"
    by (simp add: buildHermesSecret_def demo_api_simps stable_key_def random_hex_def mem_env_def mem_plat_def map_str_def Let_def)
  moreover have "reads_bytes mem_env" by (simp add: reads_bytes_def mem_env_def mem_plat_def)
  ultimately show ?thesis
    using hermes_secret_stable [of mem_env demo_api_agent None "demo_state demo_api_agent" x s1 "demo_state demo_api_agent"]
    by (intro exI [of _ x]) (simp add: buildOperatorDotEnvSecretItems_def demo_api_simps same_item_def)
qed

theorem operator_items_present_witness:
  "\<exists>data. map_of data ''SEARXNG_URL'' = Some SearXNGURL \<and> map_of data ''API_SERVER_ENABLED'' = Some ''true''"
proof -
  have "\<exists>data. buildHermesConfigMapData mem_env demo_api_agent \<lparr>rcd_Default = None, rcd_Profiles = []\<rparr> = Inr data"
    by (simp add: buildHermesConfigMapData_def default_document_def demo_api_agent_def agent_with_def empty_spec_def
        GetHermes_def GetCamofox_def Hermes_GetConfig_def HermesConfig_GetRaw_def raw_bytes_def apply_default_def
        Hermes_GetProfiles_def add_document_def sorted_profiles_def Hermes_GetSortedProfileNames_def sorted_keys_def
        map_keys_def Let_def)
  then obtain data where "buildHermesConfigMapData mem_env demo_api_agent \<lparr>rcd_Default = None, rcd_Profiles = []\<rparr> = Inr data" ..
  from operator_items_present [OF this]
  have "map_of (operator_env demo_api_agent) \<subseteq>\<^sub>m map_of data" by simp
  then have "map_of data k = map_of (operator_env demo_api_agent) k" if "k \<in> dom (map_of (operator_env demo_api_agent))" for k
    using that by (auto simp: map_le_def)
  from this [of "''SEARXNG_URL''"] this [of "''API_SERVER_ENABLED''"] show ?thesis
    by (intro exI [of _ data]) (simp add: operator_env_def demo_api_simps Let_def)
qed

end
