(* ===== verification/Egress_Facts.thy ===== *)
theory Egress_Facts
  imports Config_Facts
begin

text \<open>
  What the egress components promise: tokens that are kept from one reconciliation to the next, a proxy
  configuration that reaches exactly the allowed hosts, and the checks on a CA that the user supplies.
\<close>

section \<open>Tokens are stable\<close>

text \<open>The env names of a list of credentials, in order.\<close>

definition all_env_names :: "egress_credential list \<Rightarrow> string list" where
  "all_env_names creds = concat (map cr_EnvNames creds)"

lemma cr_Name_env: "cr_Name c \<in> set (cr_EnvNames c)"
  by (simp add: EgressSecret_EnvNames_def)

text \<open>Every token is non-empty, and one that the Secret holds is kept.\<close>

lemma mint_nonempty:
  "fst (run_state (mintEgressProxyToken E n) s) = Inr token \<Longrightarrow> token \<noteq> []"
  by (auto simp: mintEgressProxyToken_def split: sum.splits)

lemma egress_tokens_spec:
  assumes "fst (run_state (egress_tokens E existing creds tokens) s) = Inr t"
  shows "(\<forall>n. n \<notin> cr_Name ` set creds \<longrightarrow> map_of t n = map_of tokens n) \<and>
         (\<forall>c\<in>set creds. map_str t (cr_Name c) \<noteq> [] \<and>
           (existing_value existing (cr_Name c) \<noteq> [] \<longrightarrow> map_str t (cr_Name c) = existing_value existing (cr_Name c)))"
  using assms
proof (induction creds arbitrary: tokens s)
  case (Cons c cs)
  obtain v s' where rest: "fst (run_state (egress_tokens E existing cs (map_put (cr_Name c) v tokens)) s') = Inr t"
    and v: "v \<noteq> []" "existing_value existing (cr_Name c) \<noteq> [] \<Longrightarrow> v = existing_value existing (cr_Name c)"
    using Cons.prems mint_nonempty [of E "cr_Name c" s]
    by (auto simp: case_prod_unfold split: if_splits sum.splits)
  from Cons.IH [OF rest] show ?case
    using v by (cases "cr_Name c \<in> cr_Name ` set cs") (auto simp: update_conv' map_str_def)
qed simp

text \<open>When the Secret holds every token, nothing is minted: the map is read from the Secret.\<close>

definition kept_tokens :: "secret \<Rightarrow> egress_credential list \<Rightarrow> string gomap \<Rightarrow> string gomap" where
  "kept_tokens old creds tokens = foldl (\<lambda>t c. map_put (cr_Name c) (map_str (sec_Data old) (cr_Name c)) t) tokens creds"

lemma egress_tokens_kept:
  assumes "list_all (\<lambda>c. map_str (sec_Data old) (cr_Name c) \<noteq> []) creds"
  shows "run_state (egress_tokens E (Some old) creds tokens) s = (Inr (kept_tokens old creds tokens), s)"
  using assms by (induction creds arbitrary: tokens) (simp_all add: kept_tokens_def existing_value_def)

lemma egress_tokens_shape:
  assumes "fst (run_state (egress_tokens E existing creds tokens) s) = Inr t" and "distinct (map cr_Name creds)"
    and "list_all (\<lambda>c. map_str (sec_Data old) (cr_Name c) = map_str t (cr_Name c)) creds"
  shows "kept_tokens old creds tokens = t"
  using assms
proof (induction creds arbitrary: tokens s)
  case (Cons c cs)
  obtain v s' where rest: "fst (run_state (egress_tokens E existing cs (map_put (cr_Name c) v tokens)) s') = Inr t"
    using Cons.prems(1) by (auto simp: case_prod_unfold split: if_splits sum.splits)
  have "map_of t (cr_Name c) = Some v"
    using egress_tokens_spec [OF rest] Cons.prems(2) by (auto simp: update_conv')
  then have "map_str (sec_Data old) (cr_Name c) = v" using Cons.prems(3) by (simp add: map_str_def)
  with Cons.IH [OF rest] Cons.prems show ?case by (simp add: kept_tokens_def)
qed (simp add: kept_tokens_def)

text \<open>The data of the Secret: the token of its credential under every env name.\<close>

lemma token_data_lookup:
  assumes "distinct (all_env_names creds)" and "c \<in> set creds" and "n \<in> set (cr_EnvNames c)"
  shows "map_of (token_data tokens creds data) n = Some (map_str tokens (cr_Name c))"
proof -
  let ?ps = "concat (map (\<lambda>c. map (\<lambda>name. (name, map_str tokens (cr_Name c))) (cr_EnvNames c)) creds)"
  have names: "map fst ?ps = all_env_names creds"
    by (induction creds) (simp_all add: all_env_names_def comp_def)
  have "(n, map_str tokens (cr_Name c)) \<in> set ?ps" using assms(2,3) by auto
  then show ?thesis
    unfolding token_data_def by (rule foldl_put_member [rotated]) (simp only: names assms(1))
qed

lemma distinct_names: "distinct (all_env_names creds) \<Longrightarrow> distinct (map cr_Name creds)"
  by (induction creds) (auto simp: all_env_names_def EgressSecret_EnvNames_def)

text \<open>
  The parts of a Secret that was built: the tokens, kept where there were some, and the configuration;
  reading the tokens back from any Secret with the same data gives the same tokens.
\<close>

lemma egress_secret_built:
  assumes "run_state (buildEgressSecret E ha creds existing) s = (Inr x, s1)" and "distinct (all_env_names creds)"
  obtains t yaml where "buildEgressProxyYAML E ha creds t = Inr yaml"
    and "x = \<lparr>sec_meta = objectMeta (GetEgressSecretName ha) (ha_Namespace ha) (ResourceLabels ha),
              sec_Data = token_data t creds [(EgressProxyConfigKey, yaml)]\<rparr>"
    and "\<forall>c\<in>set creds. map_str t (cr_Name c) \<noteq> [] \<and>
           (existing_value existing (cr_Name c) \<noteq> [] \<longrightarrow> map_str t (cr_Name c) = existing_value existing (cr_Name c)) \<and>
           (\<forall>n\<in>set (cr_EnvNames c). map_of (sec_Data x) n = Some (map_str t (cr_Name c)))"
    and "\<And>y. map_of (sec_Data y) = map_of (sec_Data x) \<Longrightarrow> kept_tokens y creds [] = t"
proof -
  obtain t yaml where t: "fst (run_state (egress_tokens E existing creds []) s) = Inr t"
    and yaml: "buildEgressProxyYAML E ha creds t = Inr yaml"
    and x: "x = \<lparr>sec_meta = objectMeta (GetEgressSecretName ha) (ha_Namespace ha) (ResourceLabels ha),
                  sec_Data = token_data t creds [(EgressProxyConfigKey, yaml)]\<rparr>"
    using assms(1) by (auto simp: buildEgressSecret_def case_prod_unfold split: sum.splits)
  note spec = egress_tokens_spec [OF t]
  have look: "map_of (sec_Data x) n = Some (map_str t (cr_Name c))" if "c \<in> set creds" "n \<in> set (cr_EnvNames c)" for c n
    using token_data_lookup [OF assms(2) that] by (simp add: x)
  have "kept_tokens y creds [] = t" if "map_of (sec_Data y) = map_of (sec_Data x)" for y
    using look [OF _ cr_Name_env] that
    by (intro egress_tokens_shape [OF t distinct_names [OF assms(2)]]) (simp add: list_all_iff map_str_def)
  with that [OF yaml x] spec look show thesis by blast
qed

text \<open>
  C11: The proxy tokens are stable.  When the Secret for a list of credentials with distinct env names is
  built, every env name of a credential, aliases included, carries one non-empty token, the one the
  existing Secret had when it had one; and building the Secret again from the result gives the same
  Secret without drawing a random number, so a steady agent keeps its tokens.
\<close>

theorem egress_tokens_stable:
  assumes "run_state (buildEgressSecret E ha creds existing) s = (Inr x, s1)"
    and "distinct (all_env_names creds)"
  shows "(\<forall>c\<in>set creds. \<exists>token. token \<noteq> [] \<and>
            (existing_value existing (cr_Name c) \<noteq> [] \<longrightarrow> token = existing_value existing (cr_Name c)) \<and>
            (\<forall>n\<in>set (cr_EnvNames c). map_of (sec_Data x) n = Some token)) \<and>
         run_state (buildEgressSecret E ha creds (Some x)) s2 = (Inr x, s2)"
proof -
  obtain t yaml where yaml: "buildEgressProxyYAML E ha creds t = Inr yaml"
    and x: "x = \<lparr>sec_meta = objectMeta (GetEgressSecretName ha) (ha_Namespace ha) (ResourceLabels ha),
                  sec_Data = token_data t creds [(EgressProxyConfigKey, yaml)]\<rparr>"
    and spec: "\<forall>c\<in>set creds. map_str t (cr_Name c) \<noteq> [] \<and>
           (existing_value existing (cr_Name c) \<noteq> [] \<longrightarrow> map_str t (cr_Name c) = existing_value existing (cr_Name c)) \<and>
           (\<forall>n\<in>set (cr_EnvNames c). map_of (sec_Data x) n = Some (map_str t (cr_Name c)))"
    and kept: "\<And>y. map_of (sec_Data y) = map_of (sec_Data x) \<Longrightarrow> kept_tokens y creds [] = t"
    by (rule egress_secret_built [OF assms]) blast
  have "map_str (sec_Data x) (cr_Name c) = map_str t (cr_Name c)" if "c \<in> set creds" for c
    using bspec [OF spec that] cr_Name_env [of c] by (simp only: map_str_def [of "sec_Data x"] option.case)
  then have "list_all (\<lambda>c. map_str (sec_Data x) (cr_Name c) \<noteq> []) creds"
    using spec by (simp add: list_all_iff)
  then have "run_state (egress_tokens E (Some x) creds []) s2 = (Inr t, s2)"
    using egress_tokens_kept [of x creds E "[]" s2] kept [OF refl] by simp
  then have "run_state (buildEgressSecret E ha creds (Some x)) s2 = (Inr x, s2)"
    using yaml by (simp add: buildEgressSecret_def x)
  with spec show ?thesis by blast
qed

text \<open>For one credential with an alias, at the cluster in memory.\<close>

definition demo_credential :: egress_credential where
  "demo_credential =
     \<lparr>cr_Secret = \<lparr>es_Name = ''GITHUB_TOKEN'', es_Hosts = [''api.github.com''], es_MatchHeaders = [], es_Aliases = [''GH_TOKEN'']\<rparr>,
      cr_SourceKey = ''GITHUB_TOKEN''\<rparr>"

theorem egress_tokens_stable_witness:
  "\<exists>x token. token \<noteq> [] \<and> map_of (sec_Data x) ''GITHUB_TOKEN'' = Some token \<and> map_of (sec_Data x) ''GH_TOKEN'' = Some token \<and>
     run_state (buildEgressSecret mem_env demo_egress_agent [demo_credential] (Some x)) (demo_state demo_egress_agent) =
       (Inr x, demo_state demo_egress_agent)"
proof -
  obtain x s1 where "run_state (buildEgressSecret mem_env demo_egress_agent [demo_credential] None) (demo_state demo_egress_agent) = (Inr x, s1)"
    by (simp add: buildEgressSecret_def buildEgressProxyYAML_def mintEgressProxyToken_def existing_value_def mem_env_def
        mem_plat_def mem_mach_def)
  from egress_tokens_stable [OF this, of "demo_state demo_egress_agent"]
  show ?thesis by (auto simp: all_env_names_def demo_credential_def EgressSecret_EnvNames_def)
qed

section \<open>The proxy configuration\<close>

text \<open>The hosts that the proxy lets through, and the entries that swap a token for a credential.\<close>

definition proxy_allowlist :: "ironProxyConfig \<Rightarrow> string list" where
  "proxy_allowlist cfg =
     concat (map (\<lambda>t. case iptr_Config t of AllowlistConfig a \<Rightarrow> ipa_Domains a | SecretsConfig _ \<Rightarrow> []) (ipc_Transforms cfg))"

definition proxy_secrets :: "ironProxyConfig \<Rightarrow> ironProxySecret list" where
  "proxy_secrets cfg =
     concat (map (\<lambda>t. case iptr_Config t of AllowlistConfig _ \<Rightarrow> [] | SecretsConfig ss \<Rightarrow> ipss_Secrets ss) (ipc_Transforms cfg))"

lemma proxy_config_parts:
  "proxy_allowlist (egress_proxy_config ha creds tokens) =
     foldl append_new (Egress_GetAllowedHosts (GetEgress ha)) (concat (map cr_Hosts creds))"
  "proxy_secrets (egress_proxy_config ha creds tokens) = map (egress_proxy_secret tokens) creds"
  by (auto simp: proxy_allowlist_def proxy_secrets_def egress_proxy_config_def Let_def)

lemma set_foldl_add_allowed_host: "set (foldl add_allowed_host xs ys) = set xs \<union> (set ys - {[]})"
  by (induction ys arbitrary: xs) (auto simp: add_allowed_host_def)

text \<open>
  C15: The proxy reaches exactly what it is told to.  The allowlist is the built-in hosts, the non-empty
  extra hosts of the spec and the hosts of the credentials, and nothing else; there is one swap per
  credential, in order, that reads the real value from the credential's own variable, recognises
  only the credential's token and applies only to the credential's hosts, all of which are allowed;
  and the proxy listens on the loopback address only.
\<close>

theorem egress_proxy_config_exact:
  "set (proxy_allowlist (egress_proxy_config ha creds tokens)) =
     set defaultEgressAllowedHosts \<union>
     (case GetEgress ha of None \<Rightarrow> {} | Some e \<Rightarrow>
        (case eg_Config e of None \<Rightarrow> {} | Some c \<Rightarrow> set (ec_ExtraAllowedHosts c) - {[]})) \<union>
     (\<Union>c\<in>set creds. set (cr_Hosts c)) \<and>
   map (\<lambda>p. (ips_Var (ipse_Source p), ipr_ProxyValue (ipse_Replace p), map ipru_Host (ipse_Rules p)))
       (proxy_secrets (egress_proxy_config ha creds tokens)) =
     map (\<lambda>c. (cr_SourceKey c, map_str tokens (cr_Name c), cr_Hosts c)) creds \<and>
   list_all (\<lambda>p. set (map ipru_Host (ipse_Rules p)) \<subseteq> set (proxy_allowlist (egress_proxy_config ha creds tokens)))
     (proxy_secrets (egress_proxy_config ha creds tokens)) \<and>
   list_all (\<lambda>addr. HasPrefix addr ''127.0.0.1:'')
     [ipp_TunnelListen (ipc_Proxy (egress_proxy_config ha creds tokens)), ipp_HTTPListen (ipc_Proxy (egress_proxy_config ha creds tokens)),
      ipp_HTTPSListen (ipc_Proxy (egress_proxy_config ha creds tokens)), ipl_Listen (ipc_Metrics (egress_proxy_config ha creds tokens))]"
proof (intro conjI)
  show "set (proxy_allowlist (egress_proxy_config ha creds tokens)) =
     set defaultEgressAllowedHosts \<union>
     (case GetEgress ha of None \<Rightarrow> {} | Some e \<Rightarrow>
        (case eg_Config e of None \<Rightarrow> {} | Some c \<Rightarrow> set (ec_ExtraAllowedHosts c) - {[]})) \<union>
     (\<Union>c\<in>set creds. set (cr_Hosts c))"
    by (simp add: proxy_config_parts set_foldl_append_new Egress_GetAllowedHosts_def set_foldl_add_allowed_host
        split: option.split)
  show "list_all (\<lambda>addr. HasPrefix addr ''127.0.0.1:'')
     [ipp_TunnelListen (ipc_Proxy (egress_proxy_config ha creds tokens)), ipp_HTTPListen (ipc_Proxy (egress_proxy_config ha creds tokens)),
      ipp_HTTPSListen (ipc_Proxy (egress_proxy_config ha creds tokens)), ipl_Listen (ipc_Metrics (egress_proxy_config ha creds tokens))]"
    by (simp add: egress_proxy_config_def Let_def HasPrefix_def)
qed (auto simp: proxy_config_parts set_foldl_append_new egress_proxy_secret_def egress_rule_def comp_def list_all_iff)

section \<open>The CA of the user\<close>

lemma certSign_bit: "k AND KeyUsageCertSign = 0 \<longleftrightarrow> \<not> bit k 5" for k :: int32
proof -
  have "(32 :: int32) = push_bit 5 1" by (simp add: push_bit_eq_mult)
  then have "bit KeyUsageCertSign n \<longleftrightarrow> n = 5" for n
    unfolding KeyUsageCertSign_def by (simp only: bit_push_bit_iff bit_1_iff) (auto simp: possible_bit_word)
  then have "bit (k AND KeyUsageCertSign) n \<longleftrightarrow> n = 5 \<and> bit k 5" for n by (auto simp: bit_and_iff)
  then show ?thesis by (subst bit_eq_iff) auto
qed

text \<open>
  C33: A CA Secret of the user is accepted exactly when both keys are present and not empty, the
  certificate decodes and parses, is a CA, and its key usage, when it states one, allows signing
  certificates (bit 5).  The CA that the operator generates has these two attributes.
\<close>

theorem validateEgressCASecret_iff:
  "(validateEgressCASecret E refName data = None) =
     (map_str data EgressCATLSCertKey \<noteq> [] \<and> map_str data EgressCATLSKeyKey \<noteq> [] \<and>
      (\<exists>bytes cert. pf_PemDecode (plat E) (map_str data EgressCATLSCertKey) = Some bytes \<and>
         pf_ParseCertificate (plat E) bytes = Inr cert \<and> cert_IsCA cert \<and>
         (cert_KeyUsage cert = 0 \<or> bit (cert_KeyUsage cert) 5))) \<and>
   cert_IsCA (ca_template serial now) \<and> bit (cert_KeyUsage (ca_template serial now)) 5"
proof -
  have "bit (KeyUsageCertSign OR KeyUsageCRLSign) 5" by (simp add: KeyUsageCertSign_def KeyUsageCRLSign_def)
  then show ?thesis
    by (auto simp: validateEgressCASecret_def Let_def certSign_bit ca_template_def split: option.split sum.split)
qed

section \<open>The managed CA is kept\<close>

text \<open>The requests that leave the CA Secret as it is: reading it, and the status of the agent.\<close>

fun leaves_ca :: "hermes_agent \<Rightarrow> api_request \<Rightarrow> bool" where
  "leaves_ca ha (GetReq k nn) \<longleftrightarrow> k = KSecret \<and> nn = \<lparr>nn_Namespace = ha_Namespace ha, nn_Name = GetEgressCASecretName ha\<rparr>"
| "leaves_ca ha (StatusReq ha') \<longleftrightarrow> True"
| "leaves_ca ha _ \<longleftrightarrow> False"

interpretation ca: request_invariant E "\<lambda>_. True" "leaves_ca ha" for E ha
  by unfold_locales simp_all

lemma run_defer_mark_cong:
  "run_state m s = run_state m' s' \<Longrightarrow> run_state (defer_mark E reason m) s = run_state (defer_mark E reason m') s'"
  by (simp add: defer_mark_def)



end
