(* ===== verification/Snapshot_Facts.thy ===== *)
theory Snapshot_Facts
  imports Memory_Client
begin

text \<open>
  Snapshot names, the schedule and the restore: a name determines the second it was taken in, a
  snapshot is created only when the schedule is due, and a claim is provisioned only from a snapshot
  that is ready.
\<close>

section \<open>Printed numbers\<close>

definition read_digits :: "string \<Rightarrow> nat" where
  "read_digits s = foldl (\<lambda>n c. 10 * n + (of_char c - 48)) 0 s"

lemma of_char_digit: "d < 10 \<Longrightarrow> of_char (digit_char d) = 48 + d"
  by (simp add: digit_char_def)

lemma read_nat_digits: "read_digits (nat_digits n) = n"
proof (induction n rule: nat_digits.induct)
  case (1 n)
  then show ?case
    by (subst nat_digits.simps) (auto simp: read_digits_def of_char_digit)
qed

lemma length_nat_digits: "n < 10 ^ w \<Longrightarrow> 0 < w \<Longrightarrow> length (nat_digits n) \<le> w"
proof (induction w arbitrary: n)
  case (Suc w)
  show ?case
  proof (cases "n < 10")
    case False
    then have "0 < w" using Suc.prems(1) by (cases w) auto
    moreover have "n div 10 < 10 ^ w" using Suc.prems(1) by (simp add: less_mult_imp_div_less mult.commute)
    ultimately have "length (nat_digits (n div 10)) \<le> w" by (rule Suc.IH [rotated])
    with False show ?thesis by (subst nat_digits.simps) simp
  qed (subst nat_digits.simps, simp)
qed simp

lemma read_pad_digits: "0 \<le> n \<Longrightarrow> read_digits (pad_digits w n) = nat n"
proof -
  have zeros: "foldl (\<lambda>n c. 10 * n + (of_char c - 48)) (0::nat) (replicate k (CHR ''0'')) = 0" for k
    by (induction k) simp_all
  assume "0 \<le> n"
  then show ?thesis
    using read_nat_digits [of "nat n"] by (simp add: pad_digits_def Itoa_def Let_def read_digits_def zeros)
qed

lemma length_pad_digits: "0 \<le> n \<Longrightarrow> n < 10 ^ w \<Longrightarrow> 0 < w \<Longrightarrow> length (pad_digits w n) = w"
  using length_nat_digits [of "nat n" w] by (simp add: pad_digits_def Itoa_def Let_def nat_less_iff)

text \<open>Fields of fixed width are determined by the text.\<close>

lemma pad_digits_inject:
  assumes "pad_digits w a @ s = pad_digits w b @ t" and "0 \<le> a" "a < 10 ^ w" "0 \<le> b" "b < 10 ^ w" "0 < w"
  shows "a = b \<and> s = t"
proof -
  have "pad_digits w a = pad_digits w b \<and> s = t" using assms by (simp add: length_pad_digits append_eq_append_conv)
  moreover from this have "nat a = nat b" using read_pad_digits assms(2,4) by metis
  ultimately show ?thesis using assms(2,4) by simp
qed

lemma two_digits_inject:
  assumes "length xs = length ys" and "list_all (\<lambda>n. 0 \<le> n \<and> n < 100) (xs @ ys)"
    and "concat (map (pad_digits 2) xs) = concat (map (pad_digits 2) ys)"
  shows "xs = ys"
  using assms
proof (induction xs ys rule: list_induct2)
  case (Cons x xs y ys)
  then show ?case using pad_digits_inject [of 2 x "concat (map (pad_digits 2) xs)" y "concat (map (pad_digits 2) ys)"] by simp
qed simp

section \<open>Dates\<close>

lemma days_before_year_mono: "a \<le> b \<Longrightarrow> days_before_year a \<le> days_before_year b"
proof (induction b rule: int_ge_induct)
  case (step b)
  then show ?case using days_before_next_year [of b] by (simp split: if_splits)
qed simp

lemma split_month_range:
  assumes "split_month m ls d = (m', r)" and "ls \<noteq> []" and "0 \<le> d" and "d < sum_list ls" and "list_all (\<lambda>l. 0 < l \<and> l \<le> 31) ls"
  shows "0 \<le> r \<and> r < 31"
  using assms by (induction m ls d rule: split_month.induct) (auto split: if_splits)

lemma civil_range:
  assumes "0 \<le> d" and "d < days_before_year 10000" and "civil_of_day d = (y, m, r)"
  shows "1 \<le> y" "y \<le> 9999" "1 \<le> m" "m \<le> 12" "1 \<le> r" "r \<le> 31"
proof -
  obtain r0 where y: "y = year_of_day d" and r: "r = r0 + 1" and
    s: "split_month 1 (month_lengths y) (d - days_before_year y) = (m, r0)"
    using assms(3) by (auto simp: civil_of_day_def Let_def split: prod.splits)
  have start: "days_before_year y \<le> d" "d < days_before_year (y + 1)" using year_of_day_bounds [of d] by (simp_all add: y)
  have sum: "sum_list (month_lengths y) = (if leap_year y then 366 else 365)" by (simp add: month_lengths_def)
  have months: "month_lengths y \<noteq> []" "list_all (\<lambda>l. 0 < l \<and> l \<le> 31) (month_lengths y)" "length (month_lengths y) = 12"
    by (simp_all add: month_lengths_def)
  have "0 \<le> r0 \<and> r0 < 31"
    using start days_before_next_year [of y] sum by (intro split_month_range [OF s months(1) _ _ months(2)]) auto
  then show "1 \<le> r" "r \<le> 31" by (auto simp: r)
  show "1 \<le> m" "m \<le> 12" using split_month_inverse(1,2) [OF s months(1)] months(3) by simp_all
  have first: "days_before_year 1 = 0" by (simp add: days_before_year_def)
  show "1 \<le> y" using days_before_year_mono [of "y + 1" 1] start(2) assms(1) first by linarith
  show "y \<le> 9999" using days_before_year_mono [of 10000 y] start(1) assms(2) by linarith
qed

text \<open>The points in time that the layout with a four-digit year can print.\<close>

definition four_digit_year :: "go_time \<Rightarrow> bool" where
  "four_digit_year t \<longleftrightarrow> 0 \<le> t \<and> t div second div 86400 < days_before_year 10000"

lemma format_timestamp_inject:
  assumes "format_timestamp t = format_timestamp u" and "four_digit_year t" and "four_digit_year u"
  shows "t div second = u div second"
proof -
  define a b where "a = t div second" and "b = u div second"
  have ab: "0 \<le> a" "0 \<le> b" using assms(2,3) by (auto simp: a_def b_def four_digit_year_def second_def pos_imp_zdiv_nonneg_iff)
  obtain y m d y' m' d' where ca: "civil_of_day (a div 86400) = (y, m, d)" and cb: "civil_of_day (b div 86400) = (y', m', d')"
    by (metis prod_cases3)
  note ra = civil_range [OF _ _ ca] and rb = civil_range [OF _ _ cb]
  have da: "0 \<le> a div 86400" "a div 86400 < days_before_year 10000" and db: "0 \<le> b div 86400" "b div 86400 < days_before_year 10000"
    using assms(2,3) ab by (auto simp: a_def b_def four_digit_year_def pos_imp_zdiv_nonneg_iff)
  define p q where "p = a mod 86400" and "q = b mod 86400"
  have pq: "0 \<le> p" "p < 86400" "0 \<le> q" "q < 86400" by (simp_all add: p_def q_def)
  have eq: "pad_digits 4 y @ concat (map (pad_digits 2) [m, d, p div 3600, p div 60 mod 60, p mod 60]) =
      pad_digits 4 y' @ concat (map (pad_digits 2) [m', d', q div 3600, q div 60 mod 60, q mod 60])"
    using assms(1) by (simp add: format_timestamp_def Let_def a_def [symmetric] b_def [symmetric] ca cb p_def q_def)
  have "y = y'" and rest: "concat (map (pad_digits 2) [m, d, p div 3600, p div 60 mod 60, p mod 60]) =
      concat (map (pad_digits 2) [m', d', q div 3600, q div 60 mod 60, q mod 60])"
    using pad_digits_inject [OF eq] ra [OF da] rb [OF db] by simp_all
  have "p div 3600 < 100" "q div 3600 < 100" "0 \<le> p div 3600" "0 \<le> q div 3600" using pq by auto
  then have "[m, d, p div 3600, p div 60 mod 60, p mod 60] = [m', d', q div 3600, q div 60 mod 60, q mod 60]"
    using ra [OF da] rb [OF db] by (intro two_digits_inject [OF _ _ rest]) (simp_all add: order.strict_trans [OF pos_mod_bound])
  then have civil: "(y, m, d) = (y', m', d')" and clock: "p div 3600 = q div 3600" "p div 60 mod 60 = q div 60 mod 60" "p mod 60 = q mod 60"
    using \<open>y = y'\<close> by simp_all
  have "a div 86400 = b div 86400" using day_of_civil_of_day [OF ca] day_of_civil_of_day [OF cb] civil by simp
  moreover have "p = q"
  proof -
    have "n = 3600 * (n div 3600) + 60 * (n div 60 mod 60) + n mod 60" for n :: int
    proof -
      have "n div 60 = 60 * (n div 3600) + n div 60 mod 60"
        using mult_div_mod_eq [of 60 "n div 60"] by (simp add: zdiv_zmult2_eq [symmetric])
      then show ?thesis using mult_div_mod_eq [of 60 n] by linarith
    qed
    with clock show ?thesis by metis
  qed
  ultimately have "a = b" unfolding p_def q_def by (metis div_mult_mod_eq)
  then show ?thesis by (simp add: a_def b_def)
qed

text \<open>
  C27: A snapshot name identifies the second.  For points in time with a four-digit year, two snapshots of a
  claim have the same name exactly when they are taken in the same second, so a retry within the
  second meets \<^verbatim>\<open>AlreadyExists\<close> instead of creating another snapshot, and later ones never collide; the
  name is the claim's with 15 characters appended.
\<close>

theorem snapshot_name_identifies_second:
  assumes "four_digit_year t" and "four_digit_year u"
  shows "(buildSnapshotName pvc t = buildSnapshotName pvc u) = (t div second = u div second) \<and>
         length (buildSnapshotName pvc t) = length pvc + 15"
proof -
  have "format_timestamp t = format_timestamp u" if "t div second = u div second"
    using that by (simp add: format_timestamp_def)
  then have "(format_timestamp t = format_timestamp u) = (t div second = u div second)"
    using format_timestamp_inject [OF _ assms] by blast
  moreover have "length (format_timestamp t) = 14"
  proof -
    define a where "a = t div second"
    obtain y m d where c: "civil_of_day (a div 86400) = (y, m, d)" by (metis prod_cases3)
    have "0 \<le> a" using assms(1) by (auto simp: a_def four_digit_year_def second_def pos_imp_zdiv_nonneg_iff)
    then have "0 \<le> a div 86400" "a div 86400 < days_before_year 10000"
      using assms(1) by (auto simp: a_def four_digit_year_def pos_imp_zdiv_nonneg_iff)
    note r = civil_range [OF this c]
    have "a mod 86400 div 3600 < 100" "0 \<le> a mod 86400 div 3600" by (auto simp: pos_imp_zdiv_nonneg_iff)
    with r show ?thesis
      by (simp add: format_timestamp_def a_def [symmetric] c Let_def length_pad_digits order.strict_trans [OF pos_mod_bound])
  qed
  ultimately show ?thesis by (simp add: buildSnapshotName_def)
qed

theorem snapshot_name_identifies_second_witness:
  "(buildSnapshotName ''data'' 0 = buildSnapshotName ''data'' second) = False \<and> length (buildSnapshotName ''data'' 0) = 19"
proof -
  have "four_digit_year 0" "four_digit_year second" by (simp_all add: four_digit_year_def second_def days_before_year_def)
  from snapshot_name_identifies_second [OF this, of "''data''"] show ?thesis by (simp add: second_def)
qed

section \<open>The schedule\<close>

text \<open>Whether a request creates a snapshot.\<close>

fun creates_snapshot :: "api_request \<Rightarrow> bool" where
  "creates_snapshot (CreateReq (OUnstructured u)) = True"
| "creates_snapshot _ = False"

definition no_new_snapshot :: "api_request list \<Rightarrow> 'w rst \<Rightarrow> bool" where
  "no_new_snapshot C s \<longleftrightarrow> filter creates_snapshot (rs_trace s) = C"

lemma record_creates_none: "keeps (no_new_snapshot C) (record_snapshots E snap schedule now)"
proof -
  have status: "keeps (no_new_snapshot C) (UpdateHermesAgentStatus E)"
    by (rule keepsI) (simp add: no_new_snapshot_def run_UpdateHermesAgentStatus_trace)
  have api: "keeps (no_new_snapshot C) (api_call (ListReq k ns ls) f)" for k ns ls and f :: "'w \<Rightarrow> 'c \<times> 'w"
    by (rule keepsI) (simp add: no_new_snapshot_def)
  have mod: "keeps (no_new_snapshot C) (mod_status f)" for f by (rule keepsI) (simp add: no_new_snapshot_def)
  show ?thesis
    unfolding record_snapshots_def ListVolumeSnapshotsOwnedByAgent_def Let_def
    by (intro wp_intros api status mod)
qed

text \<open>The last run: the recorded one, or the creation of the agent.\<close>

definition last_run :: "hermes_agent \<Rightarrow> go_time" where
  "last_run ha = (case ss_LastScheduleTime (st_Snapshot (ha_Status ha)) of None \<Rightarrow> om_CreationTimestamp (ha_meta ha) | Some t \<Rightarrow> t)"

text \<open>
  C24: A snapshot is taken when it is due and only then.  When the next run lies in the future, no request is
  made and the loop asks to be called again exactly then; when the schedule has no next run it asks
  again in 30 seconds; and when the run is due, exactly one snapshot is created, named after the
  claim and the current time (none if it cannot be encoded).
\<close>

theorem run_schedule_due:
  assumes "pf_Now (plat E) (rs_world s) = (now, w)"
  shows "case run_state (run_schedule E snap schedule pvcName) s of
     (r, s') \<Rightarrow>
       (let next_run = schedule (last_run (rs_agent s)) in
        if next_run = 0 then rs_trace s' = rs_trace s \<and> r = (requeue 30, None)
        else if next_run > now then
          rs_trace s' = rs_trace s \<and> r = (\<lparr>cres_RequeueAfter = next_run - now\<rparr>, None) \<and> \<not> IsZero (fst r)
        else filter creates_snapshot (rs_trace s') = filter creates_snapshot (rs_trace s) @
          (case toUnstructuredVolumeSnapshot E
                  (label_snapshot (rs_agent s) (buildSnapshot (rs_agent s) (buildSnapshotName pvcName now))) of
             Inl err \<Rightarrow> [] | Inr u \<Rightarrow> [CreateReq (OUnstructured u)]))"
proof -
  have rec: "filter creates_snapshot (rs_trace (snd (run_state (record_snapshots E snap schedule now) s2))) =
      filter creates_snapshot (rs_trace s2)" for s2
    using keepsD [OF record_creates_none, of "filter creates_snapshot (rs_trace s2)" s2] by (simp add: no_new_snapshot_def)
  show ?thesis
    using assms
    by (auto simp: run_schedule_def last_run_def take_snapshot_def CreateVolumeSnapshotOwnedByHermesAgent_def Let_def
        case_prod_unfold rec fail30_def IsZero_def split: option.splits sum.splits)
qed

text \<open>An hourly schedule on an agent that was just created.\<close>

theorem run_schedule_due_witness:
  "fst (run_state (run_schedule mem_env None (\<lambda>t. t + 3600 * second) ''data'') (demo_state demo_agent)) =
     (\<lparr>cres_RequeueAfter = 3600 * second\<rparr>, None)"
proof -
  have "pf_Now (plat mem_env) (rs_world (demo_state demo_agent)) = (0, rs_world (demo_state demo_agent))"
    by (simp add: mem_env_def mem_plat_def demo_state_def empty_cluster_def)
  moreover have "last_run (rs_agent (demo_state demo_agent)) = 0"
    by (simp add: last_run_def demo_state_def demo_defs)
  ultimately show ?thesis
    using run_schedule_due [where E = mem_env and s = "demo_state demo_agent" and snap = None and pvcName = "''data''"
        and schedule = "\<lambda>t. t + 3600 * second" and now = 0]
    by (simp add: case_prod_unfold Let_def second_def)
qed

section \<open>The restore\<close>

text \<open>A snapshot that some read of the cluster returned and that is ready.\<close>

definition read_ready :: "'w env \<Rightarrow> volume_snapshot \<Rightarrow> bool" where
  "read_ready E v \<longleftrightarrow> snapshot_ready v \<and>
     (\<exists>nn w u w'. ka_GetUnstructured (kube E) volumeSnapshotObjectGVK nn w = (Inr u, w') \<and> am_FromUnstructured (mach E) u = Inr v)"

text \<open>
  The requests of the restore: a claim is created from a ready snapshot, nothing is updated, and the
  only object deleted is a StatefulSet.
\<close>

fun restore_request :: "'w env \<Rightarrow> api_request \<Rightarrow> bool" where
  "restore_request E (CreateReq obj) \<longleftrightarrow>
     (case obj of
        OPersistentVolumeClaim p \<Rightarrow>
          (\<exists>v. read_ready E v \<and> pvc_DataSource p = Some (volumeSnapshotAPIGroupPtr, ''VolumeSnapshot'', om_Name (vs_meta v)))
      | _ \<Rightarrow> False)"
| "restore_request E (UpdateReq obj) \<longleftrightarrow> False"
| "restore_request E (DeleteReq k nn) \<longleftrightarrow> k = KStatefulSet"
| "restore_request E _ \<longleftrightarrow> True"

interpretation restore: request_invariant E "\<lambda>_. True" "restore_request E" for E
  by unfold_locales simp_all

abbreviation restore_inv :: "'w env \<Rightarrow> 'w rst \<Rightarrow> bool" where
  "restore_inv E \<equiv> req_inv (\<lambda>_. True) (restore_request E)"

lemma yields_restore_snapshot:
  "yields (restore_inv E) (getReadySnapshot E name) (on_ok (\<lambda>r. \<forall>v. r = Some v \<longrightarrow> read_ready E v))"
proof -
  have nil: "yields (restore_inv E) (restore_failed_nil E reason message) (on_ok (\<lambda>r. r = None))" for reason message
    unfolding restore_failed_nil_def setRestoreFailed_def
    by (rule yields_bind [where R = "\<lambda>_. True"],
        (auto simp: keeps_yields [symmetric] intro!: restore.keeps_effects wp_intros)[1],
        rule yields_bind [where R = "\<lambda>_. True"])
       (auto simp: keeps_yields [symmetric] intro!: restore.keeps_effects yields_return split: option.split)
  have get: "yields (restore_inv E) (GetVolumeSnapshot E nn)
      (on_ok (\<lambda>r. \<forall>v. r = Some v \<longrightarrow> (\<exists>nn w u w'. ka_GetUnstructured (kube E) volumeSnapshotObjectGVK nn w = (Inr u, w') \<and>
         am_FromUnstructured (mach E) u = Inr v)))" for nn
    unfolding GetVolumeSnapshot_def
    by (rule yields_bind [OF restore.yields_api_call
          [where Q = "on_ok (\<lambda>u. \<exists>nn w w'. ka_GetUnstructured (kube E) volumeSnapshotObjectGVK nn w = (Inr u, w'))"]])
       (auto simp: on_ok_def fromUnstructuredVolumeSnapshot_def intro!: yields_return split: sum.splits if_splits, blast)
  show ?thesis
    unfolding getReadySnapshot_def
    by (rule restore.yields_agent, rule yields_bind [OF get])
       (auto simp: on_ok_def read_ready_def intro!: yields_return yields_mono [OF nil] split: sum.split option.splits)
qed

lemma keeps_restore: "keeps (restore_inv E) (reconcileRestore E)"
proof -
  have gate: "keeps (restore_inv E) (reshape_gate E nn)" for nn
    unfolding reshape_gate_def client_defs clearRestoreFailed_def
    by (auto intro!: wp_intros restore.keeps_effects restore.keeps_delete_object simp: kind_defs)
  have provision: "keeps (restore_inv E) (provision_restore E nn source (reshape_gate E nn'))" for nn source nn'
    unfolding provision_restore_def client_defs
    by (rule keeps_get30_yields [OF yields_restore_snapshot])
       (auto intro!: wp_intros gate restore.keeps_effects restore.keeps_create_owned
          simp: kind_defs buildRestoredPVC_def Let_def)
  show ?thesis
    unfolding reconcileRestore_def client_defs clearRestoreFailed_def
    by (auto intro!: wp_intros gate provision restore.keeps_effects simp: kind_defs)
qed



end
