(* ===== verification/Cluster_Store.thy ===== *)
theory Cluster_Store
  imports Owned_Requests
begin

text \<open>
  The cluster as a store of objects, and a calculus for programs over it.  \<open>kstore\<close> is what the API
  server holds of the kinds that the operator manages, and the specs of the agents.  The locale \<open>kind_store\<close> is the contract of the
  client for one kind: calls may fail, and a call that succeeds has the effect the API documents.
  \<open>cluster_store\<close> puts the kinds together with the calls that leave the store alone.  \<open>store_wp\<close> is
  the weakest precondition of a program over the store and the writes it has issued; there is one
  rule per method of the adapter.
\<close>

section \<open>The store\<close>

record kstore =
  ks_ConfigMap :: "namespaced_name \<Rightarrow> configmap option"
  ks_Secret :: "namespaced_name \<Rightarrow> secret option"
  ks_StatefulSet :: "namespaced_name \<Rightarrow> statefulset option"
  ks_ServiceAccount :: "namespaced_name \<Rightarrow> service_account option"
  ks_Role :: "namespaced_name \<Rightarrow> role option"
  ks_RoleBinding :: "namespaced_name \<Rightarrow> role_binding option"
  ks_Service :: "namespaced_name \<Rightarrow> k8s_service option"
  ks_Ingress :: "namespaced_name \<Rightarrow> k8s_ingress option"
  ks_NetworkPolicy :: "namespaced_name \<Rightarrow> k8s_network_policy option"
  ks_Claim :: "namespaced_name \<Rightarrow> persistent_volume_claim option"
  ks_Agent :: "namespaced_name \<Rightarrow> hermes_agent_spec option"

text \<open>What the server keeps of the metadata it is sent; the other fields are the server's.\<close>

definition meta_kept :: "objectmeta \<Rightarrow> objectmeta \<Rightarrow> bool" where
  "meta_kept m m' \<longleftrightarrow>
     meta_key m' = meta_key m \<and> om_Labels m' = om_Labels m \<and> om_Annotations m' = om_Annotations m"

lemma meta_key_update [simp]:
  "meta_key (m\<lparr>om_ResourceVersion := v\<rparr>) = meta_key m" "meta_key (om_ResourceVersion_update f m) = meta_key m"
  by (simp_all add: meta_key_def)

text \<open>
  What the server keeps of an object it is sent.  The pod template of a StatefulSet may come back with
  defaults filled in, and a Service with an address; the claim templates keep their names.
\<close>

definition kept_ConfigMap :: "configmap \<Rightarrow> configmap \<Rightarrow> bool" where
  "kept_ConfigMap x x' \<longleftrightarrow> meta_kept (cm_meta x) (cm_meta x') \<and> cm_Data x' = cm_Data x"
definition kept_Secret :: "secret \<Rightarrow> secret \<Rightarrow> bool" where
  "kept_Secret x x' \<longleftrightarrow> meta_kept (sec_meta x) (sec_meta x') \<and> sec_Data x' = sec_Data x"
definition kept_StatefulSet :: "statefulset \<Rightarrow> statefulset \<Rightarrow> bool" where
  "kept_StatefulSet x x' \<longleftrightarrow> meta_kept (sts_meta x) (sts_meta x') \<and> vct_names x' = vct_names x"
definition kept_ServiceAccount :: "service_account \<Rightarrow> service_account \<Rightarrow> bool" where
  "kept_ServiceAccount x x' \<longleftrightarrow> meta_kept (sa_meta x) (sa_meta x')"
definition kept_Role :: "role \<Rightarrow> role \<Rightarrow> bool" where
  "kept_Role x x' \<longleftrightarrow> meta_kept (role_meta x) (role_meta x') \<and> role_Rules x' = role_Rules x"
definition kept_RoleBinding :: "role_binding \<Rightarrow> role_binding \<Rightarrow> bool" where
  "kept_RoleBinding x x' \<longleftrightarrow>
     meta_kept (rb_meta x) (rb_meta x') \<and> rb_Subjects x' = rb_Subjects x \<and> rb_RoleRef x' = rb_RoleRef x"
definition kept_Service :: "k8s_service \<Rightarrow> k8s_service \<Rightarrow> bool" where
  "kept_Service x x' \<longleftrightarrow>
     meta_kept (svc_meta x) (svc_meta x') \<and> svc_Type x' = svc_Type x \<and> svc_Selector x' = svc_Selector x \<and>
     svc_Ports x' = svc_Ports x"
definition kept_Ingress :: "k8s_ingress \<Rightarrow> k8s_ingress \<Rightarrow> bool" where
  "kept_Ingress x x' \<longleftrightarrow> meta_kept (ing_meta x) (ing_meta x') \<and> ing_Spec x' = ing_Spec x"
definition kept_NetworkPolicy :: "k8s_network_policy \<Rightarrow> k8s_network_policy \<Rightarrow> bool" where
  "kept_NetworkPolicy x x' \<longleftrightarrow> meta_kept (np_meta x) (np_meta x') \<and> np_Spec x' = np_Spec x"
definition kept_Claim :: "persistent_volume_claim \<Rightarrow> persistent_volume_claim \<Rightarrow> bool" where
  "kept_Claim x x' \<longleftrightarrow> meta_kept (pvc_meta x) (pvc_meta x')"

lemmas kept_defs = kept_ConfigMap_def kept_Secret_def kept_StatefulSet_def kept_ServiceAccount_def kept_Role_def
  kept_RoleBinding_def kept_Service_def kept_Ingress_def kept_NetworkPolicy_def kept_Claim_def meta_kept_def

section \<open>Contracts\<close>

text \<open>
  The client for one kind.  \<open>fld\<close> and \<open>upd\<close> are the field of the store; \<open>kept\<close> relates an object that is sent
  to the one that is stored.  Nothing is promised of a call that fails, except that a creation refused
  because the object exists changes nothing.
\<close>

locale kind_store =
  lawful_env E
  for E :: "'w env" +
  fixes look :: "'w \<Rightarrow> kstore"
    and fld :: "kstore \<Rightarrow> namespaced_name \<Rightarrow> 'o option"
    and upd :: "((namespaced_name \<Rightarrow> 'o option) \<Rightarrow> namespaced_name \<Rightarrow> 'o option) \<Rightarrow> kstore \<Rightarrow> kstore"
    and k :: "'o kind_info"
    and c :: "('w, 'o) rclient"
    and kept :: "'o \<Rightarrow> 'o \<Rightarrow> bool"
  assumes get_keeps: "rc_Get c nn w = (r, w') \<Longrightarrow> look w' = look w"
    and get_found: "rc_Get c nn w = (Inr x, w') \<Longrightarrow> fld (look w) nn = Some x"
    and get_key: "rc_Get c nn w = (Inr x, w') \<Longrightarrow> meta_key (ki_meta k x) = nn"
    and get_absent: "rc_Get c nn w = (Inl e, w') \<Longrightarrow> IsNotFound e \<Longrightarrow> fld (look w) nn = None"
    and create_done: "rc_Create c x w = (None, w') \<Longrightarrow>
          \<exists>x'. kept x x' \<and> look w' = upd (\<lambda>m. m(meta_key (ki_meta k x) \<mapsto> x')) (look w)"
    and create_exists: "rc_Create c x w = (Some e, w') \<Longrightarrow> IsAlreadyExists e \<Longrightarrow> look w' = look w"
    and update_done: "rc_Update c x w = (None, w') \<Longrightarrow>
          \<exists>x'. kept x x' \<and> look w' = upd (\<lambda>m. m(meta_key (ki_meta k x) \<mapsto> x')) (look w)"
    and delete_done: "rc_Delete c nn w = (d, w') \<Longrightarrow> IgnoreNotFound d = None \<Longrightarrow>
          look w' = upd (\<lambda>m. m(nn := None)) (look w)"
    and meta_set: "ki_meta k (ki_set_meta k m x) = m"
    and fld_upd: "fld (upd f st) = f (fld st)"
    and upd_same: "upd (\<lambda>m. m(nn := fld st nn)) st = st"
    and kept_owner: "kept (ki_set_meta k ((ki_meta k x)\<lparr>om_OwnerReferences := os\<rparr>) x) x' \<Longrightarrow> kept x x'"

text \<open>A call that leaves the store alone.\<close>

definition untouched :: "('w \<Rightarrow> kstore) \<Rightarrow> ('w \<Rightarrow> 'a \<times> 'w) \<Rightarrow> bool" where
  "untouched look f \<longleftrightarrow> (\<forall>w. look (snd (f w)) = look w)"

locale cluster_store =
  lawful_env E +
  cm: kind_store E look ks_ConfigMap ks_ConfigMap_update kConfigMap "ka_ConfigMap (kube E)" kept_ConfigMap +
  sec: kind_store E look ks_Secret ks_Secret_update kSecret "ka_Secret (kube E)" kept_Secret +
  sts: kind_store E look ks_StatefulSet ks_StatefulSet_update kStatefulSet "ka_StatefulSet (kube E)" kept_StatefulSet +
  sa: kind_store E look ks_ServiceAccount ks_ServiceAccount_update kServiceAccount "ka_ServiceAccount (kube E)" kept_ServiceAccount +
  ro: kind_store E look ks_Role ks_Role_update kRole "ka_Role (kube E)" kept_Role +
  rb: kind_store E look ks_RoleBinding ks_RoleBinding_update kRoleBinding "ka_RoleBinding (kube E)" kept_RoleBinding +
  svc: kind_store E look ks_Service ks_Service_update kService "ka_Service (kube E)" kept_Service +
  ing: kind_store E look ks_Ingress ks_Ingress_update kIngress "ka_Ingress (kube E)" kept_Ingress +
  np: kind_store E look ks_NetworkPolicy ks_NetworkPolicy_update kNetworkPolicy "ka_NetworkPolicy (kube E)" kept_NetworkPolicy +
  pvc: kind_store E look ks_Claim ks_Claim_update kPersistentVolumeClaim "ka_PersistentVolumeClaim (kube E)" kept_Claim
  for E :: "'w env" and look :: "'w \<Rightarrow> kstore" +
  assumes frames:
      "untouched look (ka_GetHermesAgent (kube E) nn)"
      "untouched look (ka_StatusUpdate (kube E) ha)"
      "untouched look (rc_Get (ka_Pod (kube E)) nn)"
      "untouched look (rc_Delete (ka_Pod (kube E)) nn)"
      "untouched look (ka_GetUnstructured (kube E) g nn)"
      "untouched look (ka_ListUnstructured (kube E) g ns ls)"
      "untouched look (ka_CreateUnstructured (kube E) u)"
      "untouched look (ka_DeleteUnstructured (kube E) g nn)"
      "untouched look (am_SetStatusCondition (mach E) cs cond)"
      "untouched look (pf_Now (plat E))"
      "untouched look (pf_RandRead (plat E) n)"
      "untouched look (pf_RandInt (plat E) i)"
      "untouched look (pf_GenerateKey (plat E))"
      "untouched look (pf_CreateCertificate (plat E) cert key)"
    and rand_bytes: "fst (pf_RandRead (plat E) n w) = Inr bytes \<Longrightarrow> length bytes = n"
    and deep_equal_refl:
      "am_DeepEqual_rules (mach E) rules rules" "am_DeepEqual_subjects (mach E) subjects subjects"
      "am_DeepEqual_ports (mach E) ports ports" "am_DeepEqual_ingress (mach E) ingress ingress"
      "am_DeepEqual_netpol (mach E) netpol netpol"

section \<open>Weakest preconditions\<close>

text \<open>The requests that write one of the objects of the store, or the pod.\<close>

fun object_write :: "api_request \<Rightarrow> bool" where
  "object_write (CreateReq (OUnstructured u)) \<longleftrightarrow> False"
| "object_write (CreateReq obj) \<longleftrightarrow> True"
| "object_write (UpdateReq obj) \<longleftrightarrow> True"
| "object_write (DeleteReq (KUnstructured g) nn) \<longleftrightarrow> False"
| "object_write (DeleteReq k nn) \<longleftrightarrow> True"
| "object_write _ \<longleftrightarrow> False"

definition writes :: "'w rst \<Rightarrow> api_request list" where
  "writes s = filter object_write (rs_trace s)"

text \<open>
  From every state with this store, these writes and the given agent, the program ends with the agent
  unchanged and in a result, store and writes that satisfy the postcondition.
\<close>

definition store_wp ::
  "('w \<Rightarrow> kstore) \<Rightarrow> hermes_agent \<Rightarrow> ('w, 'a) prog \<Rightarrow> ('a \<Rightarrow> kstore \<Rightarrow> api_request list \<Rightarrow> bool)
     \<Rightarrow> kstore \<Rightarrow> api_request list \<Rightarrow> bool" where
  "store_wp look ha m Q st ws \<longleftrightarrow>
     (\<forall>s. same_agent ha (rs_agent s) \<and> look (rs_world s) = st \<and> writes s = ws \<longrightarrow>
        (case run_state m s of (r, s') \<Rightarrow>
           same_agent ha (rs_agent s') \<and> Q r (look (rs_world s')) (writes s')))"

lemma store_wpI:
  assumes "\<And>s. same_agent ha (rs_agent s) \<Longrightarrow> look (rs_world s) = st \<Longrightarrow> writes s = ws \<Longrightarrow>
     same_agent ha (rs_agent (snd (run_state m s))) \<and>
     Q (fst (run_state m s)) (look (rs_world (snd (run_state m s)))) (writes (snd (run_state m s)))"
  shows "store_wp look ha m Q st ws"
  using assms by (simp add: store_wp_def case_prod_unfold)

lemma store_wpD:
  assumes "store_wp look ha m Q st ws" and "same_agent ha (rs_agent s)" "look (rs_world s) = st" "writes s = ws"
  shows "same_agent ha (rs_agent (snd (run_state m s)))"
    and "Q (fst (run_state m s)) (look (rs_world (snd (run_state m s)))) (writes (snd (run_state m s)))"
  using assms by (simp_all add: store_wp_def case_prod_unfold)

lemma store_wp_mono:
  "store_wp look ha m Q st ws \<Longrightarrow> (\<And>r st' ws'. Q r st' ws' \<Longrightarrow> Q' r st' ws') \<Longrightarrow> store_wp look ha m Q' st ws"
  by (fastforce simp: store_wp_def)

named_theorems wp_rules \<open>weakest preconditions of the programs over the store\<close>

lemma wp_bind [wp_rules]:
  assumes "store_wp look ha m (\<lambda>a. store_wp look ha (f a) Q) st ws"
  shows "store_wp look ha (State_Monad.bind m f) Q st ws"
proof (rule store_wpI)
  fix s assume s: "same_agent ha (rs_agent s)" "look (rs_world s) = st" "writes s = ws"
  let ?a = "fst (run_state m s)" and ?s = "snd (run_state m s)"
  note m = store_wpD [OF assms s]
  show "same_agent ha (rs_agent (snd (run_state (State_Monad.bind m f) s))) \<and>
     Q (fst (run_state (State_Monad.bind m f) s)) (look (rs_world (snd (run_state (State_Monad.bind m f) s))))
       (writes (snd (run_state (State_Monad.bind m f) s)))"
    using store_wpD [OF m(2) m(1) refl refl] by (simp add: case_prod_unfold)
qed

lemma wp_return [wp_rules]: "Q a st ws \<Longrightarrow> store_wp look ha (State_Monad.return a) Q st ws"
  by (simp add: store_wp_def)

lemma wp_if [wp_rules]:
  "(b \<Longrightarrow> store_wp look ha m Q st ws) \<Longrightarrow> (\<not> b \<Longrightarrow> store_wp look ha n Q st ws) \<Longrightarrow>
     store_wp look ha (if b then m else n) Q st ws"
  by simp

lemma wp_case_option [wp_rules]:
  "(x = None \<Longrightarrow> store_wp look ha m Q st ws) \<Longrightarrow> (\<And>v. x = Some v \<Longrightarrow> store_wp look ha (f v) Q st ws) \<Longrightarrow>
     store_wp look ha (case x of None \<Rightarrow> m | Some v \<Rightarrow> f v) Q st ws"
  by (cases x) auto

lemma wp_case_sum [wp_rules]:
  "(\<And>e. x = Inl e \<Longrightarrow> store_wp look ha (f e) Q st ws) \<Longrightarrow> (\<And>v. x = Inr v \<Longrightarrow> store_wp look ha (g v) Q st ws) \<Longrightarrow>
     store_wp look ha (case x of Inl e \<Rightarrow> f e | Inr v \<Rightarrow> g v) Q st ws"
  by (cases x) auto

lemma wp_case_prod [wp_rules]:
  "(\<And>a b. x = (a, b) \<Longrightarrow> store_wp look ha (f a b) Q st ws) \<Longrightarrow> store_wp look ha (case x of (a, b) \<Rightarrow> f a b) Q st ws"
  by (cases x) auto

text \<open>A postcondition that distinguishes the result, at a known result.\<close>

lemma wp_result [wp_rules]:
  "f e \<Longrightarrow> case_sum f g (Inl e)" "g v \<Longrightarrow> case_sum f g (Inr v)"
  "n \<Longrightarrow> case_option n h None" "h x \<Longrightarrow> case_option n h (Some x)"
  by simp_all

lemma wp_let [wp_rules]: "store_wp look ha (f x) Q st ws \<Longrightarrow> store_wp look ha (let v = x in f v) Q st ws"
  by simp

lemma wp_get_agent [wp_rules]:
  "(\<And>a. same_agent ha a \<Longrightarrow> Q a st ws) \<Longrightarrow> store_wp look ha get_agent Q st ws"
  by (simp add: store_wp_def)

lemma wp_tel [wp_rules]: "Q () st ws \<Longrightarrow> store_wp look ha (tel ev) Q st ws"
  by (simp add: store_wp_def writes_def)

lemma wp_mod_status [wp_rules]: "Q () st ws \<Longrightarrow> store_wp look ha (mod_status f) Q st ws"
  by (simp add: store_wp_def writes_def same_agent_def)

lemma wp_mod_managed [wp_rules]: "Q () st ws \<Longrightarrow> store_wp look ha (mod_managed f) Q st ws"
  by (simp add: mod_managed_def wp_mod_status)

lemma wp_fail30 [wp_rules]: "Q (requeue 30, Some err) st ws \<Longrightarrow> store_wp look ha (fail30 err) Q st ws"
  by (simp add: fail30_def wp_return)

lemma wp_finish [wp_rules]: "Q (done_result, None) st ws \<Longrightarrow> store_wp look ha finish Q st ws"
  by (simp add: finish_def wp_return)

lemma wp_try30 [wp_rules]:
  "store_wp look ha m (\<lambda>e st ws. case e of Some err \<Rightarrow> Q (requeue 30, Some err) st ws | None \<Rightarrow> store_wp look ha k Q st ws) st ws \<Longrightarrow>
     store_wp look ha (try30 m k) Q st ws"
  unfolding try30_def by (rule wp_bind, erule store_wp_mono) (auto intro: wp_fail30 split: option.splits)

lemma wp_get30 [wp_rules]:
  "store_wp look ha m (\<lambda>r st ws. case r of Inl err \<Rightarrow> Q (requeue 30, Some err) st ws | Inr v \<Rightarrow> store_wp look ha (k v) Q st ws) st ws \<Longrightarrow>
     store_wp look ha (get30 m k) Q st ws"
  unfolding get30_def by (rule wp_bind, erule store_wp_mono) (auto intro: wp_fail30 split: sum.splits)

lemma wp_when30 [wp_rules]:
  "(b \<Longrightarrow> store_wp look ha (try30 m (do { tel ev; k })) Q st ws) \<Longrightarrow> (\<not> b \<Longrightarrow> store_wp look ha k Q st ws) \<Longrightarrow>
     store_wp look ha (when30 b m ev k) Q st ws"
  by (simp add: when30_def)

text \<open>Calls that leave the store alone.\<close>

lemma wp_local_call:
  "untouched look f \<Longrightarrow> (\<And>w. Q (fst (f w)) st ws) \<Longrightarrow> store_wp look ha (local_call f) Q st ws"
  by (simp add: store_wp_def untouched_def writes_def)

lemma wp_api_call:
  "untouched look f \<Longrightarrow> (\<And>w. Q (fst (f w)) st (ws @ filter object_write [req])) \<Longrightarrow> store_wp look ha (api_call req f) Q st ws"
  by (simp add: store_wp_def untouched_def writes_def)

section \<open>The methods of the adapter\<close>

context kind_store
begin

lemma wp_get_object:
  assumes "\<And>e. Q (Inl e) st ws"
    and "(\<And>x. fld st nn = Some x \<Longrightarrow> meta_key (ki_meta k x) = nn) \<Longrightarrow> Q (Inr (fld st nn)) st ws"
  shows "store_wp look ha (get_object k c nn) Q st ws"
proof (rule store_wpI)
  fix s assume s: "same_agent ha (rs_agent s)" "look (rs_world s) = st" "writes s = ws"
  obtain r w' where r: "rc_Get c nn (rs_world s) = (r, w')" by fastforce
  have "not_found_nil r = Inr (fld st nn) \<and> (\<forall>x. fld st nn = Some x \<longrightarrow> meta_key (ki_meta k x) = nn) \<or>
      (\<exists>e. not_found_nil r = Inl e)"
    using get_found [of nn "rs_world s"] get_key [of nn "rs_world s"] get_absent [of nn "rs_world s"] r s(2)
    by (cases r) (auto simp: not_found_nil_def)
  then show "same_agent ha (rs_agent (snd (run_state (get_object k c nn) s))) \<and>
      Q (fst (run_state (get_object k c nn) s)) (look (rs_world (snd (run_state (get_object k c nn) s))))
        (writes (snd (run_state (get_object k c nn) s)))"
    using assms s get_keeps [OF r] r by (auto simp: get_object_def writes_def)
qed

text \<open>
  The common shape of creating and updating: the object with the controller reference set is sent, and
  stored at the key of the object.
\<close>

lemma wp_owned_call:
  assumes eff: "\<And>y w w'. f y w = (None, w') \<Longrightarrow>
        \<exists>x'. kept y x' \<and> look w' = upd (\<lambda>m. m(meta_key (ki_meta k y) \<mapsto> x')) (look w)"
    and err: "\<And>e. Q (Some e) st ws" "\<And>e m w w' ws'. look w = st \<Longrightarrow> f (ki_set_meta k m x) w = (Some e, w') \<Longrightarrow> Q (Some e) (look w') ws'"
    and ok: "\<And>x' ws'. kept x x' \<Longrightarrow> Q None (upd (\<lambda>m. m(meta_key (ki_meta k x) \<mapsto> x')) st) ws'"
  shows "store_wp look ha (do { a \<leftarrow> get_agent;
           case am_SetControllerReference (mach E) a (ki_meta k x) of
             Inl e \<Rightarrow> State_Monad.return (Some e)
           | Inr m \<Rightarrow> (let y = ki_set_meta k m x in api_call (req y) (f y)) }) Q st ws"
proof (intro wp_rules)
  fix a m
  assume "am_SetControllerReference (mach E) a (ki_meta k x) = Inr m"
  then obtain os where m: "m = (ki_meta k x)\<lparr>om_OwnerReferences := os\<rparr>" using controller_reference_owner by blast
  let ?y = "ki_set_meta k m x"
  show "store_wp look ha (api_call (req ?y) (f ?y)) Q st ws"
  proof (rule store_wpI)
    fix s assume s: "same_agent ha (rs_agent s)" "look (rs_world s) = st" "writes s = ws"
    obtain r w' where r: "f ?y (rs_world s) = (r, w')" by fastforce
    have "Q r (look w') ws'" for ws'
    proof (cases r)
      case None
      with eff r s(2) obtain x' where "kept ?y x'" "look w' = upd (\<lambda>g. g(meta_key (ki_meta k x) \<mapsto> x')) st"
        by (fastforce simp: meta_set m meta_key_def)
      with ok None show ?thesis by (auto simp: m dest: kept_owner)
    qed (use err(2) r s(2) in blast)
    with s r show "same_agent ha (rs_agent (snd (run_state (api_call (req ?y) (f ?y)) s))) \<and>
        Q (fst (run_state (api_call (req ?y) (f ?y)) s)) (look (rs_world (snd (run_state (api_call (req ?y) (f ?y)) s))))
          (writes (snd (run_state (api_call (req ?y) (f ?y)) s)))"
      by simp
  qed
qed (rule err(1))

lemma wp_create_owned:
  assumes "\<And>e st' ws'. (IsAlreadyExists e \<Longrightarrow> st' = st) \<Longrightarrow> Q (Some e) st' ws'"
    and "\<And>x' ws'. kept x x' \<Longrightarrow> Q None (upd (\<lambda>m. m(meta_key (ki_meta k x) \<mapsto> x')) st) ws'"
  shows "store_wp look ha (create_owned E k c x) Q st ws"
  unfolding create_owned_def
  by (rule wp_owned_call) (auto intro: create_done assms dest: create_exists)

lemma wp_update_owned:
  assumes "\<And>e st' ws'. Q (Some e) st' ws'"
    and "\<And>x' ws'. kept x x' \<Longrightarrow> Q None (upd (\<lambda>m. m(meta_key (ki_meta k x) \<mapsto> x')) st) ws'"
  shows "store_wp look ha (update_owned E k c x) Q st ws"
  unfolding update_owned_def
  by (rule wp_owned_call) (auto intro: update_done assms)

lemma wp_delete_object:
  assumes "\<And>e st' ws'. Q (Some e) st' ws'" and "\<And>ws'. Q None (upd (\<lambda>m. m(nn := None)) st) ws'"
  shows "store_wp look ha (delete_object k c nn) Q st ws"
proof (rule store_wpI)
  fix s assume s: "same_agent ha (rs_agent s)" "look (rs_world s) = st" "writes s = ws"
  obtain r w' where r: "rc_Delete c nn (rs_world s) = (r, w')" by fastforce
  show "same_agent ha (rs_agent (snd (run_state (delete_object k c nn) s))) \<and>
      Q (fst (run_state (delete_object k c nn) s)) (look (rs_world (snd (run_state (delete_object k c nn) s))))
        (writes (snd (run_state (delete_object k c nn) s)))"
    using assms s r delete_done [OF r] by (cases "IgnoreNotFound r") (simp_all add: delete_object_def)
qed

end

context cluster_store
begin

lemma wp_UpdateHermesAgentStatus [wp_rules]:
  assumes "\<And>e. Q (Some e) st ws" and "Q None st ws"
  shows "store_wp look ha (UpdateHermesAgentStatus E) Q st ws"
proof (rule store_wpI)
  fix s assume s: "same_agent ha (rs_agent s)" "look (rs_world s) = st" "writes s = ws"
  obtain r w' where r: "ka_StatusUpdate (kube E) (rs_agent s) (rs_world s) = (r, w')" by fastforce
  have "look w' = st" using frames(2) r s(2) by (metis snd_conv untouched_def)
  then show "same_agent ha (rs_agent (snd (run_state (UpdateHermesAgentStatus E) s))) \<and>
      Q (fst (run_state (UpdateHermesAgentStatus E) s)) (look (rs_world (snd (run_state (UpdateHermesAgentStatus E) s))))
        (writes (snd (run_state (UpdateHermesAgentStatus E) s)))"
    using assms s r status_update_same [of "rs_agent s" "rs_world s" _ w']
    by (cases r) (auto simp: UpdateHermesAgentStatus_def writes_def intro: same_agent_trans)
qed

lemma wp_status_then_finish [wp_rules]:
  "(\<And>e. Q (requeue 30, Some e) st ws) \<Longrightarrow> Q (done_result, None) st ws \<Longrightarrow> store_wp look ha (status_then_finish E) Q st ws"
  unfolding status_then_finish_def by (intro wp_rules)

lemma wp_set_condition [wp_rules]:
  "(\<And>b. Q b st ws) \<Longrightarrow> store_wp look ha (set_condition E typ status reason message) Q st ws"
  unfolding set_condition_def by (intro wp_rules wp_local_call [OF frames(9)])

lemma wp_remove_condition [wp_rules]:
  "(\<And>b. Q b st ws) \<Longrightarrow> store_wp look ha (remove_condition E typ) Q st ws"
  unfolding remove_condition_def by (intro wp_rules)

lemma wp_markReady [wp_rules]: "(\<And>b. Q b st ws) \<Longrightarrow> store_wp look ha (markReady E) Q st ws"
  unfolding markReady_def setReadyCondition_def by (intro wp_rules)

lemma wp_markReconcileFailed [wp_rules]:
  "Q err st ws \<Longrightarrow> store_wp look ha (markReconcileFailed E reason err) Q st ws"
  unfolding markReconcileFailed_def setReadyCondition_def by (intro wp_rules)

lemma wp_defer_mark [wp_rules]:
  assumes "store_wp look ha body Q st ws"
  shows "store_wp look ha (defer_mark E reason body) Q st ws"
proof -
  have "store_wp look ha (case snd r of None \<Rightarrow> State_Monad.return r
           | Some err \<Rightarrow> do { err' \<leftarrow> markReconcileFailed E reason err; State_Monad.return (fst r, Some err') }) Q st' ws'"
    if "Q r st' ws'" for r st' ws'
    using that by (cases r; cases "snd r") (auto intro!: wp_return wp_bind wp_markReconcileFailed)
  with assms show ?thesis unfolding defer_mark_def by (auto intro!: wp_bind elim: store_wp_mono)
qed

lemma wp_GetPod [wp_rules]:
  "(\<And>e. Q (Inl e) st ws) \<Longrightarrow> (\<And>v. Q (Inr v) st ws) \<Longrightarrow> store_wp look ha (GetPod E nn) Q st ws"
  unfolding GetPod_def get_object_def
  by (intro wp_rules wp_api_call [OF frames(3)]) (auto intro!: wp_return simp: not_found_nil_def split: sum.split)

lemma wp_DeletePod [wp_rules]:
  "(\<And>e ws'. Q (Some e) st ws') \<Longrightarrow> (\<And>ws'. Q None st ws') \<Longrightarrow> store_wp look ha (DeletePod E nn) Q st ws"
  unfolding DeletePod_def delete_object_def
  by (intro wp_rules wp_api_call [OF frames(4)]) (auto intro!: wp_return simp: IgnoreNotFound_def split: option.split)

lemma wp_random_hex [wp_rules]:
  "(\<And>e. Q (Inl e) st ws) \<Longrightarrow> (\<And>v. length v = 2 * n \<Longrightarrow> Q (Inr v) st ws) \<Longrightarrow> store_wp look ha (random_hex E n) Q st ws"
  unfolding random_hex_def
  by (intro wp_rules wp_local_call [OF frames(11)])
     (auto intro!: wp_return dest: rand_bytes split: sum.split)

text \<open>The typed methods.\<close>

lemmas wp_methods [wp_rules] =
  cm.wp_get_object [folded GetConfigMap_def] cm.wp_create_owned [folded CreateConfigMapOwnedByHermesAgent_def]
  cm.wp_update_owned [folded UpdateConfigMapOwnedByHermesAgent_def] cm.wp_delete_object [folded DeleteConfigMap_def]
  sec.wp_get_object [folded GetSecret_def] sec.wp_create_owned [folded CreateSecretOwnedByHermesAgent_def]
  sec.wp_update_owned [folded UpdateSecretOwnedByHermesAgent_def] sec.wp_delete_object [folded DeleteSecret_def]
  sts.wp_get_object [folded GetStatefulSet_def] sts.wp_create_owned [folded CreateStatefulSetOwnedByHermesAgent_def]
  sts.wp_update_owned [folded UpdateStatefulSetOwnedByHermesAgent_def] sts.wp_delete_object [folded DeleteStatefulSet_def]
  ro.wp_get_object [folded GetRole_def] ro.wp_create_owned [folded CreateRoleOwnedByHermesAgent_def]
  ro.wp_update_owned [folded UpdateRoleOwnedByHermesAgent_def] ro.wp_delete_object [folded DeleteRole_def]
  rb.wp_get_object [folded GetRoleBinding_def] rb.wp_create_owned [folded CreateRoleBindingOwnedByHermesAgent_def]
  rb.wp_update_owned [folded UpdateRoleBindingOwnedByHermesAgent_def] rb.wp_delete_object [folded DeleteRoleBinding_def]
  pvc.wp_get_object [folded GetPersistentVolumeClaim_def]
  pvc.wp_create_owned [folded CreatePersistentVolumeClaimOwnedByHermesAgent_def]

end

end
