(* ===== verification/Agent_Identity.thy ===== *)
theory Agent_Identity
  imports Owned_Requests Ensure
begin

text \<open>
  What the operator builds depends on the name, the namespace and the spec of the agent only: two
  versions of the agent with the same identity and spec have the same desired objects, whatever
  their status, generation or resource version.
\<close>

lemma same_identity:
  assumes "same_agent a b"
  shows "om_Name (ha_meta b) = om_Name (ha_meta a)" "om_Namespace (ha_meta b) = om_Namespace (ha_meta a)"
  "ha_Spec b = ha_Spec a"
  using assms by (simp_all add: same_agent_def meta_key_def)

lemma same_accessors:
  assumes "same_agent a b"
  shows "IsSuspended b = IsSuspended a" "GetSecurity b = GetSecurity a" "GetServiceAccountName b = GetServiceAccountName a"
  "GetNetworking b = GetNetworking a" "GetInitContainers b = GetInitContainers a" "GetSidecars b = GetSidecars a"
  "GetExtraVolumes b = GetExtraVolumes a" "GetExtraVolumeMounts b = GetExtraVolumeMounts a" "GetHostUsers b = GetHostUsers a"
  "GetPodAnnotations b = GetPodAnnotations a" "GetPodLabels b = GetPodLabels a" "GetPriorityClassName b = GetPriorityClassName a"
  "GetRuntimeClassName b = GetRuntimeClassName a" "GetSearXNG b = GetSearXNG a" "GetCamofox b = GetCamofox a"
  "GetCamofoxName b = GetCamofoxName a" "ResourceLabels b = ResourceLabels a" "SelectorLabels b = SelectorLabels a"
  "PodTemplateLabels b = PodTemplateLabels a" "GetHermesConfigMapRef b = GetHermesConfigMapRef a"
  "ValidateEgressSecretRefs b = ValidateEgressSecretRefs a" "ValidateEgressPorts b = ValidateEgressPorts a"
  "GetConfigSourceConfigMapNames (Some b) = GetConfigSourceConfigMapNames (Some a)" "own_key b = own_key a"
  by (unfold fun_eq_iff option.case same_identity [OF assms] IsSuspended_def GetSecurity_def GetServiceAccountName_def GetNetworking_def
      GetInitContainers_def GetSidecars_def GetExtraVolumes_def GetExtraVolumeMounts_def GetHostUsers_def
      GetPodAnnotations_def GetPodLabels_def GetPriorityClassName_def GetRuntimeClassName_def GetSearXNG_def GetCamofox_def
      GetCamofoxName_def ResourceLabels_def SelectorLabels_def PodTemplateLabels_def GetHermesConfigMapRef_def
      GetHermesName_def GetSearXNGName_def ValidateEgressSecretRefs_def ValidateEgressPorts_def used_ports_def GetEgress_def
      GetEgressSecretName_def GetEgressCASecretName_def GetHermes_def GetConfigSourceConfigMapNames_def own_key_def) (intro allI refl)+

lemmas same_parts = same_identity same_accessors same_agent_simps

lemma same_config_data:
  assumes "same_agent a b"
  shows "profile_config b = profile_config a" "validateConfigSources b = validateConfigSources a"
  "sorted_profiles b = sorted_profiles a"
  "buildHermesConfigMapData E b = buildHermesConfigMapData E a"
  "buildEgressProxyYAML E b = buildEgressProxyYAML E a"
  by (unfold fun_eq_iff same_parts [OF assms] profile_config_def validateConfigSources_def sorted_profiles_def operator_env_def
      buildHermesConfigMapData_def default_document_def buildEgressProxyYAML_def egress_proxy_config_def) (intro allI refl)+

lemma same_plans:
  assumes "same_agent a b"
  shows "searxng_cm_plan b = searxng_cm_plan a" "service_account_plan b = service_account_plan a" "service_plan E b = service_plan E a"
  "ingress_plan E b = ingress_plan E a" "network_policy_plan E b = network_policy_plan E a"
  "buildRole b = buildRole a" "buildRoleBinding b = buildRoleBinding a"
  by (unfold fun_eq_iff same_parts [OF assms] plan_defs buildSearXNGConfigMap_def buildServiceAccount_def buildService_def buildServicePorts_def
      buildIngress_def buildIngressPaths_def buildNetworkPolicy_def buildNetworkPolicyIngress_def netpol_ports_def
      buildRole_def buildRoleBinding_def Let_def) (intro allI refl)+

text \<open>The pod, part by part.\<close>

lemma same_dotenv:
  assumes "same_agent a b"
  shows "buildOperatorDotEnvItems b = buildOperatorDotEnvItems a" "buildOperatorDotEnvSecretItems b = buildOperatorDotEnvSecretItems a"
    "default_dotenv_sources b = default_dotenv_sources a" "default_has_dotenv b = default_has_dotenv a"
    "profile_has_dotenv b = profile_has_dotenv a" "profile_dotenv_sources b = profile_dotenv_sources a"
    "egress_tokens_dir b = egress_tokens_dir a" "egress_tokens_mounts b = egress_tokens_mounts a" "data_volume b = data_volume a"
  by (unfold fun_eq_iff same_parts [OF assms] buildOperatorDotEnvItems_def buildOperatorDotEnvSecretItems_def
      default_dotenv_sources_def default_has_dotenv_def profile_has_dotenv_def profile_dotenv_sources_def
      buildProfileSidecarDotEnvItems_def egress_tokens_dir_def egress_tokens_mounts_def data_volume_def) (intro allI refl)+

lemma same_hermes_containers:
  assumes "same_agent a b"
  shows "hermes_container b = hermes_container a" "initContainer b = initContainer a" "init_chown_data b = init_chown_data a"
    "init_script_container b = init_script_container a" "default_init_container b = default_init_container a"
    "profile_sources b = profile_sources a" "profile_init_container b = profile_init_container a"
    "hermes_volumes b = hermes_volumes a" "hermes_init_containers b = hermes_init_containers a"
  by (unfold fun_eq_iff same_parts [OF assms] same_dotenv [OF assms] same_config_data [OF assms] hermes_container_def hermes_env_def
      initContainer_def hermes_script_container_def init_chown_data_def init_script_container_def default_init_container_def
      default_steps_def profile_sources_def profile_init_container_def profile_steps_def hermes_volumes_def
      hermes_init_containers_def) (intro allI refl)+

lemma same_statefulset:
  assumes "same_agent a b"
  shows "buildStatefulSet b = buildStatefulSet a"
proof -
  have "base_statefulset b = base_statefulset a" "buildHermesContainer b = buildHermesContainer a"
    "buildSearXNGContainer b = buildSearXNGContainer a" "buildCamofoxContainer b = buildCamofoxContainer a"
    "buildEgressContainer b = buildEgressContainer a" "add_user_parts b = add_user_parts a"
    by (unfold fun_eq_iff same_parts [OF assms] same_dotenv [OF assms] same_hermes_containers [OF assms] base_statefulset_def
        buildHermesContainer_def buildSearXNGContainer_def searxng_container_def searxng_cache_source_def
        buildCamofoxContainer_def camofox_data_source_def buildEgressContainer_def egress_container_def egress_volumes_def
        token_env_def add_user_parts_def) (intro allI refl)+
  then show ?thesis by (simp add: buildStatefulSet_def fun_eq_iff)
qed

end
