(* ===== verification/Desired_State.thy ===== *)
theory Desired_State
  imports Cluster_Store Agent_Identity Egress_Facts
begin

text \<open>
  The desired state of an agent: what the store holds once every object that the operator manages for
  the agent is the one its spec asks for.  This is an abstract specification of the operator, one
  predicate per loop over the store alone; no loop, request or order of steps appears in it.
\<close>

section \<open>What the store says of the user's documents\<close>

definition stored_document :: "'w env \<Rightarrow> kstore \<Rightarrow> string \<Rightarrow> config_map_key_ref \<Rightarrow> raw_json option" where
  "stored_document E st ns ref =
     (case ks_ConfigMap st \<lparr>nn_Namespace = ns, nn_Name = ckr_Name ref\<rparr> of
        None \<Rightarrow> None
      | Some cm \<Rightarrow>
          (case map_get (cm_Data cm) (HermesConfigMapKeyRef_GetKey (Some ref)) of
             None \<Rightarrow> None
           | Some doc \<Rightarrow>
               (case am_YAMLToJSON (mach E) doc of
                  Inl err \<Rightarrow> None
                | Inr j \<Rightarrow> Some (RawJSON (if isJSONNull j then JObj [] else j)))))"

fun stored_profile_documents ::
  "'w env \<Rightarrow> kstore \<Rightarrow> hermes_agent \<Rightarrow> string list \<Rightarrow> raw_json gomap \<Rightarrow> raw_json gomap option" where
  "stored_profile_documents E st ha [] docs = Some docs"
| "stored_profile_documents E st ha (name # names) docs =
     (case HermesProfileConfig_GetConfigMapRef (profile_config ha name) of
        None \<Rightarrow> stored_profile_documents E st ha names docs
      | Some ref \<Rightarrow>
          (case stored_document E st (ha_Namespace ha) ref of
             None \<Rightarrow> None
           | Some doc \<Rightarrow> stored_profile_documents E st ha names (map_put name doc docs)))"

definition stored_default_document :: "'w env \<Rightarrow> kstore \<Rightarrow> hermes_agent \<Rightarrow> raw_json option option" where
  "stored_default_document E st ha =
     (case Hermes_GetConfigMapRef (GetHermes ha) of
        None \<Rightarrow> Some None
      | Some ref \<Rightarrow> (case stored_document E st (ha_Namespace ha) ref of None \<Rightarrow> None | Some doc \<Rightarrow> Some (Some doc)))"

text \<open>The data of the bootstrap ConfigMap, computed from the documents in the store.\<close>

definition stored_config_data :: "'w env \<Rightarrow> kstore \<Rightarrow> hermes_agent \<Rightarrow> string gomap option" where
  "stored_config_data E st ha =
     (case stored_default_document E st ha of
        None \<Rightarrow> None
      | Some default_doc \<Rightarrow>
          (case stored_profile_documents E st ha (Hermes_GetSortedProfileNames (GetHermes ha)) [] of
             None \<Rightarrow> None
           | Some docs \<Rightarrow>
               (case buildHermesConfigMapData E ha \<lparr>rcd_Default = default_doc, rcd_Profiles = docs\<rparr> of
                  Inl err \<Rightarrow> None | Inr data \<Rightarrow> Some data)))"

definition stored_credentials :: "kstore \<Rightarrow> hermes_agent \<Rightarrow> egress_credential list option" where
  "stored_credentials st ha =
     (if ValidateEgressSecretRefs ha \<noteq> None then None
      else
        (let eg = GetEgress ha;
             name = Egress_GetCredentialsSecretName eg;
             resolve = (\<lambda>keys. case ResolveCredentials eg keys of Inl msg \<Rightarrow> None | Inr cs \<Rightarrow> Some cs)
         in if name = [] then resolve []
            else (case ks_Secret st (own_key ha name) of None \<Rightarrow> None | Some s \<Rightarrow> resolve (map_keys (sec_Data s)))))"

fun stored_egress_sources ::
  "kstore \<Rightarrow> hermes_agent \<Rightarrow> (string \<times> string list option) list \<Rightarrow> string list \<times> string \<Rightarrow> (string list \<times> string) option" where
  "stored_egress_sources st ha [] acc = Some acc"
| "stored_egress_sources st ha ((name, ks) # srcs) acc =
     (if name = [] then stored_egress_sources st ha srcs acc
      else (case ks_Secret st (own_key ha name) of
              None \<Rightarrow> None
            | Some s \<Rightarrow>
                (let keys = (case ks of Some l \<Rightarrow> l | None \<Rightarrow> sorted_keys (sec_Data s));
                     text = concat (map (\<lambda>k. name @ [CHR 0x00] @ k @ [CHR 0x00] @ map_str (sec_Data s) k @ [CHR 0x00]) keys);
                     names = (if name = GetEgressSecretName ha then filter egressTokenKey keys else [])
                 in stored_egress_sources st ha srcs (fst acc @ names, snd acc @ text))))"

text \<open>The inputs of the StatefulSet, computed from the ConfigMap and the egress Secrets in the store.\<close>

definition stored_config_hash :: "'w env \<Rightarrow> kstore \<Rightarrow> hermes_agent \<Rightarrow> string" where
  "stored_config_hash E st ha =
     configMapDataHash E (case ks_ConfigMap st (own_key ha (GetHermesName ha)) of None \<Rightarrow> [] | Some c \<Rightarrow> cm_Data c)"

definition stored_inputs :: "'w env \<Rightarrow> kstore \<Rightarrow> hermes_agent \<Rightarrow> statefulSetInputs option" where
  "stored_inputs E st ha =
     (if Egress_IsEnabled (GetEgress ha) then
        (case GetEgressCASource ha of
           (caName, caCertKey, _) \<Rightarrow>
             map_option (\<lambda>(names, text). \<lparr>ssi_configHash = stored_config_hash E st ha, ssi_egressTokenNames = names,
                                          ssi_egressHash = hash16 E text\<rparr>)
               (stored_egress_sources st ha
                  [(caName, Some [caCertKey]), (GetEgressSecretName ha, None),
                   (Egress_GetCredentialsSecretName (GetEgress ha), None)] ([], [])))
      else Some \<lparr>ssi_configHash = stored_config_hash E st ha, ssi_egressTokenNames = [], ssi_egressHash = []\<rparr>)"

section \<open>One predicate per loop\<close>

definition config_map_desired :: "'w env \<Rightarrow> hermes_agent \<Rightarrow> kstore \<Rightarrow> bool" where
  "config_map_desired E ha st \<longleftrightarrow>
     (case (stored_config_data E st ha, ks_ConfigMap st (own_key ha (GetHermesName ha))) of
        (Some data, Some cm) \<Rightarrow> maps_Equal data (cm_Data cm) | _ \<Rightarrow> False)"

text \<open>The generated Secret has exactly the keys of the enabled servers, none of them empty.\<close>

definition hermes_secret_keys :: "hermes_agent \<Rightarrow> string list" where
  "hermes_secret_keys ha =
     (if HermesAPIServer_IsEnabled (Hermes_GetAPIServer (GetHermes ha)) then [''API_SERVER_KEY''] else []) @
     (if HermesWebhook_IsEnabled (Hermes_GetWebhook (GetHermes ha)) then [''WEBHOOK_SECRET''] else [])"

definition hermes_secret_desired :: "hermes_agent \<Rightarrow> kstore \<Rightarrow> bool" where
  "hermes_secret_desired ha st \<longleftrightarrow>
     (case ks_Secret st (own_key ha (GetHermesName ha)) of
        None \<Rightarrow> False
      | Some s \<Rightarrow> dom (map_of (sec_Data s)) = set (hermes_secret_keys ha) \<and>
                  list_all (\<lambda>k. map_str (sec_Data s) k \<noteq> []) (hermes_secret_keys ha))"

definition searxng_secret_desired :: "hermes_agent \<Rightarrow> kstore \<Rightarrow> bool" where
  "searxng_secret_desired ha st \<longleftrightarrow>
     (ks_Secret st (own_key ha (GetSearXNGName ha)) \<noteq> None) = SearXNG_IsEnabled (GetSearXNG ha)"

definition role_desired :: "'w env \<Rightarrow> hermes_agent \<Rightarrow> kstore \<Rightarrow> bool" where
  "role_desired E ha st \<longleftrightarrow>
     (let rules = RBAC_GetAdditionalRules (HermesSecurity_GetRBAC (GetSecurity ha));
          key = own_key ha (ha_Name ha)
      in if rules = [] \<or> GetServiceAccountName ha = [] then ks_Role st key = None \<and> ks_RoleBinding st key = None
         else (case (ks_Role st key, ks_RoleBinding st key) of
                 (Some r, Some b) \<Rightarrow> roleEqual E (buildRole ha rules) r \<and>
                                     roleBindingEqual E (buildRoleBinding ha (GetServiceAccountName ha)) b
               | _ \<Rightarrow> False))"

text \<open>
  The managed CA exists exactly when it is needed; a Secret of the user under its name is the user's.
\<close>

definition egress_ca_desired :: "'w env \<Rightarrow> hermes_agent \<Rightarrow> kstore \<Rightarrow> bool" where
  "egress_ca_desired E ha st \<longleftrightarrow>
     (let ref = Egress_GetCASecretRefName (GetEgress ha); managed = ks_Secret st (own_key ha (GetEgressCASecretName ha)) in
      if Egress_IsEnabled (GetEgress ha) then
        (if ref = [] then managed \<noteq> None
         else (case ks_Secret st (own_key ha ref) of
                 None \<Rightarrow> False | Some us \<Rightarrow> validateEgressCASecret E ref (sec_Data us) = None) \<and>
              (managed = None \<or> ref = GetEgressCASecretName ha))
      else managed = None \<or> ref = GetEgressCASecretName ha)"

text \<open>The data of the egress Secret, rebuilt from the tokens that it holds.\<close>

definition kept_egress_data :: "'w env \<Rightarrow> hermes_agent \<Rightarrow> egress_credential list \<Rightarrow> secret \<Rightarrow> string gomap option" where
  "kept_egress_data E ha creds s =
     (case buildEgressProxyYAML E ha creds (kept_tokens s creds []) of
        Inl err \<Rightarrow> None
      | Inr yaml \<Rightarrow> Some (token_data (kept_tokens s creds []) creds [(EgressProxyConfigKey, yaml)]))"

definition egress_secret_desired :: "'w env \<Rightarrow> hermes_agent \<Rightarrow> kstore \<Rightarrow> bool" where
  "egress_secret_desired E ha st \<longleftrightarrow>
     (if Egress_IsEnabled (GetEgress ha) then
        ValidateEgressPorts ha = None \<and>
        (case (stored_credentials st ha, ks_Secret st (own_key ha (GetEgressSecretName ha))) of
           (Some creds, Some s) \<Rightarrow>
             list_all (\<lambda>c. map_str (sec_Data s) (cr_Name c) \<noteq> []) creds \<and>
             (case kept_egress_data E ha creds s of None \<Rightarrow> False | Some data \<Rightarrow> maps_Equal (sec_Data s) data)
         | _ \<Rightarrow> False)
      else ks_Secret st (own_key ha (GetEgressSecretName ha)) = None)"

definition restore_desired :: "hermes_agent \<Rightarrow> kstore \<Rightarrow> bool" where
  "restore_desired ha st \<longleftrightarrow>
     restore_source ha = [] \<or>
     ks_Claim st (own_key ha (RestoredPVCName (restore_source ha))) \<noteq> None \<and>
     (case ks_StatefulSet st (own_key ha (ha_Name ha)) of
        None \<Rightarrow> True | Some s \<Rightarrow> \<not> statefulSetHasVolumeClaimTemplate s hermesHomeVolume)"

definition statefulset_desired :: "'w env \<Rightarrow> hermes_agent \<Rightarrow> kstore \<Rightarrow> bool" where
  "statefulset_desired E ha st \<longleftrightarrow>
     (case (stored_inputs E st ha, ks_StatefulSet st (own_key ha (ha_Name ha))) of
        (Some ssi, Some s) \<Rightarrow> sts_settled E ha ssi s | _ \<Rightarrow> False)"

definition planned :: "(hermes_agent \<Rightarrow> 'o ensure_plan) \<Rightarrow> (kstore \<Rightarrow> namespaced_name \<Rightarrow> 'o option) \<Rightarrow> hermes_agent \<Rightarrow> kstore \<Rightarrow> bool" where
  "planned plan fld ha st \<longleftrightarrow> plan_settled (plan ha) (fld st (ep_key (plan ha)))"

text \<open>The desired state, in the order of the loops.\<close>

definition desired_parts :: "'w env \<Rightarrow> hermes_agent \<Rightarrow> (kstore \<Rightarrow> bool) list" where
  "desired_parts E ha =
     [config_map_desired E ha, hermes_secret_desired ha, planned searxng_cm_plan ks_ConfigMap ha,
      searxng_secret_desired ha, planned service_account_plan ks_ServiceAccount ha, role_desired E ha,
      planned (service_plan E) ks_Service ha, planned (ingress_plan E) ks_Ingress ha,
      planned (network_policy_plan E) ks_NetworkPolicy ha, egress_ca_desired E ha, egress_secret_desired E ha,
      restore_desired ha, statefulset_desired E ha]"

definition desired_state :: "'w env \<Rightarrow> hermes_agent \<Rightarrow> kstore \<Rightarrow> bool" where
  "desired_state E ha st \<longleftrightarrow> list_all (\<lambda>part. part st) (desired_parts E ha)"

end
