(* ===== verification/Store_Loops.thy ===== *)
theory Store_Loops
  imports Desired_State
begin

text \<open>
  The loops over the store.  For each loop two facts: when it ends without an error, its part of the
  desired state holds and only its own objects have changed; and when its part already holds, it
  writes nothing.  Both are proved for every behaviour of the client that the contract allows, so
  every call may fail.
\<close>

section \<open>Postconditions\<close>

text \<open>
  A result that is neither an error nor the request for a retry: the operator asks for a retry after
  30 seconds when it has deleted the StatefulSet or waits for a snapshot, and after 2 seconds when it
  waits for the egress Secrets.
\<close>

definition settled_result :: "ctrl_result \<times> go_error option \<Rightarrow> bool" where
  "settled_result r \<longleftrightarrow> snd r = None \<and> fst r \<noteq> requeue 30 \<and> fst r \<noteq> requeue 2"

lemma settled_result_simps [simp]:
  "\<not> settled_result (x, Some e)" "settled_result (done_result, None)" "\<not> settled_result (requeue 30, None)"
  "\<not> settled_result (requeue 2, None)" "settled_result (requeue 10, None)"
  by (simp_all add: settled_result_def requeue_def done_result_def second_def)

text \<open>
  A run that ends with such a result lets the next loop run, in a store that satisfies \<open>R\<close>; and a run
  that neither writes nor changes the store.
\<close>

abbreviation reaches :: "(kstore \<Rightarrow> bool) \<Rightarrow> ctrl_result \<times> go_error option \<Rightarrow> kstore \<Rightarrow> api_request list \<Rightarrow> bool" where
  "reaches R \<equiv> (\<lambda>r st ws. settled_result r \<longrightarrow> IsZero (fst r) \<and> R st)"

abbreviation leaves :: "kstore \<Rightarrow> api_request list \<Rightarrow> 'a \<Rightarrow> kstore \<Rightarrow> api_request list \<Rightarrow> bool" where
  "leaves st ws \<equiv> (\<lambda>r st' ws'. st' = st \<and> ws' = ws)"

section \<open>The create-update-delete loops\<close>

text \<open>A plan for a kind of the store: what the server keeps of the planned object compares as unchanged.\<close>

locale planned_kind =
  cluster_store E look +
  pk: kind_store E look fld upd k c kept
  for E :: "'w env" and look fld upd k c kept +
  fixes p :: "'o ensure_plan"
  assumes desired_key: "meta_key (ki_meta k (ep_desired p)) = ep_key p"
    and merge_key: "meta_key (ki_meta k (set_version k ex (ep_merge p ex))) = ep_key p"
    and created_same: "kept (ep_desired p) x \<Longrightarrow> ep_same p (ep_merge p x) x"
    and updated_same: "kept (set_version k ex (ep_merge p ex)) x \<Longrightarrow> ep_same p (ep_merge p x) x"

text \<open>The object at one key of one field is the only change.\<close>

definition changes_at ::
  "(((namespaced_name \<Rightarrow> 'o option) \<Rightarrow> namespaced_name \<Rightarrow> 'o option) \<Rightarrow> kstore \<Rightarrow> kstore) \<Rightarrow> namespaced_name
     \<Rightarrow> kstore \<Rightarrow> kstore \<Rightarrow> bool" where
  "changes_at upd nn st st' \<longleftrightarrow> (\<exists>y. st' = upd (\<lambda>m. m(nn := y)) st)"

lemma changes_put [intro]: "changes_at upd nn st (upd (\<lambda>m. m(nn := y)) st)"
  by (auto simp: changes_at_def)

context planned_kind
begin

lemma changes_none: "changes_at upd nn st st"
  unfolding changes_at_def by (metis pk.upd_same)

lemma wp_ensure_loop_reaches:
  "store_wp look ha (ensure_loop E k c p)
     (reaches (\<lambda>st'. plan_settled p (fld st' (ep_key p)) \<and> changes_at upd (ep_key p) st st')) st ws"
  unfolding ensure_loop_def
  by (intro wp_rules pk.wp_get_object pk.wp_create_owned pk.wp_update_owned pk.wp_delete_object)
     (auto simp: plan_settled_def changes_none pk.fld_upd desired_key merge_key intro: created_same updated_same)

lemma wp_ensure_loop_leaves:
  assumes "plan_settled p (fld st (ep_key p))"
  shows "store_wp look ha (ensure_loop E k c p) (leaves st ws) st ws"
  unfolding ensure_loop_def
  by (intro wp_rules pk.wp_get_object pk.wp_create_owned pk.wp_update_owned pk.wp_delete_object)
     (use assms in \<open>auto simp: plan_settled_def split: option.splits\<close>)

end

sublocale cluster_store \<subseteq> searxng_cm: planned_kind E look ks_ConfigMap ks_ConfigMap_update kConfigMap "ka_ConfigMap (kube E)"
    kept_ConfigMap "searxng_cm_plan ha" for ha
  by unfold_locales
     (auto simp: plan_defs kind_defs set_version_def buildSearXNGConfigMap_def objectMeta_def meta_key_def kept_defs
        configMapDataEqual_def maps_Equal_iff)

sublocale cluster_store \<subseteq> service_account: planned_kind E look ks_ServiceAccount ks_ServiceAccount_update kServiceAccount
    "ka_ServiceAccount (kube E)" kept_ServiceAccount "service_account_plan ha" for ha
  by unfold_locales
     (auto simp: plan_defs kind_defs set_version_def buildServiceAccount_def objectMeta_def meta_key_def kept_defs
        serviceAccountEqual_def maps_Equal_iff Let_def)

sublocale cluster_store \<subseteq> service: planned_kind E look ks_Service ks_Service_update kService "ka_Service (kube E)"
    kept_Service "service_plan E ha" for ha
  by unfold_locales
     (auto simp: plan_defs kind_defs set_version_def buildService_def objectMeta_def meta_key_def kept_defs
        serviceEqual_def maps_Equal_iff deep_equal_refl Let_def)

sublocale cluster_store \<subseteq> ingress: planned_kind E look ks_Ingress ks_Ingress_update kIngress "ka_Ingress (kube E)"
    kept_Ingress "ingress_plan E ha" for ha
  by unfold_locales
     (auto simp: plan_defs kind_defs set_version_def buildIngress_def objectMeta_def meta_key_def kept_defs
        ingressEqual_def maps_Equal_iff deep_equal_refl Let_def)

sublocale cluster_store \<subseteq> network_policy: planned_kind E look ks_NetworkPolicy ks_NetworkPolicy_update kNetworkPolicy
    "ka_NetworkPolicy (kube E)" kept_NetworkPolicy "network_policy_plan E ha" for ha
  by unfold_locales
     (auto simp: plan_defs kind_defs set_version_def buildNetworkPolicy_def objectMeta_def meta_key_def kept_defs
        networkPolicyEqual_def deep_equal_refl Let_def)

context cluster_store
begin

lemma wp_plan_loop:
  assumes "\<And>a. same_agent ha a \<Longrightarrow> plan a = plan ha"
    and "store_wp look ha (ensure_loop E k c (plan ha)) Q st ws"
  shows "store_wp look ha (defer_mark E reason (do { a \<leftarrow> get_agent; ensure_loop E k c (plan a) })) Q st ws"
  using assms by (auto intro!: wp_rules)

lemmas plan_loop_reaches =
  searxng_cm.wp_ensure_loop_reaches service_account.wp_ensure_loop_reaches service.wp_ensure_loop_reaches
  ingress.wp_ensure_loop_reaches network_policy.wp_ensure_loop_reaches

lemma planned_loops_reach:
  "store_wp look ha (reconcileSearXNGConfigMap E)
     (reaches (\<lambda>st'. planned searxng_cm_plan ks_ConfigMap ha st' \<and>
        changes_at ks_ConfigMap_update (ep_key (searxng_cm_plan ha)) st st')) st ws"
  "store_wp look ha (reconcileServiceAccount E)
     (reaches (\<lambda>st'. planned service_account_plan ks_ServiceAccount ha st' \<and>
        changes_at ks_ServiceAccount_update (ep_key (service_account_plan ha)) st st')) st ws"
  "store_wp look ha (reconcileService E)
     (reaches (\<lambda>st'. planned (service_plan E) ks_Service ha st' \<and>
        changes_at ks_Service_update (ep_key (service_plan E ha)) st st')) st ws"
  "store_wp look ha (reconcileIngress E)
     (reaches (\<lambda>st'. planned (ingress_plan E) ks_Ingress ha st' \<and>
        changes_at ks_Ingress_update (ep_key (ingress_plan E ha)) st st')) st ws"
  "store_wp look ha (reconcileNetworkPolicy E)
     (reaches (\<lambda>st'. planned (network_policy_plan E) ks_NetworkPolicy ha st' \<and>
        changes_at ks_NetworkPolicy_update (ep_key (network_policy_plan E ha)) st st')) st ws"
  unfolding reconcile_as_ensure planned_def by (rule wp_plan_loop; (erule same_plans | rule plan_loop_reaches))+

lemma planned_loops_leave:
  "planned searxng_cm_plan ks_ConfigMap ha st \<Longrightarrow> store_wp look ha (reconcileSearXNGConfigMap E) (leaves st ws) st ws"
  "planned service_account_plan ks_ServiceAccount ha st \<Longrightarrow> store_wp look ha (reconcileServiceAccount E) (leaves st ws) st ws"
  "planned (service_plan E) ks_Service ha st \<Longrightarrow> store_wp look ha (reconcileService E) (leaves st ws) st ws"
  "planned (ingress_plan E) ks_Ingress ha st \<Longrightarrow> store_wp look ha (reconcileIngress E) (leaves st ws) st ws"
  "planned (network_policy_plan E) ks_NetworkPolicy ha st \<Longrightarrow> store_wp look ha (reconcileNetworkPolicy E) (leaves st ws) st ws"
  unfolding reconcile_as_ensure planned_def
  by (rule wp_plan_loop;
      (erule same_plans | erule searxng_cm.wp_ensure_loop_leaves service_account.wp_ensure_loop_leaves
         service.wp_ensure_loop_leaves ingress.wp_ensure_loop_leaves network_policy.wp_ensure_loop_leaves))+

section \<open>Role and RoleBinding\<close>

lemma wp_ensure_role [wp_rules]:
  assumes "\<And>ex. x = Some ex \<Longrightarrow> roleEqual E r ex \<Longrightarrow> store_wp look ha k Q st ws"
    and "\<And>e st' ws'. (\<And>ex. x = Some ex \<Longrightarrow> \<not> roleEqual E r ex) \<Longrightarrow> Q (requeue 30, Some e) st' ws'"
    and "\<And>y ws'. (\<And>ex. x = Some ex \<Longrightarrow> \<not> roleEqual E r ex) \<Longrightarrow> role_Rules y = role_Rules r \<Longrightarrow>
           store_wp look ha k Q (ks_Role_update (\<lambda>m. m(meta_key (role_meta r) \<mapsto> y)) st) ws'"
  shows "store_wp look ha (ensure_role E x r k) Q st ws"
  unfolding ensure_role_def
  by (intro wp_rules) (auto intro!: assms simp: kept_Role_def kind_defs)

lemma wp_ensure_role_binding [wp_rules]:
  assumes "\<And>ex. x = Some ex \<Longrightarrow> roleBindingEqual E b ex \<Longrightarrow> store_wp look ha k Q st ws"
    and "\<And>e st' ws'. (\<And>ex. x = Some ex \<Longrightarrow> \<not> roleBindingEqual E b ex) \<Longrightarrow> Q (requeue 30, Some e) st' ws'"
    and "\<And>y ws'. (\<And>ex. x = Some ex \<Longrightarrow> \<not> roleBindingEqual E b ex) \<Longrightarrow> rb_Subjects y = rb_Subjects b \<Longrightarrow> rb_RoleRef y = rb_RoleRef b \<Longrightarrow>
           store_wp look ha k Q (ks_RoleBinding_update (\<lambda>m. m(meta_key (rb_meta b) \<mapsto> y)) st) ws'"
  shows "store_wp look ha (ensure_role_binding E x b k) Q st ws"
  unfolding ensure_role_binding_def
  by (intro wp_rules) (auto intro!: assms simp: kept_RoleBinding_def kind_defs)

lemma role_keys:
  "meta_key (role_meta (buildRole ha rules)) = own_key ha (ha_Name ha)"
  "meta_key (rb_meta (buildRoleBinding ha sa)) = own_key ha (ha_Name ha)"
  by (simp_all add: buildRole_def buildRoleBinding_def own_key_def meta_key_def objectMeta_def)

lemma role_equal_kept:
  "role_Rules y = role_Rules r \<Longrightarrow> roleEqual E r y"
  "rb_Subjects z = rb_Subjects b \<Longrightarrow> rb_RoleRef z = rb_RoleRef b \<Longrightarrow> roleBindingEqual E b z"
  by (simp_all add: roleEqual_def roleBindingEqual_def deep_equal_refl)

text \<open>The loop changes the Role and the RoleBinding of the agent.\<close>

lemma role_reaches:
  "store_wp look ha (reconcileRole E)
     (reaches (\<lambda>st'. role_desired E ha st' \<and> st'\<lparr>ks_Role := ks_Role st, ks_RoleBinding := ks_RoleBinding st\<rparr> = st)) st ws"
  unfolding reconcileRole_def own_key_def [symmetric]
  by (intro wp_rules)
     (auto simp: role_desired_def same_parts same_plans Let_def role_keys intro: role_equal_kept)

lemma role_leaves:
  assumes "role_desired E ha st"
  shows "store_wp look ha (reconcileRole E) (leaves st ws) st ws"
  unfolding reconcileRole_def own_key_def [symmetric]
  by (intro wp_rules)
     (use assms in \<open>auto simp: role_desired_def same_parts same_plans Let_def split: option.splits if_splits\<close>)

section \<open>The generated Secrets\<close>

lemma secret_unchanged: "changes_at ks_Secret_update nn st st" "changes_at ks_ConfigMap_update nn st st"
  unfolding changes_at_def by (metis sec.upd_same, metis cm.upd_same)

lemma wp_stable_key:
  assumes "key \<notin> dom (map_of data)" and "\<And>e. Q (Inl e) st ws"
    and "\<And>v. v \<noteq> [] \<Longrightarrow> (existing_value existing key \<noteq> [] \<longrightarrow> v = existing_value existing key) \<Longrightarrow> Q (Inr (map_put key v data)) st ws"
  shows "store_wp look ha (stable_key E existing key data) Q st ws"
proof -
  have "map_str data key = []" using assms(1) by (auto simp: map_str_def domIff)
  then show ?thesis
    unfolding stable_key_def
    by (intro wp_rules) (cases existing; auto simp: existing_value_def intro!: assms)+
qed

lemma wp_buildHermesSecret:
  assumes "\<And>e. Q (Inl e) st ws"
    and "\<And>x. dom (map_of (sec_Data x)) = set (hermes_secret_keys a) \<Longrightarrow>
           list_all (\<lambda>k. map_str (sec_Data x) k \<noteq> [] \<and>
             (existing_value existing k \<noteq> [] \<longrightarrow> map_str (sec_Data x) k = existing_value existing k)) (hermes_secret_keys a) \<Longrightarrow>
           meta_key (sec_meta x) = own_key a (GetHermesName a) \<Longrightarrow> Q (Inr x) st ws"
  shows "store_wp look ha (buildHermesSecret E a existing) Q st ws"
  unfolding buildHermesSecret_def
  by (intro wp_rules wp_stable_key)
     (auto simp: hermes_secret_keys_def map_str_def own_key_def meta_key_def objectMeta_def intro!: assms split: if_splits)

text \<open>A Secret that is complete is rebuilt with the values it has.\<close>

lemma hermes_secret_rebuilt:
  assumes "dom (map_of d) = set ks" and "dom (map_of d') = set ks"
    and "\<forall>k\<in>set ks. map_str d' k = map_str d k"
  shows "maps_Equal d d'"
  unfolding maps_Equal_iff
proof
  fix k
  show "map_of d k = map_of d' k"
  proof (cases "k \<in> set ks")
    case True
    then obtain v v' where "map_of d k = Some v" "map_of d' k = Some v'" using assms(1,2) by blast
    with True assms(3) show ?thesis by (auto simp: list_all_iff map_str_def)
  next
    case False
    with assms(1,2) show ?thesis by (metis domIff)
  qed
qed

lemma hermes_secret_keys_same: "same_agent a b \<Longrightarrow> hermes_secret_keys b = hermes_secret_keys a"
  by (simp add: hermes_secret_keys_def same_parts)

lemma hermes_secret_reaches:
  "store_wp look ha (reconcileHermesSecret E)
     (reaches (\<lambda>st'. hermes_secret_desired ha st' \<and> changes_at ks_Secret_update (own_key ha (GetHermesName ha)) st st')) st ws"
  unfolding reconcileHermesSecret_def own_key_def [symmetric]
  by (intro wp_rules wp_buildHermesSecret)
     (auto simp: hermes_secret_desired_def same_parts hermes_secret_keys_same kind_defs secret_unchanged kept_Secret_def
        maps_Equal_iff list_all_iff map_str_def)

lemma hermes_secret_leaves:
  assumes "hermes_secret_desired ha st"
  shows "store_wp look ha (reconcileHermesSecret E) (leaves st ws) st ws"
  unfolding reconcileHermesSecret_def own_key_def [symmetric]
  by (intro wp_rules wp_buildHermesSecret)
     (use assms in \<open>auto simp: hermes_secret_desired_def same_parts hermes_secret_keys_same existing_value_def list_all_iff
        hermes_secret_rebuilt [where ks = "hermes_secret_keys ha"] split: option.splits\<close>)

lemma wp_buildSearXNGSecret:
  "(\<And>e. Q (Inl e) st ws) \<Longrightarrow> (\<And>x. meta_key (sec_meta x) = own_key a (GetSearXNGName a) \<Longrightarrow> Q (Inr x) st ws) \<Longrightarrow>
     store_wp look ha (buildSearXNGSecret E a) Q st ws"
  unfolding buildSearXNGSecret_def
  by (intro wp_rules) (auto simp: own_key_def meta_key_def objectMeta_def)

lemma searxng_secret_reaches:
  "store_wp look ha (reconcileSearXNGSecret E)
     (reaches (\<lambda>st'. searxng_secret_desired ha st' \<and> changes_at ks_Secret_update (own_key ha (GetSearXNGName ha)) st st')) st ws"
  unfolding reconcileSearXNGSecret_def own_key_def [symmetric]
  by (intro wp_rules wp_buildSearXNGSecret)
     (auto simp: searxng_secret_desired_def same_parts kind_defs secret_unchanged)

lemma searxng_secret_leaves:
  assumes "searxng_secret_desired ha st"
  shows "store_wp look ha (reconcileSearXNGSecret E) (leaves st ws) st ws"
  unfolding reconcileSearXNGSecret_def own_key_def [symmetric]
  by (intro wp_rules wp_buildSearXNGSecret)
     (use assms in \<open>auto simp: searxng_secret_desired_def same_parts\<close>)

end

end
