(* ===== verification/Store_Egress.thy ===== *)
theory Store_Egress
  imports Store_Loops
begin

text \<open>The loops of the egress proxy over the store: the CA and the Secret with the tokens.\<close>

lemma own_key_inject [simp]: "own_key ha x = own_key ha y \<longleftrightarrow> x = y"
  by (simp add: own_key_def)

text \<open>A fact about every result of a program that leaves the store alone.\<close>

lemma wp_leaves_result:
  assumes "store_wp look ha m (leaves st ws) st ws" and "\<And>s r s'. run_state m s = (r, s') \<Longrightarrow> P r"
    and "\<And>r. P r \<Longrightarrow> Q r st ws"
  shows "store_wp look ha m Q st ws"
  using assms by (fastforce simp: store_wp_def)

context cluster_store
begin

section \<open>The CA\<close>

lemma wp_bind_err [wp_rules]:
  assumes "store_wp look ha m (\<lambda>r st ws. case r of Inl e \<Rightarrow> Q (Inl e) st ws | Inr v \<Rightarrow> store_wp look ha (k v) Q st ws) st ws"
  shows "store_wp look ha (bind_err m k) Q st ws"
  unfolding bind_err_def by (rule wp_bind, rule store_wp_mono [OF assms]) (auto intro: wp_return split: sum.splits)

lemma buildEgressCASecret_leaves: "store_wp look ha (buildEgressCASecret E a) (leaves st ws) st ws"
  unfolding buildEgressCASecret_def
  by (intro wp_rules wp_local_call frames) (auto intro!: wp_rules wp_local_call frames split: sum.split)

lemma buildEgressCASecret_key:
  "run_state (buildEgressCASecret E a) s = (r, s') \<Longrightarrow> on_ok (\<lambda>x. meta_key (sec_meta x) = own_key a (GetEgressCASecretName a)) r"
  by (auto simp: buildEgressCASecret_def bind_err_def wrap_err_def own_key_def meta_key_def objectMeta_def case_prod_unfold Let_def
      split: sum.splits)

lemma wp_buildEgressCASecret [wp_rules]:
  "(\<And>e. Q (Inl e) st ws) \<Longrightarrow>
     (\<And>x. meta_key (sec_meta x) = own_key a (GetEgressCASecretName a) \<Longrightarrow> Q (Inr x) st ws) \<Longrightarrow>
     store_wp look ha (buildEgressCASecret E a) Q st ws"
  by (rule wp_leaves_result [OF buildEgressCASecret_leaves buildEgressCASecret_key]) (auto simp: on_ok_def split: sum.splits, metis sumE)

lemma wp_recordEgress [wp_rules]:
  "(\<And>e. Q (requeue 30, Some e) st ws) \<Longrightarrow> Q (done_result, None) st ws \<Longrightarrow> store_wp look ha (recordEgressCASecret E name) Q st ws"
  "(\<And>e. Q (requeue 30, Some e) st ws) \<Longrightarrow> Q (done_result, None) st ws \<Longrightarrow> store_wp look ha (recordEgressSecret E name) Q st ws"
  unfolding recordEgressCASecret_def recordEgressSecret_def by (intro wp_rules; assumption)+

lemma egress_ca_reaches:
  "store_wp look ha (reconcileEgressCA E)
     (reaches (\<lambda>st'. egress_ca_desired E ha st' \<and> changes_at ks_Secret_update (own_key ha (GetEgressCASecretName ha)) st st')) st ws"
  unfolding reconcileEgressCA_def own_key_def [symmetric]
  by (intro wp_rules)
     (auto simp: egress_ca_desired_def same_parts kind_defs secret_unchanged Let_def)

lemma egress_ca_leaves:
  assumes "egress_ca_desired E ha st"
  shows "store_wp look ha (reconcileEgressCA E) (leaves st ws) st ws"
  unfolding reconcileEgressCA_def own_key_def [symmetric]
  by (intro wp_rules)
     (use assms in \<open>auto simp: egress_ca_desired_def same_parts Let_def split: if_splits\<close>)

section \<open>The Secret with the tokens\<close>

lemma wp_resolveEgressCredentials [wp_rules]:
  assumes "same_agent ha a" and "\<And>e. Q (Inl e) st ws" and "\<And>creds. stored_credentials st ha = Some creds \<Longrightarrow> Q (Inr creds) st ws"
  shows "store_wp look ha (resolveEgressCredentials E a) Q st ws"
  unfolding resolveEgressCredentials_def own_key_def [symmetric]
  by (intro wp_rules)
     (auto simp: stored_credentials_def same_parts [OF assms(1)] Let_def intro!: assms(2,3) split: option.splits sum.splits)

lemma stored_credentials_distinct: "stored_credentials st ha = Some creds \<Longrightarrow> distinct (all_env_names creds)"
  by (auto simp: stored_credentials_def Let_def all_env_names_def checkCredentialClaims_def check_claims_None
      dest!: ResolveCredentials_Inr(3) split: if_splits option.splits sum.splits)

lemma buildEgressSecret_leaves: "store_wp look ha (buildEgressSecret E a creds existing) (leaves st ws) st ws"
proof -
  have "store_wp look ha (egress_tokens E existing creds tokens) (leaves st ws) st ws" for tokens
    by (induction creds arbitrary: tokens)
       (auto simp: mintEgressProxyToken_def intro!: wp_rules wp_local_call frames split: sum.split)
  from store_wp_mono [OF this [of "[]"]] show ?thesis
    unfolding buildEgressSecret_def by (rule wp_bind) (simp add: wp_return)
qed

text \<open>
  A Secret that was built, and every Secret with the same entries, has a token for every credential and
  is what its own tokens give.
\<close>

lemma buildEgressSecret_kept:
  assumes "run_state (buildEgressSecret E a creds existing) s = (r, s')" and "distinct (all_env_names creds)"
  shows "on_ok (\<lambda>x :: secret. meta_key (sec_meta x) = own_key a (GetEgressSecretName a) \<and>
     (\<forall>y :: secret. map_of (sec_Data y) = map_of (sec_Data x) \<longrightarrow>
        list_all (\<lambda>c. map_str (sec_Data y) (cr_Name c) \<noteq> []) creds \<and> kept_egress_data E a creds y = Some (sec_Data x))) r"
  unfolding on_ok_def
proof (intro allI impI conjI)
  fix x :: secret assume "r = Inr x"
  from egress_secret_built [OF assms(1) [unfolded this] assms(2)] obtain t yaml where
    yaml: "buildEgressProxyYAML E a creds t = Inr yaml"
    and x: "x = \<lparr>sec_meta = objectMeta (GetEgressSecretName a) (ha_Namespace a) (ResourceLabels a),
                  sec_Data = token_data t creds [(EgressProxyConfigKey, yaml)]\<rparr>"
    and spec: "\<forall>c\<in>set creds. map_str t (cr_Name c) \<noteq> [] \<and>
           (existing_value existing (cr_Name c) \<noteq> [] \<longrightarrow> map_str t (cr_Name c) = existing_value existing (cr_Name c)) \<and>
           (\<forall>n\<in>set (cr_EnvNames c). map_of (sec_Data x) n = Some (map_str t (cr_Name c)))"
    and kept: "\<And>y :: secret. map_of (sec_Data y) = map_of (sec_Data x) \<Longrightarrow> kept_tokens y creds [] = t"
    by blast
  show "meta_key (sec_meta x) = own_key a (GetEgressSecretName a)"
    by (simp add: x own_key_def meta_key_def objectMeta_def)
  fix y :: secret assume y: "map_of (sec_Data y) = map_of (sec_Data x)"
  have "map_str (sec_Data y) (cr_Name c) = map_str t (cr_Name c)" if "c \<in> set creds" for c
    using bspec [OF spec that] cr_Name_env [of c] by (simp only: map_str_def [of "sec_Data y"] y option.case)
  then show "list_all (\<lambda>c. map_str (sec_Data y) (cr_Name c) \<noteq> []) creds"
    using spec by (simp add: list_all_iff)
  show "kept_egress_data E a creds y = Some (sec_Data x)"
    by (simp add: kept_egress_data_def kept [OF y] yaml) (simp add: x)
qed

lemma wp_buildEgressSecret:
  assumes "distinct (all_env_names creds)" and "\<And>e. Q (Inl e) st ws"
    and "\<And>x. meta_key (sec_meta x) = own_key a (GetEgressSecretName a) \<Longrightarrow>
           (\<And>y. map_of (sec_Data y) = map_of (sec_Data x) \<Longrightarrow>
              list_all (\<lambda>c. map_str (sec_Data y) (cr_Name c) \<noteq> []) creds \<and> kept_egress_data E a creds y = Some (sec_Data x)) \<Longrightarrow>
           Q (Inr x) st ws"
  shows "store_wp look ha (buildEgressSecret E a creds existing) Q st ws"
proof (rule wp_leaves_result [OF buildEgressSecret_leaves buildEgressSecret_kept [OF _ assms(1)]])
  fix r :: "go_error + secret"
  assume "on_ok (\<lambda>x. meta_key (sec_meta x) = own_key a (GetEgressSecretName a) \<and>
     (\<forall>y. map_of (sec_Data y) = map_of (sec_Data x) \<longrightarrow>
        list_all (\<lambda>c. map_str (sec_Data y) (cr_Name c) \<noteq> []) creds \<and> kept_egress_data E a creds y = Some (sec_Data x))) r"
  then show "Q r st ws" using assms(2,3) by (cases r) auto
qed

text \<open>A Secret with all its tokens is rebuilt without a random number.\<close>

lemma wp_buildEgressSecret_again:
  assumes "existing = Some old" and "list_all (\<lambda>c. map_str (sec_Data old) (cr_Name c) \<noteq> []) creds"
    and "kept_egress_data E a creds old = Some data" and "\<And>m. Q (Inr \<lparr>sec_meta = m, sec_Data = data\<rparr>) st ws"
  shows "store_wp look ha (buildEgressSecret E a creds existing) Q st ws"
proof -
  obtain yaml where "buildEgressProxyYAML E a creds (kept_tokens old creds []) = Inr yaml"
    "data = token_data (kept_tokens old creds []) creds [(EgressProxyConfigKey, yaml)]"
    using assms(3) by (auto simp: kept_egress_data_def split: sum.splits)
  then have "\<exists>m. run_state (buildEgressSecret E a creds (Some old)) s = (Inr \<lparr>sec_meta = m, sec_Data = data\<rparr>, s)" for s
    using egress_tokens_kept [OF assms(2), of E "[]" s] by (simp add: buildEgressSecret_def)
  with assms(1,4) show ?thesis by (intro store_wpI) (metis fst_conv snd_conv)
qed

lemma kept_egress_data_same: "same_agent a b \<Longrightarrow> kept_egress_data E b creds x = kept_egress_data E a creds x"
  by (simp add: kept_egress_data_def same_config_data)

text \<open>The credentials do not depend on the Secret that is written.\<close>

lemma stored_credentials_frame:
  assumes "stored_credentials st ha = Some creds"
  shows "stored_credentials (ks_Secret_update (\<lambda>m. m(own_key ha (GetEgressSecretName ha) := y)) st) ha = Some creds"
proof -
  have "Egress_GetCredentialsSecretName (GetEgress ha) = [] \<or> Egress_GetCredentialsSecretName (GetEgress ha) \<noteq> GetEgressSecretName ha"
    using assms ValidateEgressSecretRefs_iff [of ha] by (auto simp: stored_credentials_def Let_def split: if_splits)
  with assms show ?thesis by (auto simp: stored_credentials_def Let_def split: if_splits)
qed

lemma egress_secret_reaches:
  "store_wp look ha (reconcileEgressSecret E)
     (reaches (\<lambda>st'. egress_secret_desired E ha st' \<and> changes_at ks_Secret_update (own_key ha (GetEgressSecretName ha)) st st')) st ws"
  unfolding reconcileEgressSecret_def own_key_def [symmetric]
  by (intro wp_rules wp_buildEgressSecret)
     (auto simp: egress_secret_desired_def same_parts kind_defs secret_unchanged stored_credentials_frame kept_egress_data_same
        kept_Secret_def maps_Equal_iff dest: stored_credentials_distinct)

lemma egress_secret_leaves:
  assumes "egress_secret_desired E ha st"
  shows "store_wp look ha (reconcileEgressSecret E) (leaves st ws) st ws"
proof (cases "Egress_IsEnabled (GetEgress ha)")
  case True
  with assms obtain creds old data where
    "stored_credentials st ha = Some creds" "ks_Secret st (own_key ha (GetEgressSecretName ha)) = Some old"
    "list_all (\<lambda>c. map_str (sec_Data old) (cr_Name c) \<noteq> []) creds" "kept_egress_data E ha creds old = Some data"
    "maps_Equal (sec_Data old) data"
    by (auto simp: egress_secret_desired_def split: option.splits)
  with True show ?thesis
    unfolding reconcileEgressSecret_def own_key_def [symmetric]
    by (intro wp_rules wp_buildEgressSecret_again [where old = old and data = data])
       (auto simp: same_parts kept_egress_data_same)
next
  case False
  with assms show ?thesis
    unfolding reconcileEgressSecret_def own_key_def [symmetric]
    by (intro wp_rules) (auto simp: egress_secret_desired_def same_parts)
qed

end

end
