(* ===== verification/Store_Pod.thy ===== *)
theory Store_Pod
  imports Store_Egress StatefulSet_Store
begin

text \<open>
  The loops of the pod over the store: the bootstrap ConfigMap, the restored claim, the StatefulSet
  and the snapshots.
\<close>

text \<open>The StatefulSet that is stored at the end: a settled one, which was there or has the desired claim templates.\<close>

definition applied_statefulset :: "'w env \<Rightarrow> hermes_agent \<Rightarrow> statefulSetInputs \<Rightarrow> kstore \<Rightarrow> kstore \<Rightarrow> bool" where
  "applied_statefulset E ha ssi st st' \<longleftrightarrow>
     (\<exists>x. st' = ks_StatefulSet_update (\<lambda>m. m(own_key ha (ha_Name ha) \<mapsto> x)) st \<and> sts_settled E ha ssi x \<and>
          (vct_names x = vct_names (buildStatefulSet ha ssi) \<or> ks_StatefulSet st (own_key ha (ha_Name ha)) = Some x))"

section \<open>The bootstrap ConfigMap\<close>

lemma config_ref_source:
  "Hermes_GetConfigMapRef (GetHermes ha) = Some ref \<Longrightarrow> ckr_Name ref \<in> set (GetConfigSourceConfigMapNames (Some ha))"
  by (simp add: GetConfigSourceConfigMapNames_def)

lemma stored_default_documentI:
  "Hermes_GetConfigMapRef (GetHermes ha) = None \<Longrightarrow> stored_default_document E st ha = Some None"
  "Hermes_GetConfigMapRef (GetHermes ha) = Some ref \<Longrightarrow> stored_document E st (ha_Namespace ha) ref = Some d \<Longrightarrow>
     stored_default_document E st ha = Some (Some d)"
  by (simp_all add: stored_default_document_def)

lemma stored_config_dataI:
  "stored_default_document E st ha = Some d \<Longrightarrow>
     stored_profile_documents E st ha (Hermes_GetSortedProfileNames (GetHermes ha)) [] = Some ds \<Longrightarrow>
     buildHermesConfigMapData E ha \<lparr>rcd_Default = d, rcd_Profiles = ds\<rparr> = Inr data \<Longrightarrow> stored_config_data E st ha = Some data"
  by (simp add: stored_config_data_def)

text \<open>A ConfigMap that the spec does not refer to has no influence on the data.\<close>

lemma stored_document_frame:
  "ckr_Name ref \<noteq> n \<Longrightarrow>
     stored_document E (ks_ConfigMap_update (\<lambda>m. m(own_key ha n := y)) st) ns ref = stored_document E st ns ref"
  by (simp add: stored_document_def own_key_def)

context cluster_store
begin

lemma stored_config_data_frame:
  assumes "n \<notin> set (GetConfigSourceConfigMapNames (Some ha))"
  shows "stored_config_data E (ks_ConfigMap_update (\<lambda>m. m(own_key ha n := y)) st) ha = stored_config_data E st ha"
proof -
  let ?st = "ks_ConfigMap_update (\<lambda>m. m(own_key ha n := y)) st"
  have doc: "stored_document E ?st ns ref = stored_document E st ns ref"
    if "ckr_Name ref \<in> set (GetConfigSourceConfigMapNames (Some ha))" for ns ref
    using that assms by (intro stored_document_frame) auto
  have "stored_default_document E ?st ha = stored_default_document E st ha"
    by (simp add: stored_default_document_def doc config_ref_source split: option.split)
  moreover have "stored_profile_documents E ?st ha names docs = stored_profile_documents E st ha names docs" for names docs
    by (induction names arbitrary: docs) (auto simp: doc profile_config_source split: option.split)
  ultimately show ?thesis by (simp add: stored_config_data_def cong: option.case_cong)
qed

lemma wp_readConfigDocument [wp_rules]:
  "(\<And>e. Q (Inl e) st ws) \<Longrightarrow> (\<And>d. stored_document E st ns ref = Some d \<Longrightarrow> Q (Inr d) st ws) \<Longrightarrow>
     store_wp look ha (readConfigDocument E ns ref) Q st ws"
  unfolding readConfigDocument_def
  by (intro wp_rules) (auto simp: stored_document_def split: option.splits sum.splits)

lemma wp_read_profile_documents [wp_rules]:
  assumes "same_agent ha a" and "\<And>e. Q (Inl e) st ws"
    and "\<And>ds. stored_profile_documents E st ha names docs = Some ds \<Longrightarrow> Q (Inr ds) st ws"
  shows "store_wp look ha (read_profile_documents E a names docs) Q st ws"
  using assms(2,3)
  by (induction names arbitrary: docs)
     (auto simp: same_parts [OF assms(1)] same_config_data [OF assms(1)] intro!: wp_rules)

lemma wp_resolveConfigDocuments [wp_rules]:
  assumes "same_agent ha a" and "\<And>e. Q (Inl e) st ws"
    and "\<And>d ds. stored_default_document E st ha = Some d \<Longrightarrow>
           stored_profile_documents E st ha (Hermes_GetSortedProfileNames (GetHermes ha)) [] = Some ds \<Longrightarrow>
           Q (Inr \<lparr>rcd_Default = d, rcd_Profiles = ds\<rparr>) st ws"
  shows "store_wp look ha (resolveConfigDocuments E a) Q st ws"
  unfolding resolveConfigDocuments_def
  by (intro wp_rules assms(1))
     (auto simp: same_parts [OF assms(1)] same_config_data [OF assms(1)] intro!: wp_rules assms stored_default_documentI(1),
      metis stored_default_documentI(2))

lemma config_map_key:
  "\<lparr>nn_Namespace = hcmr_Namespace (GetHermesConfigMapRef ha), nn_Name = hcmr_Name (GetHermesConfigMapRef ha)\<rparr> = own_key ha (GetHermesName ha)"
  "meta_key (objectMeta (hcmr_Name (GetHermesConfigMapRef ha)) (hcmr_Namespace (GetHermesConfigMapRef ha)) ls) = own_key ha (GetHermesName ha)"
  by (simp_all add: GetHermesConfigMapRef_def own_key_def meta_key_def objectMeta_def)

lemma config_map_reaches:
  assumes "GetHermesName ha \<notin> set (GetConfigSourceConfigMapNames (Some ha))"
  shows "store_wp look ha (reconcileHermesConfigMap E)
     (reaches (\<lambda>st'. config_map_desired E ha st' \<and> changes_at ks_ConfigMap_update (own_key ha (GetHermesName ha)) st st')) st ws"
  unfolding reconcileHermesConfigMap_def own_key_def [symmetric]
  by (intro wp_rules)
     (auto simp: config_map_desired_def stored_config_data_frame [OF assms] same_parts same_config_data kind_defs config_map_key
        secret_unchanged kept_ConfigMap_def configMapDataEqual_def maps_Equal_iff stored_config_dataI)

lemma config_map_leaves:
  assumes "config_map_desired E ha st"
  shows "store_wp look ha (reconcileHermesConfigMap E) (leaves st ws) st ws"
  unfolding reconcileHermesConfigMap_def own_key_def [symmetric]
  by (intro wp_rules)
     (use assms in \<open>auto simp: config_map_desired_def same_parts same_config_data configMapDataEqual_def stored_config_dataI
        split: option.splits\<close>)

section \<open>The restored claim\<close>

lemma wp_conditions [wp_rules]:
  "P () st ws \<Longrightarrow> store_wp look ha (setRestoreFailed E reason message) P st ws"
  "(\<And>b. Q b st ws) \<Longrightarrow> store_wp look ha (clearRestoreFailed E) Q st ws"
  "P () st ws \<Longrightarrow> store_wp look ha (setSnapshotUnsupported E reason message) P st ws"
  "(\<And>b. Q b st ws) \<Longrightarrow> store_wp look ha (clearSnapshotUnsupported E) Q st ws"
  unfolding setRestoreFailed_def clearRestoreFailed_def setSnapshotUnsupported_def clearSnapshotUnsupported_def
  by (intro wp_rules; simp)+

lemma wp_GetVolumeSnapshot [wp_rules]:
  "(\<And>r. Q r st ws) \<Longrightarrow> store_wp look ha (GetVolumeSnapshot E nn) Q st ws"
  unfolding GetVolumeSnapshot_def by (intro wp_rules wp_api_call [OF frames(5)]) (simp add: wp_return)

lemma wp_getReadySnapshot [wp_rules]:
  "(\<And>e. Q (Inl e) st ws) \<Longrightarrow> (\<And>v. Q (Inr v) st ws) \<Longrightarrow> store_wp look ha (getReadySnapshot E name) Q st ws"
  unfolding getReadySnapshot_def restore_failed_nil_def by (intro wp_rules; simp)

lemma wp_reshape_gate:
  assumes "\<And>s. ks_StatefulSet st nn = Some s \<Longrightarrow> \<not> statefulSetHasVolumeClaimTemplate s hermesHomeVolume \<Longrightarrow> R st"
    and "ks_StatefulSet st nn = None \<Longrightarrow> R st"
  shows "store_wp look ha (reshape_gate E nn) (reaches R) st ws"
  unfolding reshape_gate_def by (intro wp_rules) (auto split: option.splits intro: assms)

text \<open>Provisioning changes claims only, and goes on when the claim exists.\<close>

lemma wp_provision_restore:
  assumes "\<And>e st' ws'. Q (requeue 30, Some e) st' ws'" and "\<And>st' ws'. Q (requeue 30, None) st' ws'"
    and "\<And>st' ws'. st'\<lparr>ks_Claim := ks_Claim st\<rparr> = st \<Longrightarrow> ks_Claim st' nn \<noteq> None \<Longrightarrow> store_wp look ha k Q st' ws'"
  shows "store_wp look ha (provision_restore E nn source k) Q st ws"
proof -
  let ?rest = "\<lambda>e. if (case e of None \<Rightarrow> False | Some err \<Rightarrow> \<not> IsAlreadyExists err) then fail30 (the e)
    else do { tel (LogInfo ''Created restore PVC from VolumeSnapshot'');
              get30 (GetPersistentVolumeClaim E nn) (\<lambda>restored. if restored = None then State_Monad.return (requeue 30, None) else k) }"
  have go: "store_wp look ha (?rest None) Q st' ws'" if "st'\<lparr>ks_Claim := ks_Claim st\<rparr> = st" for st' ws'
    using that by (auto intro!: wp_rules assms)
  have fail: "store_wp look ha (?rest (Some e)) Q st' ws'" if "IsAlreadyExists e \<Longrightarrow> st' = st" for e st' ws'
    using that by (auto intro!: wp_rules assms)
  show ?thesis
    unfolding provision_restore_def
    by (intro wp_get30 wp_getReadySnapshot wp_result wp_case_option wp_bind wp_get_agent wp_return
        pvc.wp_create_owned [folded CreatePersistentVolumeClaimOwnedByHermesAgent_def] assms(1,2) go fail) simp_all
qed

lemma restore_reaches:
  "store_wp look ha (reconcileRestore E)
     (reaches (\<lambda>st'. restore_desired ha st' \<and> st'\<lparr>ks_Claim := ks_Claim st\<rparr> = st)) st ws"
  unfolding reconcileRestore_def own_key_def [symmetric]
  by (intro wp_rules wp_reshape_gate wp_provision_restore)
     (auto simp: restore_desired_def restore_source_def same_parts)

lemma restore_leaves:
  assumes "restore_desired ha st"
  shows "store_wp look ha (reconcileRestore E) (leaves st ws) st ws"
  unfolding reconcileRestore_def reshape_gate_def own_key_def [symmetric]
  by (intro wp_rules)
     (use assms in \<open>auto simp: restore_desired_def restore_source_def same_parts split: option.splits\<close>)

section \<open>The StatefulSet\<close>

lemma wp_read_egress_sources [wp_rules]:
  assumes "same_agent ha a" and "\<And>e. Q (Inl e) st ws"
    and "\<And>r. stored_egress_sources st ha srcs acc = Some r \<Longrightarrow> Q (Inr r) st ws"
  shows "store_wp look ha (read_egress_sources E a srcs acc) Q st ws"
  using assms(2,3)
proof (induction srcs arbitrary: acc)
  case (Cons src srcs)
  obtain name ks where src: "src = (name, ks)" by fastforce
  show ?case
    unfolding src read_egress_sources.simps own_key_def [symmetric] Let_def
    by (intro wp_rules Cons.IH)
       (auto simp: src same_parts [OF assms(1)] Let_def intro!: Cons.prems wp_rules split: option.splits)
qed (simp add: wp_return)

lemma wp_egressPodInputs [wp_rules]:
  assumes "same_agent ha a" and "Egress_IsEnabled (GetEgress ha)" and "\<And>e. Q (Inl e) st ws"
    and "\<And>ssi. stored_inputs E st ha = Some ssi \<Longrightarrow> Q (Inr (ssi_egressTokenNames ssi, ssi_egressHash ssi)) st ws"
  shows "store_wp look ha (egressPodInputs E a) Q st ws"
  unfolding egressPodInputs_def
  by (intro wp_rules assms(1))
     (use assms in \<open>auto simp: stored_inputs_def same_parts split: prod.splits\<close>)

lemma wp_deriveStatus [wp_rules]: "(\<And>p. Q (fst p, snd p) st ws) \<Longrightarrow> store_wp look ha (deriveStatus E) Q st ws"
  unfolding deriveStatus_def by (intro wp_rules; simp split: option.split)

lemma wp_applyInitFailedCondition [wp_rules]:
  "(\<And>b. Q b st ws) \<Longrightarrow> store_wp look ha (applyInitFailedCondition E failure) Q st ws"
  unfolding applyInitFailedCondition_def clear_init_failed_def by (intro wp_rules; simp)

lemma wp_report_status [wp_rules]:
  "(\<And>e. Q (requeue 30, Some e) st ws) \<Longrightarrow> Q (requeue 10, None) st ws \<Longrightarrow> Q (done_result, None) st ws \<Longrightarrow>
     store_wp look ha (report_status E) Q st ws"
  unfolding report_status_def by (intro wp_rules; simp)

text \<open>What the server keeps of the desired StatefulSet is settled.\<close>

lemma desired_statefulset_simps:
  "vct_names (sts_meta_update f (desired_statefulset E ha ssi)) = vct_names (buildStatefulSet ha ssi)"
  "map_str (om_Annotations (sts_meta (desired_statefulset E ha ssi))) annotationDesiredSpecHash = desiredSpecHash E (buildStatefulSet ha ssi)"
  "meta_key (sts_meta (desired_statefulset E ha ssi)) = own_key ha (ha_Name ha)"
  using desired_meta(1) [of E ha ssi]
  by (simp_all add: desired_statefulset_def vct_names_def Let_def own_key_def sts_key_def)

lemma kept_statefulset_settled:
  assumes "kept_StatefulSet (sts_meta_update f (desired_statefulset E ha ssi)) x" and "\<And>m. om_Annotations (f m) = om_Annotations m"
  shows "sts_settled E ha ssi x \<and> vct_names x = vct_names (buildStatefulSet ha ssi)"
proof -
  have names: "vct_names x = vct_names (buildStatefulSet ha ssi)"
    using assms(1) by (simp add: kept_StatefulSet_def desired_statefulset_simps)
  have "length (sts_VolumeClaimTemplates x) = length (sts_VolumeClaimTemplates (buildStatefulSet ha ssi))"
    using arg_cong [OF names, of length] by (simp add: vct_names_def)
  then have "sameVolumeClaimTemplateNames x (buildStatefulSet ha ssi)"
    by (simp add: sameVolumeClaimTemplateNames_def names list_all_iff)
  then show ?thesis
    using assms by (simp add: sts_settled_def names kept_StatefulSet_def meta_kept_def desired_statefulset_simps)
qed

lemma apply_statefulset_desired:
  "apply_statefulset E ha live ssi =
     (case live of
        Some sts \<Rightarrow>
          if \<not> sameVolumeClaimTemplateNames sts (buildStatefulSet ha ssi) then
            try30 (DeleteStatefulSet E (own_key ha (ha_Name ha)))
              (do { tel (LogInfo ''Deleted StatefulSet to reshape storage''); State_Monad.return (requeue 30, None) })
          else if \<not> sts_settled E ha ssi sts then update_statefulset E ha sts (desired_statefulset E ha ssi) (report_status E)
          else report_status E
      | None \<Rightarrow>
          try30 (CreateStatefulSetOwnedByHermesAgent E (desired_statefulset E ha ssi))
            (do { tel (LogDebug ''StatefulSet created''); report_status E }))"
  by (simp add: apply_statefulset_def sts_settled_def desired_statefulset_def own_key_def Let_def split: option.split)

lemma desired_statefulset_same: "same_agent a b \<Longrightarrow> desired_statefulset E b ssi = desired_statefulset E a ssi"
  "same_agent a b \<Longrightarrow> sts_settled E b ssi x = sts_settled E a ssi x"
  by (simp_all add: desired_statefulset_def sts_settled_def same_statefulset)

lemma applied_statefulsetI:
  "kept_StatefulSet (desired_statefulset E ha ssi) x \<Longrightarrow>
     applied_statefulset E ha ssi st (ks_StatefulSet_update (\<lambda>m. m(own_key ha (ha_Name ha) \<mapsto> x)) st)"
  "kept_StatefulSet (sts_meta_update (om_ResourceVersion_update v) (desired_statefulset E ha ssi)) x \<Longrightarrow>
     applied_statefulset E ha ssi st (ks_StatefulSet_update (\<lambda>m. m(own_key ha (ha_Name ha) \<mapsto> x)) st)"
  "ks_StatefulSet st (own_key ha (ha_Name ha)) = Some y \<Longrightarrow> sts_settled E ha ssi y \<Longrightarrow> applied_statefulset E ha ssi st st"
proof -
  have id: "sts_meta_update id y = y" for y :: statefulset by (cases y) simp
  show "applied_statefulset E ha ssi st (ks_StatefulSet_update (\<lambda>m. m(own_key ha (ha_Name ha) \<mapsto> x)) st)"
    if "kept_StatefulSet (desired_statefulset E ha ssi) x"
    using kept_statefulset_settled [where f = id, of ha ssi x] that unfolding applied_statefulset_def id by auto
  show "applied_statefulset E ha ssi st (ks_StatefulSet_update (\<lambda>m. m(own_key ha (ha_Name ha) \<mapsto> x)) st)"
    if "kept_StatefulSet (sts_meta_update (om_ResourceVersion_update v) (desired_statefulset E ha ssi)) x"
    using kept_statefulset_settled [OF that] unfolding applied_statefulset_def by auto
  show "applied_statefulset E ha ssi st st"
    if "ks_StatefulSet st (own_key ha (ha_Name ha)) = Some y" "sts_settled E ha ssi y"
    using that sts.upd_same [of "own_key ha (ha_Name ha)" st] unfolding applied_statefulset_def by (intro exI [of _ y]) simp
qed

lemma wp_apply_statefulset:
  assumes "same_agent ha a"
  shows "store_wp look ha (apply_statefulset E a (ks_StatefulSet st (own_key ha (ha_Name ha))) ssi)
     (\<lambda>r st' ws'. settled_result r \<longrightarrow> applied_statefulset E ha ssi st st') st ws"
  unfolding apply_statefulset_desired update_statefulset_def
  by (intro wp_rules)
     (auto simp: same_parts [OF assms] same_statefulset [OF assms] desired_statefulset_same [OF assms]
        kind_defs desired_statefulset_simps intro: applied_statefulsetI)

lemma has_template_names: "statefulSetHasVolumeClaimTemplate x n \<longleftrightarrow> n \<in> set (vct_names x)"
  by (auto simp: statefulSetHasVolumeClaimTemplate_def vct_names_def list_ex_iff)

text \<open>The inputs do not depend on the StatefulSets.\<close>

lemma stored_inputs_frame: "stored_inputs E (ks_StatefulSet_update f st) ha = stored_inputs E st ha"
proof -
  have "stored_egress_sources (ks_StatefulSet_update f st) ha srcs acc = stored_egress_sources st ha srcs acc" for srcs acc
    by (induction srcs arbitrary: acc) (auto simp: Let_def split: option.split)
  then show ?thesis by (simp add: stored_inputs_def stored_config_hash_def del: stored_egress_sources.simps)
qed

lemma applied_statefulset_desired:
  assumes "applied_statefulset E ha ssi st st'" and "stored_inputs E st ha = Some ssi"
  shows "statefulset_desired E ha st'" and "restore_desired ha st \<Longrightarrow> restore_desired ha st'"
proof -
  obtain x where st': "st' = ks_StatefulSet_update (\<lambda>m. m(own_key ha (ha_Name ha) \<mapsto> x)) st" and x: "sts_settled E ha ssi x"
    and names: "vct_names x = vct_names (buildStatefulSet ha ssi) \<or> ks_StatefulSet st (own_key ha (ha_Name ha)) = Some x"
    using assms(1) by (auto simp: applied_statefulset_def)
  show "statefulset_desired E ha st'" using assms(2) x by (simp add: statefulset_desired_def st' stored_inputs_frame)
  have "hermesHomeVolume \<notin> set (vct_names (buildStatefulSet ha ssi))" if "restore_source ha \<noteq> []"
    using that by (simp add: vct_names_def buildStatefulSet_fixed data_volume_def restore_source_def Let_def)
  then have "\<not> statefulSetHasVolumeClaimTemplate x hermesHomeVolume"
    if "restore_source ha \<noteq> []" "vct_names x = vct_names (buildStatefulSet ha ssi)"
    using that by (simp add: has_template_names)
  then show "restore_desired ha st'" if "restore_desired ha st"
    using that names by (auto simp: restore_desired_def st' split: option.splits)
qed

text \<open>
  The loop without an error or a retry: the StatefulSet is the desired one, and the restored claim stays
  in use.  The StatefulSets are the only change.
\<close>

lemma stored_inputs_parts:
  "stored_inputs E st ha = Some ssi \<Longrightarrow>
     \<lparr>ssi_configHash = stored_config_hash E st ha, ssi_egressTokenNames = ssi_egressTokenNames ssi, ssi_egressHash = ssi_egressHash ssi\<rparr> = ssi"
  by (auto simp: stored_inputs_def split: if_splits prod.splits)

text \<open>The loop computes its inputs from the store and applies the StatefulSet.\<close>

lemma wp_reconcileStatefulSet:
  assumes "\<And>e. Q (requeue 30, Some e) st ws" and "Q (requeue 2, None) st ws"
    and "\<And>a ssi. same_agent ha a \<Longrightarrow> stored_inputs E st ha = Some ssi \<Longrightarrow>
           store_wp look ha (apply_statefulset E a (ks_StatefulSet st (own_key ha (ha_Name ha))) ssi) Q st ws"
  shows "store_wp look ha (reconcileStatefulSet E) Q st ws"
  unfolding reconcileStatefulSet_def config_map_key own_key_def [symmetric]
  by (intro wp_rules)
     (auto simp: same_parts stored_config_hash_def [symmetric] stored_inputs_parts intro!: assms wp_rules simp: stored_inputs_def)

lemma statefulset_reaches:
  "store_wp look ha (reconcileStatefulSet E)
     (\<lambda>r st' ws'. settled_result r \<longrightarrow> (\<exists>ssi. stored_inputs E st ha = Some ssi \<and> applied_statefulset E ha ssi st st')) st ws"
  by (rule wp_reconcileStatefulSet) (auto intro: store_wp_mono [OF wp_apply_statefulset])

lemma statefulset_leaves:
  assumes "statefulset_desired E ha st"
  shows "store_wp look ha (reconcileStatefulSet E) (leaves st ws) st ws"
  using assms
  by (intro wp_reconcileStatefulSet)
     (auto simp: statefulset_desired_def apply_statefulset_settled desired_statefulset_same intro!: wp_rules split: option.splits)

section \<open>Snapshots\<close>

text \<open>The snapshot loop writes snapshots and the status only.\<close>

lemma wp_snapshot_calls [wp_rules]:
  "(\<And>e. P (Inl e) st ws) \<Longrightarrow> (\<And>v. P (Inr v) st ws) \<Longrightarrow> store_wp look ha (ListVolumeSnapshotsOwnedByAgent E ns name) P st ws"
  "(\<And>e. Q (Some e) st ws) \<Longrightarrow> Q None st ws \<Longrightarrow> store_wp look ha (CreateVolumeSnapshotOwnedByHermesAgent E x) Q st ws"
  "(\<And>e. Q (Some e) st ws) \<Longrightarrow> Q None st ws \<Longrightarrow> store_wp look ha (DeleteVolumeSnapshot E nn) Q st ws"
proof -
  show "store_wp look ha (ListVolumeSnapshotsOwnedByAgent E ns name) P st ws"
    if "\<And>e. P (Inl e) st ws" "\<And>v. P (Inr v) st ws"
    unfolding ListVolumeSnapshotsOwnedByAgent_def
    by (intro wp_rules wp_api_call [OF frames(6)]) (use that in \<open>auto intro!: wp_return split: sum.split elim: sumE\<close>, metis sumE that)
  show "store_wp look ha (CreateVolumeSnapshotOwnedByHermesAgent E x) Q st ws"
    if "\<And>e. Q (Some e) st ws" "Q None st ws"
    unfolding CreateVolumeSnapshotOwnedByHermesAgent_def
    by (intro wp_rules wp_api_call [OF frames(7)]) (use that in \<open>simp_all, metis option.exhaust\<close>)
  show "store_wp look ha (DeleteVolumeSnapshot E nn) Q st ws"
    if "\<And>e. Q (Some e) st ws" "Q None st ws"
    unfolding DeleteVolumeSnapshot_def
    by (intro wp_rules wp_api_call [OF frames(8)]) (use that in \<open>simp add: wp_return, metis option.exhaust\<close>)
qed

lemma wp_delete_expired [wp_rules]:
  assumes "\<And>e. Q (requeue 30, Some e) st ws" and "store_wp look ha k Q st ws"
  shows "store_wp look ha (delete_expired E olds k) Q st ws"
  using assms by (induction olds) (auto intro!: wp_rules)

lemma snapshot_leaves: "store_wp look ha (reconcileSnapshot E) (leaves st ws) st ws"
  unfolding reconcileSnapshot_def prune_and_run_def run_schedule_def take_snapshot_def record_snapshots_def
  by (intro wp_rules wp_local_call [OF frames(10)]; simp)

end

end
