(* ===== verification/Steady_State.thy ===== *)
theory Steady_State
  imports Store_Pod Convergence
begin

text \<open>
  The whole reconciliation over the store: a run that ends without an error or a retry has brought the
  store to the desired state, and a run on the desired state writes nothing.
\<close>

section \<open>What each part of the desired state depends on\<close>

text \<open>The parts of the first loops.\<close>

definition desired_upto :: "'w env \<Rightarrow> hermes_agent \<Rightarrow> nat \<Rightarrow> kstore \<Rightarrow> bool" where
  "desired_upto E ha n st \<longleftrightarrow> list_all (\<lambda>part. part st) (take n (desired_parts E ha))"

text \<open>The operator does not write to the ConfigMaps that the spec names as sources.\<close>

definition sources_apart :: "hermes_agent \<Rightarrow> bool" where
  "sources_apart ha \<longleftrightarrow>
     GetHermesName ha \<notin> set (GetConfigSourceConfigMapNames (Some ha)) \<and>
     GetSearXNGName ha \<notin> set (GetConfigSourceConfigMapNames (Some ha))"

lemma own_names_distinct:
  "GetHermesName ha \<noteq> GetSearXNGName ha" "GetHermesName ha \<noteq> GetEgressSecretName ha"
  "GetHermesName ha \<noteq> GetEgressCASecretName ha" "GetSearXNGName ha \<noteq> GetEgressSecretName ha"
  "GetSearXNGName ha \<noteq> GetEgressCASecretName ha" "GetEgressSecretName ha \<noteq> GetEgressCASecretName ha"
  by (simp_all add: GetHermesName_def GetSearXNGName_def GetEgressSecretName_def GetEgressCASecretName_def)

declare own_names_distinct [simp] own_names_distinct [symmetric, simp]

lemma stored_config_data_cong:
  assumes "ks_ConfigMap st' = ks_ConfigMap st"
  shows "stored_config_data E st' ha = stored_config_data E st ha"
proof -
  have doc: "stored_document E st' ns ref = stored_document E st ns ref" for ns ref
    by (simp add: stored_document_def assms)
  have "stored_profile_documents E st' ha names docs = stored_profile_documents E st ha names docs" for names docs
    by (induction names arbitrary: docs) (simp_all add: doc cong: option.case_cong)
  then show ?thesis by (simp add: stored_config_data_def stored_default_document_def doc cong: option.case_cong)
qed

lemma desired_cong:
  "ks_ConfigMap st' = ks_ConfigMap st \<Longrightarrow> config_map_desired E ha st' = config_map_desired E ha st"
  "ks_Secret st' (own_key ha (GetHermesName ha)) = ks_Secret st (own_key ha (GetHermesName ha)) \<Longrightarrow>
     hermes_secret_desired ha st' = hermes_secret_desired ha st"
  "ks_Secret st' (own_key ha (GetSearXNGName ha)) = ks_Secret st (own_key ha (GetSearXNGName ha)) \<Longrightarrow>
     searxng_secret_desired ha st' = searxng_secret_desired ha st"
  "fld st' = fld st \<Longrightarrow> planned plan fld ha st' = planned plan fld ha st"
  "ks_Role st' = ks_Role st \<Longrightarrow> ks_RoleBinding st' = ks_RoleBinding st \<Longrightarrow> role_desired E ha st' = role_desired E ha st"
  "ks_Secret st' = ks_Secret st \<Longrightarrow> egress_ca_desired E ha st' = egress_ca_desired E ha st"
  "ks_Secret st' = ks_Secret st \<Longrightarrow> egress_secret_desired E ha st' = egress_secret_desired E ha st"
  by (simp_all add: hermes_secret_desired_def searxng_secret_desired_def planned_def role_desired_def egress_ca_desired_def
      egress_secret_desired_def stored_credentials_def config_map_desired_def stored_config_data_cong [of st' st] Let_def)

text \<open>The fields outside a change of the Role and its binding, and of the claims.\<close>

lemma unchanged_fields:
  "st'\<lparr>ks_Role := r, ks_RoleBinding := b\<rparr> = st \<Longrightarrow>
     ks_ConfigMap st' = ks_ConfigMap st \<and> ks_Secret st' = ks_Secret st \<and> ks_ServiceAccount st' = ks_ServiceAccount st"
  "st'\<lparr>ks_Claim := c\<rparr> = st \<Longrightarrow>
     ks_ConfigMap st' = ks_ConfigMap st \<and> ks_Secret st' = ks_Secret st \<and> ks_ServiceAccount st' = ks_ServiceAccount st \<and>
     ks_Role st' = ks_Role st \<and> ks_RoleBinding st' = ks_RoleBinding st \<and> ks_Service st' = ks_Service st \<and>
     ks_Ingress st' = ks_Ingress st \<and> ks_NetworkPolicy st' = ks_NetworkPolicy st"
  by auto

lemmas desired_keeps = desired_cong [THEN iffD1, rotated -1]

text \<open>
  The CA and the Secret with the tokens: the names of the user's Secrets are checked against the name
  of the Secret that is written.
\<close>

lemma egress_ca_frame:
  assumes "egress_secret_desired E ha (ks_Secret_update (\<lambda>m. m(own_key ha (GetEgressSecretName ha) := y)) st)"
    and "egress_ca_desired E ha st"
  shows "egress_ca_desired E ha (ks_Secret_update (\<lambda>m. m(own_key ha (GetEgressSecretName ha) := y)) st)"
proof -
  have "Egress_IsEnabled (GetEgress ha) \<Longrightarrow> ValidateEgressSecretRefs ha = None"
    using assms(1) by (auto simp: egress_secret_desired_def stored_credentials_def split: if_splits option.splits)
  then have "Egress_IsEnabled (GetEgress ha) \<Longrightarrow> Egress_GetCASecretRefName (GetEgress ha) = [] \<or>
      Egress_GetCASecretRefName (GetEgress ha) \<noteq> GetEgressSecretName ha"
    by (auto simp: ValidateEgressSecretRefs_iff Let_def)
  with assms(2) show ?thesis by (auto simp: egress_ca_desired_def Let_def)
qed

context cluster_store
begin

lemma config_map_frame:
  assumes "GetSearXNGName ha \<notin> set (GetConfigSourceConfigMapNames (Some ha))"
    and "changes_at ks_ConfigMap_update (ep_key (searxng_cm_plan ha)) st st'"
  shows "config_map_desired E ha st' = config_map_desired E ha st"
proof -
  have "ep_key (searxng_cm_plan ha) = own_key ha (GetSearXNGName ha)" by (simp add: plan_defs own_key_def)
  with assms(2) obtain y where "st' = ks_ConfigMap_update (\<lambda>m. m(own_key ha (GetSearXNGName ha) := y)) st"
    by (auto simp: changes_at_def)
  then show ?thesis by (simp add: config_map_desired_def stored_config_data_frame [OF assms(1)])
qed

section \<open>The sequence of the loops\<close>

lemma wp_run_loop:
  assumes "store_wp look ha body
     (\<lambda>r st' ws'. if quiet r then store_wp look ha k Q st' ws' else Q r st' ws') st ws"
  shows "store_wp look ha (run_loop nn body msg k) Q st ws"
  unfolding run_loop_def
  by (rule wp_bind, rule store_wp_mono [OF assms])
     (auto simp: quiet_def intro!: wp_rules split: if_splits)

lemma wp_report_success [wp_rules]: "Q (done_result, None) st ws \<Longrightarrow> store_wp look ha (report_success nn) Q st ws"
  unfolding report_success_def by (intro wp_rules)

lemma quiet_settled: "quiet r \<Longrightarrow> settled_result r"
  by (auto simp: quiet_def settled_result_def IsZero_def requeue_def second_def)

text \<open>A loop that reaches \<open>P'\<close> from \<open>P\<close>, before loops that reach \<open>R\<close> from \<open>P'\<close>.\<close>

lemma wp_run_reaches:
  assumes "store_wp look ha body (reaches P') st ws"
    and "\<And>st ws. P' st \<Longrightarrow> store_wp look ha k (\<lambda>r st ws. settled_result r \<longrightarrow> R st) st ws"
  shows "store_wp look ha (run_loop nn body msg k) (\<lambda>r st ws. settled_result r \<longrightarrow> R st) st ws"
proof (rule wp_run_loop, rule store_wp_mono [OF assms(1)])
  fix r st' ws'
  assume *: "settled_result r \<longrightarrow> IsZero (fst r) \<and> P' st'"
  show "if quiet r then store_wp look ha k (\<lambda>r st ws. settled_result r \<longrightarrow> R st) st' ws' else settled_result r \<longrightarrow> R st'"
  proof (cases "quiet r")
    case True
    with * assms(2) show ?thesis by (simp add: quiet_settled)
  qed (use * in \<open>auto simp: quiet_def settled_result_def\<close>)
qed

lemma wp_run_leaves:
  assumes "store_wp look ha body (leaves st ws) st ws" and "store_wp look ha k (leaves st ws) st ws"
  shows "store_wp look ha (run_loop nn body msg k) (leaves st ws) st ws"
  by (rule wp_run_loop, rule store_wp_mono [OF assms(1)]) (use assms(2) in auto)

text \<open>Each loop adds its part and keeps the parts before it.\<close>

lemma loops_add_part:
  assumes "sources_apart ha"
  shows "store_wp look ha (reconcileHermesConfigMap E) (reaches (desired_upto E ha 1)) st ws"
    and "desired_upto E ha 1 st \<Longrightarrow> store_wp look ha (reconcileHermesSecret E) (reaches (desired_upto E ha 2)) st ws"
    and "desired_upto E ha 2 st \<Longrightarrow> store_wp look ha (reconcileSearXNGConfigMap E) (reaches (desired_upto E ha 3)) st ws"
    and "desired_upto E ha 3 st \<Longrightarrow> store_wp look ha (reconcileSearXNGSecret E) (reaches (desired_upto E ha 4)) st ws"
    and "desired_upto E ha 4 st \<Longrightarrow> store_wp look ha (reconcileServiceAccount E) (reaches (desired_upto E ha 5)) st ws"
    and "desired_upto E ha 5 st \<Longrightarrow> store_wp look ha (reconcileRole E) (reaches (desired_upto E ha 6)) st ws"
    and "desired_upto E ha 6 st \<Longrightarrow> store_wp look ha (reconcileService E) (reaches (desired_upto E ha 7)) st ws"
    and "desired_upto E ha 7 st \<Longrightarrow> store_wp look ha (reconcileIngress E) (reaches (desired_upto E ha 8)) st ws"
    and "desired_upto E ha 8 st \<Longrightarrow> store_wp look ha (reconcileNetworkPolicy E) (reaches (desired_upto E ha 9)) st ws"
    and "desired_upto E ha 9 st \<Longrightarrow> store_wp look ha (reconcileEgressCA E) (reaches (desired_upto E ha 10)) st ws"
    and "desired_upto E ha 10 st \<Longrightarrow> store_wp look ha (reconcileEgressSecret E) (reaches (desired_upto E ha 11)) st ws"
    and "desired_upto E ha 11 st \<Longrightarrow> store_wp look ha (reconcileRestore E) (reaches (desired_upto E ha 12)) st ws"
proof -
  note upto = desired_upto_def desired_parts_def
  note apart = assms [unfolded sources_apart_def]
  show "store_wp look ha (reconcileHermesConfigMap E) (reaches (desired_upto E ha 1)) st ws"
    by (rule store_wp_mono [OF config_map_reaches]) (use apart in \<open>auto simp: upto\<close>)
  show "store_wp look ha (reconcileHermesSecret E) (reaches (desired_upto E ha 2)) st ws" if "desired_upto E ha 1 st"
    by (rule store_wp_mono [OF hermes_secret_reaches]) (use that in \<open>auto simp: upto changes_at_def elim: desired_keeps\<close>)
  show "store_wp look ha (reconcileSearXNGConfigMap E) (reaches (desired_upto E ha 3)) st ws" if "desired_upto E ha 2 st"
    by (rule store_wp_mono [OF planned_loops_reach(1)])
       (use that apart config_map_frame in \<open>auto simp: upto changes_at_def elim: desired_keeps\<close>)
  show "store_wp look ha (reconcileSearXNGSecret E) (reaches (desired_upto E ha 4)) st ws" if "desired_upto E ha 3 st"
    by (rule store_wp_mono [OF searxng_secret_reaches]) (use that in \<open>auto simp: upto changes_at_def elim: desired_keeps\<close>)
  show "store_wp look ha (reconcileServiceAccount E) (reaches (desired_upto E ha 5)) st ws" if "desired_upto E ha 4 st"
    by (rule store_wp_mono [OF planned_loops_reach(2)]) (use that in \<open>auto simp: upto changes_at_def elim: desired_keeps\<close>)
  show "store_wp look ha (reconcileRole E) (reaches (desired_upto E ha 6)) st ws" if "desired_upto E ha 5 st"
    by (rule store_wp_mono [OF role_reaches]) (use that in \<open>auto simp: upto dest!: unchanged_fields elim: desired_keeps\<close>)
  show "store_wp look ha (reconcileService E) (reaches (desired_upto E ha 7)) st ws" if "desired_upto E ha 6 st"
    by (rule store_wp_mono [OF planned_loops_reach(3)]) (use that in \<open>auto simp: upto changes_at_def elim: desired_keeps\<close>)
  show "store_wp look ha (reconcileIngress E) (reaches (desired_upto E ha 8)) st ws" if "desired_upto E ha 7 st"
    by (rule store_wp_mono [OF planned_loops_reach(4)]) (use that in \<open>auto simp: upto changes_at_def elim: desired_keeps\<close>)
  show "store_wp look ha (reconcileNetworkPolicy E) (reaches (desired_upto E ha 9)) st ws" if "desired_upto E ha 8 st"
    by (rule store_wp_mono [OF planned_loops_reach(5)]) (use that in \<open>auto simp: upto changes_at_def elim: desired_keeps\<close>)
  show "store_wp look ha (reconcileEgressCA E) (reaches (desired_upto E ha 10)) st ws" if "desired_upto E ha 9 st"
    by (rule store_wp_mono [OF egress_ca_reaches]) (use that in \<open>auto simp: upto changes_at_def elim: desired_keeps\<close>)
  show "store_wp look ha (reconcileEgressSecret E) (reaches (desired_upto E ha 11)) st ws" if "desired_upto E ha 10 st"
    by (rule store_wp_mono [OF egress_secret_reaches])
       (use that in \<open>auto simp: upto changes_at_def elim: desired_keeps egress_ca_frame\<close>)
  show "store_wp look ha (reconcileRestore E) (reaches (desired_upto E ha 12)) st ws" if "desired_upto E ha 11 st"
    by (rule store_wp_mono [OF restore_reaches]) (use that in \<open>auto simp: upto dest!: unchanged_fields elim: desired_keeps\<close>)
qed

lemma applied_statefulset_keeps:
  "applied_statefulset E ha ssi st st' \<Longrightarrow> desired_upto E ha 11 st \<Longrightarrow> desired_upto E ha 11 st'"
  by (auto simp: applied_statefulset_def desired_upto_def desired_parts_def elim: desired_keeps)

lemma statefulset_completes:
  assumes "desired_upto E ha 12 st" and "applied_statefulset E ha ssi st st'" and "stored_inputs E st ha = Some ssi"
  shows "desired_state E ha st'"
proof -
  have "desired_upto E ha 11 st" and "restore_desired ha st" using assms(1) by (simp_all add: desired_upto_def desired_parts_def)
  then have "desired_upto E ha 11 st'" and "restore_desired ha st'" and "statefulset_desired E ha st'"
    using applied_statefulset_keeps [OF assms(2)] applied_statefulset_desired [OF assms(2,3)] by blast+
  then show ?thesis by (simp add: desired_state_def desired_upto_def desired_parts_def)
qed

lemma loops_reach:
  assumes "sources_apart ha"
  shows "store_wp look ha (run_loops nn (reconcile_loops E) (report_success nn))
     (\<lambda>r st' ws'. settled_result r \<longrightarrow> desired_state E ha st') st ws"
proof -
  have last: "store_wp look ha (run_loop nn (reconcileStatefulSet E) m1 (run_loop nn (reconcileSnapshot E) m2 (report_success nn)))
      (\<lambda>r st' ws'. settled_result r \<longrightarrow> desired_state E ha st') st ws" if "desired_upto E ha 12 st" for m1 m2 st ws
  proof (rule wp_run_loop, rule store_wp_mono [OF statefulset_reaches])
    fix r st' ws'
    assume *: "settled_result r \<longrightarrow> (\<exists>ssi. stored_inputs E st ha = Some ssi \<and> applied_statefulset E ha ssi st st')"
    have desired: "desired_state E ha st'" if "settled_result r"
      using * that statefulset_completes [OF \<open>desired_upto E ha 12 st\<close>] by blast
    show "if quiet r then store_wp look ha (run_loop nn (reconcileSnapshot E) m2 (report_success nn))
            (\<lambda>r st' ws'. settled_result r \<longrightarrow> desired_state E ha st') st' ws'
          else settled_result r \<longrightarrow> desired_state E ha st'"
      using desired by (auto intro!: wp_run_loop store_wp_mono [OF snapshot_leaves] wp_report_success simp: quiet_settled)
  qed
  show ?thesis
    unfolding run_loops_def reconcile_loops_def
    by (simp only: foldr.simps comp_apply prod.case id_apply)
       ((rule last, assumption) | (rule wp_run_reaches, rule loops_add_part [OF assms], (assumption)?))+
qed

lemma loops_leave:
  assumes "desired_state E ha st"
  shows "store_wp look ha (run_loops nn (reconcile_loops E) (report_success nn)) (leaves st ws) st ws"
  using assms unfolding run_loops_def reconcile_loops_def desired_state_def desired_parts_def
  by (simp only: foldr.simps comp_apply prod.case id_apply list.pred_inject)
     (intro wp_run_leaves wp_report_success config_map_leaves hermes_secret_leaves planned_loops_leave searxng_secret_leaves
        role_leaves egress_ca_leaves egress_secret_leaves restore_leaves statefulset_leaves snapshot_leaves; simp)

end

section \<open>The reconciliation\<close>

text \<open>The state in which the loops start, once the agent is read.\<close>

definition loops_start :: "namespaced_name \<Rightarrow> hermes_agent \<Rightarrow> 'w \<Rightarrow> 'w rst \<Rightarrow> 'w rst" where
  "loops_start nn ha w s =
     s\<lparr>rs_tel := rs_tel s @ [LogInfo ''Starting reconciliation''], rs_world := w,
       rs_trace := rs_trace s @ [GetReq KHermesAgent nn], rs_agent := ha\<rparr>"

lemma loops_start_simps [simp]:
  "rs_agent (loops_start nn ha w s) = ha" "rs_world (loops_start nn ha w s) = w"
  "rs_trace (loops_start nn ha w s) = rs_trace s @ [GetReq KHermesAgent nn]"
  by (simp_all add: loops_start_def)

definition all_loops :: "'w env \<Rightarrow> hermes_agent \<Rightarrow> 'w loop" where
  "all_loops E ha = run_loops (meta_key (ha_meta ha)) (reconcile_loops E) (report_success (meta_key (ha_meta ha)))"

lemma run_Reconcile_found:
  assumes "ka_GetHermesAgent (kube E) nn (rs_world s) = (Inr ha, w)"
  shows "fst (run_state (Reconcile E nn) s) = fst (run_state (all_loops E ha) (loops_start nn ha w s))"
    and "rs_trace (snd (run_state (Reconcile E nn) s)) = rs_trace (snd (run_state (all_loops E ha) (loops_start nn ha w s)))"
    and "rs_agent (snd (run_state (Reconcile E nn) s)) = rs_agent (snd (run_state (all_loops E ha) (loops_start nn ha w s)))"
    and "rs_world (snd (run_state (Reconcile E nn) s)) = rs_world (snd (run_state (all_loops E ha) (loops_start nn ha w s)))"
  using assms
  by (simp_all add: Reconcile_def GetHermesAgent_def not_found_nil_def Let_def case_prod_unfold loops_start_def all_loops_def)

text \<open>Loops that are quiet hand over to the rest.\<close>

lemma run_loops_quiet:
  "quiet_run (map fst pre) s = Some s1 \<Longrightarrow> run_state (run_loops nn (pre @ post) k) s = run_state (run_loops nn post k) s1"
proof (induction pre arbitrary: s)
  case (Cons l pre)
  obtain body msg r s' where l: "l = (body, msg)" "run_state body s = (r, s')" by (metis prod.collapse)
  with Cons.prems have "quiet r" "quiet_run (map fst pre) s' = Some s1" by (auto split: if_splits)
  with Cons.IH run_loop_quiet [OF l(2)] show ?case by (simp add: run_loops_def l(1))
qed simp

context cluster_store
begin

lemma Reconcile_wp:
  assumes "ka_GetHermesAgent (kube E) nn (rs_world s) = (Inr a, w)" and "same_agent ha a"
    and "store_wp look ha (all_loops E a) Q (look (rs_world s)) (writes s)"
  shows "Q (fst (run_state (Reconcile E nn) s)) (look (rs_world (snd (run_state (Reconcile E nn) s))))
           (writes (snd (run_state (Reconcile E nn) s)))"
proof -
  have "look w = look (rs_world s)" using frames(1) assms(1) by (metis snd_conv untouched_def)
  with store_wpD(2) [OF assms(3), of "loops_start nn a w s"] assms(2) show ?thesis
    by (simp add: writes_def run_Reconcile_found [OF assms(1)])
qed

lemma Reconcile_settles:
  assumes "sources_apart ha" and "ka_GetHermesAgent (kube E) nn (rs_world s) = (Inr ha, w)"
    and "settled_result (fst (run_state (Reconcile E nn) s))"
  shows "desired_state E ha (look (rs_world (snd (run_state (Reconcile E nn) s))))"
  using Reconcile_wp [OF assms(2) same_agent_refl loops_reach [OF assms(1), of "meta_key (ha_meta ha)", folded all_loops_def]] assms(3) by blast

lemma Reconcile_leaves:
  assumes "ka_GetHermesAgent (kube E) nn (rs_world s) = (Inr a, w)" and "same_agent ha a"
    and "desired_state E ha (look (rs_world s))"
  shows "look (rs_world (snd (run_state (Reconcile E nn) s))) = look (rs_world s)"
    and "writes (snd (run_state (Reconcile E nn) s)) = writes s"
  using Reconcile_wp [OF assms(1,2) loops_leave [OF assms(3), of "meta_key (ha_meta a)", folded all_loops_def]] by blast+

end

end
