(* ===== verification/Memory_Store.thy ===== *)
theory Memory_Store
  imports Steady_State
begin

text \<open>
  The cluster in memory as a store: it satisfies the contract of the store, and a first reconciliation
  of an agent on it ends without an error.
\<close>

section \<open>The contract\<close>

definition mem_store :: "cluster \<Rightarrow> kstore" where
  "mem_store w =
     \<lparr>ks_ConfigMap = (\<lambda>nn. mem_lookup cm_meta nn (cl_ConfigMaps w)),
      ks_Secret = (\<lambda>nn. mem_lookup sec_meta nn (cl_Secrets w)),
      ks_StatefulSet = (\<lambda>nn. mem_lookup sts_meta nn (cl_StatefulSets w)),
      ks_ServiceAccount = (\<lambda>nn. mem_lookup sa_meta nn (cl_ServiceAccounts w)),
      ks_Role = (\<lambda>nn. mem_lookup role_meta nn (cl_Roles w)),
      ks_RoleBinding = (\<lambda>nn. mem_lookup rb_meta nn (cl_RoleBindings w)),
      ks_Service = (\<lambda>nn. mem_lookup svc_meta nn (cl_Services w)),
      ks_Ingress = (\<lambda>nn. mem_lookup ing_meta nn (cl_Ingresses w)),
      ks_NetworkPolicy = (\<lambda>nn. mem_lookup np_meta nn (cl_NetworkPolicies w)),
      ks_Claim = (\<lambda>nn. mem_lookup pvc_meta nn (cl_Claims w)),
      ks_Agent = (\<lambda>nn. map_option ha_Spec (mem_lookup ha_meta nn (cl_Agents w)))\<rparr>"

text \<open>A list of objects of the cluster that is a field of the store.\<close>

lemma mem_kind_store:
  assumes fld: "\<And>w. fld (mem_store w) = (\<lambda>nn. mem_lookup (ki_meta k) nn (objs w))"
    and upd: "\<And>f w. mem_store (cupd f w) = upd (\<lambda>_ nn. mem_lookup (ki_meta k) nn (f (objs w))) (mem_store w)"
    and fld_upd: "\<And>f st. fld (upd f st) = f (fld st)" and upd_fld: "\<And>f g st. f (fld st) = g (fld st) \<Longrightarrow> upd f st = upd g st"
    and upd_id: "\<And>st. upd (\<lambda>m. m) st = st"
    and set_meta: "\<And>m x. ki_meta k (ki_set_meta k m x) = m"
    and kept: "\<And>x. kept x x" "\<And>x x' os. kept (ki_set_meta k ((ki_meta k x)\<lparr>om_OwnerReferences := os\<rparr>) x) x' \<Longrightarrow> kept x x'"
  shows "kind_store mem_env mem_store fld upd k (mem_client objs cupd (ki_meta k)) kept"
proof unfold_locales
  let ?c = "mem_client objs cupd (ki_meta k)"
  note client = mem_client_def mem_get_def mem_create_def mem_update_def mem_delete_def
  fix nn w w' r x e d
  show "mem_store w' = mem_store w" if "rc_Get ?c nn w = (r, w')"
    using that by (auto simp: client split: option.splits)
  show "fld (mem_store w) nn = Some x" "meta_key (ki_meta k x) = nn" if "rc_Get ?c nn w = (Inr x, w')"
    using that by (auto simp: client fld split: option.splits dest: mem_lookup_Some)
  show "fld (mem_store w) nn = None" if "rc_Get ?c nn w = (Inl e, w')"
    using that by (auto simp: client fld split: option.splits)
  show "\<exists>x'. kept x x' \<and> mem_store w' = upd (\<lambda>m. m(meta_key (ki_meta k x) \<mapsto> x')) (mem_store w)" if "rc_Create ?c x w = (None, w')"
    using that kept(1)
    by (intro exI [of _ x])
       (auto simp: client upd fld mem_lookup_append fun_eq_iff split: option.splits intro!: upd_fld)
  show "mem_store w' = mem_store w" if "rc_Create ?c x w = (Some e, w')"
    using that by (auto simp: client split: option.splits)
  show "\<exists>x'. kept x x' \<and> mem_store w' = upd (\<lambda>m. m(meta_key (ki_meta k x) \<mapsto> x')) (mem_store w)" if "rc_Update ?c x w = (None, w')"
    using that kept(1)
    by (intro exI [of _ x])
       (auto simp: client upd fld mem_lookup_map_replace fun_eq_iff split: option.splits intro!: upd_fld)
  show "mem_store w' = upd (\<lambda>m. m(nn := None)) (mem_store w)" if "rc_Delete ?c nn w = (d, w')" "IgnoreNotFound d = None"
    using that upd_fld [of "\<lambda>m. m(nn := None)" "mem_store w" "\<lambda>m. m"]
    by (auto simp: client upd fld mem_lookup_filter upd_id fun_eq_iff split: option.splits intro!: upd_fld)
  fix st
  show "upd (\<lambda>m. m(nn := fld st nn)) st = st" using upd_fld [of "\<lambda>m. m(nn := fld st nn)" st "\<lambda>m. m"] upd_id by simp
qed (auto simp: set_meta fld_upd intro: kept(2))

text \<open>The ten kinds.\<close>

lemma mem_kube_clients:
  "ka_ConfigMap (kube mem_env) = mem_client cl_ConfigMaps cl_ConfigMaps_update (ki_meta kConfigMap)"
  "ka_Secret (kube mem_env) = mem_client cl_Secrets cl_Secrets_update (ki_meta kSecret)"
  "ka_StatefulSet (kube mem_env) = mem_client cl_StatefulSets cl_StatefulSets_update (ki_meta kStatefulSet)"
  "ka_ServiceAccount (kube mem_env) = mem_client cl_ServiceAccounts cl_ServiceAccounts_update (ki_meta kServiceAccount)"
  "ka_Role (kube mem_env) = mem_client cl_Roles cl_Roles_update (ki_meta kRole)"
  "ka_RoleBinding (kube mem_env) = mem_client cl_RoleBindings cl_RoleBindings_update (ki_meta kRoleBinding)"
  "ka_Service (kube mem_env) = mem_client cl_Services cl_Services_update (ki_meta kService)"
  "ka_Ingress (kube mem_env) = mem_client cl_Ingresses cl_Ingresses_update (ki_meta kIngress)"
  "ka_NetworkPolicy (kube mem_env) = mem_client cl_NetworkPolicies cl_NetworkPolicies_update (ki_meta kNetworkPolicy)"
  "ka_PersistentVolumeClaim (kube mem_env) = mem_client cl_Claims cl_Claims_update (ki_meta kPersistentVolumeClaim)"
  by (simp_all add: mem_env_def mem_kube_def kind_defs)

lemma mem_kind_stores:
  "kind_store mem_env mem_store ks_ConfigMap ks_ConfigMap_update kConfigMap (ka_ConfigMap (kube mem_env)) kept_ConfigMap"
  "kind_store mem_env mem_store ks_Secret ks_Secret_update kSecret (ka_Secret (kube mem_env)) kept_Secret"
  "kind_store mem_env mem_store ks_StatefulSet ks_StatefulSet_update kStatefulSet (ka_StatefulSet (kube mem_env)) kept_StatefulSet"
  "kind_store mem_env mem_store ks_ServiceAccount ks_ServiceAccount_update kServiceAccount (ka_ServiceAccount (kube mem_env)) kept_ServiceAccount"
  "kind_store mem_env mem_store ks_Role ks_Role_update kRole (ka_Role (kube mem_env)) kept_Role"
  "kind_store mem_env mem_store ks_RoleBinding ks_RoleBinding_update kRoleBinding (ka_RoleBinding (kube mem_env)) kept_RoleBinding"
  "kind_store mem_env mem_store ks_Service ks_Service_update kService (ka_Service (kube mem_env)) kept_Service"
  "kind_store mem_env mem_store ks_Ingress ks_Ingress_update kIngress (ka_Ingress (kube mem_env)) kept_Ingress"
  "kind_store mem_env mem_store ks_NetworkPolicy ks_NetworkPolicy_update kNetworkPolicy (ka_NetworkPolicy (kube mem_env)) kept_NetworkPolicy"
  "kind_store mem_env mem_store ks_Claim ks_Claim_update kPersistentVolumeClaim (ka_PersistentVolumeClaim (kube mem_env)) kept_Claim"
  unfolding mem_kube_clients
  by (rule mem_kind_store;
      auto simp: kind_defs mem_store_def kept_defs vct_names_def meta_key_def intro!: kstore.equality)+

text \<open>The other calls leave the ten lists alone.\<close>

lemma mem_store_fields:
  "mem_store (cl_Pods_update p w) = mem_store w"
  "mem_store (cl_Snapshots_update u w) = mem_store w" "mem_store (cl_Seed_update i w) = mem_store w"
  by (simp_all add: mem_store_def)

text \<open>A status update keeps the spec of every agent.\<close>

lemma mem_status_untouched: "mem_store (snd (mem_status_update ha w)) = mem_store w"
proof (cases "mem_lookup ha_meta (meta_key (ha_meta ha)) (cl_Agents w)")
  case (Some old)
  let ?new = "old\<lparr>ha_Status := ha_Status ha\<rparr>"
  have "meta_key (ha_meta ?new) = meta_key (ha_meta ha)" using mem_lookup_Some [OF Some] by simp
  then have "map_option ha_Spec (mem_lookup ha_meta nn (map (\<lambda>a. if meta_key (ha_meta a) = meta_key (ha_meta ha) then ?new else a) (cl_Agents w))) =
      map_option ha_Spec (mem_lookup ha_meta nn (cl_Agents w))" for nn
    using mem_lookup_map_replace [of ha_meta nn ?new "cl_Agents w"] Some by auto
  with Some show ?thesis by (simp add: mem_status_update_def mem_store_def)
qed (simp add: mem_status_update_def)

interpretation mem_cluster: cluster_store mem_env mem_store
proof (intro cluster_store.intro cluster_store_axioms.intro mem.lawful_env_axioms mem_kind_stores)
qed (auto simp: untouched_def mem_env_def mem_kube_def mem_mach_def mem_plat_def mem_client_def mem_get_def mem_create_def
    mem_delete_def mem_list_snapshots_def mem_frames(2) mem_status_untouched mem_store_fields split: option.split)

section \<open>A first reconciliation\<close>

text \<open>The agent is stored, it has no pod, and its status has a given phase.\<close>

definition mem_inv :: "hermes_agent \<Rightarrow> string set \<Rightarrow> cluster rst \<Rightarrow> bool" where
  "mem_inv ha phs s \<longleftrightarrow> same_agent ha (rs_agent s) \<and> cl_Pods (rs_world s) = [] \<and> st_Phase (ha_Status (rs_agent s)) \<in> phs \<and>
     (case mem_lookup ha_meta (meta_key (ha_meta ha)) (cl_Agents (rs_world s)) of None \<Rightarrow> False | Some a \<Rightarrow> ha_Spec a = ha_Spec ha)"

lemma mem_keeps_conditions [wp_intros]:
  "keeps (mem_inv ha phs) (tel ev)"
  "keeps (mem_inv ha phs) (mod_managed f)"
  "keeps (mem_inv ha phs) (set_condition mem_env typ status reason message)"
  "keeps (mem_inv ha phs) (remove_condition mem_env typ)"
  by (rule keepsI,
      simp add: mem_inv_def set_condition_def remove_condition_def mod_managed_def case_prod_unfold Let_def same_agent_def
        mem_env_def mem_mach_def mem_frames)+

lemma mem_keeps_ready:
  "keeps (mem_inv ha phs) (markReady mem_env)" "keeps (mem_inv ha phs) (applyInitFailedCondition mem_env f)"
  unfolding markReady_def setReadyCondition_def applyInitFailedCondition_def clear_init_failed_def by (intro wp_intros)+

lemma mem_status_accepted:
  "hoare (mem_inv ha phs) (UpdateHermesAgentStatus mem_env) (\<lambda>r s. r = None \<and> mem_inv ha phs s)"
  unfolding hoare_def
proof (intro allI impI)
  fix s assume s: "mem_inv ha phs s"
  then have key: "meta_key (ha_meta (rs_agent s)) = meta_key (ha_meta ha)" "ha_Spec (rs_agent s) = ha_Spec ha"
    by (simp_all add: mem_inv_def same_agent_def)
  from s obtain a where a: "mem_lookup ha_meta (meta_key (ha_meta ha)) (cl_Agents (rs_world s)) = Some a" "ha_Spec a = ha_Spec ha"
    by (auto simp: mem_inv_def split: option.splits)
  let ?b = "a\<lparr>ha_Status := ha_Status (rs_agent s)\<rparr>"
  have b: "meta_key (ha_meta ?b) = meta_key (ha_meta ha)" using mem_lookup_Some [OF a(1)] by simp
  then show "case run_state (UpdateHermesAgentStatus mem_env) s of (r, s') \<Rightarrow> r = None \<and> mem_inv ha phs s'"
    using s a key mem_lookup_map_replace [of ha_meta "meta_key (ha_meta ha)" ?b "cl_Agents (rs_world s)"]
    by (simp add: UpdateHermesAgentStatus_def mem_env_def mem_kube_def mem_status_update_def mem_inv_def same_agent_def)
qed

lemma mem_no_pod:
  assumes "\<not> IsSuspended ha"
  shows "hoare (mem_inv ha phs) (deriveStatus mem_env) (\<lambda>r s. r = (PhasePending, None) \<and> mem_inv ha phs s)"
  using assms
  by (auto simp: hoare_def deriveStatus_def GetPod_def get_object_def mem_env_def mem_kube_def mem_client_def mem_get_def
      mem_lookup_def [of pod_meta] not_found_def not_found_nil_def mem_inv_def IsSuspended_def same_agent_def)

lemma mem_report_status:
  assumes "\<not> IsSuspended ha"
  shows "hoare (mem_inv ha UNIV) (report_status mem_env) (\<lambda>r s. r = (requeue 10, None))"
proof -
  have keep: "hoare (mem_inv ha phs) m (\<lambda>_. mem_inv ha phs)" if "keeps (mem_inv ha phs) m" for phs and m :: "(cluster, 'b) prog"
    using that by (simp add: keeps_def)
  have phase: "hoare (mem_inv ha UNIV) (mod_status (\<lambda>st. st\<lparr>st_Phase := PhasePending, st_Reason := r\<rparr>)) (\<lambda>_. mem_inv ha {PhasePending})" for r
    by (simp add: hoare_def mem_inv_def same_agent_def)
  have last: "hoare (mem_inv ha {PhasePending})
      (try30 (UpdateHermesAgentStatus mem_env) (do { a \<leftarrow> get_agent;
         if st_Phase (ha_Status a) = PhasePending \<or> st_Phase (ha_Status a) = PhaseUnknown
         then do { tel (LogDebug ''StatefulSet not ready''); State_Monad.return (requeue 10, None) } else finish }))
      (\<lambda>r s. r = (requeue 10, None))"
    unfolding try30_def
    by (rule hoare_bind [OF mem_status_accepted]) (auto simp: hoare_def mem_inv_def split: option.split)
  have known: "hoare (\<lambda>s. r = v \<and> P s) (f r) Q" if "hoare P (f v) Q" for r v and f :: "'c \<Rightarrow> (cluster, 'd) prog" and P Q
    using that by (auto simp: hoare_def)
  show ?thesis
    unfolding report_status_def Let_def
    by (intro hoare_bind [OF keep [OF keeps_get]] hoare_bind [OF keep [OF mem_keeps_conditions(2)]]
          hoare_bind [OF mem_no_pod [OF assms]] known)
       (simp, intro hoare_bind [OF phase] hoare_bind [OF keep [OF mem_keeps_ready(1)]] hoare_bind [OF keep [OF mem_keeps_ready(2)]] last)
qed

lemma mem_statefulset_created:
  assumes "\<not> IsSuspended ha"
  shows "hoare (\<lambda>s. mem_inv ha UNIV s \<and> cl_StatefulSets (rs_world s) = []) (apply_statefulset mem_env a None ssi) (\<lambda>r s. r = (requeue 10, None))"
proof -
  have "om_OwnerReferences (sts_meta (desired_statefulset mem_env a ssi)) = []"
    by (simp add: desired_statefulset_def buildStatefulSet_fixed objectMeta_def Let_def)
  then have create: "hoare (\<lambda>s. mem_inv ha UNIV s \<and> cl_StatefulSets (rs_world s) = [])
      (CreateStatefulSetOwnedByHermesAgent mem_env (desired_statefulset mem_env a ssi)) (\<lambda>r s. r = None \<and> mem_inv ha UNIV s)"
    by (auto simp: hoare_def CreateStatefulSetOwnedByHermesAgent_def create_owned_def mem_env_def mem_kube_def mem_mach_def
        mem_set_controller_def mem_client_def mem_create_def mem_lookup_def [of sts_meta] kind_defs mem_inv_def Let_def)
  have report: "hoare (mem_inv ha UNIV) (do { tel ev; report_status mem_env }) (\<lambda>r s. r = (requeue 10, None))" for ev
    using mem_keeps_conditions(1) mem_report_status [OF assms] by (auto simp: keeps_def intro: hoare_bind)
  show ?thesis
    unfolding mem_cluster.apply_statefulset_desired option.case try30_def
    by (rule hoare_bind [OF create]) (use report in \<open>auto simp: hoare_def split: option.split\<close>)
qed

lemma mem_first_statefulset:
  assumes "\<not> IsSuspended ha" and "\<not> Egress_IsEnabled (GetEgress ha)"
  shows "hoare (\<lambda>s. mem_inv ha UNIV s \<and> cl_StatefulSets (rs_world s) = []) (reconcileStatefulSet mem_env) (\<lambda>r s. r = (requeue 10, None))"
proof -
  let ?P = "\<lambda>s. mem_inv ha UNIV s \<and> cl_StatefulSets (rs_world s) = []"
  note client = get_object_def mem_env_def mem_kube_def mem_client_def mem_get_def not_found_def not_found_nil_def kind_defs
  have get30: "hoare P (get30 m k) Q" if "hoare P m (\<lambda>r s. (\<exists>x. r = Inr x \<and> V x) \<and> P s)" "\<And>x. V x \<Longrightarrow> hoare P (k x) Q"
    for P Q V and m :: "(cluster, go_error + 'b) prog" and k
    unfolding get30_def by (rule hoare_bind [OF that(1)]) (use that(2) in \<open>auto simp: hoare_def split: sum.split\<close>)
  have sts: "hoare ?P (GetStatefulSet mem_env nn) (\<lambda>r s. (\<exists>x. r = Inr x \<and> x = None) \<and> ?P s)" for nn
    by (auto simp: hoare_def GetStatefulSet_def client mem_lookup_def [of sts_meta] mem_inv_def)
  have cm: "hoare ?P (GetConfigMap mem_env nn) (\<lambda>r s. (\<exists>x. r = Inr x \<and> True) \<and> ?P s)" for nn
    by (auto simp: hoare_def GetConfigMap_def client mem_inv_def split: option.split)
  have tel: "hoare ?P (if b then tel ev else State_Monad.return ()) (\<lambda>_. ?P)" for b ev
    by (simp add: hoare_def mem_inv_def)
  have agent: "hoare ?P get_agent (\<lambda>a s. \<not> Egress_IsEnabled (GetEgress a) \<and> ?P s)"
    using assms(2) by (auto simp: hoare_def mem_inv_def same_agent_def GetEgress_def)
  have known: "hoare (\<lambda>s. B \<and> P s) m Q" if "B \<Longrightarrow> hoare P m Q" for B P Q and m :: "cluster loop"
    using that by (auto simp: hoare_def)
  have deferred: "hoare P (defer_mark mem_env reason body) (\<lambda>r s. r = (requeue 10, None))"
    if "hoare P body (\<lambda>r s. r = (requeue 10, None))" for P reason and body :: "cluster loop"
    using that by (fastforce simp: hoare_def defer_mark_def)
  show ?thesis
    unfolding reconcileStatefulSet_def Let_def
    by (rule deferred, rule hoare_bind [OF agent], rule known, rule hoare_bind [OF tel], rule get30 [OF sts], rule get30 [OF cm])
       (simp add: mem_statefulset_created [OF assms(1)])
qed

text \<open>The twelve loops before it are quiet on a cluster that holds only the agent.\<close>

definition ready_for_pod :: "hermes_agent \<Rightarrow> cluster rst option \<Rightarrow> bool" where
  "ready_for_pod ha x = (case x of None \<Rightarrow> False | Some s \<Rightarrow> mem_inv ha UNIV s \<and> cl_StatefulSets (rs_world s) = [])"

lemma demo_first_loops:
  "ready_for_pod demo_agent (quiet_run (map fst (take 12 (reconcile_loops mem_env)))
     (loops_start (meta_key (ha_meta demo_agent)) demo_agent (rs_world (demo_state demo_agent)) (demo_state demo_agent)))"
  by code_simp

text \<open>The first reconciliation creates the objects, sees no pod yet and asks to be called again after ten seconds.\<close>

lemma demo_first_run:
  "fst (run_state (Reconcile mem_env (meta_key (ha_meta demo_agent))) (demo_state demo_agent)) = (requeue 10, None)"
proof -
  let ?nn = "meta_key (ha_meta demo_agent)" and ?loops = "reconcile_loops mem_env"
  let ?s0 = "loops_start ?nn demo_agent (rs_world (demo_state demo_agent)) (demo_state demo_agent)"
  from demo_first_loops obtain s where s: "quiet_run (map fst (take 12 ?loops)) ?s0 = Some s"
    and P: "mem_inv demo_agent UNIV s \<and> cl_StatefulSets (rs_world s) = []"
    by (auto simp: ready_for_pod_def split: option.splits)
  have "\<not> IsSuspended demo_agent" "\<not> Egress_IsEnabled (GetEgress demo_agent)"
    by (simp_all add: IsSuspended_def GetEgress_def Egress_IsEnabled_def demo_defs)
  from hoareD [OF mem_first_statefulset [OF this] P] obtain s' where
    s': "run_state (reconcileStatefulSet mem_env) s = ((requeue 10, None), s')" by (metis prod.collapse)
  have drop: "drop 12 ?loops = [(reconcileStatefulSet mem_env, ''Failed to reconcile StatefulSet''),
      (reconcileSnapshot mem_env, ''Failed to reconcile snapshots'')]"
    by (simp add: reconcile_loops_def)
  have "\<not> quiet (requeue 10, None)" by (simp add: quiet_def)
  from run_loop_stops [OF s' this] have "fst (run_state (run_loops ?nn (drop 12 ?loops) k) s) = (requeue 10, None)" for k
    by (simp add: drop run_loops_def)
  with run_loops_quiet [OF s, of ?nn "drop 12 ?loops"] show ?thesis
    by (simp only: append_take_drop_id run_Reconcile_found(1) [OF demo_get] all_loops_def)
qed

end
