(* ===== verification/Live_Store.thy ===== *)
theory Live_Store
  imports Steady_State
begin

text \<open>
  A cluster whose calls are answered.  The locale \<open>live_kind\<close> adds to the contract of a client what makes
  its calls succeed: a read finds the object or says that there is none, a creation succeeds where
  nothing is stored and an update or a deletion where something is.  \<open>live_cluster\<close> puts the kinds
  together with the other calls a reconciliation depends on.  The rules are those of the calculus
  without the branches for a failed call.
\<close>

section \<open>Contracts\<close>

locale live_kind =
  kind_store E look fld upd k c kept
  for E :: "'w env" and look :: "'w \<Rightarrow> kstore" and fld upd and k :: "'o kind_info" and c kept +
  assumes get_answered: "rc_Get c nn w = (Inl e, w') \<Longrightarrow> IsNotFound e"
    and create_answered: "rc_Create c x w = (r, w') \<Longrightarrow> fld (look w) (meta_key (ki_meta k x)) = None \<Longrightarrow> r = None"
    and update_answered: "rc_Update c x w = (r, w') \<Longrightarrow> fld (look w) (meta_key (ki_meta k x)) \<noteq> None \<Longrightarrow> r = None"
    and delete_answered: "rc_Delete c nn w = (r, w') \<Longrightarrow> fld (look w) nn \<noteq> None \<Longrightarrow> r = None"

text \<open>
  The controller reference is set on an object without owners in the namespace of the agent; the status
  of an agent with the stored spec is accepted; random numbers, keys and certificates are produced.
\<close>

locale live_cluster =
  cluster_store E look +
  live_cm: live_kind E look ks_ConfigMap ks_ConfigMap_update kConfigMap "ka_ConfigMap (kube E)" kept_ConfigMap +
  live_sec: live_kind E look ks_Secret ks_Secret_update kSecret "ka_Secret (kube E)" kept_Secret +
  live_sts: live_kind E look ks_StatefulSet ks_StatefulSet_update kStatefulSet "ka_StatefulSet (kube E)" kept_StatefulSet +
  live_sa: live_kind E look ks_ServiceAccount ks_ServiceAccount_update kServiceAccount "ka_ServiceAccount (kube E)" kept_ServiceAccount +
  live_ro: live_kind E look ks_Role ks_Role_update kRole "ka_Role (kube E)" kept_Role +
  live_rb: live_kind E look ks_RoleBinding ks_RoleBinding_update kRoleBinding "ka_RoleBinding (kube E)" kept_RoleBinding +
  live_svc: live_kind E look ks_Service ks_Service_update kService "ka_Service (kube E)" kept_Service +
  live_ing: live_kind E look ks_Ingress ks_Ingress_update kIngress "ka_Ingress (kube E)" kept_Ingress +
  live_np: live_kind E look ks_NetworkPolicy ks_NetworkPolicy_update kNetworkPolicy "ka_NetworkPolicy (kube E)" kept_NetworkPolicy +
  live_pvc: live_kind E look ks_Claim ks_Claim_update kPersistentVolumeClaim "ka_PersistentVolumeClaim (kube E)" kept_Claim
  for E :: "'w env" and look :: "'w \<Rightarrow> kstore" +
  assumes reference_set: "om_OwnerReferences m = [] \<Longrightarrow> om_Namespace m = ha_Namespace ha \<Longrightarrow>
        \<exists>m'. am_SetControllerReference (mach E) ha m = Inr m'"
    and status_accepted: "ks_Agent (look w) (meta_key (ha_meta ha)) = Some (ha_Spec ha) \<Longrightarrow>
        \<exists>ha'. fst (ka_StatusUpdate (kube E) ha w) = Inr ha'"
    and agent_read: "ks_Agent (look w) nn = Some sp \<Longrightarrow>
        \<exists>ha w'. ka_GetHermesAgent (kube E) nn w = (Inr ha, w') \<and> ha_Spec ha = sp"
    and pod_answered: "rc_Get (ka_Pod (kube E)) nn w = (Inl e, w') \<Longrightarrow> IsNotFound e"
      "rc_Delete (ka_Pod (kube E)) nn w = (r, w') \<Longrightarrow> IgnoreNotFound r = None"
    and random_answered: "\<exists>bytes. fst (pf_RandRead (plat E) n w) = Inr bytes" "\<exists>i. fst (pf_RandInt (plat E) bound w) = Inr i"
    and key_answered: "\<exists>key. fst (pf_GenerateKey (plat E) w) = Inr key"
      "\<exists>der. fst (pf_CreateCertificate (plat E) cert key w) = Inr der"
      "\<exists>der. pf_MarshalPKCS8PrivateKey (plat E) key = Inr der"

section \<open>Rules\<close>

text \<open>A program with a known result.\<close>

lemma wp_known_result:
  assumes "store_wp look ha m (\<lambda>r st' ws'. r = v \<longrightarrow> Q r st' ws') st ws"
    and "\<And>s. same_agent ha (rs_agent s) \<Longrightarrow> look (rs_world s) = st \<Longrightarrow> fst (run_state m s) = v"
  shows "store_wp look ha m Q st ws"
  using assms by (simp add: store_wp_def case_prod_unfold)

lemma store_wp_conj:
  "store_wp look ha m Q st ws \<Longrightarrow> store_wp look ha m R st ws \<Longrightarrow> store_wp look ha m (\<lambda>r st ws. Q r st ws \<and> R r st ws) st ws"
  by (fastforce simp: store_wp_def)

named_theorems live_rules \<open>weakest preconditions without the branches for a failed call\<close>

lemmas live_control [live_rules] = wp_bind wp_return wp_if wp_case_option wp_case_sum wp_case_prod wp_result wp_let wp_get_agent
  wp_tel wp_mod_status wp_mod_managed wp_fail30 wp_finish wp_try30 wp_get30 wp_when30

text \<open>The controller reference can be set on this metadata.\<close>

definition referable :: "'w env \<Rightarrow> hermes_agent \<Rightarrow> objectmeta \<Rightarrow> bool" where
  "referable E ha m \<longleftrightarrow> (\<forall>a. same_agent ha a \<longrightarrow> (\<exists>m'. am_SetControllerReference (mach E) a m = Inr m'))"

context live_kind
begin

lemma live_get_object:
  assumes "(\<And>x. fld st nn = Some x \<Longrightarrow> meta_key (ki_meta k x) = nn) \<Longrightarrow> Q (Inr (fld st nn)) st ws"
  shows "store_wp look ha (get_object k c nn) Q st ws"
proof (rule wp_known_result [where v = "Inr (fld st nn)"])
  show "store_wp look ha (get_object k c nn) (\<lambda>r st' ws'. r = Inr (fld st nn) \<longrightarrow> Q r st' ws') st ws"
    by (rule wp_get_object) (use assms in auto)
  fix s :: "'w rst" assume "look (rs_world s) = st"
  then show "fst (run_state (get_object k c nn) s) = Inr (fld st nn)"
    using get_answered [of nn "rs_world s"] get_found [of nn "rs_world s"] get_absent [of nn "rs_world s"]
    by (cases "rc_Get c nn (rs_world s)"; cases "fst (rc_Get c nn (rs_world s))") (auto simp: get_object_def not_found_nil_def)
qed

text \<open>Creating and updating: the reference is set and the request succeeds.\<close>

lemma live_owned_call:
  assumes "referable E ha (ki_meta k x)" and "same_agent ha (rs_agent s)"
    and "\<And>y w' r. meta_key (ki_meta k y) = meta_key (ki_meta k x) \<Longrightarrow> f y (rs_world s) = (r, w') \<Longrightarrow> r = None"
  shows "fst (run_state (do { a \<leftarrow> get_agent;
           case am_SetControllerReference (mach E) a (ki_meta k x) of
             Inl e \<Rightarrow> State_Monad.return (Some e)
           | Inr m \<Rightarrow> (let y = ki_set_meta k m x in api_call (req y) (f y)) }) s) = None"
proof -
  obtain m os where m: "am_SetControllerReference (mach E) (rs_agent s) (ki_meta k x) = Inr m" "m = (ki_meta k x)\<lparr>om_OwnerReferences := os\<rparr>"
    using assms(1,2) controller_reference_owner by (metis referable_def)
  then have "meta_key (ki_meta k (ki_set_meta k m x)) = meta_key (ki_meta k x)" by (simp add: meta_set meta_key_def)
  with m(1) show ?thesis by (auto simp: Let_def case_prod_unfold intro: assms(3) prod.collapse [symmetric])
qed

lemma live_create_owned:
  assumes "referable E ha (ki_meta k x)" and "fld st (meta_key (ki_meta k x)) = None"
    and "\<And>x' ws'. kept x x' \<Longrightarrow> Q None (upd (\<lambda>m. m(meta_key (ki_meta k x) \<mapsto> x')) st) ws'"
  shows "store_wp look ha (create_owned E k c x) Q st ws"
proof (rule wp_known_result [where v = None])
  show "store_wp look ha (create_owned E k c x) (\<lambda>r st' ws'. r = None \<longrightarrow> Q r st' ws') st ws"
    by (rule wp_create_owned) (use assms(3) in auto)
qed (unfold create_owned_def, rule live_owned_call [OF assms(1)], use assms(2) create_answered in auto)

lemma live_update_owned:
  assumes "referable E ha (ki_meta k x)" and "fld st (meta_key (ki_meta k x)) \<noteq> None"
    and "\<And>x' ws'. kept x x' \<Longrightarrow> Q None (upd (\<lambda>m. m(meta_key (ki_meta k x) \<mapsto> x')) st) ws'"
  shows "store_wp look ha (update_owned E k c x) Q st ws"
proof (rule wp_known_result [where v = None])
  show "store_wp look ha (update_owned E k c x) (\<lambda>r st' ws'. r = None \<longrightarrow> Q r st' ws') st ws"
    by (rule wp_update_owned) (use assms(3) in auto)
qed (unfold update_owned_def, rule live_owned_call [OF assms(1)], use assms(2) update_answered in auto)

lemma live_delete_object:
  assumes "fld st nn \<noteq> None" and "\<And>ws'. Q None (upd (\<lambda>m. m(nn := None)) st) ws'"
  shows "store_wp look ha (delete_object k c nn) Q st ws"
proof (rule wp_known_result [where v = None])
  show "store_wp look ha (delete_object k c nn) (\<lambda>r st' ws'. r = None \<longrightarrow> Q r st' ws') st ws"
    by (rule wp_delete_object) (use assms(2) in auto)
  fix s :: "'w rst" assume "look (rs_world s) = st"
  with assms(1) show "fst (run_state (delete_object k c nn) s) = None"
    using delete_answered [of nn "rs_world s"] by (cases "rc_Delete c nn (rs_world s)") (auto simp: delete_object_def IgnoreNotFound_def)
qed

end

context live_cluster
begin

text \<open>An object that was built has no owners and is in the namespace of the agent.\<close>

lemma referable_built [simp]:
  "om_OwnerReferences m = [] \<Longrightarrow> om_Namespace m = ha_Namespace ha \<Longrightarrow> referable E ha m"
  unfolding referable_def by (metis reference_set same_agent_simps)

text \<open>The agent is stored with its spec.\<close>

lemma live_UpdateHermesAgentStatus [live_rules]:
  assumes "ks_Agent st (meta_key (ha_meta ha)) = Some (ha_Spec ha)" and "Q None st ws"
  shows "store_wp look ha (UpdateHermesAgentStatus E) Q st ws"
proof (rule wp_known_result [where v = None])
  show "store_wp look ha (UpdateHermesAgentStatus E) (\<lambda>r st' ws'. r = None \<longrightarrow> Q r st' ws') st ws"
    by (rule wp_UpdateHermesAgentStatus) (use assms(2) in auto)
  fix s :: "'w rst" assume "same_agent ha (rs_agent s)" "look (rs_world s) = st"
  with assms(1) status_accepted [of "rs_world s" "rs_agent s"] show "fst (run_state (UpdateHermesAgentStatus E) s) = None"
    by (auto simp: UpdateHermesAgentStatus_def same_agent_def case_prod_unfold)
qed

lemma live_status_then_finish [live_rules]:
  "ks_Agent st (meta_key (ha_meta ha)) = Some (ha_Spec ha) \<Longrightarrow> Q (done_result, None) st ws \<Longrightarrow>
     store_wp look ha (status_then_finish E) Q st ws"
  unfolding status_then_finish_def by (intro live_rules)

lemmas live_conditions [live_rules] = wp_set_condition wp_remove_condition wp_markReady wp_defer_mark

lemma live_GetPod [live_rules]:
  assumes "\<And>v. Q (Inr v) st ws"
  shows "store_wp look ha (GetPod E nn) Q st ws"
proof (rule wp_leaves_result [where P = "\<lambda>r. \<exists>v. r = Inr v"])
  show "store_wp look ha (GetPod E nn) (leaves st ws) st ws" by (rule wp_GetPod) simp_all
  show "\<exists>v. r = Inr v" if "run_state (GetPod E nn) s = (r, s')" for s r s'
    using that pod_answered(1) [of nn "rs_world s"]
    by (cases "rc_Get (ka_Pod (kube E)) nn (rs_world s)"; cases "fst (rc_Get (ka_Pod (kube E)) nn (rs_world s))")
       (auto simp: GetPod_def get_object_def not_found_nil_def)
qed (use assms in auto)

lemma live_DeletePod [live_rules]:
  assumes "\<And>ws'. Q None st ws'"
  shows "store_wp look ha (DeletePod E nn) Q st ws"
proof (rule wp_known_result [where v = None])
  show "store_wp look ha (DeletePod E nn) (\<lambda>r st' ws'. r = None \<longrightarrow> Q r st' ws') st ws"
    by (rule wp_DeletePod) (use assms in auto)
  show "fst (run_state (DeletePod E nn) s) = None" for s
    using pod_answered(2) [of nn "rs_world s"]
    by (cases "rc_Delete (ka_Pod (kube E)) nn (rs_world s)") (auto simp: DeletePod_def delete_object_def)
qed

lemma live_random_hex [live_rules]:
  assumes "\<And>v. length v = 2 * n \<Longrightarrow> Q (Inr v) st ws"
  shows "store_wp look ha (random_hex E n) Q st ws"
  unfolding random_hex_def
  by (intro live_rules wp_local_call [OF frames(11)])
     (metis assms length_hex_bytes rand_bytes random_answered(1) sum.case(2) wp_return)

text \<open>The typed methods.\<close>

lemmas live_methods [live_rules] =
  live_cm.live_get_object [folded GetConfigMap_def] live_cm.live_create_owned [folded CreateConfigMapOwnedByHermesAgent_def]
  live_cm.live_update_owned [folded UpdateConfigMapOwnedByHermesAgent_def] live_cm.live_delete_object [folded DeleteConfigMap_def]
  live_sec.live_get_object [folded GetSecret_def] live_sec.live_create_owned [folded CreateSecretOwnedByHermesAgent_def]
  live_sec.live_update_owned [folded UpdateSecretOwnedByHermesAgent_def] live_sec.live_delete_object [folded DeleteSecret_def]
  live_sts.live_get_object [folded GetStatefulSet_def] live_sts.live_create_owned [folded CreateStatefulSetOwnedByHermesAgent_def]
  live_sts.live_update_owned [folded UpdateStatefulSetOwnedByHermesAgent_def] live_sts.live_delete_object [folded DeleteStatefulSet_def]
  live_ro.live_get_object [folded GetRole_def] live_ro.live_create_owned [folded CreateRoleOwnedByHermesAgent_def]
  live_ro.live_update_owned [folded UpdateRoleOwnedByHermesAgent_def] live_ro.live_delete_object [folded DeleteRole_def]
  live_rb.live_get_object [folded GetRoleBinding_def] live_rb.live_create_owned [folded CreateRoleBindingOwnedByHermesAgent_def]
  live_rb.live_update_owned [folded UpdateRoleBindingOwnedByHermesAgent_def] live_rb.live_delete_object [folded DeleteRoleBinding_def]
  live_pvc.live_get_object [folded GetPersistentVolumeClaim_def]

end

end
