(* ===== verification/Live_Loops.thy ===== *)
theory Live_Loops
  imports Live_Store
begin

text \<open>
  On a cluster whose calls are answered, each loop ends quietly once the inputs of the user are in place.
\<close>

section \<open>The create-update-delete loops\<close>

lemma quiet_results [simp]: "quiet (done_result, None)" "\<not> quiet (requeue 30, None)" "\<not> quiet (x, Some e)"
  by (simp_all add: quiet_def)

abbreviation ends_quietly :: "ctrl_result \<times> go_error option \<Rightarrow> kstore \<Rightarrow> api_request list \<Rightarrow> bool" where
  "ends_quietly \<equiv> (\<lambda>r st ws. quiet r)"

text \<open>A map that differs at some keys only, and what a reconciliation may change: the objects named after the agent.\<close>

definition same_except :: "namespaced_name set \<Rightarrow> (namespaced_name \<Rightarrow> 'o option) \<Rightarrow> (namespaced_name \<Rightarrow> 'o option) \<Rightarrow> bool" where
  "same_except K f g \<longleftrightarrow> (\<forall>nn. nn \<notin> K \<longrightarrow> g nn = f nn)"

lemma same_except_refl [simp]: "same_except K f f"
  by (simp add: same_except_def)

lemma same_except_trans: "same_except K f g \<Longrightarrow> same_except K g h \<Longrightarrow> same_except K f h"
  by (simp add: same_except_def)

lemma same_except_upd [simp]: "nn \<in> K \<Longrightarrow> same_except K f (g(nn := y)) \<longleftrightarrow> same_except K f g"
  by (auto simp: same_except_def)

definition own_changes :: "hermes_agent \<Rightarrow> kstore \<Rightarrow> kstore \<Rightarrow> bool" where
  "own_changes ha st st' \<longleftrightarrow>
     (let at_name = {own_key ha (ha_Name ha)} in
      same_except (own_key ha ` {GetHermesName ha, GetSearXNGName ha}) (ks_ConfigMap st) (ks_ConfigMap st') \<and>
      same_except (own_key ha ` {GetHermesName ha, GetSearXNGName ha, GetEgressSecretName ha, GetEgressCASecretName ha})
        (ks_Secret st) (ks_Secret st') \<and>
      same_except at_name (ks_StatefulSet st) (ks_StatefulSet st') \<and>
      same_except at_name (ks_ServiceAccount st) (ks_ServiceAccount st') \<and>
      same_except at_name (ks_Role st) (ks_Role st') \<and> same_except at_name (ks_RoleBinding st) (ks_RoleBinding st') \<and>
      same_except at_name (ks_Service st) (ks_Service st') \<and> same_except at_name (ks_Ingress st) (ks_Ingress st') \<and>
      same_except at_name (ks_NetworkPolicy st) (ks_NetworkPolicy st') \<and>
      ks_Claim st' = ks_Claim st \<and> ks_Agent st' = ks_Agent st)"

lemma own_changes_refl [simp]: "own_changes ha st st"
  by (simp add: own_changes_def Let_def)

lemma own_changes_trans: "own_changes ha st st' \<Longrightarrow> own_changes ha st' st'' \<Longrightarrow> own_changes ha st st''"
  unfolding own_changes_def Let_def by (simp, blast intro: same_except_trans)

text \<open>The agent is stored with its spec.\<close>

abbreviation agent_stored :: "hermes_agent \<Rightarrow> kstore \<Rightarrow> bool" where
  "agent_stored ha st \<equiv> ks_Agent st (meta_key (ha_meta ha)) = Some (ha_Spec ha)"

text \<open>A Secret that is there can be given the controller reference, or has nothing to be changed.\<close>

definition secret_ours :: "'w env \<Rightarrow> hermes_agent \<Rightarrow> string \<Rightarrow> (kstore \<Rightarrow> bool) \<Rightarrow> kstore \<Rightarrow> bool" where
  "secret_ours E ha name part st \<longleftrightarrow>
     part st \<or> (\<forall>x. ks_Secret st (own_key ha name) = Some x \<longrightarrow> referable E ha (sec_meta x))"

text \<open>The CA Secret that the user names, if any, is accepted.\<close>

definition user_ca_ready :: "'w env \<Rightarrow> hermes_agent \<Rightarrow> kstore \<Rightarrow> bool" where
  "user_ca_ready E ha st \<longleftrightarrow>
     (let ref = Egress_GetCASecretRefName (GetEgress ha) in
      Egress_IsEnabled (GetEgress ha) \<and> ref \<noteq> [] \<longrightarrow>
        (case ks_Secret st (own_key ha ref) of None \<Rightarrow> False | Some us \<Rightarrow> validateEgressCASecret E ref (sec_Data us) = None))"

text \<open>The credentials of the user can be resolved, and the configuration of the proxy printed.\<close>

definition credentials_ready :: "'w env \<Rightarrow> hermes_agent \<Rightarrow> kstore \<Rightarrow> bool" where
  "credentials_ready E ha st \<longleftrightarrow>
     (Egress_IsEnabled (GetEgress ha) \<longrightarrow>
        ValidateEgressPorts ha = None \<and>
        (case stored_credentials st ha of
           None \<Rightarrow> False
         | Some creds \<Rightarrow> \<forall>tokens. \<exists>yaml. buildEgressProxyYAML E ha creds tokens = Inr yaml))"

locale live_plan =
  live_cluster E look +
  planned_kind E look fld upd k c kept p +
  lk: live_kind E look fld upd k c kept
  for E :: "'w env" and look fld upd k c kept p +
  assumes desired_owners: "om_OwnerReferences (ki_meta k (ep_desired p)) = []"
    and merge_owners: "om_OwnerReferences (ki_meta k (set_version k ex (ep_merge p ex))) = []"
begin

lemma live_ensure_loop:
  assumes "nn_Namespace (ep_key p) = ha_Namespace ha" and "ks_Agent st (meta_key (ha_meta ha)) = Some (ha_Spec ha)"
    and "\<And>f. ks_Agent (upd f st) = ks_Agent st"
  shows "store_wp look ha (ensure_loop E k c p) ends_quietly st ws"
proof -
  have ns: "om_Namespace (ki_meta k (ep_desired p)) = ha_Namespace ha" "om_Namespace (ki_meta k (set_version k ex (ep_merge p ex))) = ha_Namespace ha" for ex
    using assms(1) arg_cong [OF desired_key, of nn_Namespace] arg_cong [OF merge_key [of ex], of nn_Namespace] by (simp_all add: meta_key_def)
  show ?thesis
    unfolding ensure_loop_def
    by (intro live_rules lk.live_get_object lk.live_create_owned lk.live_update_owned lk.live_delete_object)
       (auto simp: assms ns desired_owners merge_owners desired_key merge_key)
qed

end

lemmas build_meta_defs = buildSearXNGConfigMap_def buildServiceAccount_def buildService_def buildIngress_def buildNetworkPolicy_def objectMeta_def

sublocale live_cluster \<subseteq> live_searxng_cm: live_plan E look ks_ConfigMap ks_ConfigMap_update kConfigMap "ka_ConfigMap (kube E)" kept_ConfigMap "searxng_cm_plan ha" for ha
  by unfold_locales (auto simp: plan_defs kind_defs set_version_def build_meta_defs Let_def)

sublocale live_cluster \<subseteq> live_service_account: live_plan E look ks_ServiceAccount ks_ServiceAccount_update kServiceAccount "ka_ServiceAccount (kube E)" kept_ServiceAccount "service_account_plan ha" for ha
  by unfold_locales (auto simp: plan_defs kind_defs set_version_def build_meta_defs Let_def)

sublocale live_cluster \<subseteq> live_service: live_plan E look ks_Service ks_Service_update kService "ka_Service (kube E)" kept_Service "service_plan E ha" for ha
  by unfold_locales (auto simp: plan_defs kind_defs set_version_def build_meta_defs Let_def)

sublocale live_cluster \<subseteq> live_ingress: live_plan E look ks_Ingress ks_Ingress_update kIngress "ka_Ingress (kube E)" kept_Ingress "ingress_plan E ha" for ha
  by unfold_locales (auto simp: plan_defs kind_defs set_version_def build_meta_defs Let_def)

sublocale live_cluster \<subseteq> live_network_policy: live_plan E look ks_NetworkPolicy ks_NetworkPolicy_update kNetworkPolicy "ka_NetworkPolicy (kube E)" kept_NetworkPolicy "network_policy_plan E ha" for ha
  by unfold_locales (auto simp: plan_defs kind_defs set_version_def build_meta_defs Let_def)

context live_cluster
begin

lemmas live_plan_loops = live_searxng_cm.live_ensure_loop live_service_account.live_ensure_loop live_service.live_ensure_loop
  live_ingress.live_ensure_loop live_network_policy.live_ensure_loop

lemma planned_loops_quiet:
  assumes "agent_stored ha st"
  shows "store_wp look ha (reconcileSearXNGConfigMap E) ends_quietly st ws"
    and "store_wp look ha (reconcileServiceAccount E) ends_quietly st ws"
    and "store_wp look ha (reconcileService E) ends_quietly st ws"
    and "store_wp look ha (reconcileIngress E) ends_quietly st ws"
    and "store_wp look ha (reconcileNetworkPolicy E) ends_quietly st ws"
  unfolding reconcile_as_ensure
  by (rule wp_plan_loop; (erule same_plans | rule live_plan_loops); simp add: plan_defs assms Let_def)+

section \<open>Role and Secrets\<close>

lemma role_built:
  "om_OwnerReferences (role_meta (buildRole ha rules)) = []" "om_Namespace (role_meta (buildRole ha rules)) = ha_Namespace ha"
  "om_OwnerReferences (rb_meta (buildRoleBinding ha sa)) = []" "om_Namespace (rb_meta (buildRoleBinding ha sa)) = ha_Namespace ha"
  by (simp_all add: buildRole_def buildRoleBinding_def objectMeta_def)

lemma role_quiet:
  assumes "agent_stored ha st"
  shows "store_wp look ha (reconcileRole E) (\<lambda>r st' ws'. quiet r \<and> own_changes ha st st') st ws"
  unfolding reconcileRole_def own_key_def [symmetric] ensure_role_def ensure_role_binding_def
  by (intro live_rules) (auto simp: assms same_parts same_plans Let_def role_keys kind_defs role_built own_changes_def)

lemma live_stable_key:
  assumes "key \<notin> dom (map_of data)"
    and "\<And>v. v \<noteq> [] \<Longrightarrow> (existing_value existing key \<noteq> [] \<longrightarrow> v = existing_value existing key) \<Longrightarrow> Q (Inr (map_put key v data)) st ws"
  shows "store_wp look ha (stable_key E existing key data) Q st ws"
proof -
  have "map_str data key = []" using assms(1) by (auto simp: map_str_def domIff)
  then show ?thesis
    unfolding stable_key_def
    by (intro live_rules) (cases existing; auto simp: existing_value_def intro!: assms)+
qed

lemma live_buildHermesSecret:
  assumes "\<And>x. dom (map_of (sec_Data x)) = set (hermes_secret_keys a) \<Longrightarrow>
           list_all (\<lambda>k. map_str (sec_Data x) k \<noteq> [] \<and>
             (existing_value existing k \<noteq> [] \<longrightarrow> map_str (sec_Data x) k = existing_value existing k)) (hermes_secret_keys a) \<Longrightarrow>
           sec_meta x = objectMeta (GetHermesName a) (ha_Namespace a) (ResourceLabels a) \<Longrightarrow> Q (Inr x) st ws"
  shows "store_wp look ha (buildHermesSecret E a existing) Q st ws"
  unfolding buildHermesSecret_def
  by (intro live_rules live_stable_key)
     (auto simp: hermes_secret_keys_def map_str_def intro!: assms split: if_splits)

lemma secret_built [simp]:
  "om_OwnerReferences (objectMeta n ns ls) = []" "om_Namespace (objectMeta n ns ls) = ns"
  "meta_key (objectMeta n (ha_Namespace ha) ls) = own_key ha n"
  by (simp_all add: objectMeta_def meta_key_def own_key_def)

lemma hermes_secret_quiet:
  assumes "agent_stored ha st" and "secret_ours E ha (GetHermesName ha) (hermes_secret_desired ha) st"
  shows "store_wp look ha (reconcileHermesSecret E) ends_quietly st ws"
  unfolding reconcileHermesSecret_def own_key_def [symmetric]
  by (intro live_rules live_buildHermesSecret)
     (use assms in \<open>auto simp: secret_ours_def same_parts hermes_secret_keys_same kind_defs hermes_secret_desired_def existing_value_def
        list_all_iff hermes_secret_rebuilt [where ks = "hermes_secret_keys ha"]\<close>)

lemma live_buildSearXNGSecret:
  assumes "\<And>x. sec_meta x = objectMeta (GetSearXNGName a) (ha_Namespace a) (ResourceLabels a) \<Longrightarrow> Q (Inr x) st ws"
  shows "store_wp look ha (buildSearXNGSecret E a) Q st ws"
  unfolding buildSearXNGSecret_def by (intro live_rules) (simp add: assms)

lemma searxng_secret_quiet:
  assumes "agent_stored ha st"
  shows "store_wp look ha (reconcileSearXNGSecret E) ends_quietly st ws"
  unfolding reconcileSearXNGSecret_def own_key_def [symmetric]
  by (intro live_rules live_buildSearXNGSecret) (auto simp: assms same_parts kind_defs)

section \<open>The egress proxy\<close>

lemma live_bind_err [live_rules]:
  assumes "store_wp look ha m (\<lambda>r st ws. case r of Inl e \<Rightarrow> Q (Inl e) st ws | Inr v \<Rightarrow> store_wp look ha (k v) Q st ws) st ws"
  shows "store_wp look ha (bind_err m k) Q st ws"
  using assms by (rule wp_bind_err)

text \<open>A call to the platform that is answered, with its error wrapped.\<close>

lemma live_platform_call:
  assumes "untouched look f" and "\<And>w. \<exists>v. fst (f w) = Inr v" and "\<And>v. Q (Inr v) st ws"
  shows "store_wp look ha (do { r \<leftarrow> local_call f; State_Monad.return (wrap_err pre r) }) Q st ws"
  by (intro live_rules wp_local_call [OF assms(1)]) (metis assms(2,3) sum.case(2) wp_return wrap_err_def)

lemma live_buildEgressCASecret:
  assumes "\<And>x. sec_meta x = objectMeta (GetEgressCASecretName a) (ha_Namespace a) (ResourceLabels a) \<Longrightarrow> Q (Inr x) st ws"
  shows "store_wp look ha (buildEgressCASecret E a) Q st ws"
proof -
  have marshal: "pf_MarshalPKCS8PrivateKey (plat E) key \<noteq> Inl e" for key e
    using key_answered(3) [of key] by auto
  show ?thesis
    unfolding buildEgressCASecret_def
    by (intro live_bind_err live_platform_call [OF frames(13) key_answered(1)] live_platform_call [OF frames(12) random_answered(2)]
          live_platform_call [OF frames(14) key_answered(2)] live_rules wp_local_call [OF frames(10)])
       (use marshal in \<open>auto simp: wrap_err_def intro!: assms split: sum.splits\<close>)
qed

lemma egress_records_quiet [live_rules]:
  "agent_stored ha st \<Longrightarrow> store_wp look ha (recordEgressCASecret E name) ends_quietly st ws"
  "agent_stored ha st \<Longrightarrow> store_wp look ha (recordEgressSecret E name) ends_quietly st ws"
  unfolding recordEgressCASecret_def recordEgressSecret_def by (intro live_rules; simp)+

lemma egress_ca_quiet:
  assumes "agent_stored ha st" and "user_ca_ready E ha st"
  shows "store_wp look ha (reconcileEgressCA E) ends_quietly st ws"
proof (cases "Egress_IsEnabled (GetEgress ha) \<and> Egress_GetCASecretRefName (GetEgress ha) \<noteq> []")
  case True
  with assms(2) obtain us where "ks_Secret st (own_key ha (Egress_GetCASecretRefName (GetEgress ha))) = Some us"
    "validateEgressCASecret E (Egress_GetCASecretRefName (GetEgress ha)) (sec_Data us) = None"
    by (auto simp: user_ca_ready_def Let_def split: option.splits)
  with True assms(1) show ?thesis
    unfolding reconcileEgressCA_def own_key_def [symmetric]
    by (intro live_rules live_buildEgressCASecret) (auto simp: same_parts Let_def)
next
  case False
  with assms(1) show ?thesis
    unfolding reconcileEgressCA_def own_key_def [symmetric]
    by (intro live_rules live_buildEgressCASecret) (auto simp: same_parts kind_defs Let_def)
qed

lemma live_resolveEgressCredentials:
  assumes "same_agent ha a" and "stored_credentials st ha = Some creds" and "Q (Inr creds) st ws"
  shows "store_wp look ha (resolveEgressCredentials E a) Q st ws"
  unfolding resolveEgressCredentials_def own_key_def [symmetric]
  using assms(2,3)
  by (intro live_rules)
     (auto simp: stored_credentials_def same_parts [OF assms(1)] Let_def split: option.splits sum.splits if_splits)

lemma live_egress_tokens: "(\<And>t. Q (Inr t) st ws) \<Longrightarrow> store_wp look ha (egress_tokens E existing creds tokens) Q st ws"
proof (induction creds arbitrary: tokens)
  case (Cons c creds)
  have mint: "store_wp look ha (mintEgressProxyToken E n) R st ws" if "\<And>v. R (Inr v) st ws" for n R
    unfolding mintEgressProxyToken_def
    by (intro live_rules wp_local_call [OF frames(11)]) (metis that random_answered(1) sum.case(2) wp_return)
  show ?case
    unfolding egress_tokens.simps by (intro live_rules mint Cons.IH; simp add: Cons.prems Cons.IH)
qed (simp add: wp_return)

lemma live_buildEgressSecret:
  assumes "\<And>tokens. \<exists>yaml. buildEgressProxyYAML E a creds tokens = Inr yaml"
    and "\<And>x. sec_meta x = objectMeta (GetEgressSecretName a) (ha_Namespace a) (ResourceLabels a) \<Longrightarrow> Q (Inr x) st ws"
  shows "store_wp look ha (buildEgressSecret E a creds existing) Q st ws"
  unfolding buildEgressSecret_def
proof (intro wp_bind live_egress_tokens wp_return)
  fix t
  obtain yaml where "buildEgressProxyYAML E a creds t = Inr yaml" using assms(1) by blast
  then show "Q (case Inr t of Inl e \<Rightarrow> Inl e
      | Inr tokens \<Rightarrow> (case buildEgressProxyYAML E a creds tokens of Inl e \<Rightarrow> Inl e
         | Inr yaml \<Rightarrow> Inr \<lparr>sec_meta = objectMeta (GetEgressSecretName a) (ha_Namespace a) (ResourceLabels a),
                             sec_Data = token_data tokens creds [(EgressProxyConfigKey, yaml)]\<rparr>)) st ws"
    by (simp add: assms(2))
qed

lemma egress_secret_quiet:
  assumes "agent_stored ha st" and "credentials_ready E ha st"
    and "secret_ours E ha (GetEgressSecretName ha) (egress_secret_desired E ha) st"
  shows "store_wp look ha (reconcileEgressSecret E) ends_quietly st ws"
proof (cases "Egress_IsEnabled (GetEgress ha)")
  case False
  with assms(1) show ?thesis
    unfolding reconcileEgressSecret_def own_key_def [symmetric] by (intro live_rules) (auto simp: same_parts)
next
  case True
  with assms(2) obtain creds where creds: "stored_credentials st ha = Some creds" "ValidateEgressPorts ha = None"
    and yaml: "\<And>tokens. \<exists>yaml. buildEgressProxyYAML E ha creds tokens = Inr yaml"
    by (auto simp: credentials_ready_def split: option.splits)
  show ?thesis
  proof (cases "egress_secret_desired E ha st")
    case desired: True
    with True creds obtain old data where
      "ks_Secret st (own_key ha (GetEgressSecretName ha)) = Some old"
      "list_all (\<lambda>c. map_str (sec_Data old) (cr_Name c) \<noteq> []) creds" "kept_egress_data E ha creds old = Some data"
      "maps_Equal (sec_Data old) data"
      by (auto simp: egress_secret_desired_def split: option.splits)
    with True creds assms(1) show ?thesis
      unfolding reconcileEgressSecret_def own_key_def [symmetric]
      by (intro live_rules live_resolveEgressCredentials wp_buildEgressSecret_again [where old = old and data = data])
         (auto simp: same_parts kept_egress_data_same)
  next
    case False
    with assms(1,3) True creds yaml show ?thesis
      unfolding reconcileEgressSecret_def own_key_def [symmetric]
      by (intro live_rules live_resolveEgressCredentials live_buildEgressSecret)
         (auto simp: same_parts same_config_data kind_defs secret_ours_def)
  qed
qed

end

end
