(* ===== verification/Live_Pod.thy ===== *)
theory Live_Pod
  imports Live_Loops
begin

text \<open>The loops of the pod on a cluster whose calls are answered.\<close>

text \<open>The StatefulSet of the agent is deleted, to be created anew by the next reconciliation.\<close>

definition statefulset_deleted :: "hermes_agent \<Rightarrow> kstore \<Rightarrow> kstore \<Rightarrow> bool" where
  "statefulset_deleted ha st st' \<longleftrightarrow>
     st' = ks_StatefulSet_update (\<lambda>m. m(own_key ha (ha_Name ha) := None)) st \<and> ks_StatefulSet st (own_key ha (ha_Name ha)) \<noteq> None"

context live_cluster
begin

section \<open>The bootstrap ConfigMap\<close>

lemma live_readConfigDocument [live_rules]:
  "stored_document E st ns ref = Some d \<Longrightarrow> Q (Inr d) st ws \<Longrightarrow> store_wp look ha (readConfigDocument E ns ref) Q st ws"
  unfolding readConfigDocument_def
  by (intro live_rules) (auto simp: stored_document_def split: option.splits sum.splits)

lemma live_read_profile_documents:
  assumes "same_agent ha a" and "stored_profile_documents E st ha names docs = Some ds" and "Q (Inr ds) st ws"
  shows "store_wp look ha (read_profile_documents E a names docs) Q st ws"
  using assms(2,3)
proof (induction names arbitrary: docs)
  case (Cons name names)
  then show ?case
    by (auto simp: same_parts [OF assms(1)] same_config_data [OF assms(1)] intro!: live_rules split: option.splits)
qed (simp add: wp_return)

lemma live_resolveConfigDocuments:
  assumes "same_agent ha a" and "validateConfigSources ha = None" and "stored_default_document E st ha = Some d"
    and "stored_profile_documents E st ha (Hermes_GetSortedProfileNames (GetHermes ha)) [] = Some ds"
    and "Q (Inr \<lparr>rcd_Default = d, rcd_Profiles = ds\<rparr>) st ws"
  shows "store_wp look ha (resolveConfigDocuments E a) Q st ws"
proof -
  note same = same_parts [OF assms(1)] same_config_data [OF assms(1)]
  note profiles = live_read_profile_documents [OF assms(1,4)]
  show ?thesis
  proof (cases "Hermes_GetConfigMapRef (GetHermes ha)")
    case None
    with assms show ?thesis
      unfolding resolveConfigDocuments_def
      by (intro live_rules profiles) (auto simp: same stored_default_document_def intro!: live_rules profiles)
  next
    case (Some ref)
    with assms(3) obtain doc where "stored_document E st (ha_Namespace ha) ref = Some doc" "d = Some doc"
      by (auto simp: stored_default_document_def split: option.splits)
    with Some assms show ?thesis
      unfolding resolveConfigDocuments_def
      by (intro live_rules profiles) (auto simp: same intro!: live_rules profiles)
  qed
qed

lemma config_map_quiet:
  assumes "agent_stored ha st" and "validateConfigSources ha = None" and "stored_config_data E st ha \<noteq> None"
  shows "store_wp look ha (reconcileHermesConfigMap E) ends_quietly st ws"
proof -
  obtain d ds data where *: "stored_default_document E st ha = Some d"
    "stored_profile_documents E st ha (Hermes_GetSortedProfileNames (GetHermes ha)) [] = Some ds"
    "buildHermesConfigMapData E ha \<lparr>rcd_Default = d, rcd_Profiles = ds\<rparr> = Inr data"
    using assms(3) by (auto simp: stored_config_data_def split: option.splits sum.splits)
  show ?thesis
    unfolding reconcileHermesConfigMap_def own_key_def [symmetric]
    by (intro live_rules live_resolveConfigDocuments [OF _ assms(2) *(1,2)])
       (use assms(1) * in \<open>auto simp: same_parts same_config_data kind_defs config_map_key GetHermesConfigMapRef_def\<close>)
qed

section \<open>The restored claim\<close>

lemma live_clearRestoreFailed [live_rules]: "(\<And>b. Q b st ws) \<Longrightarrow> store_wp look ha (clearRestoreFailed E) Q st ws"
  by (rule wp_conditions)

lemma restore_live:
  assumes "agent_stored ha st"
    and "restore_source ha = [] \<or> ks_Claim st (own_key ha (RestoredPVCName (restore_source ha))) \<noteq> None"
  shows "store_wp look ha (reconcileRestore E) (\<lambda>r st' ws'. quiet r \<and> st' = st \<or> \<not> quiet r \<and> statefulset_deleted ha st st') st ws"
  unfolding reconcileRestore_def reshape_gate_def own_key_def [symmetric]
  by (intro live_rules)
     (use assms in \<open>auto simp: same_parts restore_source_def statefulset_deleted_def split: option.splits\<close>)

section \<open>The StatefulSet\<close>

lemma live_read_egress_sources:
  assumes "same_agent ha a" and "stored_egress_sources st ha srcs acc = Some r" and "Q (Inr r) st ws"
  shows "store_wp look ha (read_egress_sources E a srcs acc) Q st ws"
  using assms(2,3)
proof (induction srcs arbitrary: acc)
  case (Cons src srcs)
  obtain name ks where src: "src = (name, ks)" by fastforce
  from Cons show ?case
    unfolding src read_egress_sources.simps own_key_def [symmetric] Let_def
    by (auto simp: same_parts [OF assms(1)] Let_def intro!: live_rules split: option.splits if_splits)
qed (simp add: wp_return)

lemma live_report_status:
  assumes "agent_stored ha st" and "Q (requeue 10, None) st ws" and "Q (done_result, None) st ws"
  shows "store_wp look ha (report_status E) Q st ws"
  unfolding report_status_def deriveStatus_def applyInitFailedCondition_def clear_init_failed_def
  by (intro live_rules) (auto simp: assms)

lemma live_egressPodInputs:
  assumes "same_agent ha a" and "Egress_IsEnabled (GetEgress ha)" and "stored_inputs E st ha = Some ssi"
    and "Q (Inr (ssi_egressTokenNames ssi, ssi_egressHash ssi)) st ws"
  shows "store_wp look ha (egressPodInputs E a) Q st ws"
proof -
  obtain caName caKey x names hashed where ca: "GetEgressCASource ha = (caName, caKey, x)"
    and srcs: "stored_egress_sources st ha [(caName, Some [caKey]), (GetEgressSecretName ha, None),
      (Egress_GetCredentialsSecretName (GetEgress ha), None)] ([], []) = Some (names, hashed)"
    and ssi: "ssi_egressTokenNames ssi = names" "ssi_egressHash ssi = hash16 E hashed"
    using assms(2,3) by (auto simp: stored_inputs_def split: prod.splits)
  show ?thesis
    unfolding egressPodInputs_def same_parts [OF assms(1)] ca prod.case
    by (intro live_rules live_read_egress_sources [OF assms(1) srcs]) (use assms(4) ssi in simp)
qed

lemma live_reconcileStatefulSet:
  assumes "stored_inputs E st ha = Some ssi"
    and "\<And>a. same_agent ha a \<Longrightarrow> store_wp look ha (apply_statefulset E a (ks_StatefulSet st (own_key ha (ha_Name ha))) ssi) Q st ws"
  shows "store_wp look ha (reconcileStatefulSet E) Q st ws"
  unfolding reconcileStatefulSet_def config_map_key own_key_def [symmetric]
  by (intro live_rules live_egressPodInputs [OF _ _ assms(1)])
     (use stored_inputs_parts [OF assms(1)] assms in
        \<open>auto simp: same_parts stored_config_hash_def [symmetric] intro!: live_rules simp: stored_inputs_def\<close>)

lemma statefulset_live:
  assumes "agent_stored ha st" and "stored_inputs E st ha = Some ssi"
  shows "store_wp look ha (reconcileStatefulSet E) (\<lambda>r st' ws'. settled_result r \<or> statefulset_deleted ha st st') st ws"
proof (rule live_reconcileStatefulSet [OF assms(2)])
  fix a assume a: "same_agent ha a"
  have ns: "om_Namespace (sts_meta (desired_statefulset E ha ssi)) = ha_Namespace ha"
    using arg_cong [OF desired_meta(1) [of E ha ssi], of nn_Namespace] by (simp add: meta_key_def sts_key_def)
  show "store_wp look ha (apply_statefulset E a (ks_StatefulSet st (own_key ha (ha_Name ha))) ssi)
      (\<lambda>r st' ws'. settled_result r \<or> statefulset_deleted ha st st') st ws"
    unfolding apply_statefulset_desired update_statefulset_def
    by (intro live_rules live_report_status)
       (auto simp: same_parts [OF a] desired_statefulset_same [OF a] same_statefulset [OF a] kind_defs desired_statefulset_simps
          assms(1) statefulset_deleted_def desired_meta(2) ns)
qed

end

end
