(* ===== verification/Progress_Runs.thy ===== *)
theory Progress_Runs
  imports Live_Pod
begin

text \<open>
  Progress: on a cluster whose calls are answered, an agent whose inputs are in place reaches its desired
  state within two reconciliations.  The first may have to delete a StatefulSet whose claim templates
  cannot be changed; the second creates it anew.
\<close>

section \<open>The inputs of an agent\<close>

text \<open>
  What the user and the cluster have to provide: the documents and Secrets that the spec refers to are
  there and valid and are not objects of the operator, the claim to restore to exists, the agent is
  stored, and the operator's Secrets are not controlled by someone else.
\<close>

definition secrets_apart :: "hermes_agent \<Rightarrow> bool" where
  "secrets_apart ha \<longleftrightarrow>
     GetHermesName ha \<notin> set (GetEgressSourceSecretNames ha) \<and> GetSearXNGName ha \<notin> set (GetEgressSourceSecretNames ha)"

definition restore_ready :: "hermes_agent \<Rightarrow> kstore \<Rightarrow> bool" where
  "restore_ready ha st \<longleftrightarrow>
     restore_source ha = [] \<or> ks_Claim st (own_key ha (RestoredPVCName (restore_source ha))) \<noteq> None"

definition inputs_ready :: "'w env \<Rightarrow> hermes_agent \<Rightarrow> kstore \<Rightarrow> bool" where
  "inputs_ready E ha st \<longleftrightarrow>
     sources_apart ha \<and> secrets_apart ha \<and> validateConfigSources ha = None \<and> stored_config_data E st ha \<noteq> None \<and>
     credentials_ready E ha st \<and> user_ca_ready E ha st \<and> restore_ready ha st \<and> agent_stored ha st \<and>
     secret_ours E ha (GetHermesName ha) (hermes_secret_desired ha) st \<and>
     secret_ours E ha (GetEgressSecretName ha) (egress_secret_desired E ha) st"

section \<open>What the loops keep of it\<close>

lemma stored_credentials_cong:
  assumes "Egress_GetCredentialsSecretName (GetEgress ha) \<noteq> [] \<Longrightarrow>
     ks_Secret st' (own_key ha (Egress_GetCredentialsSecretName (GetEgress ha))) =
     ks_Secret st (own_key ha (Egress_GetCredentialsSecretName (GetEgress ha)))"
  shows "stored_credentials st' ha = stored_credentials st ha"
  using assms by (auto simp: stored_credentials_def Let_def)

lemma inputs_ready_cong:
  assumes "ks_ConfigMap st' = ks_ConfigMap st" "ks_Secret st' = ks_Secret st" "ks_Claim st' = ks_Claim st"
    "ks_Agent st' = ks_Agent st" and "inputs_ready E ha st"
  shows "inputs_ready E ha st'"
proof -
  have "hermes_secret_desired ha st' = hermes_secret_desired ha st" "egress_secret_desired E ha st' = egress_secret_desired E ha st"
    using assms(2) by (auto intro!: desired_cong)
  moreover have "stored_credentials st' ha = stored_credentials st ha" using assms(2) by (intro stored_credentials_cong) simp
  moreover have "stored_config_data E st' ha = stored_config_data E st ha" using assms(1) by (rule stored_config_data_cong)
  ultimately show ?thesis
    using assms by (simp add: inputs_ready_def credentials_ready_def user_ca_ready_def restore_ready_def secret_ours_def)
qed

text \<open>A change of one Secret that is not an input.\<close>

lemma inputs_ready_secret:
  assumes "inputs_ready E ha st" and st': "st' = ks_Secret_update (\<lambda>m. m(own_key ha n := y)) st"
    and creds: "Egress_IsEnabled (GetEgress ha) \<Longrightarrow> Egress_GetCredentialsSecretName (GetEgress ha) \<noteq> [] \<Longrightarrow>
      Egress_GetCredentialsSecretName (GetEgress ha) \<noteq> n"
    and "user_ca_ready E ha st'"
    and hermes: "n = GetHermesName ha \<Longrightarrow> hermes_secret_desired ha st'" and egress: "n = GetEgressSecretName ha \<Longrightarrow> egress_secret_desired E ha st'"
  shows "inputs_ready E ha st'"
proof -
  have cred: "stored_credentials st' ha = stored_credentials st ha" if "Egress_IsEnabled (GetEgress ha)"
    using creds [OF that] by (intro stored_credentials_cong) (simp add: st')
  have "secret_ours E ha (GetHermesName ha) (hermes_secret_desired ha) st'"
  proof (cases "n = GetHermesName ha")
    case False
    then have "hermes_secret_desired ha st' = hermes_secret_desired ha st" by (intro desired_cong) (simp add: st')
    with False assms(1) show ?thesis by (simp add: inputs_ready_def secret_ours_def st')
  qed (simp add: hermes secret_ours_def)
  moreover have "secret_ours E ha (GetEgressSecretName ha) (egress_secret_desired E ha) st'"
  proof (cases "n = GetEgressSecretName ha")
    case False
    then have "egress_secret_desired E ha st' = egress_secret_desired E ha st"
      by (simp add: egress_secret_desired_def cred [unfolded st'] st')
    with False assms(1) show ?thesis by (simp add: inputs_ready_def secret_ours_def st')
  qed (simp add: egress secret_ours_def)
  moreover have "stored_config_data E st' ha = stored_config_data E st ha" by (rule stored_config_data_cong) (simp add: st')
  ultimately show ?thesis
    using assms(1,4) by (simp add: inputs_ready_def credentials_ready_def cred [unfolded st'] restore_ready_def st')
qed

text \<open>The Secrets of the user and the names that the operator writes.\<close>

lemma inputs_ready_names:
  assumes "inputs_ready E ha st" and "Egress_IsEnabled (GetEgress ha)"
  shows "Egress_GetCredentialsSecretName (GetEgress ha) \<noteq> [] \<Longrightarrow> Egress_GetCredentialsSecretName (GetEgress ha) \<notin>
      {GetHermesName ha, GetSearXNGName ha, GetEgressSecretName ha, GetEgressCASecretName ha}"
    and "Egress_GetCASecretRefName (GetEgress ha) \<noteq> [] \<Longrightarrow> Egress_GetCASecretRefName (GetEgress ha) \<notin>
      {GetHermesName ha, GetSearXNGName ha, GetEgressSecretName ha}"
proof -
  have "ValidateEgressSecretRefs ha = None"
    using assms by (auto simp: inputs_ready_def credentials_ready_def stored_credentials_def split: if_splits option.splits)
  moreover have "GetHermesName ha \<notin> set (GetEgressSourceSecretNames ha)" "GetSearXNGName ha \<notin> set (GetEgressSourceSecretNames ha)"
    using assms(1) by (simp_all add: inputs_ready_def secrets_apart_def)
  ultimately show "Egress_GetCredentialsSecretName (GetEgress ha) \<noteq> [] \<Longrightarrow> Egress_GetCredentialsSecretName (GetEgress ha) \<notin>
      {GetHermesName ha, GetSearXNGName ha, GetEgressSecretName ha, GetEgressCASecretName ha}"
    "Egress_GetCASecretRefName (GetEgress ha) \<noteq> [] \<Longrightarrow> Egress_GetCASecretRefName (GetEgress ha) \<notin>
      {GetHermesName ha, GetSearXNGName ha, GetEgressSecretName ha}"
    using assms(2) by (auto simp: ValidateEgressSecretRefs_iff GetEgressSourceSecretNames_def Let_def split: if_splits)
qed

lemma user_ca_frame:
  assumes "inputs_ready E ha st" and "n \<in> {GetHermesName ha, GetSearXNGName ha, GetEgressSecretName ha}"
  shows "user_ca_ready E ha (ks_Secret_update (\<lambda>m. m(own_key ha n := y)) st)"
  using assms inputs_ready_names(2) [OF assms(1)] by (auto simp: inputs_ready_def user_ca_ready_def Let_def)

lemma egress_ca_user: "egress_ca_desired E ha st \<Longrightarrow> user_ca_ready E ha st"
  by (simp add: egress_ca_desired_def user_ca_ready_def Let_def)

lemma inputs_ready_secrets:
  assumes "inputs_ready E ha st"
  shows "changes_at ks_Secret_update (own_key ha (GetHermesName ha)) st st' \<Longrightarrow> hermes_secret_desired ha st' \<Longrightarrow> inputs_ready E ha st'"
    and "changes_at ks_Secret_update (own_key ha (GetSearXNGName ha)) st st' \<Longrightarrow> inputs_ready E ha st'"
    and "changes_at ks_Secret_update (own_key ha (GetEgressCASecretName ha)) st st' \<Longrightarrow> egress_ca_desired E ha st' \<Longrightarrow> inputs_ready E ha st'"
    and "changes_at ks_Secret_update (own_key ha (GetEgressSecretName ha)) st st' \<Longrightarrow> egress_secret_desired E ha st' \<Longrightarrow> inputs_ready E ha st'"
  using inputs_ready_names(1) [OF assms] user_ca_frame [OF assms]
  by (auto simp: changes_at_def intro!: inputs_ready_secret [OF assms refl] dest: egress_ca_user)

text \<open>The inputs of the pod are there once the egress Secrets are.\<close>

lemma pod_inputs_ready:
  assumes "inputs_ready E ha st" and "egress_ca_desired E ha st" and "egress_secret_desired E ha st"
  shows "\<exists>ssi. stored_inputs E st ha = Some ssi"
proof (cases "Egress_IsEnabled (GetEgress ha)")
  case True
  let ?creds = "Egress_GetCredentialsSecretName (GetEgress ha)"
  obtain ca s where "ks_Secret st (own_key ha (fst (GetEgressCASource ha))) = Some ca"
      "ks_Secret st (own_key ha (GetEgressSecretName ha)) = Some s"
    using True assms(2,3)
    by (auto simp: egress_ca_desired_def egress_secret_desired_def GetEgressCASource_def Let_def split: option.splits if_splits)
  moreover have "?creds = [] \<or> ks_Secret st (own_key ha ?creds) \<noteq> None"
    using True assms(3)
    by (auto simp: egress_secret_desired_def stored_credentials_def Let_def split: option.splits if_splits)
  ultimately show ?thesis
    using True by (auto simp: stored_inputs_def Let_def split: prod.splits)
qed (simp add: stored_inputs_def)

section \<open>The loops\<close>

text \<open>
  Between two loops of a run that started in \<open>st0\<close>: the first parts hold, the inputs are ready, only
  objects of the agent were changed and the StatefulSets are as they were.
\<close>

definition live_upto :: "'w env \<Rightarrow> hermes_agent \<Rightarrow> nat \<Rightarrow> kstore \<Rightarrow> kstore \<Rightarrow> bool" where
  "live_upto E ha n st0 st \<longleftrightarrow>
     desired_upto E ha n st \<and> inputs_ready E ha st \<and> own_changes ha st0 st \<and> ks_StatefulSet st = ks_StatefulSet st0"

text \<open>The end of a run: the desired state is reached or the old StatefulSet is gone.\<close>

definition progressed :: "'w env \<Rightarrow> hermes_agent \<Rightarrow> kstore \<Rightarrow> kstore \<Rightarrow> bool" where
  "progressed E ha st0 st \<longleftrightarrow>
     inputs_ready E ha st \<and> own_changes ha st0 st \<and>
     (desired_state E ha st \<or>
      ks_StatefulSet st0 (own_key ha (ha_Name ha)) \<noteq> None \<and> ks_StatefulSet st (own_key ha (ha_Name ha)) = None)"

lemma deleted_progressed:
  assumes "statefulset_deleted ha st st'" and "live_upto E ha n st0 st"
  shows "progressed E ha st0 st'"
proof -
  have inp: "inputs_ready E ha st" using assms(2) by (simp add: live_upto_def)
  show ?thesis
    using assms
    by (auto simp: progressed_def statefulset_deleted_def live_upto_def own_changes_def Let_def intro!: inputs_ready_cong [OF _ _ _ _ inp])
qed

text \<open>What each loop before the pod keeps of the inputs and of the StatefulSets.\<close>

definition kept_by_loop :: "'w env \<Rightarrow> hermes_agent \<Rightarrow> kstore \<Rightarrow> kstore \<Rightarrow> bool" where
  "kept_by_loop E ha st st' \<longleftrightarrow> inputs_ready E ha st' \<and> own_changes ha st st' \<and> ks_StatefulSet st' = ks_StatefulSet st"

context live_cluster
begin

lemma inputs_ready_config_map:
  assumes "inputs_ready E ha st" and "n \<in> {GetHermesName ha, GetSearXNGName ha}"
  shows "inputs_ready E ha (ks_ConfigMap_update (\<lambda>m. m(own_key ha n := y)) st)"
proof -
  have "n \<notin> set (GetConfigSourceConfigMapNames (Some ha))" using assms by (auto simp: inputs_ready_def sources_apart_def)
  note data = stored_config_data_frame [OF this]
  have cong: "hermes_secret_desired ha (ks_ConfigMap_update f st) = hermes_secret_desired ha st"
    "egress_secret_desired E ha (ks_ConfigMap_update f st) = egress_secret_desired E ha st"
    "stored_credentials (ks_ConfigMap_update f st) ha = stored_credentials st ha" for f
    by (simp_all add: hermes_secret_desired_def egress_secret_desired_def stored_credentials_def Let_def)
  from assms(1) show ?thesis
    by (simp add: inputs_ready_def data credentials_ready_def user_ca_ready_def restore_ready_def secret_ours_def cong)
qed

lemma config_map_kept:
  assumes "inputs_ready E ha st" and "n \<in> {GetHermesName ha, GetSearXNGName ha}" and "changes_at ks_ConfigMap_update (own_key ha n) st st'"
  shows "kept_by_loop E ha st st'"
  using assms inputs_ready_config_map [OF assms(1,2)] by (auto simp: kept_by_loop_def changes_at_def own_changes_def Let_def)

lemma secrets_kept:
  assumes "inputs_ready E ha st"
  shows "changes_at ks_Secret_update (own_key ha (GetHermesName ha)) st st' \<Longrightarrow> hermes_secret_desired ha st' \<Longrightarrow> kept_by_loop E ha st st'"
    and "changes_at ks_Secret_update (own_key ha (GetSearXNGName ha)) st st' \<Longrightarrow> kept_by_loop E ha st st'"
    and "changes_at ks_Secret_update (own_key ha (GetEgressCASecretName ha)) st st' \<Longrightarrow> egress_ca_desired E ha st' \<Longrightarrow> kept_by_loop E ha st st'"
    and "changes_at ks_Secret_update (own_key ha (GetEgressSecretName ha)) st st' \<Longrightarrow> egress_secret_desired E ha st' \<Longrightarrow> kept_by_loop E ha st st'"
proof -
  have own: "own_changes ha st st' \<and> ks_StatefulSet st' = ks_StatefulSet st"
    if "changes_at ks_Secret_update (own_key ha n) st st'"
      "n \<in> {GetHermesName ha, GetSearXNGName ha, GetEgressSecretName ha, GetEgressCASecretName ha}" for n
    using that by (auto simp: changes_at_def own_changes_def Let_def)
  show "changes_at ks_Secret_update (own_key ha (GetHermesName ha)) st st' \<Longrightarrow> hermes_secret_desired ha st' \<Longrightarrow> kept_by_loop E ha st st'"
    "changes_at ks_Secret_update (own_key ha (GetSearXNGName ha)) st st' \<Longrightarrow> kept_by_loop E ha st st'"
    "changes_at ks_Secret_update (own_key ha (GetEgressCASecretName ha)) st st' \<Longrightarrow> egress_ca_desired E ha st' \<Longrightarrow> kept_by_loop E ha st st'"
    "changes_at ks_Secret_update (own_key ha (GetEgressSecretName ha)) st st' \<Longrightarrow> egress_secret_desired E ha st' \<Longrightarrow> kept_by_loop E ha st st'"
    using inputs_ready_secrets [OF assms] own unfolding kept_by_loop_def by blast+
qed

lemma planned_kept:
  assumes "inputs_ready E ha st"
  shows "changes_at ks_ConfigMap_update (ep_key (searxng_cm_plan ha)) st st' \<Longrightarrow> kept_by_loop E ha st st'"
    and "changes_at ks_ServiceAccount_update (ep_key (service_account_plan ha)) st st' \<Longrightarrow> kept_by_loop E ha st st'"
    and "changes_at ks_Service_update (ep_key (service_plan E ha)) st st' \<Longrightarrow> kept_by_loop E ha st st'"
    and "changes_at ks_Ingress_update (ep_key (ingress_plan E ha)) st st' \<Longrightarrow> kept_by_loop E ha st st'"
    and "changes_at ks_NetworkPolicy_update (ep_key (network_policy_plan E ha)) st st' \<Longrightarrow> kept_by_loop E ha st st'"
proof -
  have key: "ep_key (searxng_cm_plan ha) = own_key ha (GetSearXNGName ha)" by (simp add: searxng_cm_plan_def own_key_def)
  show "changes_at ks_ConfigMap_update (ep_key (searxng_cm_plan ha)) st st' \<Longrightarrow> kept_by_loop E ha st st'"
    unfolding key by (rule config_map_kept [OF assms, of "GetSearXNGName ha"]) simp_all
qed (auto simp: kept_by_loop_def changes_at_def own_changes_def Let_def plan_defs own_key_def intro!: inputs_ready_cong [OF _ _ _ _ assms])

lemma role_kept:
  assumes "inputs_ready E ha st" and "st'\<lparr>ks_Role := ks_Role st, ks_RoleBinding := ks_RoleBinding st\<rparr> = st" and "own_changes ha st st'"
  shows "kept_by_loop E ha st st'"
proof -
  have "ks_ConfigMap st' = ks_ConfigMap st \<and> ks_Secret st' = ks_Secret st \<and> ks_Claim st' = ks_Claim st \<and>
      ks_Agent st' = ks_Agent st \<and> ks_StatefulSet st' = ks_StatefulSet st"
    using arg_cong [OF assms(2), of ks_ConfigMap] arg_cong [OF assms(2), of ks_Secret] arg_cong [OF assms(2), of ks_Claim]
      arg_cong [OF assms(2), of ks_Agent] arg_cong [OF assms(2), of ks_StatefulSet] by simp
  then show ?thesis using inputs_ready_cong [OF _ _ _ _ assms(1)] assms(3) by (simp add: kept_by_loop_def)
qed

lemma wp_run_live:
  assumes "store_wp look ha body (\<lambda>r st' ws'. quiet r \<and> P st') st ws"
    and "\<And>st' ws'. P st' \<Longrightarrow> store_wp look ha k Q st' ws'"
  shows "store_wp look ha (run_loop nn body msg k) Q st ws"
  by (rule wp_run_loop, rule store_wp_mono [OF assms(1)]) (simp add: assms(2))

text \<open>A loop that ends quietly, reaches its part and keeps the rest.\<close>

lemma live_step:
  assumes "live_upto E ha n st0 st" and "store_wp look ha body (\<lambda>r st' ws'. quiet r \<and> C st') st ws"
    and "desired_upto E ha n st \<Longrightarrow> store_wp look ha body (reaches (desired_upto E ha m)) st ws"
    and "store_wp look ha body (reaches (\<lambda>st'. part st' \<and> D st')) st ws"
    and "\<And>st'. C st' \<Longrightarrow> part st' \<Longrightarrow> D st' \<Longrightarrow> kept_by_loop E ha st st'"
  shows "store_wp look ha body (\<lambda>r st' ws'. quiet r \<and> live_upto E ha m st0 st') st ws"
  using store_wp_conj [OF assms(2) store_wp_conj [OF assms(3) assms(4)]] assms(1,5)
  by (auto simp: live_upto_def kept_by_loop_def dest: quiet_settled own_changes_trans elim!: store_wp_mono)

lemmas quiet_step = live_step [where C = "\<lambda>_. True", simplified]

lemma live_loops:
  assumes "live_upto E ha n st0 st"
  shows "n = 0 \<Longrightarrow> store_wp look ha (reconcileHermesConfigMap E) (\<lambda>r st' ws'. quiet r \<and> live_upto E ha 1 st0 st') st ws"
    and "n = 1 \<Longrightarrow> store_wp look ha (reconcileHermesSecret E) (\<lambda>r st' ws'. quiet r \<and> live_upto E ha 2 st0 st') st ws"
    and "n = 2 \<Longrightarrow> store_wp look ha (reconcileSearXNGConfigMap E) (\<lambda>r st' ws'. quiet r \<and> live_upto E ha 3 st0 st') st ws"
    and "n = 3 \<Longrightarrow> store_wp look ha (reconcileSearXNGSecret E) (\<lambda>r st' ws'. quiet r \<and> live_upto E ha 4 st0 st') st ws"
    and "n = 4 \<Longrightarrow> store_wp look ha (reconcileServiceAccount E) (\<lambda>r st' ws'. quiet r \<and> live_upto E ha 5 st0 st') st ws"
    and "n = 5 \<Longrightarrow> store_wp look ha (reconcileRole E) (\<lambda>r st' ws'. quiet r \<and> live_upto E ha 6 st0 st') st ws"
    and "n = 6 \<Longrightarrow> store_wp look ha (reconcileService E) (\<lambda>r st' ws'. quiet r \<and> live_upto E ha 7 st0 st') st ws"
    and "n = 7 \<Longrightarrow> store_wp look ha (reconcileIngress E) (\<lambda>r st' ws'. quiet r \<and> live_upto E ha 8 st0 st') st ws"
    and "n = 8 \<Longrightarrow> store_wp look ha (reconcileNetworkPolicy E) (\<lambda>r st' ws'. quiet r \<and> live_upto E ha 9 st0 st') st ws"
    and "n = 9 \<Longrightarrow> store_wp look ha (reconcileEgressCA E) (\<lambda>r st' ws'. quiet r \<and> live_upto E ha 10 st0 st') st ws"
    and "n = 10 \<Longrightarrow> store_wp look ha (reconcileEgressSecret E) (\<lambda>r st' ws'. quiet r \<and> live_upto E ha 11 st0 st') st ws"
proof -
  have inp: "inputs_ready E ha st" using assms by (simp add: live_upto_def)
  then have pre: "agent_stored ha st" "sources_apart ha" "validateConfigSources ha = None" "stored_config_data E st ha \<noteq> None"
      "user_ca_ready E ha st" "credentials_ready E ha st" "GetHermesName ha \<notin> set (GetConfigSourceConfigMapNames (Some ha))"
      "secret_ours E ha (GetHermesName ha) (hermes_secret_desired ha) st" "secret_ours E ha (GetEgressSecretName ha) (egress_secret_desired E ha) st"
    by (simp_all add: inputs_ready_def sources_apart_def)
  note step = quiet_step [OF assms] and parts = loops_add_part [OF pre(2)]
  note keep = config_map_kept [OF inp] secrets_kept [OF inp] planned_kept [OF inp]
  show "n = 0 \<Longrightarrow> store_wp look ha (reconcileHermesConfigMap E) (\<lambda>r st' ws'. quiet r \<and> live_upto E ha 1 st0 st') st ws"
    by (rule step [OF config_map_quiet [OF pre(1,3,4)] parts(1) config_map_reaches [OF pre(7)]]) (blast intro: keep)
  show "n = 1 \<Longrightarrow> store_wp look ha (reconcileHermesSecret E) (\<lambda>r st' ws'. quiet r \<and> live_upto E ha 2 st0 st') st ws"
    by (rule step [OF hermes_secret_quiet [OF pre(1,8)] parts(2) hermes_secret_reaches]) (simp, blast intro: keep)
  show "n = 2 \<Longrightarrow> store_wp look ha (reconcileSearXNGConfigMap E) (\<lambda>r st' ws'. quiet r \<and> live_upto E ha 3 st0 st') st ws"
    by (rule step [OF planned_loops_quiet(1) [OF pre(1)] parts(3) planned_loops_reach(1)]) (simp, blast intro: keep)
  show "n = 3 \<Longrightarrow> store_wp look ha (reconcileSearXNGSecret E) (\<lambda>r st' ws'. quiet r \<and> live_upto E ha 4 st0 st') st ws"
    by (rule step [OF searxng_secret_quiet [OF pre(1)] parts(4) searxng_secret_reaches]) (simp, blast intro: keep)
  show "n = 4 \<Longrightarrow> store_wp look ha (reconcileServiceAccount E) (\<lambda>r st' ws'. quiet r \<and> live_upto E ha 5 st0 st') st ws"
    by (rule step [OF planned_loops_quiet(2) [OF pre(1)] parts(5) planned_loops_reach(2)]) (simp, blast intro: keep)
  show "n = 5 \<Longrightarrow> store_wp look ha (reconcileRole E) (\<lambda>r st' ws'. quiet r \<and> live_upto E ha 6 st0 st') st ws"
    by (rule live_step [OF assms role_quiet [OF pre(1)] parts(6) role_reaches]) (simp, rule role_kept [OF inp])
  show "n = 6 \<Longrightarrow> store_wp look ha (reconcileService E) (\<lambda>r st' ws'. quiet r \<and> live_upto E ha 7 st0 st') st ws"
    by (rule step [OF planned_loops_quiet(3) [OF pre(1)] parts(7) planned_loops_reach(3)]) (simp, blast intro: keep)
  show "n = 7 \<Longrightarrow> store_wp look ha (reconcileIngress E) (\<lambda>r st' ws'. quiet r \<and> live_upto E ha 8 st0 st') st ws"
    by (rule step [OF planned_loops_quiet(4) [OF pre(1)] parts(8) planned_loops_reach(4)]) (simp, blast intro: keep)
  show "n = 8 \<Longrightarrow> store_wp look ha (reconcileNetworkPolicy E) (\<lambda>r st' ws'. quiet r \<and> live_upto E ha 9 st0 st') st ws"
    by (rule step [OF planned_loops_quiet(5) [OF pre(1)] parts(9) planned_loops_reach(5)]) (simp, blast intro: keep)
  show "n = 9 \<Longrightarrow> store_wp look ha (reconcileEgressCA E) (\<lambda>r st' ws'. quiet r \<and> live_upto E ha 10 st0 st') st ws"
    by (rule step [OF egress_ca_quiet [OF pre(1,5)] parts(10) egress_ca_reaches]) (simp, blast intro: keep)
  show "n = 10 \<Longrightarrow> store_wp look ha (reconcileEgressSecret E) (\<lambda>r st' ws'. quiet r \<and> live_upto E ha 11 st0 st') st ws"
    by (rule step [OF egress_secret_quiet [OF pre(1,6,9)] parts(11) egress_secret_reaches]) (simp, blast intro: keep)
qed

text \<open>The restore loop hands the store on, or ends the run with the old StatefulSet gone.\<close>

lemma restore_progress:
  assumes "live_upto E ha 11 st0 st"
  shows "store_wp look ha (reconcileRestore E)
     (\<lambda>r st' ws'. if quiet r then live_upto E ha 12 st0 st' else progressed E ha st0 st') st ws"
proof -
  have inp: "inputs_ready E ha st" and upto: "desired_upto E ha 11 st" using assms by (simp_all add: live_upto_def)
  then have pre: "agent_stored ha st" "sources_apart ha" "restore_ready ha st" by (simp_all add: inputs_ready_def)
  note all = store_wp_conj [OF restore_live [OF pre(1) pre(3) [unfolded restore_ready_def]]
      store_wp_conj [OF loops_add_part(12) [OF pre(2) upto] restore_reaches]]
  show ?thesis
  proof (rule store_wp_mono [OF all], elim conjE)
    fix r st' ws'
    assume *: "quiet r \<and> st' = st \<or> \<not> quiet r \<and> statefulset_deleted ha st st'" "settled_result r \<longrightarrow> IsZero (fst r) \<and> desired_upto E ha 12 st'"
      "settled_result r \<longrightarrow> IsZero (fst r) \<and> restore_desired ha st' \<and> st'\<lparr>ks_Claim := ks_Claim st\<rparr> = st"
    show "if quiet r then live_upto E ha 12 st0 st' else progressed E ha st0 st'"
    proof (cases "quiet r")
      case True
      with * have "st' = st" "desired_upto E ha 12 st'" by (auto dest!: quiet_settled)
      with True assms show ?thesis by (simp add: live_upto_def)
    qed (use * deleted_progressed [OF _ assms] in auto)
  qed
qed

lemma statefulset_progress:
  assumes "live_upto E ha 12 st0 st"
  shows "store_wp look ha (reconcileStatefulSet E)
     (\<lambda>r st' ws'. progressed E ha st0 st' \<and> (quiet r \<longrightarrow> desired_state E ha st')) st ws"
proof -
  have inp: "inputs_ready E ha st" and upto: "desired_upto E ha 12 st" using assms by (simp_all add: live_upto_def)
  from upto have "egress_ca_desired E ha st" "egress_secret_desired E ha st"
    by (simp_all add: desired_upto_def desired_parts_def)
  with pod_inputs_ready [OF inp] obtain ssi where ssi: "stored_inputs E st ha = Some ssi" by blast
  have stored: "agent_stored ha st" using inp by (simp add: inputs_ready_def)
  have keep: "inputs_ready E ha st' \<and> own_changes ha st0 st'" if "applied_statefulset E ha ssi' st st'" for ssi' st'
    using that assms
    by (auto simp: applied_statefulset_def live_upto_def own_changes_def Let_def intro!: inputs_ready_cong [OF _ _ _ _ inp])
  have finished: "desired_state E ha st' \<and> progressed E ha st0 st'" if "settled_result r"
      "settled_result r \<longrightarrow> (\<exists>ssi. stored_inputs E st ha = Some ssi \<and> applied_statefulset E ha ssi st st')" for r st'
    using that statefulset_completes [OF upto] keep by (auto simp: progressed_def)
  show ?thesis
    by (rule store_wp_mono [OF store_wp_conj [OF statefulset_live [OF stored ssi] statefulset_reaches]])
       (use deleted_progressed [OF _ assms] finished in \<open>auto dest: quiet_settled\<close>)
qed

lemma loops_progress:
  assumes "inputs_ready E ha st"
  shows "store_wp look ha (run_loops nn (reconcile_loops E) (report_success nn))
     (\<lambda>r st' ws'. progressed E ha st st') st ws"
proof -
  have start: "live_upto E ha 0 st st" using assms by (simp add: live_upto_def desired_upto_def)
  have snapshots: "store_wp look ha (run_loop nn (reconcileSnapshot E) m (report_success nn)) (\<lambda>r st' ws'. progressed E ha st st') st1 ws1"
    if "progressed E ha st st1" for m st1 ws1
    using that by (intro wp_run_loop store_wp_mono [OF snapshot_leaves]) (auto intro: wp_report_success)
  have pod: "store_wp look ha (run_loop nn (reconcileStatefulSet E) m1 (run_loop nn (reconcileSnapshot E) m2 (report_success nn)))
      (\<lambda>r st' ws'. progressed E ha st st') st1 ws1" if "live_upto E ha 12 st st1" for m1 m2 st1 ws1
    by (rule wp_run_loop, rule store_wp_mono [OF statefulset_progress [OF that]]) (simp add: snapshots)
  have last: "store_wp look ha (run_loop nn (reconcileRestore E) m0
        (run_loop nn (reconcileStatefulSet E) m1 (run_loop nn (reconcileSnapshot E) m2 (report_success nn))))
      (\<lambda>r st' ws'. progressed E ha st st') st1 ws1" if "live_upto E ha 11 st st1" for m0 m1 m2 st1 ws1
    by (rule wp_run_loop, rule store_wp_mono [OF restore_progress [OF that]]) (simp add: pod split: if_splits)
  show ?thesis
    unfolding run_loops_def reconcile_loops_def
    by (simp only: foldr.simps comp_apply prod.case id_apply)
       ((rule last, assumption) | (rule wp_run_live, rule live_loops, rule start, rule refl)
         | (rule wp_run_live, rule live_loops, assumption, rule refl))+
qed

section \<open>Reconciliations\<close>

text \<open>The agent is read with its stored spec.\<close>

lemma agent_found:
  assumes "agent_stored ha (look w)" and "nn = meta_key (ha_meta ha)"
  shows "\<exists>a w'. ka_GetHermesAgent (kube E) nn w = (Inr a, w') \<and> same_agent ha a"
proof -
  obtain a w' where a: "ka_GetHermesAgent (kube E) nn w = (Inr a, w')" "ha_Spec a = ha_Spec ha"
    using agent_read assms by metis
  moreover have "meta_key (ha_meta a) = nn" using get_agent_key a(1) by blast
  ultimately show ?thesis using assms(2) by (auto simp: same_agent_def meta_key_def)
qed

lemma Reconcile_progress:
  assumes "inputs_ready E ha (look (rs_world s))" and "nn = meta_key (ha_meta ha)"
  shows "progressed E ha (look (rs_world s)) (look (rs_world (snd (run_state (Reconcile E nn) s))))"
proof -
  have "agent_stored ha (look (rs_world s))" using assms(1) by (simp add: inputs_ready_def)
  then obtain a w where "ka_GetHermesAgent (kube E) nn (rs_world s) = (Inr a, w)" "same_agent ha a"
    using agent_found assms(2) by blast
  from Reconcile_wp [OF this loops_progress [OF assms(1), of "meta_key (ha_meta a)", folded all_loops_def]] show ?thesis .
qed

text \<open>A run on the desired state keeps the store.\<close>

lemma Reconcile_stays:
  assumes "inputs_ready E ha (look (rs_world s))" and "nn = meta_key (ha_meta ha)" and "desired_state E ha (look (rs_world s))"
  shows "look (rs_world (snd (run_state (Reconcile E nn) s))) = look (rs_world s)"
    and "writes (snd (run_state (Reconcile E nn) s)) = writes s"
proof -
  have "agent_stored ha (look (rs_world s))" using assms(1) by (simp add: inputs_ready_def)
  then obtain a w where "ka_GetHermesAgent (kube E) nn (rs_world s) = (Inr a, w)" "same_agent ha a"
    using agent_found assms(2) by blast
  from Reconcile_leaves [OF this assms(3)]
  show "look (rs_world (snd (run_state (Reconcile E nn) s))) = look (rs_world s)"
    "writes (snd (run_state (Reconcile E nn) s)) = writes s" .
qed

end

end
