(* ===== verification/Fleet.thy ===== *)
theory Fleet
  imports Progress_Runs
begin

text \<open>
  Several agents on one cluster.  A reconciliation of one agent leaves alone what the desired state of
  another depends on, so the agents make progress independently of the order in which the controller
  takes them.
\<close>

section \<open>What the state of an agent depends on\<close>

definition own_secret_names :: "hermes_agent \<Rightarrow> string list" where
  "own_secret_names ha = [GetHermesName ha, GetSearXNGName ha, GetEgressSecretName ha, GetEgressCASecretName ha]"

definition same_view :: "hermes_agent \<Rightarrow> kstore \<Rightarrow> kstore \<Rightarrow> bool" where
  "same_view ha st st' \<longleftrightarrow>
     (\<forall>n \<in> {GetHermesName ha, GetSearXNGName ha} \<union> set (GetConfigSourceConfigMapNames (Some ha)).
        ks_ConfigMap st' (own_key ha n) = ks_ConfigMap st (own_key ha n)) \<and>
     (\<forall>n \<in> set (own_secret_names ha) \<union> set (GetEgressSourceSecretNames ha).
        ks_Secret st' (own_key ha n) = ks_Secret st (own_key ha n)) \<and>
     ks_StatefulSet st' (own_key ha (ha_Name ha)) = ks_StatefulSet st (own_key ha (ha_Name ha)) \<and>
     ks_ServiceAccount st' (own_key ha (ha_Name ha)) = ks_ServiceAccount st (own_key ha (ha_Name ha)) \<and>
     ks_Role st' (own_key ha (ha_Name ha)) = ks_Role st (own_key ha (ha_Name ha)) \<and>
     ks_RoleBinding st' (own_key ha (ha_Name ha)) = ks_RoleBinding st (own_key ha (ha_Name ha)) \<and>
     ks_Service st' (own_key ha (ha_Name ha)) = ks_Service st (own_key ha (ha_Name ha)) \<and>
     ks_Ingress st' (own_key ha (ha_Name ha)) = ks_Ingress st (own_key ha (ha_Name ha)) \<and>
     ks_NetworkPolicy st' (own_key ha (ha_Name ha)) = ks_NetworkPolicy st (own_key ha (ha_Name ha)) \<and>
     ks_Claim st' = ks_Claim st \<and> ks_Agent st' = ks_Agent st"

lemma same_view_secrets:
  assumes "same_view ha st st'"
  shows "n \<in> set (own_secret_names ha) \<Longrightarrow> ks_Secret st' (own_key ha n) = ks_Secret st (own_key ha n)"
    and "Egress_IsEnabled (GetEgress ha) \<Longrightarrow> n \<noteq> [] \<Longrightarrow> n \<in> {Egress_GetCredentialsSecretName (GetEgress ha), Egress_GetCASecretRefName (GetEgress ha)} \<Longrightarrow>
      ks_Secret st' (own_key ha n) = ks_Secret st (own_key ha n)"
  using assms by (auto simp: same_view_def GetEgressSourceSecretNames_def Let_def)

lemma same_view_credentials:
  assumes "same_view ha st st'" and "Egress_IsEnabled (GetEgress ha)"
  shows "stored_credentials st' ha = stored_credentials st ha"
  using same_view_secrets(2) [OF assms] by (intro stored_credentials_cong) simp

lemma stored_egress_sources_cong:
  "(\<And>n ks. (n, ks) \<in> set srcs \<Longrightarrow> n \<noteq> [] \<Longrightarrow> ks_Secret st' (own_key ha n) = ks_Secret st (own_key ha n)) \<Longrightarrow>
     stored_egress_sources st' ha srcs acc = stored_egress_sources st ha srcs acc"
proof (induction srcs arbitrary: acc)
  case (Cons src srcs)
  obtain n ks where "src = (n, ks)" by fastforce
  moreover have "stored_egress_sources st' ha srcs acc = stored_egress_sources st ha srcs acc" for acc
    by (rule Cons.IH, rule Cons.prems) auto
  ultimately show ?case using Cons.prems [of n ks] by (simp add: Let_def split: option.split)
qed simp

lemma same_view_inputs:
  assumes "same_view ha st st'"
  shows "stored_inputs E st' ha = stored_inputs E st ha"
proof (cases "Egress_IsEnabled (GetEgress ha)")
  case True
  obtain caName caKey x where ca: "GetEgressCASource ha = (caName, caKey, x)" by (metis prod_cases3)
  then have "caName = GetEgressCASecretName ha \<or> caName = Egress_GetCASecretRefName (GetEgress ha) \<and> caName \<noteq> []"
    by (auto simp: GetEgressCASource_def Let_def split: if_splits)
  then have "ks_Secret st' (own_key ha caName) = ks_Secret st (own_key ha caName)"
    using same_view_secrets [OF assms] True by (auto simp: own_secret_names_def)
  moreover have "ks_Secret st' (own_key ha (GetEgressSecretName ha)) = ks_Secret st (own_key ha (GetEgressSecretName ha))"
    using same_view_secrets(1) [OF assms] by (simp add: own_secret_names_def)
  moreover have "stored_config_hash E st' ha = stored_config_hash E st ha"
    using assms by (simp add: stored_config_hash_def same_view_def)
  moreover have "stored_egress_sources st' ha srcs acc = stored_egress_sources st ha srcs acc"
    if "srcs = [(caName, Some [caKey]), (GetEgressSecretName ha, None), (Egress_GetCredentialsSecretName (GetEgress ha), None)]"
    for srcs acc
    using calculation same_view_secrets(2) [OF assms True, of "Egress_GetCredentialsSecretName (GetEgress ha)"]
    by (intro stored_egress_sources_cong) (auto simp: that)
  ultimately show ?thesis by (simp only: stored_inputs_def ca prod.case)
qed (use assms in \<open>simp add: stored_inputs_def stored_config_hash_def same_view_def\<close>)

lemma same_view_egress:
  assumes "same_view ha st st'"
  shows "egress_ca_desired E ha st' = egress_ca_desired E ha st"
    and "egress_secret_desired E ha st' = egress_secret_desired E ha st"
    and "user_ca_ready E ha st' = user_ca_ready E ha st"
    and "credentials_ready E ha st' = credentials_ready E ha st"
  using same_view_secrets [OF assms] same_view_credentials [OF assms]
  by (auto simp: egress_ca_desired_def egress_secret_desired_def user_ca_ready_def credentials_ready_def own_secret_names_def Let_def)

lemma same_view_own_secrets:
  assumes "same_view ha st st'"
  shows "hermes_secret_desired ha st' = hermes_secret_desired ha st" "searxng_secret_desired ha st' = searxng_secret_desired ha st"
  using same_view_secrets(1) [OF assms] by (simp_all add: hermes_secret_desired_def searxng_secret_desired_def own_secret_names_def)

lemma plan_keys:
  "ep_key (searxng_cm_plan ha) = own_key ha (GetSearXNGName ha)" "ep_key (service_account_plan ha) = own_key ha (ha_Name ha)"
  "ep_key (service_plan E ha) = own_key ha (ha_Name ha)" "ep_key (ingress_plan E ha) = own_key ha (ha_Name ha)"
  "ep_key (network_policy_plan E ha) = own_key ha (ha_Name ha)"
  by (simp_all add: plan_defs own_key_def Let_def)

context live_cluster
begin

lemma same_view_documents:
  assumes "same_view ha st st'"
  shows "stored_config_data E st' ha = stored_config_data E st ha"
proof -
  have doc: "stored_document E st' (ha_Namespace ha) ref = stored_document E st (ha_Namespace ha) ref"
    if "ckr_Name ref \<in> set (GetConfigSourceConfigMapNames (Some ha))" for ref
    using that assms by (simp add: stored_document_def same_view_def own_key_def)
  have "stored_default_document E st' ha = stored_default_document E st ha"
    by (simp add: stored_default_document_def doc config_ref_source split: option.split)
  moreover have "stored_profile_documents E st' ha names docs = stored_profile_documents E st ha names docs" for names docs
    by (induction names arbitrary: docs) (auto simp: doc profile_config_source split: option.split)
  ultimately show ?thesis by (simp add: stored_config_data_def cong: option.case_cong)
qed

text \<open>The desired state and the inputs depend on nothing else.\<close>

lemma same_view_desired:
  assumes "same_view ha st st'"
  shows "desired_state E ha st' = desired_state E ha st"
proof -
  note parts = assms [unfolded same_view_def]
  have "config_map_desired E ha st' = config_map_desired E ha st"
    using parts by (simp add: config_map_desired_def same_view_documents [OF assms])
  moreover have "role_desired E ha st' = role_desired E ha st" using parts by (simp add: role_desired_def Let_def)
  moreover have "restore_desired ha st' = restore_desired ha st" using parts by (simp add: restore_desired_def)
  moreover have "statefulset_desired E ha st' = statefulset_desired E ha st"
    using parts by (simp add: statefulset_desired_def same_view_inputs [OF assms])
  moreover have "planned searxng_cm_plan ks_ConfigMap ha st' = planned searxng_cm_plan ks_ConfigMap ha st"
    "planned service_account_plan ks_ServiceAccount ha st' = planned service_account_plan ks_ServiceAccount ha st"
    "planned (service_plan E) ks_Service ha st' = planned (service_plan E) ks_Service ha st"
    "planned (ingress_plan E) ks_Ingress ha st' = planned (ingress_plan E) ks_Ingress ha st"
    "planned (network_policy_plan E) ks_NetworkPolicy ha st' = planned (network_policy_plan E) ks_NetworkPolicy ha st"
    using parts by (simp_all add: planned_def plan_keys)
  ultimately show ?thesis
    by (simp add: desired_state_def desired_parts_def same_view_egress [OF assms] same_view_own_secrets [OF assms])
qed

lemma same_view_ready:
  assumes "same_view ha st st'"
  shows "inputs_ready E ha st' = inputs_ready E ha st"
  using assms same_view_secrets(1) [OF assms]
  by (simp add: inputs_ready_def same_view_documents [OF assms] same_view_egress [OF assms] same_view_own_secrets [OF assms]
      secret_ours_def restore_ready_def own_secret_names_def same_view_def)

end

section \<open>Agents apart\<close>

text \<open>
  Two agents with different names, such that the objects of the first are not among the documents and
  Secrets that the spec of the second refers to.
\<close>

definition agents_apart :: "hermes_agent \<Rightarrow> hermes_agent \<Rightarrow> bool" where
  "agents_apart a b \<longleftrightarrow>
     meta_key (ha_meta a) \<noteq> meta_key (ha_meta b) \<and>
     (ha_Namespace a = ha_Namespace b \<longrightarrow>
        list_all (\<lambda>n. n \<notin> set (GetConfigSourceConfigMapNames (Some b))) [GetHermesName a, GetSearXNGName a] \<and>
        list_all (\<lambda>n. n \<notin> set (GetEgressSourceSecretNames b)) (own_secret_names a))"

lemma own_names_apart:
  "GetHermesName a = GetHermesName b \<longleftrightarrow> ha_Name a = ha_Name b" "GetSearXNGName a = GetSearXNGName b \<longleftrightarrow> ha_Name a = ha_Name b"
  "GetEgressSecretName a = GetEgressSecretName b \<longleftrightarrow> ha_Name a = ha_Name b"
  "GetEgressCASecretName a = GetEgressCASecretName b \<longleftrightarrow> ha_Name a = ha_Name b"
  "GetHermesName a \<noteq> GetSearXNGName b" "GetHermesName a \<noteq> GetEgressSecretName b" "GetHermesName a \<noteq> GetEgressCASecretName b"
  "GetSearXNGName a \<noteq> GetEgressSecretName b" "GetSearXNGName a \<noteq> GetEgressCASecretName b"
  "GetEgressSecretName a \<noteq> GetEgressCASecretName b"
proof -
  have rev: "x = y \<Longrightarrow> rev x = rev y" for x y :: string by simp
  show "GetHermesName a \<noteq> GetSearXNGName b" "GetHermesName a \<noteq> GetEgressSecretName b" "GetHermesName a \<noteq> GetEgressCASecretName b"
    "GetSearXNGName a \<noteq> GetEgressSecretName b" "GetSearXNGName a \<noteq> GetEgressCASecretName b"
    "GetEgressSecretName a \<noteq> GetEgressCASecretName b"
    by (auto simp: GetHermesName_def GetSearXNGName_def GetEgressSecretName_def GetEgressCASecretName_def dest!: rev)
qed (simp_all add: GetHermesName_def GetSearXNGName_def GetEgressSecretName_def GetEgressCASecretName_def)

lemma own_key_eq [simp]: "own_key a n = own_key b m \<longleftrightarrow> ha_Namespace a = ha_Namespace b \<and> n = m"
  by (simp add: own_key_def)

lemma own_changes_view:
  assumes "own_changes a st st'" and "agents_apart a b"
  shows "same_view b st st'"
proof -
  have names: "ha_Namespace a = ha_Namespace b \<Longrightarrow> ha_Name a \<noteq> ha_Name b"
    and sources: "ha_Namespace a = ha_Namespace b \<Longrightarrow> n \<in> set (GetConfigSourceConfigMapNames (Some b)) \<Longrightarrow> n \<notin> {GetHermesName a, GetSearXNGName a}"
      "ha_Namespace a = ha_Namespace b \<Longrightarrow> n \<in> set (GetEgressSourceSecretNames b) \<Longrightarrow> n \<notin> set (own_secret_names a)" for n
    using assms(2) by (auto simp: agents_apart_def meta_key_def list_all_iff)
  note apart = own_names_apart own_names_apart(5-) [symmetric]
  have configs: "own_key b n \<notin> own_key a ` {GetHermesName a, GetSearXNGName a}"
    if "n \<in> {GetHermesName b, GetSearXNGName b} \<union> set (GetConfigSourceConfigMapNames (Some b))" for n
    using that names sources(1) [of n] by (auto simp: apart)
  have secrets: "own_key b n \<notin> own_key a ` set (own_secret_names a)"
    if "n \<in> set (own_secret_names b) \<union> set (GetEgressSourceSecretNames b)" for n
  proof
    assume "own_key b n \<in> own_key a ` set (own_secret_names a)"
    then have ns: "ha_Namespace a = ha_Namespace b" and n: "n \<in> set (own_secret_names a)" by auto
    with that sources(2) have "n \<in> set (own_secret_names b)" by blast
    with n names [OF ns] show False by (auto simp: own_secret_names_def apart)
  qed
  have name: "own_key b (ha_Name b) \<notin> {own_key a (ha_Name a)}" using names by auto
  note changes = assms(1) [unfolded own_changes_def Let_def same_except_def]
  have "\<forall>n \<in> {GetHermesName b, GetSearXNGName b} \<union> set (GetConfigSourceConfigMapNames (Some b)).
      ks_ConfigMap st' (own_key b n) = ks_ConfigMap st (own_key b n)" using conjunct1 [OF changes] configs by blast
  moreover have "\<forall>n \<in> set (own_secret_names b) \<union> set (GetEgressSourceSecretNames b).
      ks_Secret st' (own_key b n) = ks_Secret st (own_key b n)"
    using conjunct1 [OF conjunct2 [OF changes]] secrets [unfolded own_secret_names_def [of a] list.set] by blast
  ultimately show ?thesis using changes name unfolding same_view_def by simp
qed

section \<open>What is written for another agent\<close>

text \<open>The object that a request writes.\<close>

fun written_key :: "api_request \<Rightarrow> (api_kind \<times> namespaced_name) option" where
  "written_key (CreateReq obj) = Some (fst (object_kind obj), meta_key (snd (object_kind obj)))"
| "written_key (UpdateReq obj) = Some (fst (object_kind obj), meta_key (snd (object_kind obj)))"
| "written_key (DeleteReq k nn) = Some (k, nn)"
| "written_key _ = None"

lemma RestoredPVCName_inj [simp]: "RestoredPVCName x = RestoredPVCName y \<longleftrightarrow> x = y"
  by (simp add: RestoredPVCName_def)

text \<open>Two agents own no object together, unless they restore the same snapshot.\<close>

lemma owned_keys_apart:
  assumes "meta_key (ha_meta a) \<noteq> meta_key (ha_meta b)" and "owned_key a k nn" and "owned_key b k nn"
  shows "k = KPersistentVolumeClaim \<and> restore_source a = restore_source b \<and> restore_source a \<noteq> []"
proof -
  have names: "ha_Name a \<noteq> ha_Name b" using assms by (auto simp: meta_key_def owned_key_def)
  note apart = own_names_apart own_names_apart(5-) [symmetric]
  show ?thesis
    using assms(2,3) names by (cases k) (auto simp: owned_key_def apart split: if_splits)
qed

lemma owned_request_key:
  assumes "owned_request E ha req" and "written_key req = Some (k, nn)" and "\<And>g. k \<noteq> KUnstructured g"
  shows "owned_key ha k nn"
  using assms by (cases req) (auto simp: owned_object_def split: api_object.splits api_kind.splits)

section \<open>Schedules\<close>

text \<open>The controller takes one request at a time: a schedule is a list of the agents that it reconciles.\<close>

fun reconcile_all :: "'w env \<Rightarrow> hermes_agent list \<Rightarrow> 'w rst \<Rightarrow> 'w rst" where
  "reconcile_all E [] s = s"
| "reconcile_all E (ha # sched) s = reconcile_all E sched (snd (run_state (Reconcile E (meta_key (ha_meta ha))) s))"

lemma reconcile_all_append: "reconcile_all E (xs @ ys) s = reconcile_all E ys (reconcile_all E xs s)"
  by (induction xs arbitrary: s) simp_all

text \<open>How many reconciliations an agent still needs: none, one, or one more to replace its StatefulSet.\<close>

definition runs_left :: "'w env \<Rightarrow> hermes_agent \<Rightarrow> kstore \<Rightarrow> nat" where
  "runs_left E ha st =
     (if desired_state E ha st then 0 else if ks_StatefulSet st (own_key ha (ha_Name ha)) = None then 1 else 2)"

lemma runs_left_le: "runs_left E ha st \<le> 2"
  by (simp add: runs_left_def)

text \<open>The agents of a fleet are apart from each other and have their inputs in place.\<close>

definition fleet_ready :: "'w env \<Rightarrow> hermes_agent set \<Rightarrow> kstore \<Rightarrow> bool" where
  "fleet_ready E A st \<longleftrightarrow> (\<forall>a \<in> A. inputs_ready E a st \<and> (\<forall>b \<in> A. a = b \<or> agents_apart a b))"

context live_cluster
begin

lemma Reconcile_runs_left:
  assumes "inputs_ready E ha (look (rs_world s))"
  shows "runs_left E ha (look (rs_world (snd (run_state (Reconcile E (meta_key (ha_meta ha))) s)))) \<le> runs_left E ha (look (rs_world s)) - 1"
proof (cases "desired_state E ha (look (rs_world s))")
  case True
  then show ?thesis using Reconcile_stays [OF assms refl] by (simp add: runs_left_def)
next
  case False
  then show ?thesis using Reconcile_progress [OF assms refl] by (auto simp: runs_left_def progressed_def)
qed

lemma Reconcile_others:
  assumes "inputs_ready E a (look (rs_world s))" and "agents_apart a b"
  shows "same_view b (look (rs_world s)) (look (rs_world (snd (run_state (Reconcile E (meta_key (ha_meta a))) s))))"
  using Reconcile_progress [OF assms(1) refl] assms(2) by (auto simp: progressed_def intro: own_changes_view)

lemma Reconcile_fleet:
  assumes "fleet_ready E A (look (rs_world s))" and "a \<in> A"
  shows "fleet_ready E A (look (rs_world (snd (run_state (Reconcile E (meta_key (ha_meta a))) s))))"
proof -
  let ?st = "look (rs_world s)" and ?st' = "look (rs_world (snd (run_state (Reconcile E (meta_key (ha_meta a))) s)))"
  have a: "inputs_ready E a ?st" using assms by (simp add: fleet_ready_def)
  have "inputs_ready E b ?st'" if "b \<in> A" for b
  proof (cases "b = a")
    case True
    then show ?thesis using Reconcile_progress [OF a refl] by (simp add: progressed_def)
  next
    case False
    then have "agents_apart a b" "inputs_ready E b ?st" using assms that by (auto simp: fleet_ready_def)
    then show ?thesis using same_view_ready [OF Reconcile_others [OF a]] by simp
  qed
  with assms(1) show ?thesis by (simp add: fleet_ready_def)
qed

lemma runs_left_others:
  assumes "fleet_ready E A (look (rs_world s))" and "a \<in> A" "b \<in> A" "a \<noteq> b"
  shows "runs_left E b (look (rs_world (snd (run_state (Reconcile E (meta_key (ha_meta a))) s)))) = runs_left E b (look (rs_world s))"
proof -
  have "agents_apart a b" "inputs_ready E a (look (rs_world s))" using assms by (auto simp: fleet_ready_def)
  then have view: "same_view b (look (rs_world s)) (look (rs_world (snd (run_state (Reconcile E (meta_key (ha_meta a))) s))))"
    by (rule Reconcile_others [rotated])
  from same_view_desired [OF this] view show ?thesis by (simp add: runs_left_def same_view_def)
qed

lemma reconcile_all_runs_left:
  assumes "fleet_ready E A (look (rs_world s))" and "set sched \<subseteq> A" and "b \<in> A"
  shows "fleet_ready E A (look (rs_world (reconcile_all E sched s)))"
    and "runs_left E b (look (rs_world (reconcile_all E sched s))) \<le> runs_left E b (look (rs_world s)) - count_list sched b"
  using assms
proof (induction sched arbitrary: s)
  case (Cons a sched)
  {
    case 1
    then show ?case using Cons.IH(1) [OF Reconcile_fleet [OF 1(1), of a]] by simp
  next
    case 2
    let ?s' = "snd (run_state (Reconcile E (meta_key (ha_meta a))) s)"
    from 2 have a: "a \<in> A" and b: "inputs_ready E b (look (rs_world s))" by (simp_all add: fleet_ready_def)
    have "runs_left E b (look (rs_world ?s')) \<le> runs_left E b (look (rs_world s)) - (if a = b then 1 else 0)"
      using runs_left_others [OF 2(1) a 2(3)] Reconcile_runs_left [OF b] by auto
    moreover have "runs_left E b (look (rs_world (reconcile_all E sched ?s'))) \<le> runs_left E b (look (rs_world ?s')) - count_list sched b"
      using Cons.IH(2) [OF Reconcile_fleet [OF 2(1) a]] 2 by simp
    ultimately show ?case by (auto split: if_splits)
  }
qed simp_all

lemma fleet_settles:
  assumes "fleet_ready E A (look (rs_world s))" and "set sched \<subseteq> A" and "a \<in> A"
    and "runs_left E a (look (rs_world s)) \<le> count_list sched a"
  shows "desired_state E a (look (rs_world (reconcile_all E sched s)))"
proof -
  have "runs_left E a (look (rs_world (reconcile_all E sched s))) = 0"
    using reconcile_all_runs_left(2) [OF assms(1-3)] assms(4) by linarith
  then show ?thesis by (simp add: runs_left_def split: if_splits)
qed

lemma fleet_quiet:
  assumes "fleet_ready E A (look (rs_world s))" and "set sched \<subseteq> A" and "\<And>a. a \<in> A \<Longrightarrow> desired_state E a (look (rs_world s))"
  shows "look (rs_world (reconcile_all E sched s)) = look (rs_world s) \<and> writes (reconcile_all E sched s) = writes s"
  using assms
proof (induction sched arbitrary: s)
  case (Cons a sched)
  let ?s' = "snd (run_state (Reconcile E (meta_key (ha_meta a))) s)"
  have a: "inputs_ready E a (look (rs_world s))" "desired_state E a (look (rs_world s))" using Cons.prems by (auto simp: fleet_ready_def)
  have "look (rs_world ?s') = look (rs_world s)" "writes ?s' = writes s" using Reconcile_stays [OF a(1) refl a(2)] by simp_all
  with Cons.IH [of ?s'] Cons.prems show ?case by simp
qed simp

end

end
