(* ===== verification/Memory_Live.thy ===== *)
theory Memory_Live
  imports Memory_Store Fleet
begin

text \<open>
  The cluster in memory answers its calls.  Two agents on it have their inputs in place: one with the
  defaults, and one behind the egress proxy whose StatefulSet lacks its claim template and is to be
  replaced.
\<close>

section \<open>The contract\<close>

lemma mem_live_kind:
  assumes "kind_store mem_env mem_store fld upd k (mem_client objs cupd (ki_meta k)) kept"
    and "\<And>w. fld (mem_store w) = (\<lambda>nn. mem_lookup (ki_meta k) nn (objs w))"
  shows "live_kind mem_env mem_store fld upd k (mem_client objs cupd (ki_meta k)) kept"
proof (intro live_kind.intro assms(1) live_kind_axioms.intro)
qed (auto simp: assms(2) mem_client_def mem_get_def mem_create_def mem_update_def mem_delete_def not_found_def
    split: option.splits)

lemma mem_live_kinds:
  "live_kind mem_env mem_store ks_ConfigMap ks_ConfigMap_update kConfigMap (ka_ConfigMap (kube mem_env)) kept_ConfigMap"
  "live_kind mem_env mem_store ks_Secret ks_Secret_update kSecret (ka_Secret (kube mem_env)) kept_Secret"
  "live_kind mem_env mem_store ks_StatefulSet ks_StatefulSet_update kStatefulSet (ka_StatefulSet (kube mem_env)) kept_StatefulSet"
  "live_kind mem_env mem_store ks_ServiceAccount ks_ServiceAccount_update kServiceAccount (ka_ServiceAccount (kube mem_env)) kept_ServiceAccount"
  "live_kind mem_env mem_store ks_Role ks_Role_update kRole (ka_Role (kube mem_env)) kept_Role"
  "live_kind mem_env mem_store ks_RoleBinding ks_RoleBinding_update kRoleBinding (ka_RoleBinding (kube mem_env)) kept_RoleBinding"
  "live_kind mem_env mem_store ks_Service ks_Service_update kService (ka_Service (kube mem_env)) kept_Service"
  "live_kind mem_env mem_store ks_Ingress ks_Ingress_update kIngress (ka_Ingress (kube mem_env)) kept_Ingress"
  "live_kind mem_env mem_store ks_NetworkPolicy ks_NetworkPolicy_update kNetworkPolicy (ka_NetworkPolicy (kube mem_env)) kept_NetworkPolicy"
  "live_kind mem_env mem_store ks_Claim ks_Claim_update kPersistentVolumeClaim (ka_PersistentVolumeClaim (kube mem_env)) kept_Claim"
  unfolding mem_kube_clients
  by (rule mem_live_kind, rule mem_kind_stores [unfolded mem_kube_clients], simp add: mem_store_def kind_defs)+

interpretation mem_live: live_cluster mem_env mem_store
proof (intro live_cluster.intro mem_cluster.cluster_store_axioms mem_live_kinds live_cluster_axioms.intro)
qed (auto simp: mem_env_def mem_kube_def mem_mach_def mem_plat_def mem_set_controller_def mem_status_update_def mem_store_def
    mem_get_def mem_client_def mem_delete_def not_found_def IgnoreNotFound_def split: option.splits)

section \<open>Two agents\<close>

lemma mem_yaml: "\<exists>yaml. buildEgressProxyYAML mem_env ha creds tokens = Inr yaml"
  by (simp add: buildEgressProxyYAML_def mem_env_def mem_mach_def)

lemma mem_inputs:
  assumes "sources_apart ha" "secrets_apart ha" "validateConfigSources ha = None" "stored_config_data mem_env st ha \<noteq> None"
    "Egress_IsEnabled (GetEgress ha) \<Longrightarrow> used_ports ha = [] \<and> stored_credentials st ha \<noteq> None \<and> Egress_GetCASecretRefName (GetEgress ha) = []"
    "restore_ready ha st" "agent_stored ha st"
    "ks_Secret st (own_key ha (GetHermesName ha)) = None" "ks_Secret st (own_key ha (GetEgressSecretName ha)) = None"
  shows "inputs_ready mem_env ha st"
  using assms
  by (auto simp: inputs_ready_def credentials_ready_def user_ca_ready_def secret_ours_def mem_yaml ValidateEgressPorts_def Let_def)

lemma demo_agent_inputs: "inputs_ready mem_env demo_agent (mem_store (rs_world (demo_state demo_agent)))"
proof (rule mem_inputs)
  show "sources_apart demo_agent" by code_simp
  show "secrets_apart demo_agent" by code_simp
  show "validateConfigSources demo_agent = None" by code_simp
  show "stored_config_data mem_env (mem_store (rs_world (demo_state demo_agent))) demo_agent \<noteq> None" by code_simp
  show "restore_ready demo_agent (mem_store (rs_world (demo_state demo_agent)))" by code_simp
qed (simp_all add: mem_store_def mem_lookup_def demo_state_def empty_cluster_def GetEgress_def Egress_IsEnabled_def demo_defs)

text \<open>
  The agent behind the proxy, with the Secret of its credentials and a StatefulSet without claim
  templates, next to an agent with the defaults.
\<close>

definition demo_other :: hermes_agent where
  "demo_other = demo_agent\<lparr>ha_meta := objectMeta ''other'' ''ns'' []\<rparr>"

definition demo_fleet :: "cluster rst" where
  "demo_fleet =
     (demo_state demo_egress_agent)\<lparr>rs_world := empty_cluster
        \<lparr>cl_Agents := [demo_egress_agent, demo_other],
         cl_Secrets := [\<lparr>sec_meta = objectMeta ''creds'' ''ns'' [], sec_Data = [(''OPENAI_API_KEY'', ''sk'')]\<rparr>],
         cl_StatefulSets := [(base_statefulset demo_egress_agent [])\<lparr>sts_VolumeClaimTemplates := []\<rparr>]\<rparr>\<rparr>"

lemma demo_fleet_inputs:
  "inputs_ready mem_env demo_egress_agent (mem_store (rs_world demo_fleet))"
  "inputs_ready mem_env demo_other (mem_store (rs_world demo_fleet))"
proof -
  let ?st = "mem_store (rs_world demo_fleet)"
  show "inputs_ready mem_env demo_egress_agent ?st"
  proof (rule mem_inputs)
    show "sources_apart demo_egress_agent" by code_simp
    show "secrets_apart demo_egress_agent" by code_simp
    show "validateConfigSources demo_egress_agent = None" by code_simp
    show "stored_config_data mem_env ?st demo_egress_agent \<noteq> None" by code_simp
    show "used_ports demo_egress_agent = [] \<and> stored_credentials ?st demo_egress_agent \<noteq> None \<and>
        Egress_GetCASecretRefName (GetEgress demo_egress_agent) = []" by code_simp
    show "restore_ready demo_egress_agent ?st" by code_simp
    show "agent_stored demo_egress_agent ?st" by (simp add: mem_store_def mem_lookup_def demo_fleet_def)
    show "ks_Secret ?st (own_key demo_egress_agent (GetHermesName demo_egress_agent)) = None" by code_simp
    show "ks_Secret ?st (own_key demo_egress_agent (GetEgressSecretName demo_egress_agent)) = None" by code_simp
  qed
  show "inputs_ready mem_env demo_other ?st"
  proof (rule mem_inputs)
    show "sources_apart demo_other" by code_simp
    show "secrets_apart demo_other" by code_simp
    show "validateConfigSources demo_other = None" by code_simp
    show "stored_config_data mem_env ?st demo_other \<noteq> None" by code_simp
    show "used_ports demo_other = [] \<and> stored_credentials ?st demo_other \<noteq> None \<and>
        Egress_GetCASecretRefName (GetEgress demo_other) = []" by code_simp
    show "restore_ready demo_other ?st" by code_simp
    show "agent_stored demo_other ?st"
      by (simp add: mem_store_def mem_lookup_def demo_fleet_def demo_other_def demo_defs meta_key_def)
    show "ks_Secret ?st (own_key demo_other (GetHermesName demo_other)) = None" by code_simp
    show "ks_Secret ?st (own_key demo_other (GetEgressSecretName demo_other)) = None" by code_simp
  qed
qed

lemma demo_fleet_ready: "fleet_ready mem_env {demo_egress_agent, demo_other} (mem_store (rs_world demo_fleet))"
proof -
  have "agents_apart demo_egress_agent demo_other" by code_simp
  moreover have "agents_apart demo_other demo_egress_agent" by code_simp
  ultimately show ?thesis using demo_fleet_inputs by (simp add: fleet_ready_def)
qed

lemma demo_fleet_distinct: "demo_other \<noteq> demo_egress_agent"
  by (auto simp: demo_other_def demo_defs dest!: arg_cong [where f = ha_meta])

end
