(* ===== verification/Divergences.thy ===== *)
theory Divergences
  imports Steady_State
begin

text \<open>
  Where the code departs from its documentation or its purpose: what the model says of the places that
  the review of the program turned up.
\<close>

section \<open>Objects of the user that a reconciliation removes\<close>

text \<open>
  A ServiceAccount that the user supplies under the agent's name, with the creation switched off, is
  gone after a reconciliation, although the pod is to run under it; its owner is not looked at.
\<close>

lemma user_service_account_removed:
  assumes "cluster_store E look" and "sources_apart ha" and "ka_GetHermesAgent (kube E) nn (rs_world s) = (Inr ha, w)"
    and "settled_result (fst (run_state (Reconcile E nn) s))"
    and "\<not> RBAC_ShouldCreateServiceAccount (HermesSecurity_GetRBAC (GetSecurity ha))" and "GetServiceAccountName ha = ha_Name ha"
  shows "ks_ServiceAccount (look (rs_world (snd (run_state (Reconcile E nn) s)))) (own_key ha (GetServiceAccountName ha)) = None"
  using cluster_store.Reconcile_settles [OF assms(1-4)] assms(5,6)
  by (auto simp: desired_state_def desired_parts_def planned_def plan_settled_def service_account_plan_def split: option.splits)

text \<open>
  With the proxy disabled, the credentials Secret of the user under the name of the egress Secret is gone
  after a reconciliation: the names are validated only while the proxy is enabled.
\<close>

lemma disabled_proxy_removes_credentials:
  assumes "cluster_store E look" and "sources_apart ha" and "ka_GetHermesAgent (kube E) nn (rs_world s) = (Inr ha, w)"
    and "settled_result (fst (run_state (Reconcile E nn) s))"
    and "\<not> Egress_IsEnabled (GetEgress ha)" and "Egress_GetCredentialsSecretName (GetEgress ha) = GetEgressSecretName ha"
  shows "ks_Secret (look (rs_world (snd (run_state (Reconcile E nn) s)))) (own_key ha (Egress_GetCredentialsSecretName (GetEgress ha))) = None"
  using cluster_store.Reconcile_settles [OF assms(1-4)] assms(5,6)
  by (simp add: desired_state_def desired_parts_def egress_secret_desired_def)

text \<open>
  The CA loop runs before the names are validated: with a CA Secret of the user under another name, the
  loop ends with nothing under the name of the managed CA, also when the credentials are stored there.
\<close>

lemma ca_loop_removes_credentials:
  assumes "cluster_store E look" and "same_agent ha (rs_agent s)" and "Egress_IsEnabled (GetEgress ha)"
    and "Egress_GetCASecretRefName (GetEgress ha) \<notin> {[], GetEgressCASecretName ha}"
    and "settled_result (fst (run_state (reconcileEgressCA E) s))"
  shows "ks_Secret (look (rs_world (snd (run_state (reconcileEgressCA E) s)))) (own_key ha (GetEgressCASecretName ha)) = None"
  using store_wpD(2) [OF cluster_store.egress_ca_reaches [OF assms(1)] assms(2) refl refl] assms(3-5)
  by (simp add: egress_ca_desired_def Let_def)

text \<open>The validation accepts the names of the Hermes Secret and of the SearXNG Secret, which the operator overwrites.\<close>

lemma validation_accepts_operator_secrets:
  assumes "Egress_GetCredentialsSecretName (GetEgress ha) = GetHermesName ha" and "Egress_GetCASecretRefName (GetEgress ha) = GetSearXNGName ha"
  shows "ValidateEgressSecretRefs ha = None \<and> {GetHermesName ha, GetSearXNGName ha} \<subseteq> set (owned_names ha KSecret)"
  using assms by (simp add: ValidateEgressSecretRefs_iff Let_def)

section \<open>Names\<close>

text \<open>
  The claim restored from a snapshot is named after the snapshot alone: two agents of a namespace that
  restore the same snapshot both count it as their own, and their pods store their data in it.
\<close>

lemma restored_claim_shared:
  assumes "ha_Namespace a = ha_Namespace b" and "restore_source a = restore_source b" and "restore_source a \<noteq> []"
    and "HermesPersistence_GetExistingClaim (Hermes_GetPersistence (GetHermes a)) = []"
    and "HermesPersistence_GetExistingClaim (Hermes_GetPersistence (GetHermes b)) = []"
  shows "owned_key a KPersistentVolumeClaim nn \<longleftrightarrow> owned_key b KPersistentVolumeClaim nn" and "buildDataPVCName a = buildDataPVCName b"
  using assms by (simp_all add: owned_key_def buildDataPVCName_def restore_source_def Let_def)

text \<open>A snapshot is deleted under the kind of the list.\<close>

lemma snapshot_deleted_as_list:
  "rs_trace (snd (run_state (DeleteVolumeSnapshot E nn) s)) = rs_trace s @ [DeleteReq (KUnstructured volumeSnapshotGVK) nn]"
  "volumeSnapshotGVK \<noteq> volumeSnapshotObjectGVK"
  by (simp_all add: DeleteVolumeSnapshot_def case_prod_unfold volumeSnapshotGVK_def volumeSnapshotObjectGVK_def volumeSnapshotKind_def)

text \<open>The first numbered ConfigMap of a profile and the single one of the profile with \<open>-0\<close> appended get one volume name.\<close>

lemma profile_volume_names_collide:
  assumes "HermesWorkspace_GetDotEnv (hpr_Workspace p) = Some d" and "hde_ConfigMapRefs d \<noteq> []"
    and "HermesWorkspace_GetDotEnv (hpr_Workspace q) = Some e" and "hde_ConfigMapRef e = Some n"
  shows "''hermes-dotenv-configmap-profile-'' @ name @ ''-0'' \<in>
     fst ` set (profile_dotenv_sources ha name p) \<inter> fst ` set (profile_dotenv_sources ha (name @ ''-0'') q)"
proof -
  obtain m ms where refs: "hde_ConfigMapRefs d = m # ms" using assms(2) by (cases "hde_ConfigMapRefs d") auto
  have zero_digit: "nat_digits 0 = ''0''" by code_simp
  have "numbered base src (m # ms) = (base @ ''-0'', src m) # tl (numbered base src (m # ms))" for base src
    by (simp add: numbered_def upt_conv_Cons zero_digit del: upt_Suc)
  then have "base @ ''-0'' \<in> fst ` set (numbered base src (m # ms))" for base src
    by (metis fst_conv image_eqI list.set_intros(1))
  from this [of "''hermes-dotenv-configmap-profile-'' @ name"] show ?thesis
    using assms refs by (auto simp: profile_dotenv_sources_def user_dotenv_sources_def image_Un Let_def)
qed

section \<open>Values\<close>

text \<open>A JSON null counts as the legacy form of an image.\<close>

lemma null_image_is_legacy: "usesLegacyImageForm (Some (RawJSON JNull))"
  by (simp add: usesLegacyImageForm_def)

text \<open>Go's quotes keep a dollar sign and a backtick, which the shell expands between double quotes.\<close>

lemma quotes_keep_expansions: "set x \<subseteq> {CHR ''$'', CHR 0x60, CHR ''('', CHR '')''} \<Longrightarrow> quote x = [CHR 0x22] @ x @ [CHR 0x22]"
  by (induction x) (auto simp: quote_def quote_char_def)

end
