(* ===== verification/Spec2Isabelle.thy ===== *)
theory Spec2Isabelle
  imports StatefulSet_Store Pod_Shape Controller_Setup Telemetry Program_Entry Config_Facts Egress_Facts Snapshot_Facts Memory_Live Divergences
begin

text \<open>
  A verification development of the Hermes agent operator, a Kubernetes controller that turns a
  \<^verbatim>\<open>HermesAgent\<close> custom resource into a running agent: a StatefulSet with the agent container, its init
  containers and optional sidecars, and the ConfigMaps, Secrets, ServiceAccount, Role, Service,
  Ingress, NetworkPolicy, claims and volume snapshots around it.

  \<^bold>\<open>The program.\<close>  The manager (\<^verbatim>\<open>cmd/main.go\<close>) starts the controller
  (\<^verbatim>\<open>internal/controller/hermesagent_controller.go\<close>), which watches agents, the objects they own and
  the ConfigMaps and Secrets they refer to, and calls the use case
  (\<^verbatim>\<open>internal/usecase/hermesagent.go\<close>) with the name of an agent.  The use case reads the agent and runs
  fourteen loops in a fixed order, one file per loop; the first loop that fails or asks for a requeue
  ends the run.  A loop reads its object through the Kubernetes adapter
  (\<^verbatim>\<open>internal/infras/kubernetes.go\<close>), builds the desired one from the spec through the accessors of
  \<^verbatim>\<open>api/v1alpha1\<close>, and creates, updates or deletes it; a deferred function records a failure in the
  Ready condition.  Logs and counters go to the Prometheus telemetry, and a goroutine sends a heartbeat.

  \<^bold>\<open>How it is modelled.\<close>  Structs are records and free-form JSON is a datatype of decoded documents; a
  nilable pointer is an option, a Go map an association list read by \<^const>\<open>map_of\<close>, an \<^verbatim>\<open>int32\<close> a
  32-bit word.  A loop is a program of the state monad over \<open>'w rst\<close>: the world behind the client, the
  agent object that the loops mutate, the list of API requests made and the list of telemetry events.
  The world is a type parameter, and what reads or changes it (the controller-runtime client, the API
  machinery, the cron parser, the YAML printer, the clock, the random source, the cryptographic
  packages) is the parameter \<open>'w env\<close>; so a theorem holds for every behaviour of the cluster unless it
  names a law.  Errors are values, every loop is a total function, and no definition uses fuel: the
  loops over lists are structural recursions and the one string search has a termination proof.

  \<^bold>\<open>The theories.\<close>
  \<^item> \<open>Go_Prelude\<close>: strings, maps, integers and the shared lemmas; \<open>Kube_Types\<close>: the Kubernetes objects that
    are built; \<open>Go_Time\<close>: the calendar of snapshot names and certificate dates.
  \<^item> \<open>Api_Hermes\<close>, \<open>Api_Agent\<close>, \<open>Api_Egress\<close>: the custom resource and its methods
    (\<^verbatim>\<open>api/v1alpha1/hermesagent_*.go\<close>), with the exclusive claims of credentials, the overlap of host
    patterns, the resolution of credentials and the port check.
  \<^item> \<open>Runtime\<close>: errors, requests, telemetry events, the parameters, the monad and its Hoare rules; \<open>Infra\<close>: the
    adapter, the conditions and the deferred failure mark.
  \<^item> \<open>Owned_Config\<close>, \<open>Owned_Rbac\<close>, \<open>Owned_Network\<close>, \<open>Egress_Secret\<close>, \<open>Egress_CA\<close>, \<open>Hermes_ConfigMap\<close>, \<open>Snapshot\<close>,
    \<open>Restore\<close>: the loops other than that of the StatefulSet, each with its builders
    (\<^verbatim>\<open>internal/usecase/hermesagent_*.go\<close>).
  \<^item> \<open>Hermes_Scripts\<close>, \<open>Hermes_Container\<close>, \<open>StatefulSet_Build\<close>, \<open>Pod_Status\<close>, \<open>StatefulSet_Loop\<close>: the pod, from the
    text of the init scripts to \<^const>\<open>buildStatefulSet\<close>, the status read from the pod and the loop.
  \<^item> \<open>Reconcile\<close>: the sequence of loops, the controller and its two mapping functions; \<open>Controller_Setup\<close>: the
    kinds the controller watches and the permissions its markers ask for.
  \<^item> \<open>Telemetry\<close>, \<open>Heartbeat\<close>, \<open>Program_Entry\<close>: the Prometheus telemetry, the heartbeat reporter with its
    senders as a step relation, and the start of the program.
  \<^item> \<open>Request_Calculus\<close> (locale \<open>request_invariant\<close>): one rule per method of the adapter for assertions about
    the agent and the requests.  \<open>Owned_Requests\<close> (locale \<open>lawful_env\<close>): the laws of the client and the
    requests of every loop.  \<open>Ensure\<close> (locales \<open>reliable_store\<close>, \<open>ensured\<close>): the create-update-delete algorithm
    and its convergence; \<open>StatefulSet_Store\<close> (locale \<open>statefulset_store\<close>) the same for the StatefulSet.
    \<open>Memory_Client\<close> and \<open>Convergence\<close> interpret these locales on a cluster in memory, which is also where
    the theorems with premises are instantiated; \<open>Sample_Agents\<close> has the agents used there.
  \<^item> \<open>Pod_Shape\<close>, \<open>Config_Facts\<close>, \<open>Egress_Facts\<close>, \<open>Snapshot_Facts\<close>: properties of what the builders produce.
  \<^item> \<open>Cluster_Store\<close> (locales \<open>kind_store\<close>, \<open>cluster_store\<close>): what the API server holds as a record of maps, the
    contract of a client whose calls may fail, and weakest preconditions over the store and the writes.
    \<open>Agent_Identity\<close>: what a loop computes depends on the spec and not on the status.  \<open>Desired_State\<close>: the
    abstract specification, one predicate per loop over the store alone.  \<open>Store_Loops\<close> (locale
    \<open>planned_kind\<close>), \<open>Store_Egress\<close>, \<open>Store_Pod\<close>: each loop reaches its part and leaves a store that has it.
    \<open>Steady_State\<close>: their composition; \<open>Memory_Store\<close>: the interpretation on the cluster in memory and a first
    run there.
  \<^item> \<open>Live_Store\<close> (locales \<open>live_kind\<close>, \<open>live_cluster\<close>): a cluster whose calls are answered, with the rules of the calculus
    that lose the branches for a failed call.  \<open>Live_Loops\<close> (locale \<open>live_plan\<close>), \<open>Live_Pod\<close>: each loop ends
    quietly once the inputs of the user are in place, or has deleted a StatefulSet with other claim templates.
    \<open>Progress_Runs\<close>: the inputs (\<^const>\<open>inputs_ready\<close>) and what a run makes of them.  \<open>Fleet\<close>: what the state of an
    agent depends on, and schedules of the reconciliations of several agents; \<open>Memory_Live\<close>: the
    interpretation on the cluster in memory and two agents there.
  \<^item> \<open>Divergences\<close>: what the model says where the code departs from its documentation.

  \<^bold>\<open>What is shown.\<close>
  \<^item> Refinement: a reconciliation that ends without an error or a retry has brought the store to the desired
    state, whichever calls failed on the way, and one that starts in the desired state writes nothing.
  \<^item> Progress: on a cluster whose calls are answered, every schedule of the reconciliations of a fleet brings
    each agent to its desired state after two turns at most, and then nothing is written; no agent
    touches the objects of another, but for a claim restored from a snapshot that both name.
  \<^item> Safety of a reconciliation: every request concerns an object named after the agent in its namespace, or
    an object its spec refers to; claims are never updated or deleted, the restore source never pruned,
    the egress Secrets of the user never written; the watches cover every document that is read, and
    the permissions every request.
  \<^item> Control flow: the first loop that stops decides, a failure keeps its error and is reported, the counters
    record each outcome once.
  \<^item> Convergence: on a store that keeps what it is given, five loops are instances of one algorithm, reach
    the desired object in one run and are quiet afterwards; the StatefulSet is reached in at most two
    rounds and then left alone.
  \<^item> The pod: operator mounts have volumes, the CA key is visible to the proxy alone, snapshots are taken of
    the claim the pod uses, selectors match the agent's own pods only, projected keys exist.
  \<^item> Egress: overlap of host patterns is having a common host; accepted credentials are exclusive; the proxy
    configuration is exact; tokens and the CA are kept.
  \<^item> Configuration and snapshots: defaults keep the user's values, generated keys survive, shell words are
    read back, workspace paths are read back exactly when they are plain; retention keeps the newest,
    names identify a second, a snapshot is created exactly when due and a claim only from a ready one.
  \<^item> Heartbeat: under every interleaving, one close of the channel and of the sender, at most one late
    heartbeat, and the goroutine ends; program: namespaces, exit codes and order of the start-up.

  \<^bold>\<open>Simplifications.\<close>  Case folding and white space are those of ASCII; \<^verbatim>\<open>%q\<close> is exact on ASCII.  Where Go
  ranges over a map in no fixed order, the model takes the listed or sorted order.  A negative
  retention, excluded by the schema, is read as 0.  In the contract of the store a write that succeeds
  stores what the operator compares (data, labels, annotations, rules, ports, names of the claim
  templates), no one else writes between two requests of a run, and a deletion takes effect at once;
  the garbage collector and the StatefulSet controller are not part of it.  The theorem on progress asks more:
  the user's documents and Secrets are there and valid, the claim to restore to exists, the operator's
  Secrets are not controlled by someone else, and calls on existing objects succeed; the
  reconciliations of a schedule run one after the other, as with the controller's single worker.  The arguments of log lines and the value of a
  duration are left out.

  \<^bold>\<open>Not modelled.\<close>  The generated deep copies and the scheme registration, which have no meaning for
  immutable values; the parameter structs of
  \<^verbatim>\<open>hermesagent_interface.go\<close>, which are the arguments of the adapter's methods; the shell, the YAML and
  cron packages, the cryptography and the Kubernetes API server, which are not part of the program.
\<close>

section \<open>What a reconciliation reaches\<close>


text \<open>At the first reconciliation of an agent in memory.\<close>

lemma demo_sources_apart: "sources_apart demo_agent"
  by code_simp



text \<open>At the state that the first reconciliation leaves.\<close>

definition demo_second :: "cluster rst" where
  "demo_second =
     (demo_state demo_agent)\<lparr>rs_world :=
        rs_world (snd (run_state (Reconcile mem_env (meta_key (ha_meta demo_agent))) (demo_state demo_agent)))\<rparr>"




section \<open>What a reconciliation touches\<close>

lemma Reconcile_found_requests:
  assumes "lawful_env E" and get: "ka_GetHermesAgent (kube E) nn (rs_world s) = (Inr ha, w)" and "rs_trace s = []"
  shows "list_all (owned_request E ha) (rs_trace (snd (run_state (Reconcile E nn) s)))"
    and "same_agent ha (rs_agent (snd (run_state (Reconcile E nn) s)))"
proof -
  have "owned_inv E ha (loops_start nn ha w s)"
    using assms(3) lawful_env.get_agent_key [OF assms(1) get] by (auto simp: req_inv_def same_agent_refl meta_key_def)
  from keepsD [OF lawful_env.keeps_reconcile_loops [OF assms(1)] this]
  show "list_all (owned_request E ha) (rs_trace (snd (run_state (Reconcile E nn) s)))"
    "same_agent ha (rs_agent (snd (run_state (Reconcile E nn) s)))"
    by (simp_all add: req_inv_def run_Reconcile_found [OF get] all_loops_def)
qed



text \<open>The Secret that a request writes, if it writes one.\<close>

fun written_secret :: "api_request \<Rightarrow> namespaced_name option" where
  "written_secret (CreateReq (OSecret x)) = Some (meta_key (sec_meta x))"
| "written_secret (UpdateReq (OSecret x)) = Some (meta_key (sec_meta x))"
| "written_secret (DeleteReq KSecret nn) = Some nn"
| "written_secret _ = None"

lemma owned_request_written_secret:
  "owned_request E ha r \<Longrightarrow> written_secret r = Some nn \<Longrightarrow> owned_key ha KSecret nn"
  by (cases r rule: written_secret.cases) (auto simp: owned_object_def)





section \<open>Claims of the sidecars\<close>

text \<open>The claims that the sidecars mount when their persistence is enabled and names no existing claim.\<close>

definition managed_sidecar_claims :: "hermes_agent \<Rightarrow> string list" where
  "managed_sidecar_claims ha =
     (let sp = SearXNG_GetPersistence (GetSearXNG ha) in
      if SearXNG_IsEnabled (GetSearXNG ha) \<and> SearXNGPersistence_GetExistingClaim sp = [] \<and> SearXNGPersistence_IsEnabled sp
      then [GetSearXNGName ha] else []) @
     (let cp = Camofox_GetPersistence (GetCamofox ha) in
      if Camofox_IsEnabled (GetCamofox ha) \<and> CamofoxPersistence_GetExistingClaim cp = [] \<and> CamofoxPersistence_IsEnabled cp
      then [GetCamofoxName ha] else [])"

fun created_claim :: "api_request \<Rightarrow> namespaced_name option" where
  "created_claim (CreateReq (OPersistentVolumeClaim x)) = Some (meta_key (pvc_meta x))"
| "created_claim _ = None"

lemma owned_request_created_claim:
  "owned_request E ha r \<Longrightarrow> created_claim r = Some nn \<Longrightarrow> owned_key ha KPersistentVolumeClaim nn"
  by (cases r rule: created_claim.cases) (auto simp: owned_object_def)

lemma managed_sidecar_claims_mounted:
  assumes "claim \<in> set (managed_sidecar_claims ha)"
  shows "PersistentVolumeClaimSource claim \<in> vol_Source ` set (pod_volumes (buildStatefulSet ha ssi))"
proof -
  consider sx where "GetSearXNG ha = Some sx" "SearXNG_IsEnabled (Some sx)" "searxng_cache_source ha sx = PersistentVolumeClaimSource claim"
    | cx where "GetCamofox ha = Some cx" "Camofox_IsEnabled (Some cx)" "camofox_data_source ha cx = PersistentVolumeClaimSource claim"
    using assms
    by (cases "GetSearXNG ha"; cases "GetCamofox ha")
       (auto simp: managed_sidecar_claims_def searxng_cache_source_def camofox_data_source_def enabled_is_some Let_def split: if_splits)
  then show ?thesis
    by cases (simp_all add: buildStatefulSet_volumes on_some_def active_searxng_def active_camofox_def vol_def image_Un)
qed

text \<open>The name that the StatefulSet controller gives to the claim of a template, for the only pod.\<close>

definition template_claim :: "hermes_agent \<Rightarrow> string \<Rightarrow> string" where
  "template_claim ha template = template @ ''-'' @ ha_Name ha @ ''-0''"

text \<open>
  C20: The claims of the sidecars are mounted and not provisioned.  When the persistence of SearXNG or Camofox
  is enabled without an existing claim, the pod mounts a claim named after the agent; no
  reconciliation creates a claim of that name, and it is not the claim of a template of the StatefulSet,
  so the pod waits until someone else creates it.
\<close>

theorem sidecar_claims_not_provisioned:
  assumes "lawful_env E" and "rs_trace s = []" and "ka_GetHermesAgent (kube E) nn (rs_world s) = (Inr ha, w)"
    and "claim \<in> set (managed_sidecar_claims ha)"
  shows "PersistentVolumeClaimSource claim \<in> vol_Source ` set (pod_volumes (buildStatefulSet ha ssi)) \<and>
         claim \<notin> template_claim ha ` set (vct_names (buildStatefulSet ha ssi)) \<and>
         list_all (\<lambda>r. map_option nn_Name (created_claim r) \<noteq> Some claim) (rs_trace (snd (run_state (Reconcile E nn) s)))"
proof (intro conjI)
  have ends: "claim = GetSearXNGName ha \<or> claim = GetCamofoxName ha"
    using assms(4) by (auto simp: managed_sidecar_claims_def Let_def split: if_splits)
  then have suffix: "last claim \<notin> {CHR ''0'', CHR ''e''}" by (auto simp: GetSearXNGName_def GetCamofoxName_def)
  show "claim \<notin> template_claim ha ` set (vct_names (buildStatefulSet ha ssi))"
    using suffix by (auto simp: template_claim_def)
  have "map_option nn_Name (created_claim r) \<noteq> Some claim" if "owned_request E ha r" for r
    using owned_request_created_claim [OF that] suffix by (auto simp: owned_key_def RestoredPVCName_def split: if_splits)
  with Reconcile_found_requests(1) [OF assms(1,3,2)]
  show "list_all (\<lambda>r. map_option nn_Name (created_claim r) \<noteq> Some claim) (rs_trace (snd (run_state (Reconcile E nn) s)))"
    by (auto simp: list_all_iff)
qed (rule managed_sidecar_claims_mounted [OF assms(4)])

text \<open>At an agent with a SearXNG sidecar whose persistence is enabled.\<close>

definition demo_searxng_agent :: hermes_agent where
  "demo_searxng_agent = agent_with (empty_spec\<lparr>spec_SearXNG := Some
     \<lparr>sx_Enabled = True, sx_Image = None, sx_Resources = None, sx_ConfigFiles = [],
      sx_Persistence = Some \<lparr>scp_Enabled = True, scp_Size = None, scp_StorageClassName = None, scp_ExistingClaim = None\<rparr>,
      sx_Env = []\<rparr>\<rparr>)"

theorem sidecar_claims_not_provisioned_witness:
  "list_all (\<lambda>r. map_option nn_Name (created_claim r) \<noteq> Some ''demo-searxng'')
     (rs_trace (snd (run_state (Reconcile mem_env (meta_key (ha_meta demo_searxng_agent))) (demo_state demo_searxng_agent))))"
proof -
  have "''demo-searxng'' \<in> set (managed_sidecar_claims demo_searxng_agent)" by code_simp
  with sidecar_claims_not_provisioned [OF mem.lawful_env_axioms _ demo_get] show ?thesis by (simp add: demo_state_def)
qed

section \<open>What a reconciliation counts\<close>

text \<open>At an empty cluster the agent is not found, which is counted once.\<close>

theorem reconcile_counters_witness:
  "pt_reconcileTotal (fold handle_event
       (rs_tel (snd (run_state (Reconcile mem_env (meta_key (ha_meta demo_agent)))
          \<lparr>rs_world = empty_cluster, rs_agent = demo_agent, rs_trace = [], rs_tel = []\<rparr>)))
       NewPrometheusTelemetry) (''ns'', ''demo'', ''not_found'') = 1"
proof -
  let ?s = "\<lparr>rs_world = empty_cluster, rs_agent = demo_agent, rs_trace = [], rs_tel = []\<rparr>"
  let ?nn = "meta_key (ha_meta demo_agent)"
  have "fst (ka_GetHermesAgent (kube mem_env) ?nn empty_cluster) = Inl not_found"
    by (simp add: mem_env_def mem_kube_def mem_get_def mem_lookup_def empty_cluster_def)
  moreover have "nn_Namespace ?nn = ''ns''" "nn_Name ?nn = ''demo''" by (simp_all add: meta_key_def demo_defs)
  ultimately show ?thesis
    using reconcile_counters [where s = ?s and E = mem_env and nn = ?nn and m = NewPrometheusTelemetry]
    by (simp add: case_prod_unfold not_found_def inc_def NewPrometheusTelemetry_def)
qed

section \<open>What brings a reconciliation back\<close>

text \<open>The agents that the watches enqueue when the object at a key changes.\<close>

definition enqueued_by_ConfigMap :: "'w env \<Rightarrow> namespaced_name \<Rightarrow> 'w rst \<Rightarrow> namespaced_name list" where
  "enqueued_by_ConfigMap E nn s = fst (run_state (agentsReferencingConfigMap E (objectMeta (nn_Name nn) (nn_Namespace nn) [])) s)"

definition enqueued_by_Secret :: "'w env \<Rightarrow> namespaced_name \<Rightarrow> 'w rst \<Rightarrow> namespaced_name list" where
  "enqueued_by_Secret E nn s = fst (run_state (agentsReferencingSecret E (objectMeta (nn_Name nn) (nn_Namespace nn) [])) s)"

text \<open>
  A request reads a ConfigMap or a Secret that is not the agent's own: then the watch of that kind
  enqueues the agent, from every state in which the list of agents answers with the agent in it.
\<close>

definition covered_read :: "'w env \<Rightarrow> hermes_agent \<Rightarrow> api_request \<Rightarrow> bool" where
  "covered_read E ha r =
     (case r of
        GetReq KConfigMap nn \<Rightarrow>
          nn_Name nn \<in> set (owned_names ha KConfigMap) \<or>
          (\<forall>s agents. fst (ka_ListHermesAgents (kube E) (ha_Namespace ha) (rs_world s)) = Inr agents \<and> ha \<in> set agents \<longrightarrow>
             meta_key (ha_meta ha) \<in> set (enqueued_by_ConfigMap E nn s))
      | GetReq KSecret nn \<Rightarrow>
          nn_Name nn \<in> set (GetEgressCASecretName ha # owned_names ha KSecret) \<or>
          (\<forall>s agents. fst (ka_ListHermesAgents (kube E) (ha_Namespace ha) (rs_world s)) = Inr agents \<and> ha \<in> set agents \<longrightarrow>
             meta_key (ha_meta ha) \<in> set (enqueued_by_Secret E nn s))
      | _ \<Rightarrow> True)"

lemma owned_request_covered: "owned_request E ha r \<Longrightarrow> covered_read E ha r"
proof (cases r)
  case (GetReq k nn)
  assume "owned_request E ha r"
  then show ?thesis
    by (cases k) (auto simp: GetReq covered_read_def enqueued_by_ConfigMap_def enqueued_by_Secret_def agents_in_namespace_def
        agentsReferencingConfigMap_def agentsReferencingSecret_def objectMeta_def)
qed (simp_all add: covered_read_def)

text \<open>
  C16: The watches cover what a reconciliation reads.  Every ConfigMap and every Secret that a reconciliation
  reads is one of the objects the operator manages for the agent, or a change to it enqueues the
  agent again, so no input of the user goes stale.
\<close>

theorem watches_cover_reads:
  assumes "lawful_env E" and "rs_trace s = []" and "ka_GetHermesAgent (kube E) nn (rs_world s) = (Inr ha, w)"
  shows "list_all (covered_read E ha) (rs_trace (snd (run_state (Reconcile E nn) s)))"
  using Reconcile_found_requests(1) [OF assms(1,3,2)] by (auto simp: list_all_iff intro: owned_request_covered)

theorem watches_cover_reads_witness:
  "list_all (covered_read mem_env demo_egress_agent)
     (rs_trace (snd (run_state (Reconcile mem_env (meta_key (ha_meta demo_egress_agent))) (demo_state demo_egress_agent))))"
  by (rule watches_cover_reads [OF mem.lawful_env_axioms _ demo_get]) (simp add: demo_state_def)

section \<open>Permissions and watches\<close>



section \<open>Selectors\<close>

text \<open>
  C28: The selectors of an agent select its pods and no others.  The selector of its StatefulSet, of its
  Service and of its NetworkPolicy is satisfied by the labels of the pod template of an agent
  exactly when the two agents have the same name, whatever labels the users add to their pods.
\<close>

theorem selectors_select_own_pods:
  "list_all (\<lambda>sel. (map_of sel \<subseteq>\<^sub>m map_of (pt_Labels (sts_Template (buildStatefulSet b ssi)))) = (ha_Name a = ha_Name b))
     [sts_Selector (buildStatefulSet a ssi'), svc_Selector (buildService a), nps_PodSelector (np_Spec (buildNetworkPolicy a np))]"
proof -
  have "(map_of (SelectorLabels a) \<subseteq>\<^sub>m map_of (PodTemplateLabels b)) = (ha_Name a = ha_Name b)"
    by (auto simp: PodTemplateLabels_ResourceLabels map_le_def SelectorLabels_def ResourceLabels_def map_add_def)
  then show ?thesis
    by (simp add: buildStatefulSet_fixed buildService_def buildNetworkPolicy_def Let_def)
qed

end
